(* ===== verification/Prelude.thy ===== *)
theory Prelude
  imports Complex_Main
begin

text \<open>
  What every component shares: the exceptions of the Python code as one datatype, results that
  are an exception or a value, Python string operations on ASCII strings, and tables (lists of
  rows with a key column), the shape in which the database state is kept.
\<close>

section \<open>Exceptions and results\<close>

text \<open>The numbers of the \<open>decimal\<close> module; their arithmetic is in the theory \<open>Decimal\<close>.\<close>

datatype decimal = Fin bool nat int | Inf bool | NaN bool
  \<comment> \<open>\<open>Fin s c e\<close> is \<open>(-1)^s * c * 10^e\<close>; the flag of \<open>NaN\<close> is set for a signaling NaN\<close>

text \<open>The three signals the default decimal context traps.\<close>

datatype dec_signal = InvalidOperation | DivisionByZero | Overflow

text \<open>
  The exception classes of the Binance client.  The message is the one that \<open>str(exc)\<close> shows;
  a rate limit error also carries the seconds of the \<open>Retry-After\<close> header.
\<close>

datatype binance_err =
    BinanceConfigurationError string
  | BinanceAuthenticationError string
  | BinanceRateLimitError string "decimal option"
  | BinanceRequestError string

fun binance_err_str :: "binance_err \<Rightarrow> string" where
  "binance_err_str (BinanceConfigurationError m) = m"
| "binance_err_str (BinanceAuthenticationError m) = m"
| "binance_err_str (BinanceRateLimitError m r) = m"
| "binance_err_str (BinanceRequestError m) = m"

text \<open>
  Every exception the modelled code raises.  One constructor per class; the argument is the
  message of the exception.
\<close>

datatype exn =
    DecimalErr dec_signal
  | ValueErr string
  | KeyErr string
  | IndexErr string
  | TypeErr string
  | ZeroDivisionErr string
  | OverflowErr string
  | AttributeErr string
  | SymbolFiltersErr string
  | UnknownBinanceStatusErr string
  | BinanceErr binance_err
  | IdempotencyConflictErr string
  | IdempotencyInProgressErr string
  | TradingDisabledErr string
  | OrderNotFoundErr string
  | OrderNotCancelableErr string
  | PositionNotFoundErr string
  | BotNotFoundErr string
  | InvalidBotTransitionErr string
  | CredentialsNotConfiguredErr string
  | CredentialsVerificationFailedErr string
  | CredentialsUnsafeErr string
  | CredentialsEncryptionErr string
  | IntegrityErr string
  | ObjectDeletedErr string
  | RuntimeErr string
  | GoogleIdentityErr string
  | GoogleUserNotFoundErr string
  | GoogleUserDisabledErr string
  | GoogleTokenExchangeErr string
  | GoogleAuthenticationErr string
  | BootstrapConfigurationErr string
  | BootstrapStateErr string
  | ModelFitErr string
  | LinAlgErr string

fun str_exn :: "exn \<Rightarrow> string" where
  "str_exn (DecimalErr InvalidOperation) = ''[<class 'decimal.InvalidOperation'>]''"
| "str_exn (DecimalErr DivisionByZero) = ''[<class 'decimal.DivisionByZero'>]''"
| "str_exn (DecimalErr Overflow) = ''[<class 'decimal.Overflow'>]''"
| "str_exn (ValueErr m) = m"
| "str_exn (KeyErr m) = m"
| "str_exn (IndexErr m) = m"
| "str_exn (TypeErr m) = m"
| "str_exn (ZeroDivisionErr m) = m"
| "str_exn (OverflowErr m) = m"
| "str_exn (AttributeErr m) = m"
| "str_exn (SymbolFiltersErr m) = m"
| "str_exn (UnknownBinanceStatusErr m) = m"
| "str_exn (BinanceErr b) = binance_err_str b"
| "str_exn (IdempotencyConflictErr m) = m"
| "str_exn (IdempotencyInProgressErr m) = m"
| "str_exn (TradingDisabledErr m) = m"
| "str_exn (OrderNotFoundErr m) = m"
| "str_exn (OrderNotCancelableErr m) = m"
| "str_exn (PositionNotFoundErr m) = m"
| "str_exn (BotNotFoundErr m) = m"
| "str_exn (InvalidBotTransitionErr m) = m"
| "str_exn (CredentialsNotConfiguredErr m) = m"
| "str_exn (CredentialsVerificationFailedErr m) = m"
| "str_exn (CredentialsUnsafeErr m) = m"
| "str_exn (CredentialsEncryptionErr m) = m"
| "str_exn (IntegrityErr m) = m"
| "str_exn (ObjectDeletedErr m) = m"
| "str_exn (RuntimeErr m) = m"
| "str_exn (GoogleIdentityErr m) = m"
| "str_exn (GoogleUserNotFoundErr m) = m"
| "str_exn (GoogleUserDisabledErr m) = m"
| "str_exn (GoogleTokenExchangeErr m) = m"
| "str_exn (GoogleAuthenticationErr m) = m"
| "str_exn (BootstrapConfigurationErr m) = m"
| "str_exn (BootstrapStateErr m) = m"
| "str_exn (ModelFitErr m) = m"
| "str_exn (LinAlgErr m) = m"

type_synonym 'a result = "exn + 'a"

named_theorems result_iff "when a computation with exceptions returns a value"

definition rbind :: "'a result \<Rightarrow> ('a \<Rightarrow> 'b result) \<Rightarrow> 'b result" where
  "rbind m f = (case m of Inl e \<Rightarrow> Inl e | Inr x \<Rightarrow> f x)"

lemma rbind_simps [simp]:
  "rbind (Inl e) f = Inl e"
  "rbind (Inr x) f = f x"
  by (simp_all add: rbind_def)

lemma rbind_Inr_iff [result_iff]: "rbind m f = Inr y \<longleftrightarrow> (\<exists>x. m = Inr x \<and> f x = Inr y)"
  by (cases m) simp_all

lemma rbind_Inl_iff: "rbind m f = Inl e \<longleftrightarrow> m = Inl e \<or> (\<exists>x. m = Inr x \<and> f x = Inl e)"
  by (cases m) simp_all

lemma if_Inr_iff [result_iff]:
  "(if b then Inl e else m) = Inr y \<longleftrightarrow> \<not> b \<and> m = Inr y"
  by simp

text \<open>A list comprehension whose element expression may raise: the first exception wins.\<close>

fun rmap :: "('a \<Rightarrow> 'b result) \<Rightarrow> 'a list \<Rightarrow> 'b list result" where
  "rmap f [] = Inr []"
| "rmap f (x # xs) = rbind (f x) (\<lambda>y. rbind (rmap f xs) (\<lambda>ys. Inr (y # ys)))"

lemma rmap_length: "rmap f xs = Inr ys \<Longrightarrow> length ys = length xs"
  by (induction xs arbitrary: ys) (auto simp: result_iff)

section \<open>Python strings\<close>

text \<open>Strings are ASCII: \<open>str.upper\<close>, \<open>str.lower\<close> and \<open>str.strip\<close> act on ASCII characters.\<close>

definition upper_char :: "char \<Rightarrow> char" where
  "upper_char c = (let n = (of_char c :: nat) in
     if 97 \<le> n \<and> n \<le> 122 then char_of (n - 32) else c)"

definition lower_char :: "char \<Rightarrow> char" where
  "lower_char c = (let n = (of_char c :: nat) in
     if 65 \<le> n \<and> n \<le> 90 then char_of (n + 32) else c)"

definition upper :: "string \<Rightarrow> string" where
  "upper s = map upper_char s"

definition lower :: "string \<Rightarrow> string" where
  "lower s = map lower_char s"

definition is_space :: "char \<Rightarrow> bool" where
  "is_space c = (let n = (of_char c :: nat) in (9 \<le> n \<and> n \<le> 13) \<or> (28 \<le> n \<and> n \<le> 32))"

definition strip :: "string \<Rightarrow> string" where
  "strip s = rev (dropWhile is_space (rev (dropWhile is_space s)))"

text \<open>\<open>s.split(sep)\<close> for a one-character separator.\<close>

fun split_on :: "char \<Rightarrow> string \<Rightarrow> string list" where
  "split_on sep [] = [[]]"
| "split_on sep (c # cs) =
     (if c = sep then [] # split_on sep cs
      else (case split_on sep cs of [] \<Rightarrow> [[c]] | w # ws \<Rightarrow> (c # w) # ws))"

text \<open>\<open>", ".join(words)\<close>.\<close>

fun join :: "string \<Rightarrow> string list \<Rightarrow> string" where
  "join sep [] = []"
| "join sep [w] = w"
| "join sep (w # v # ws) = w @ sep @ join sep (v # ws)"

definition ends_with :: "string \<Rightarrow> string \<Rightarrow> bool" where
  "ends_with suf s = (length suf \<le> length s \<and> drop (length s - length suf) s = suf)"

lemma ends_with_append [simp]: "ends_with suf (s @ suf)"
  by (simp add: ends_with_def)

lemma ends_with_iff: "ends_with suf s \<longleftrightarrow> (\<exists>p. s = p @ suf)"
  by (metis append_take_drop_id ends_with_append ends_with_def)

lemma upper_char_idem [simp]: "upper_char (upper_char c) = upper_char c"
proof (cases "97 \<le> (of_char c :: nat) \<and> (of_char c :: nat) \<le> 122")
  case True
  then have "upper_char c = char_of (of_char c - 32 :: nat)"
    by (simp add: upper_char_def)
  moreover have "of_char (char_of (of_char c - 32 :: nat)) = (of_char c - 32 :: nat)"
    using True by (auto intro!: mod_less)
  moreover have "\<not> 97 \<le> (of_char c - 32 :: nat)"
    using True by linarith
  ultimately show ?thesis
    by (simp add: upper_char_def Let_def)
next
  case False
  then have "upper_char c = c"
    by (auto simp: upper_char_def Let_def)
  then show ?thesis by simp
qed

lemma upper_idem [simp]: "upper (upper s) = upper s"
  by (simp add: upper_def)

lemma upper_append: "upper (s @ t) = upper s @ upper t"
  by (simp add: upper_def)

text \<open>Decimal numerals: \<open>str(n)\<close> of a natural number and of an int.\<close>

definition digit_char :: "nat \<Rightarrow> char" where
  "digit_char d = char_of (48 + d)"

fun show_nat :: "nat \<Rightarrow> string" where
  "show_nat n = (if n < 10 then [digit_char n] else show_nat (n div 10) @ [digit_char (n mod 10)])"

declare show_nat.simps [simp del]

definition show_int :: "int \<Rightarrow> string" where
  "show_int i = (if i < 0 then ''-'' @ show_nat (nat (- i)) else show_nat (nat i))"

text \<open>
  The canonical text of a UUID, 32 hexadecimal digits in groups of 8, 4, 4, 4 and 12.  A UUID is
  the number its digits denote.
\<close>

type_synonym uuid = nat

definition hex_char :: "nat \<Rightarrow> char" where
  "hex_char d = (if d < 10 then char_of (48 + d) else char_of (87 + d))"

fun hex_digits :: "nat \<Rightarrow> nat \<Rightarrow> string" where
  "hex_digits 0 n = []"
| "hex_digits (Suc k) n = hex_digits k (n div 16) @ [hex_char (n mod 16)]"

definition str_uuid :: "uuid \<Rightarrow> string" where
  "str_uuid u = (let h = hex_digits 32 u in
     take 8 h @ ''-'' @ take 4 (drop 8 h) @ ''-'' @ take 4 (drop 12 h) @ ''-'' @
     take 4 (drop 16 h) @ ''-'' @ drop 20 h)"

text \<open>\<open>repr\<close> of an ASCII string: the quotes Python chooses and its escapes.\<close>

definition repr_char :: "char \<Rightarrow> char \<Rightarrow> string" where
  "repr_char q c = (let n = (of_char c :: nat) in
     if c = CHR 0x5C then [CHR 0x5C, CHR 0x5C]
     else if c = q then [CHR 0x5C, q]
     else if n = 9 then [CHR 0x5C, CHR ''t'']
     else if n = 10 then [CHR 0x5C, CHR ''n'']
     else if n = 13 then [CHR 0x5C, CHR ''r'']
     else if n < 32 \<or> n = 127 then [CHR 0x5C, CHR ''x''] @ hex_digits 2 n
     else [c])"

definition repr :: "string \<Rightarrow> string" where
  "repr s = (let q = (if CHR 0x27 \<in> set s \<and> CHR 0x22 \<notin> set s then CHR 0x22 else CHR 0x27)
     in [q] @ concat (map (repr_char q) s) @ [q])"

section \<open>Tables\<close>

text \<open>
  A table of the database is a list of rows in the order of insertion.  \<open>key\<close> is a column with a
  unique constraint: the primary key, or the columns of a unique index.
\<close>

definition lookup_row :: "('r \<Rightarrow> 'k) \<Rightarrow> 'r list \<Rightarrow> 'k \<Rightarrow> 'r option" where
  "lookup_row key rows k = find (\<lambda>r. key r = k) rows"

definition save_row :: "('r \<Rightarrow> 'k) \<Rightarrow> 'r \<Rightarrow> 'r list \<Rightarrow> 'r list" where
  "save_row key r rows =
     (if key r \<in> set (map key rows) then map (\<lambda>x. if key x = key r then r else x) rows
      else rows @ [r])"

definition delete_row :: "('r \<Rightarrow> 'k) \<Rightarrow> 'k \<Rightarrow> 'r list \<Rightarrow> 'r list" where
  "delete_row key k rows = filter (\<lambda>r. key r \<noteq> k) rows"

definition unique_key :: "('r \<Rightarrow> 'k) \<Rightarrow> 'r list \<Rightarrow> bool" where
  "unique_key key rows = distinct (map key rows)"

lemma lookup_row_Nil [simp]: "lookup_row key [] k = None"
  by (simp add: lookup_row_def)

lemma lookup_row_Cons [simp]:
  "lookup_row key (r # rows) k = (if key r = k then Some r else lookup_row key rows k)"
  by (simp add: lookup_row_def)

lemma lookup_row_Some: "lookup_row key rows k = Some r \<Longrightarrow> r \<in> set rows \<and> key r = k"
  by (auto simp: lookup_row_def find_Some_iff)

lemma lookup_row_None: "lookup_row key rows k = None \<longleftrightarrow> k \<notin> key ` set rows"
  by (auto simp: lookup_row_def find_None_iff)

lemma lookup_row_append:
  "lookup_row key (rows @ rows') k =
     (case lookup_row key rows k of None \<Rightarrow> lookup_row key rows' k | Some r \<Rightarrow> Some r)"
  by (induction rows) auto

lemma lookup_row_unique:
  "unique_key key rows \<Longrightarrow> r \<in> set rows \<Longrightarrow> lookup_row key rows (key r) = Some r"
  by (induction rows) (auto simp: unique_key_def)

lemma lookup_map_replace:
  "lookup_row key (map (\<lambda>x. if key x = key r then r else x) rows) k =
     (if k = key r \<and> key r \<in> key ` set rows then Some r else lookup_row key rows k)"
  by (induction rows) auto

lemma lookup_save_row:
  "lookup_row key (save_row key r rows) k = (if k = key r then Some r else lookup_row key rows k)"
proof (cases "key r \<in> key ` set rows")
  case True
  then show ?thesis by (simp add: save_row_def lookup_map_replace)
next
  case False
  then have "lookup_row key rows (key r) = None" by (simp add: lookup_row_None)
  with False show ?thesis
    by (simp add: save_row_def lookup_row_append split: option.split)
qed

lemma lookup_delete_row:
  "lookup_row key (delete_row key k' rows) k = (if k = k' then None else lookup_row key rows k)"
  by (induction rows) (auto simp: delete_row_def)

lemma map_key_save_row:
  "map key (save_row key r rows) =
     (if key r \<in> set (map key rows) then map key rows else map key rows @ [key r])"
  by (auto simp: save_row_def)

lemma unique_key_Nil [simp]: "unique_key key []"
  by (simp add: unique_key_def)

lemma unique_key_save_row: "unique_key key rows \<Longrightarrow> unique_key key (save_row key r rows)"
  by (simp add: unique_key_def map_key_save_row)

lemma unique_key_delete_row: "unique_key key rows \<Longrightarrow> unique_key key (delete_row key k rows)"
  by (simp add: unique_key_def delete_row_def distinct_map inj_on_def)

lemma set_save_row: "set (save_row key r rows) \<subseteq> insert r (set rows)"
  by (auto simp: save_row_def)

lemma set_save_row_eq:
  "set (save_row key r rows) = insert r {x \<in> set rows. key x \<noteq> key r}"
  by (auto simp: save_row_def image_iff)

lemma set_delete_row: "set (delete_row key k rows) = {r \<in> set rows. key r \<noteq> k}"
  by (auto simp: delete_row_def)

text \<open>
  The contract of a table, as its clients use it: what a lookup returns after a write, and that
  writes keep the unique constraint.  The clients' lemmas are proved here once; each table of the
  model interprets the locale on its own operations.
\<close>

locale table =
  fixes key :: "'r \<Rightarrow> 'k"
    and lookup :: "'t \<Rightarrow> 'k \<Rightarrow> 'r option"
    and save :: "'r \<Rightarrow> 't \<Rightarrow> 't"
    and delete :: "'k \<Rightarrow> 't \<Rightarrow> 't"
    and wf :: "'t \<Rightarrow> bool"
  assumes lookup_save: "lookup (save r t) k = (if k = key r then Some r else lookup t k)"
    and lookup_delete: "lookup (delete k' t) k = (if k = k' then None else lookup t k)"
    and lookup_key: "lookup t k = Some r \<Longrightarrow> key r = k"
    and wf_save: "wf t \<Longrightarrow> wf (save r t)"
    and wf_delete: "wf t \<Longrightarrow> wf (delete k t)"
begin

lemma lookup_save_same: "lookup (save r t) (key r) = Some r"
  by (simp add: lookup_save)

lemma lookup_save_other: "k \<noteq> key r \<Longrightarrow> lookup (save r t) k = lookup t k"
  by (simp add: lookup_save)

lemma save_twice: "key r = key r' \<Longrightarrow> lookup (save r' (save r t)) = lookup (save r' t)"
  by (rule ext) (simp add: lookup_save)

lemma save_commute:
  "key r \<noteq> key r' \<Longrightarrow> lookup (save r (save r' t)) = lookup (save r' (save r t))"
  by (rule ext) (auto simp: lookup_save)

lemma save_delete: "lookup (save r (delete (key r) t)) = lookup (save r t)"
  by (rule ext) (simp add: lookup_save lookup_delete)

lemma update_keeps_others:
  assumes "lookup t k = Some r" and "key r' = key r" and "k' \<noteq> k"
  shows "lookup (save r' t) k' = lookup t k'"
  using assms lookup_key by (auto simp: lookup_save)

end

interpretation rows: table key "lookup_row key" "save_row key" "delete_row key" "unique_key key"
  for key :: "'r \<Rightarrow> 'k"
  by unfold_locales
    (auto simp: lookup_save_row lookup_delete_row unique_key_save_row unique_key_delete_row
      dest: lookup_row_Some)

end
