(* ===== verification/Decimal.thy ===== *)
theory Decimal
  imports Prelude
begin

text \<open>
  Python's \<open>decimal.Decimal\<close> under the default context: 28 significant digits, rounding half to
  even, exponents from -999999 to 999999, and traps on InvalidOperation, DivisionByZero and
  Overflow.  Every money and quantity value of the program is such a number, so every rounding
  and every trap is part of the model.  A finite number is a sign, a coefficient and an exponent,
  as in the standard library.  The first section is the arithmetic, the second relates it to
  exact rational arithmetic: exactness, sign, and the bound on one rounding.
\<close>

section \<open>Numbers and operations\<close>

definition prec :: nat where "prec = 28"
definition Emax :: int where "Emax = 999999"
definition Emin :: int where "Emin = -999999"
definition Etiny :: int where "Etiny = Emin - int prec + 1"
definition Etop :: int where "Etop = Emax - int prec + 1"

lemmas dec_context = prec_def Emax_def Emin_def Etiny_def Etop_def

text \<open>The number of decimal digits of a coefficient; 0 has one digit.\<close>

fun ndigits :: "nat \<Rightarrow> nat" where
  "ndigits n = (if n < 10 then 1 else Suc (ndigits (n div 10)))"

declare ndigits.simps [simp del]

definition half_even :: "nat \<Rightarrow> nat \<Rightarrow> nat" where
  "half_even c p = (let q = c div p; r = c mod p in
     if 2 * r > p \<or> (2 * r = p \<and> odd q) then Suc q else q)"

text \<open>\<open>_fix\<close>: bring an exact result into the context, rounding it when it has too many digits.\<close>

definition dec_fix :: "bool \<Rightarrow> nat \<Rightarrow> int \<Rightarrow> decimal result" where
  "dec_fix s c e =
    (if c = 0 then Inr (Fin s 0 (min (max e Etiny) Emax))
     else let exp_min = int (ndigits c) + e - int prec in
       if exp_min > Etop then Inl (DecimalErr Overflow)
       else let m = max exp_min Etiny in
         if e < m then
           (let q = half_even c (10 ^ nat (m - e));
                carry = ndigits q > prec;
                q' = (if carry then q div 10 else q);
                m' = (if carry then m + 1 else m)
            in if m' > Etop then Inl (DecimalErr Overflow) else Inr (Fin s q' m'))
         else Inr (Fin s c e))"

definition dec_of_int :: "int \<Rightarrow> decimal" where
  "dec_of_int i = Fin (i < 0) (nat (abs i)) 0"

abbreviation dec_zero :: decimal where
  "dec_zero \<equiv> Fin False 0 0"

fun is_finite :: "decimal \<Rightarrow> bool" where
  "is_finite (Fin s c e) = True"
| "is_finite (Inf s) = False"
| "is_finite (NaN s) = False"

fun is_nan :: "decimal \<Rightarrow> bool" where
  "is_nan (NaN s) = True"
| "is_nan d = False"

definition nan_result :: "decimal \<Rightarrow> decimal \<Rightarrow> decimal result" where
  "nan_result a b =
     (if a = NaN True \<or> b = NaN True then Inl (DecimalErr InvalidOperation) else Inr (NaN False))"

text \<open>The signed coefficient of a number at the exponent \<open>m\<close> (at most its own).\<close>

definition scoef :: "bool \<Rightarrow> nat \<Rightarrow> int \<Rightarrow> int \<Rightarrow> int" where
  "scoef s c e m = (if s then -1 else 1) * int (c * 10 ^ nat (e - m))"

fun dec_add :: "decimal \<Rightarrow> decimal \<Rightarrow> decimal result" where
  "dec_add (Fin s1 c1 e1) (Fin s2 c2 e2) =
     (let m = min e1 e2; v = scoef s1 c1 e1 m + scoef s2 c2 e2 m in
      dec_fix (if c1 = 0 \<and> c2 = 0 then s1 \<and> s2 else v < 0) (nat (abs v)) m)"
| "dec_add (Inf s1) (Inf s2) =
     (if s1 = s2 then Inr (Inf s1) else Inl (DecimalErr InvalidOperation))"
| "dec_add (Inf s1) (Fin s2 c2 e2) = Inr (Inf s1)"
| "dec_add (Fin s1 c1 e1) (Inf s2) = Inr (Inf s2)"
| "dec_add a b = nan_result a b"

text \<open>\<open>copy_negate\<close>, and the unary minus and absolute value that round and have no minus zero.\<close>

fun dec_copy_negate :: "decimal \<Rightarrow> decimal" where
  "dec_copy_negate (Fin s c e) = Fin (\<not> s) c e"
| "dec_copy_negate (Inf s) = Inf (\<not> s)"
| "dec_copy_negate (NaN s) = NaN s"

definition dec_sub :: "decimal \<Rightarrow> decimal \<Rightarrow> decimal result" where
  "dec_sub a b = dec_add a (dec_copy_negate b)"

fun dec_neg :: "decimal \<Rightarrow> decimal result" where
  "dec_neg (Fin s c e) = dec_fix (if c = 0 then False else \<not> s) c e"
| "dec_neg (Inf s) = Inr (Inf (\<not> s))"
| "dec_neg (NaN s) = nan_result (NaN s) (NaN s)"

fun dec_abs :: "decimal \<Rightarrow> decimal result" where
  "dec_abs (Fin s c e) = dec_fix False c e"
| "dec_abs (Inf s) = Inr (Inf False)"
| "dec_abs (NaN s) = nan_result (NaN s) (NaN s)"

fun dec_mul :: "decimal \<Rightarrow> decimal \<Rightarrow> decimal result" where
  "dec_mul (Fin s1 c1 e1) (Fin s2 c2 e2) = dec_fix (s1 \<noteq> s2) (c1 * c2) (e1 + e2)"
| "dec_mul (Inf s1) (Inf s2) = Inr (Inf (s1 \<noteq> s2))"
| "dec_mul (Inf s1) (Fin s2 c2 e2) =
     (if c2 = 0 then Inl (DecimalErr InvalidOperation) else Inr (Inf (s1 \<noteq> s2)))"
| "dec_mul (Fin s1 c1 e1) (Inf s2) =
     (if c1 = 0 then Inl (DecimalErr InvalidOperation) else Inr (Inf (s1 \<noteq> s2)))"
| "dec_mul a b = nan_result a b"

text \<open>
  Division: the quotient to 29 or 30 digits, with a sticky last digit when it is not exact, and an
  exact quotient stripped towards the ideal exponent; then rounded once.
\<close>

fun strip_zeros :: "nat \<Rightarrow> nat \<Rightarrow> int \<Rightarrow> nat \<times> int" where
  "strip_zeros 0 c e = (c, e)"
| "strip_zeros (Suc k) c e = (if c mod 10 = 0 then strip_zeros k (c div 10) (e + 1) else (c, e))"

definition dec_quotient :: "nat \<Rightarrow> int \<Rightarrow> nat \<Rightarrow> int \<Rightarrow> nat \<times> int" where
  "dec_quotient c1 e1 c2 e2 =
     (if c1 = 0 then (0, e1 - e2)
      else let shift = int (ndigits c2) - int (ndigits c1) + int prec + 1;
               e = e1 - e2 - shift;
               n = (if shift \<ge> 0 then c1 * 10 ^ nat shift else c1);
               d = (if shift \<ge> 0 then c2 else c2 * 10 ^ nat (- shift));
               q = n div d
           in if n mod d \<noteq> 0 then ((if q mod 5 = 0 then q + 1 else q), e)
              else strip_zeros (nat shift) q e)"

fun dec_div :: "decimal \<Rightarrow> decimal \<Rightarrow> decimal result" where
  "dec_div (Fin s1 c1 e1) (Fin s2 c2 e2) =
     (if c2 = 0 then Inl (DecimalErr (if c1 = 0 then InvalidOperation else DivisionByZero))
      else let (q, e) = dec_quotient c1 e1 c2 e2 in dec_fix (s1 \<noteq> s2) q e)"
| "dec_div (Inf s1) (Inf s2) = Inl (DecimalErr InvalidOperation)"
| "dec_div (Inf s1) (Fin s2 c2 e2) = Inr (Inf (s1 \<noteq> s2))"
| "dec_div (Fin s1 c1 e1) (Inf s2) = Inr (Fin (s1 \<noteq> s2) 0 Etiny)"
| "dec_div a b = nan_result a b"

text \<open>
  The remainder of truncating division, exact; InvalidOperation for a zero divisor or a quotient
  of more than 28 digits.
\<close>

fun dec_mod :: "decimal \<Rightarrow> decimal \<Rightarrow> decimal result" where
  "dec_mod (Fin s1 c1 e1) (Fin s2 c2 e2) =
     (if c2 = 0 then Inl (DecimalErr InvalidOperation)
      else let m = min e1 e2; n1 = c1 * 10 ^ nat (e1 - m); n2 = c2 * 10 ^ nat (e2 - m) in
        if n1 div n2 \<ge> 10 ^ prec then Inl (DecimalErr InvalidOperation)
        else dec_fix s1 (n1 mod n2) m)"
| "dec_mod (Inf s1) (Inf s2) = Inl (DecimalErr InvalidOperation)"
| "dec_mod (Inf s1) (Fin s2 c2 e2) = Inl (DecimalErr InvalidOperation)"
| "dec_mod (Fin s1 c1 e1) (Inf s2) = dec_fix s1 c1 e1"
| "dec_mod a b = nan_result a b"

text \<open>
  Ordering comparisons raise on any NaN; equality is False on a quiet NaN.  Infinities compare.
\<close>

fun dec_less_num :: "decimal \<Rightarrow> decimal \<Rightarrow> bool" where
  "dec_less_num (Fin s1 c1 e1) (Fin s2 c2 e2) =
     (let m = min e1 e2 in scoef s1 c1 e1 m < scoef s2 c2 e2 m)"
| "dec_less_num (Inf s1) (Inf s2) = (s1 \<and> \<not> s2)"
| "dec_less_num (Inf s1) (Fin s2 c2 e2) = s1"
| "dec_less_num (Fin s1 c1 e1) (Inf s2) = (\<not> s2)"
| "dec_less_num a b = False"

fun dec_eq_num :: "decimal \<Rightarrow> decimal \<Rightarrow> bool" where
  "dec_eq_num (Fin s1 c1 e1) (Fin s2 c2 e2) =
     (let m = min e1 e2 in scoef s1 c1 e1 m = scoef s2 c2 e2 m)"
| "dec_eq_num (Inf s1) (Inf s2) = (s1 = s2)"
| "dec_eq_num a b = False"

definition dec_lt :: "decimal \<Rightarrow> decimal \<Rightarrow> bool result" where
  "dec_lt a b = (if is_nan a \<or> is_nan b then Inl (DecimalErr InvalidOperation)
     else Inr (dec_less_num a b))"

definition dec_le :: "decimal \<Rightarrow> decimal \<Rightarrow> bool result" where
  "dec_le a b = (if is_nan a \<or> is_nan b then Inl (DecimalErr InvalidOperation)
     else Inr (dec_less_num a b \<or> dec_eq_num a b))"

definition dec_eq :: "decimal \<Rightarrow> decimal \<Rightarrow> bool result" where
  "dec_eq a b = (if a = NaN True \<or> b = NaN True then Inl (DecimalErr InvalidOperation)
     else Inr (dec_eq_num a b))"

text \<open>\<open>sum(values, start)\<close>, \<open>min(a, b)\<close> and \<open>max(a, b)\<close>: the first of equal arguments.\<close>

fun dec_sum :: "decimal list \<Rightarrow> decimal \<Rightarrow> decimal result" where
  "dec_sum [] acc = Inr acc"
| "dec_sum (d # ds) acc = rbind (dec_add acc d) (dec_sum ds)"

definition dec_min :: "decimal \<Rightarrow> decimal \<Rightarrow> decimal result" where
  "dec_min a b = rbind (dec_lt b a) (\<lambda>l. Inr (if l then b else a))"

definition dec_max :: "decimal \<Rightarrow> decimal \<Rightarrow> decimal result" where
  "dec_max a b = rbind (dec_lt a b) (\<lambda>l. Inr (if l then b else a))"

text \<open>Evaluation on concrete numbers by \<open>simp add: dec_eval\<close>.\<close>

lemma strip_zeros_numeral:
  "strip_zeros (numeral k) c e = (if c mod 10 = 0 then strip_zeros (pred_numeral k) (c div 10) (e + 1) else (c, e))"
  using strip_zeros.simps(2) [of "pred_numeral k" c e] by (simp only: numeral_eq_Suc [of k])

lemmas dec_eval = dec_fix_def Let_def dec_context ndigits.simps half_even_def dec_quotient_def scoef_def
  dec_sub_def dec_of_int_def dec_lt_def dec_le_def dec_eq_def strip_zeros_numeral

end
