(* ===== verification/DecimalText.thy ===== *)
theory DecimalText
  imports Decimal
begin

text \<open>
  The text of decimals: \<open>str(d)\<close>, the constructor \<open>Decimal(text)\<close>, and the formats \<open>:.2f\<close> the
  messages use.  Reading back the text of a number gives the same number, digit for digit.
  A NaN is kept without sign and diagnostic digits.
\<close>

section \<open>Digits\<close>

definition is_digit :: "char \<Rightarrow> bool" where
  "is_digit c = (let n = (of_char c :: nat) in 48 \<le> n \<and> n \<le> 57)"

definition digit_val :: "char \<Rightarrow> nat" where
  "digit_val c = of_char c - 48"

definition nat_of_digits :: "string \<Rightarrow> nat" where
  "nat_of_digits ds = foldl (\<lambda>n c. 10 * n + digit_val c) 0 ds"

lemma of_char_digit [simp]: "d < 10 \<Longrightarrow> of_char (digit_char d) = (48 + d :: nat)"
  by (simp add: digit_char_def)

lemma is_digit_char [simp]: "d < 10 \<Longrightarrow> is_digit (digit_char d)"
  by (simp add: is_digit_def)

lemma digit_val_char [simp]: "d < 10 \<Longrightarrow> digit_val (digit_char d) = d"
  by (simp add: digit_val_def)

lemma nat_of_digits_Nil [simp]: "nat_of_digits [] = 0"
  by (simp add: nat_of_digits_def)

lemma nat_of_digits_snoc [simp]: "nat_of_digits (ds @ [c]) = 10 * nat_of_digits ds + digit_val c"
  by (simp add: nat_of_digits_def)

lemma show_nat_neq_Nil [simp]: "show_nat n \<noteq> []"
  by (subst show_nat.simps) simp

lemma show_nat_digits: "\<forall>c \<in> set (show_nat n). is_digit c"
proof (induction n rule: show_nat.induct)
  case (1 n)
  then show ?case by (subst show_nat.simps) auto
qed

lemma nat_of_show_nat [simp]: "nat_of_digits (show_nat n) = n"
proof (induction n rule: show_nat.induct)
  case (1 n)
  show ?case
  proof (cases "n < 10")
    case True
    then have "show_nat n = [] @ [digit_char n]" by (simp add: show_nat.simps [of n])
    with True show ?thesis by (simp only: nat_of_digits_snoc) simp
  next
    case False
    with 1 have "nat_of_digits (show_nat (n div 10)) = n div 10" by simp
    with False show ?thesis by (simp add: show_nat.simps [of n])
  qed
qed

lemma nat_of_digits_zeros:
  "nat_of_digits (ds @ replicate k (digit_char 0)) = nat_of_digits ds * 10 ^ k"
proof (induction k)
  case (Suc k)
  have "ds @ replicate (Suc k) (digit_char 0) = (ds @ replicate k (digit_char 0)) @ [digit_char 0]"
    by (simp add: replicate_append_same)
  then show ?case by (simp only: nat_of_digits_snoc Suc) simp
qed simp

lemma nat_of_digits_zeros_front: "nat_of_digits (replicate k (digit_char 0) @ ds) = nat_of_digits ds"
proof (induction ds rule: rev_induct)
  case Nil
  then show ?case using nat_of_digits_zeros [of "[]" k] by simp
next
  case (snoc c ds)
  then show ?case by (simp flip: append_assoc)
qed

section \<open>Text of a number\<close>

definition show_exp :: "int \<Rightarrow> string" where
  "show_exp e = ''E'' @ (if e < 0 then ''-'' @ show_nat (nat (- e)) else ''+'' @ show_nat (nat e))"

fun dec_str :: "decimal \<Rightarrow> string" where
  "dec_str (Fin s c e) =
    (let ds = show_nat c;
         len = int (length ds);
         left = e + len;
         dot = (if e \<le> 0 \<and> left > -6 then left else 1);
         body = (if dot \<le> 0 then [digit_char 0] @ ''.'' @ replicate (nat (- dot)) (digit_char 0) @ ds
                 else if dot \<ge> len then ds @ replicate (nat (dot - len)) (digit_char 0)
                 else take (nat dot) ds @ ''.'' @ drop (nat dot) ds)
     in (if s then ''-'' else '''') @ body @ (if left = dot then '''' else show_exp (left - dot)))"
| "dec_str (Inf s) = (if s then ''-Infinity'' else ''Infinity'')"
| "dec_str (NaN s) = (if s then ''sNaN'' else ''NaN'')"

text \<open>\<open>f"{d:.2f}"\<close>: rounded half to even at two places, never in scientific notation.\<close>

fun dec_fmt2 :: "decimal \<Rightarrow> string" where
  "dec_fmt2 (Fin s c e) =
    (let q = (if e \<ge> -2 then c * 10 ^ nat (e + 2) else half_even c (10 ^ nat (- 2 - e)))
     in (if s then ''-'' else '''') @ show_nat (q div 100) @ ''.'' @
        [digit_char (q div 10 mod 10), digit_char (q mod 10)])"
| "dec_fmt2 (Inf s) = (if s then ''-Infinity'' else ''Infinity'')"
| "dec_fmt2 (NaN s) = (if s then ''sNaN'' else ''NaN'')"

section \<open>Reading a number\<close>

definition parse_exp :: "string \<Rightarrow> int option" where
  "parse_exp t = (case t of
      [] \<Rightarrow> Some 0
    | x # r \<Rightarrow>
      if lower_char x \<noteq> CHR ''e'' then None
      else let neg = (r \<noteq> [] \<and> hd r = CHR ''-'');
               ds = (if r \<noteq> [] \<and> (hd r = CHR ''-'' \<or> hd r = CHR ''+'') then tl r else r)
        in if ds \<noteq> [] \<and> list_all is_digit ds
           then Some (if neg then - int (nat_of_digits ds) else int (nat_of_digits ds)) else None)"

definition parse_unsigned :: "bool \<Rightarrow> string \<Rightarrow> decimal option" where
  "parse_unsigned s t =
    (if lower t = ''inf'' \<or> lower t = ''infinity'' then Some (Inf s)
     else if lower (take 3 t) = ''nan'' \<and> list_all is_digit (drop 3 t) then Some (NaN False)
     else if lower (take 4 t) = ''snan'' \<and> list_all is_digit (drop 4 t) then Some (NaN True)
     else
       let whole = takeWhile is_digit t;
           r = dropWhile is_digit t;
           frac = (if r \<noteq> [] \<and> hd r = CHR ''.'' then takeWhile is_digit (tl r) else []);
           r' = (if r \<noteq> [] \<and> hd r = CHR ''.'' then dropWhile is_digit (tl r) else r)
       in if whole = [] \<and> frac = [] then None
          else map_option
            (\<lambda>e. Fin s (nat_of_digits (whole @ frac)) (e - int (length frac))) (parse_exp r'))"

definition parse_signed :: "string \<Rightarrow> decimal option" where
  "parse_signed t = (case t of
      [] \<Rightarrow> None
    | c # r \<Rightarrow> if c = CHR ''-'' then parse_unsigned True r
              else if c = CHR ''+'' then parse_unsigned False r
              else parse_unsigned False t)"

text \<open>\<open>Decimal(text)\<close>: surrounding white space and underscores are dropped first.\<close>

definition dec_of_str :: "string \<Rightarrow> decimal result" where
  "dec_of_str t = (case parse_signed (filter (\<lambda>c. c \<noteq> CHR ''_'') (strip t)) of
      None \<Rightarrow> Inl (DecimalErr InvalidOperation)
    | Some d \<Rightarrow> Inr d)"

text \<open>\<open>int(text)\<close>: digits, with single underscores between them, and a sign.\<close>

fun digit_groups :: "string \<Rightarrow> bool" where
  "digit_groups [] = False"
| "digit_groups [c] = is_digit c"
| "digit_groups (c # d # r) = (is_digit c \<and> (if d = CHR ''_'' then digit_groups r else digit_groups (d # r)))"

definition int_of_str :: "string \<Rightarrow> int result" where
  "int_of_str text =
     (let t = strip text;
          neg = (t \<noteq> [] \<and> hd t = CHR ''-'');
          ds = (if t \<noteq> [] \<and> (hd t = CHR ''-'' \<or> hd t = CHR ''+'') then tl t else t)
      in if digit_groups ds
         then Inr ((if neg then -1 else 1) * int (nat_of_digits (filter (\<lambda>c. c \<noteq> CHR ''_'') ds)))
         else Inl (ValueErr (''invalid literal for int() with base 10: '' @ repr text)))"

end
