(* ===== verification/Json.thy ===== *)
theory Json
  imports DecimalText "HOL-Library.List_Lexorder" "HOL-Library.Char_ord"
begin

text \<open>
  JSON values and the Python operations on the objects they become: indexing, \<open>dict.get\<close>, \<open>str\<close>,
  the \<open>Decimal\<close> constructor on a payload field, truth value, and \<open>json.dumps\<close> with sorted keys.
  Strings are printable ASCII, so the only escapes are the quote and the backslash.
\<close>

datatype json =
    JNull
  | JBool bool
  | JInt int
  | JStr string
  | JList "json list"
  | JObj "(string \<times> json) list"

definition jopt :: "('a \<Rightarrow> json) \<Rightarrow> 'a option \<Rightarrow> json" where
  "jopt f x = (case x of None \<Rightarrow> JNull | Some y \<Rightarrow> f y)"

fun py_type :: "json \<Rightarrow> string" where
  "py_type JNull = ''NoneType''"
| "py_type (JBool b) = ''bool''"
| "py_type (JInt i) = ''int''"
| "py_type (JStr s) = ''str''"
| "py_type (JList xs) = ''list''"
| "py_type (JObj kvs) = ''dict''"

text \<open>\<open>d.get(key)\<close>: None when the key is absent; and \<open>d.get(key, default)\<close>.\<close>

definition jget_opt :: "string \<Rightarrow> json \<Rightarrow> json result" where
  "jget_opt k j = (case j of
      JObj kvs \<Rightarrow> Inr (case map_of kvs k of None \<Rightarrow> JNull | Some v \<Rightarrow> v)
    | _ \<Rightarrow> Inl (AttributeErr (repr (py_type j) @ '' object has no attribute '' @ repr ''get'')))"

definition jget_or :: "string \<Rightarrow> json \<Rightarrow> json \<Rightarrow> json result" where
  "jget_or k d j = (case j of
      JObj kvs \<Rightarrow> Inr (case map_of kvs k of None \<Rightarrow> d | Some v \<Rightarrow> v)
    | _ \<Rightarrow> jget_opt k j)"

text \<open>\<open>d[key]\<close>.\<close>

definition jget :: "string \<Rightarrow> json \<Rightarrow> json result" where
  "jget k j = (case j of
      JObj kvs \<Rightarrow> (case map_of kvs k of None \<Rightarrow> Inl (KeyErr (repr k)) | Some v \<Rightarrow> Inr v)
    | JList xs \<Rightarrow> Inl (TypeErr ''list indices must be integers or slices, not str'')
    | JStr s \<Rightarrow> Inl (TypeErr (''string indices must be integers, not '' @ repr ''str''))
    | _ \<Rightarrow> Inl (TypeErr (repr (py_type j) @ '' object is not subscriptable'')))"

text \<open>Iteration over a JSON array.\<close>

definition jlist :: "json \<Rightarrow> json list result" where
  "jlist j = (case j of JList xs \<Rightarrow> Inr xs | _ \<Rightarrow> Inl (TypeErr ''object is not a list''))"

definition jstring :: "json \<Rightarrow> string result" where
  "jstring j = (case j of JStr s \<Rightarrow> Inr s | _ \<Rightarrow> Inl (TypeErr ''object is not a string''))"

fun truthy :: "json \<Rightarrow> bool" where
  "truthy JNull = False"
| "truthy (JBool b) = b"
| "truthy (JInt i) = (i \<noteq> 0)"
| "truthy (JStr s) = (s \<noteq> [])"
| "truthy (JList xs) = (xs \<noteq> [])"
| "truthy (JObj kvs) = (kvs \<noteq> [])"

text \<open>\<open>str(x)\<close> and \<open>repr(x)\<close> of a value read from JSON.\<close>

fun py_repr :: "json \<Rightarrow> string" where
  "py_repr JNull = ''None''"
| "py_repr (JBool b) = (if b then ''True'' else ''False'')"
| "py_repr (JInt i) = show_int i"
| "py_repr (JStr s) = repr s"
| "py_repr (JList xs) = ''['' @ join '', '' (map py_repr xs) @ '']''"
| "py_repr (JObj kvs) =
     ''{'' @ join '', '' (map (\<lambda>kv. repr (fst kv) @ '': '' @ py_repr (snd kv)) kvs) @ ''}''"

definition py_str :: "json \<Rightarrow> string" where
  "py_str j = (case j of JStr s \<Rightarrow> s | _ \<Rightarrow> py_repr j)"

text \<open>\<open>Decimal(x)\<close> of such a value: text is parsed, an int or bool is exact.\<close>

definition dec_of_json :: "json \<Rightarrow> decimal result" where
  "dec_of_json j = (case j of
      JStr s \<Rightarrow> dec_of_str s
    | JInt i \<Rightarrow> Inr (dec_of_int i)
    | JBool b \<Rightarrow> Inr (dec_of_int (if b then 1 else 0))
    | _ \<Rightarrow> Inl (TypeErr ''conversion to Decimal is not supported''))"

text \<open>\<open>Decimal(str(x))\<close>.\<close>

definition dec_of_json_str :: "json \<Rightarrow> decimal result" where
  "dec_of_json_str j = dec_of_str (py_str j)"

text \<open>
  \<open>json.dumps(x, sort_keys=True, separators=(",", ":"))\<close>.  The dumped dictionaries have distinct
  keys, which are sorted by code point.
\<close>

definition json_string :: "string \<Rightarrow> string" where
  "json_string s =
     [CHR 0x22] @ concat (map (\<lambda>c. if c = CHR 0x22 \<or> c = CHR 0x5C then [CHR 0x5C, c] else [c]) s)
     @ [CHR 0x22]"

fun json_dumps :: "json \<Rightarrow> string" where
  "json_dumps JNull = ''null''"
| "json_dumps (JBool b) = (if b then ''true'' else ''false'')"
| "json_dumps (JInt i) = show_int i"
| "json_dumps (JStr s) = json_string s"
| "json_dumps (JList xs) = ''['' @ join '','' (map json_dumps xs) @ '']''"
| "json_dumps (JObj kvs) =
     ''{'' @ join '',''
       (map snd (sort_key fst (map (\<lambda>kv. (fst kv, json_string (fst kv) @ '':'' @ json_dumps (snd kv))) kvs)))
     @ ''}''"

end
