(* ===== verification/Datetime.thy ===== *)
theory Datetime
  imports Prelude
begin

text \<open>
  Moments in time.  An aware UTC \<open>datetime\<close> is the number of microseconds since the epoch; the
  start of its day, its ISO text and the epoch seconds and milliseconds the code derives from it
  are functions of that number (the proleptic Gregorian calendar, as in the standard library).
\<close>

definition us_per_second :: int where "us_per_second = 1000000"
definition us_per_day :: int where "us_per_day = 86400 * us_per_second"

text \<open>\<open>now.replace(hour=0, minute=0, second=0, microsecond=0)\<close>.\<close>

definition start_of_day :: "int \<Rightarrow> int" where
  "start_of_day t = t - t mod us_per_day"

lemma start_of_day_le: "start_of_day t \<le> t"
  by (simp add: start_of_day_def us_per_day_def us_per_second_def)

lemma start_of_day_mono: "t \<le> u \<Longrightarrow> start_of_day t \<le> start_of_day u"
  by (simp add: start_of_day_def minus_mod_eq_mult_div us_per_day_def us_per_second_def
      zdiv_mono1)

lemma start_of_day_idem [simp]: "start_of_day (start_of_day t) = start_of_day t"
  by (simp add: start_of_day_def mod_diff_left_eq us_per_day_def us_per_second_def)

text \<open>Year, month and day of the day number \<open>z\<close> (0 is 1 January 1970).\<close>

definition civil_from_days :: "int \<Rightarrow> int \<times> int \<times> int" where
  "civil_from_days z =
    (let w = z + 719468;
         era = w div 146097;
         doe = w mod 146097;
         yoe = (doe - doe div 1460 + doe div 36524 - doe div 146096) div 365;
         doy = doe - (365 * yoe + yoe div 4 - yoe div 100);
         mp = (5 * doy + 2) div 153;
         d = doy - (153 * mp + 2) div 5 + 1;
         m = (if mp < 10 then mp + 3 else mp - 9);
         y = yoe + era * 400
     in (if m \<le> 2 then y + 1 else y, m, d))"

definition pad :: "nat \<Rightarrow> int \<Rightarrow> string" where
  "pad k n = (let t = show_nat (nat n) in replicate (k - length t) (CHR ''0'') @ t)"

text \<open>\<open>isoformat()\<close>: microseconds only when they are not zero, and the UTC offset.\<close>

definition isoformat :: "int \<Rightarrow> string" where
  "isoformat t =
    (let (y, m, d) = civil_from_days (t div us_per_day);
         us = t mod us_per_day;
         sec = us div us_per_second;
         frac = us mod us_per_second
     in pad 4 y @ ''-'' @ pad 2 m @ ''-'' @ pad 2 d @ ''T'' @ pad 2 (sec div 3600) @ '':'' @
        pad 2 (sec div 60 mod 60) @ '':'' @ pad 2 (sec mod 60) @
        (if frac = 0 then '''' else ''.'' @ pad 6 frac) @ ''+00:00'')"

end
