(* ===== verification/Models.thy ===== *)
theory Models
  imports Json Datetime
begin

text \<open>
  \<open>trading/models/\<close>: the enumerations and the rows of the tables, one record per table with the
  columns the services use.  A NUMERIC column is a decimal, a nullable column an option.
\<close>

section \<open>Enumerations\<close>

datatype OrderSide = BUY | SELL

datatype OrderType = MARKET | LIMIT

datatype OrderStatus = PENDING | NEW | PARTIALLY_FILLED | FILLED | CANCELED | PENDING_CANCEL
  | REJECTED | EXPIRED | FAILED

datatype OrderEventType = VALIDATION_FAILED | RISK_REJECTED | SUBMITTED | BINANCE_ACK
  | BINANCE_ERROR | RECONCILED | CANCEL_REQUESTED | CANCELED | INTERNAL_ERROR

datatype AuditResult = SUCCESS | REJECTED | FAILED

datatype RiskProfile = SENTINEL | EQUILIBRIUM | VORTEX

datatype AssetClass = CRYPTO | EQUITY

datatype ExecutionVenue = BINANCE

datatype BotExecutionMode = SIMULATION | LIVE

datatype UserStatus = ACTIVE | DISABLED

datatype BotStatus = ACTIVE | PAUSING | PAUSED | RESUMING | STOPPED | ERROR

datatype SimulationOrderStatus = FILLED | REJECTED | FAILED

text \<open>The values of the enumerations, and the constructor call \<open>OrderSide(text)\<close>.\<close>

fun side_value :: "OrderSide \<Rightarrow> string" where
  "side_value BUY = ''BUY''"
| "side_value SELL = ''SELL''"

fun type_value :: "OrderType \<Rightarrow> string" where
  "type_value MARKET = ''MARKET''"
| "type_value LIMIT = ''LIMIT''"

fun status_value :: "OrderStatus \<Rightarrow> string" where
  "status_value PENDING = ''PENDING''"
| "status_value NEW = ''NEW''"
| "status_value PARTIALLY_FILLED = ''PARTIALLY_FILLED''"
| "status_value OrderStatus.FILLED = ''FILLED''"
| "status_value OrderStatus.CANCELED = ''CANCELED''"
| "status_value PENDING_CANCEL = ''PENDING_CANCEL''"
| "status_value OrderStatus.REJECTED = ''REJECTED''"
| "status_value EXPIRED = ''EXPIRED''"
| "status_value OrderStatus.FAILED = ''FAILED''"

fun bot_status_value :: "BotStatus \<Rightarrow> string" where
  "bot_status_value ACTIVE = ''ACTIVE''"
| "bot_status_value PAUSING = ''PAUSING''"
| "bot_status_value PAUSED = ''PAUSED''"
| "bot_status_value RESUMING = ''RESUMING''"
| "bot_status_value STOPPED = ''STOPPED''"
| "bot_status_value ERROR = ''ERROR''"

fun mode_value :: "BotExecutionMode \<Rightarrow> string" where
  "mode_value SIMULATION = ''SIMULATION''"
| "mode_value LIVE = ''LIVE''"

fun risk_profile_value :: "RiskProfile \<Rightarrow> string" where
  "risk_profile_value SENTINEL = ''SENTINEL''"
| "risk_profile_value EQUILIBRIUM = ''EQUILIBRIUM''"
| "risk_profile_value VORTEX = ''VORTEX''"

fun asset_class_value :: "AssetClass \<Rightarrow> string" where
  "asset_class_value CRYPTO = ''CRYPTO''"
| "asset_class_value EQUITY = ''EQUITY''"

fun venue_value :: "ExecutionVenue \<Rightarrow> string" where
  "venue_value BINANCE = ''BINANCE''"

fun sim_status_value :: "SimulationOrderStatus \<Rightarrow> string" where
  "sim_status_value SimulationOrderStatus.FILLED = ''FILLED''"
| "sim_status_value SimulationOrderStatus.REJECTED = ''REJECTED''"
| "sim_status_value SimulationOrderStatus.FAILED = ''FAILED''"

text \<open>\<open>Enum(value)\<close>: the member with that value, or a ValueError.\<close>

definition enum_of :: "string \<Rightarrow> ('a \<Rightarrow> string) \<Rightarrow> 'a list \<Rightarrow> string \<Rightarrow> 'a result" where
  "enum_of cls val members s = (case find (\<lambda>m. val m = s) members of
      Some m \<Rightarrow> Inr m
    | None \<Rightarrow> Inl (ValueErr (repr s @ '' is not a valid '' @ cls)))"

definition OrderSide_of :: "string \<Rightarrow> OrderSide result" where
  "OrderSide_of = enum_of ''OrderSide'' side_value [BUY, SELL]"

definition OrderType_of :: "string \<Rightarrow> OrderType result" where
  "OrderType_of = enum_of ''OrderType'' type_value [MARKET, LIMIT]"

definition RiskProfile_of :: "string \<Rightarrow> RiskProfile result" where
  "RiskProfile_of = enum_of ''RiskProfile'' risk_profile_value [SENTINEL, EQUILIBRIUM, VORTEX]"

definition AssetClass_of :: "string \<Rightarrow> AssetClass result" where
  "AssetClass_of = enum_of ''AssetClass'' asset_class_value [CRYPTO, EQUITY]"

definition ExecutionVenue_of :: "string \<Rightarrow> ExecutionVenue result" where
  "ExecutionVenue_of = enum_of ''ExecutionVenue'' venue_value [BINANCE]"

definition is_terminal_status :: "OrderStatus \<Rightarrow> bool" where
  "is_terminal_status s \<longleftrightarrow> s \<in> {OrderStatus.FILLED, OrderStatus.CANCELED, OrderStatus.REJECTED,
     EXPIRED, OrderStatus.FAILED}"

definition is_cancelable_status :: "OrderStatus \<Rightarrow> bool" where
  "is_cancelable_status s \<longleftrightarrow> s \<in> {NEW, PARTIALLY_FILLED}"

lemma OrderSide_of_simps [simp]:
  "OrderSide_of ''BUY'' = Inr BUY" "OrderSide_of ''SELL'' = Inr SELL"
  by (simp_all add: OrderSide_of_def enum_of_def)

lemma OrderType_of_simps [simp]:
  "OrderType_of ''MARKET'' = Inr MARKET" "OrderType_of ''LIMIT'' = Inr LIMIT"
  by (simp_all add: OrderType_of_def enum_of_def)

lemma enum_of_Inr: "enum_of cls val ms s = Inr m \<Longrightarrow> val m = s \<and> m \<in> set ms"
  by (auto simp: enum_of_def find_Some_iff split: option.splits)

section \<open>Rows\<close>

record Order =
  o_id :: uuid
  o_user_id :: uuid
  o_bot_id :: "uuid option"
  o_symbol :: string
  o_side :: OrderSide
  o_order_type :: OrderType
  o_status :: OrderStatus
  o_requested_quantity :: decimal
  o_requested_price :: "decimal option"
  o_executed_quantity :: decimal
  o_average_fill_price :: "decimal option"
  o_binance_order_id :: "string option"
  o_binance_client_order_id :: string
  o_error_message :: "string option"
  o_created_at :: int
  o_submitted_at :: "int option"
  o_terminal_at :: "int option"

record OrderEvent =
  oe_order_id :: uuid
  oe_event_type :: OrderEventType
  oe_detail :: "string option"

record AuditLogEntry =
  ae_user_id :: uuid
  ae_action :: string
  ae_symbol :: "string option"
  ae_quantity :: "decimal option"
  ae_result :: AuditResult
  ae_hermes_order_id :: "uuid option"
  ae_binance_order_id :: "string option"
  ae_detail :: "string option"

record IdempotencyKey =
  ik_id :: uuid
  ik_user_id :: uuid
  ik_endpoint :: string
  ik_key :: string
  ik_request_hash :: string
  ik_response_snapshot :: json

record Bot =
  b_id :: uuid
  b_user_id :: uuid
  b_name :: string
  b_risk_profile :: RiskProfile
  b_asset_class :: AssetClass
  b_execution_venue :: ExecutionVenue
  b_execution_mode :: BotExecutionMode
  b_instrument :: string
  b_strategy_model :: "string option"
  b_strategy_config :: "json option"
  b_status :: BotStatus
  b_created_at :: int
  b_updated_at :: int

record BotPosition =
  bp_bot_id :: uuid
  bp_instrument :: string
  bp_current_quantity :: decimal
  bp_target_quantity :: decimal
  bp_last_close_order_id :: "uuid option"
  bp_last_open_order_id :: "uuid option"
  bp_paused_at :: "int option"

record SimulationAccount =
  sa_id :: uuid
  sa_bot_id :: uuid
  sa_quote_asset :: string
  sa_initial_capital_quote :: decimal
  sa_cash_balance_quote :: decimal

record SimulationOrder =
  so_id :: uuid
  so_bot_id :: uuid
  so_simulation_account_id :: uuid
  so_symbol :: string
  so_side :: OrderSide
  so_order_type :: OrderType
  so_status :: SimulationOrderStatus
  so_requested_quantity :: decimal
  so_fill_price :: "decimal option"
  so_executed_quantity :: decimal
  so_fee_quote :: decimal
  so_slippage_quote :: decimal
  so_reason :: "string option"
  so_created_at :: int
  so_terminal_at :: "int option"

record UserTradingSettings =
  us_user_id :: uuid
  us_trading_enabled :: bool
  us_max_order_notional_quote :: "decimal option"
  us_max_symbol_exposure_pct :: "decimal option"
  us_max_total_exposure_pct :: "decimal option"
  us_max_daily_loss_pct :: "decimal option"
  us_max_open_positions :: "int option"
  us_allowed_symbols :: "string list option"
  us_sim_max_order_notional_quote :: decimal
  us_sim_max_symbol_exposure_pct :: decimal
  us_sim_max_total_exposure_pct :: decimal
  us_sim_max_daily_loss_pct :: decimal
  us_sim_max_open_positions :: int
  us_sim_allowed_symbols :: "string list"

record UserBinanceCredential =
  uc_user_id :: uuid
  uc_api_key_ciphertext :: string
  uc_api_secret_ciphertext :: string
  uc_api_key_last4 :: string
  uc_verified_at :: int
  uc_updated_at :: int

record PortfolioSnapshot =
  ps_id :: uuid
  ps_snapshot_at :: int
  ps_quote_asset :: string
  ps_total_value_quote :: decimal
  ps_available_balance_quote :: decimal
  ps_exposure_quote :: decimal
  ps_exposure_pct :: decimal

record SimulationSnapshot =
  ss_id :: uuid
  ss_bot_id :: uuid
  ss_snapshot_at :: int
  ss_cash_balance_quote :: decimal
  ss_position_value_quote :: decimal
  ss_total_value_quote :: decimal
  ss_exposure_pct :: decimal

text \<open>The tables of \<open>auth/models\<close>: users, their roles and permissions, external identities and sessions.\<close>

record User =
  usr_id :: uuid
  usr_email :: string
  usr_display_name :: "string option"
  usr_avatar_url :: "string option"
  usr_status :: UserStatus
  usr_created_at :: int
  usr_updated_at :: int
  usr_last_login_at :: "int option"

record Role =
  ro_id :: uuid
  ro_name :: string
  ro_description :: "string option"
  ro_system_role :: bool

record Permission =
  pm_id :: uuid
  pm_name :: string
  pm_description :: "string option"

record Identity =
  iy_id :: uuid
  iy_user_id :: uuid
  iy_provider :: string
  iy_provider_subject :: string
  iy_created_at :: int

record SessionRow =
  se_id :: uuid
  se_user_id :: uuid
  se_token_hash :: string
  se_created_at :: int
  se_expires_at :: int
  se_revoked_at :: "int option"

section \<open>Responses\<close>

definition juuid :: "uuid \<Rightarrow> json" where "juuid u = JStr (str_uuid u)"
definition jdec :: "decimal \<Rightarrow> json" where "jdec d = JStr (dec_str d)"
definition jtime :: "int \<Rightarrow> json" where "jtime t = JStr (isoformat t)"

definition order_to_response :: "Order \<Rightarrow> json" where
  "order_to_response order = JObj [
     (''id'', juuid (o_id order)),
     (''bot_id'', jopt juuid (o_bot_id order)),
     (''symbol'', JStr (o_symbol order)),
     (''side'', JStr (side_value (o_side order))),
     (''order_type'', JStr (type_value (o_order_type order))),
     (''status'', JStr (status_value (o_status order))),
     (''requested_quantity'', jdec (o_requested_quantity order)),
     (''requested_price'', jopt jdec (o_requested_price order)),
     (''executed_quantity'', jdec (o_executed_quantity order)),
     (''average_fill_price'', jopt jdec (o_average_fill_price order)),
     (''binance_order_id'', jopt JStr (o_binance_order_id order)),
     (''error_message'', jopt JStr (o_error_message order)),
     (''created_at'', jtime (o_created_at order)),
     (''submitted_at'', jopt jtime (o_submitted_at order)),
     (''terminal_at'', jopt jtime (o_terminal_at order))]"

definition simulation_order_to_response :: "SimulationOrder \<Rightarrow> json" where
  "simulation_order_to_response order = JObj [
     (''id'', juuid (so_id order)),
     (''bot_id'', juuid (so_bot_id order)),
     (''symbol'', JStr (so_symbol order)),
     (''side'', JStr (side_value (so_side order))),
     (''order_type'', JStr (type_value (so_order_type order))),
     (''status'', JStr (sim_status_value (so_status order))),
     (''requested_quantity'', jdec (so_requested_quantity order)),
     (''fill_price'', jopt jdec (so_fill_price order)),
     (''executed_quantity'', jdec (so_executed_quantity order)),
     (''fee_quote'', jdec (so_fee_quote order)),
     (''slippage_quote'', jdec (so_slippage_quote order)),
     (''reason'', jopt JStr (so_reason order)),
     (''created_at'', jtime (so_created_at order)),
     (''terminal_at'', jopt jtime (so_terminal_at order))]"

definition bot_to_response :: "Bot \<Rightarrow> BotPosition option \<Rightarrow> json" where
  "bot_to_response b position = JObj [
     (''id'', juuid (b_id b)),
     (''name'', JStr (b_name b)),
     (''risk_profile'', JStr (risk_profile_value (b_risk_profile b))),
     (''asset_class'', JStr (asset_class_value (b_asset_class b))),
     (''execution_venue'', JStr (venue_value (b_execution_venue b))),
     (''execution_mode'', JStr (mode_value (b_execution_mode b))),
     (''instrument'', JStr (b_instrument b)),
     (''strategy_model'', jopt JStr (b_strategy_model b)),
     (''strategy_config'', jopt (\<lambda>j. j) (b_strategy_config b)),
     (''status'', JStr (bot_status_value (b_status b))),
     (''current_quantity'', (case position of Some p \<Rightarrow> jdec (bp_current_quantity p) | None \<Rightarrow> JStr ''0'')),
     (''target_quantity'', jopt (\<lambda>p. jdec (bp_target_quantity p)) position),
     (''paused_at'', (case position of Some p \<Rightarrow> jopt jtime (bp_paused_at p) | None \<Rightarrow> JNull)),
     (''created_at'', jtime (b_created_at b)),
     (''updated_at'', jtime (b_updated_at b))]"

text \<open>The envelope every mutating service operation returns.\<close>

definition envelope :: "string \<Rightarrow> json \<Rightarrow> string \<Rightarrow> string option \<Rightarrow> json" where
  "envelope what x status reason =
     JObj [(what, x), (''status'', JStr status), (''reason'', jopt JStr reason)]"

end
