(* ===== verification/RateLimiter.thy ===== *)
theory RateLimiter
  imports Datetime
begin

text \<open>
  The sliding-window rate limiter (\<open>auth/rate_limiting.py\<close>) and the limits of every endpoint
  (\<open>trading/rate_limiting.py\<close>).  The limiter is a value: \<open>check\<close> takes the reading of the monotonic
  clock (in microseconds) and returns the limiter with its queue updated.  The lock that makes a check
  one step is what the state passing says.
\<close>

section \<open>The limiter\<close>

record SlidingWindowRateLimiter =
  max_requests :: int
  window_us :: int
  hits :: "string \<Rightarrow> int list"

definition new_limiter :: "int \<Rightarrow> int \<Rightarrow> SlidingWindowRateLimiter result" where
  "new_limiter n w =
     (if n < 1 then Inl (ValueErr ''max_requests must be at least 1'')
      else if w \<le> 0 then Inl (ValueErr ''window_seconds must be positive'')
      else Inr \<lparr>max_requests = n, window_us = w, hits = (\<lambda>k. [])\<rparr>)"

text \<open>\<open>while hits and hits[0] <= cutoff: hits.popleft()\<close>.\<close>

fun drop_expired :: "int \<Rightarrow> int list \<Rightarrow> int list" where
  "drop_expired cutoff [] = []"
| "drop_expired cutoff (t # ts) = (if t \<le> cutoff then drop_expired cutoff ts else t # ts)"

definition check_hit :: "SlidingWindowRateLimiter \<Rightarrow> string \<Rightarrow> int \<Rightarrow>
    (bool \<times> int) \<times> SlidingWindowRateLimiter" where
  "check_hit L key now =
     (let live = drop_expired (now - window_us L) (hits L key) in
      if max_requests L \<le> int (length live)
      then ((False, max (hd live + window_us L - now) 0), L\<lparr>hits := (hits L)(key := live)\<rparr>)
      else ((True, 0), L\<lparr>hits := (hits L)(key := live @ [now])\<rparr>))"

definition reset :: "SlidingWindowRateLimiter \<Rightarrow> SlidingWindowRateLimiter" where
  "reset L = L\<lparr>hits := (\<lambda>k. [])\<rparr>"

text \<open>The \<open>Retry-After\<close> header of a refusal: whole seconds, at least one.\<close>

definition retry_after_seconds :: "int \<Rightarrow> int" where
  "retry_after_seconds retry_after = max 1 (- ((- retry_after) div us_per_second))"

section \<open>The policy\<close>

text \<open>The limiters of the program, by the names of their variables, and how many requests per minute each lets through.\<close>

datatype auth_limiter =
    LOGIN_RATE_LIMITER
  | CALLBACK_RATE_LIMITER
  | ME_RATE_LIMITER
  | LOGOUT_RATE_LIMITER

fun auth_per_minute :: "auth_limiter \<Rightarrow> int" where
  "auth_per_minute LOGIN_RATE_LIMITER = 10"
| "auth_per_minute CALLBACK_RATE_LIMITER = 10"
| "auth_per_minute ME_RATE_LIMITER = 60"
| "auth_per_minute LOGOUT_RATE_LIMITER = 20"

datatype trading_limiter =
    CREATE_ORDER_RATE_LIMITER
  | CANCEL_ORDER_RATE_LIMITER
  | CLOSE_POSITION_RATE_LIMITER
  | BOT_CREATE_RATE_LIMITER
  | BOT_UPDATE_RATE_LIMITER
  | BOT_PAUSE_RATE_LIMITER
  | BOT_RESUME_RATE_LIMITER
  | BOT_STOP_RATE_LIMITER
  | BOT_DELETE_RATE_LIMITER
  | BOT_ACTIVATE_LIVE_RATE_LIMITER
  | SETTINGS_CREDENTIALS_PUT_RATE_LIMITER
  | SETTINGS_CREDENTIALS_DELETE_RATE_LIMITER
  | SETTINGS_RISK_LIMITS_RATE_LIMITER
  | SETTINGS_SIMULATION_RISK_LIMITS_RATE_LIMITER
  | SETTINGS_TRADING_SWITCH_RATE_LIMITER

fun trading_per_minute :: "trading_limiter \<Rightarrow> int" where
  "trading_per_minute CREATE_ORDER_RATE_LIMITER = 20"
| "trading_per_minute CANCEL_ORDER_RATE_LIMITER = 30"
| "trading_per_minute CLOSE_POSITION_RATE_LIMITER = 20"
| "trading_per_minute BOT_CREATE_RATE_LIMITER = 20"
| "trading_per_minute BOT_UPDATE_RATE_LIMITER = 30"
| "trading_per_minute BOT_PAUSE_RATE_LIMITER = 20"
| "trading_per_minute BOT_RESUME_RATE_LIMITER = 20"
| "trading_per_minute BOT_STOP_RATE_LIMITER = 20"
| "trading_per_minute BOT_DELETE_RATE_LIMITER = 20"
| "trading_per_minute BOT_ACTIVATE_LIVE_RATE_LIMITER = 10"
| "trading_per_minute SETTINGS_CREDENTIALS_PUT_RATE_LIMITER = 5"
| "trading_per_minute SETTINGS_CREDENTIALS_DELETE_RATE_LIMITER = 20"
| "trading_per_minute SETTINGS_RISK_LIMITS_RATE_LIMITER = 20"
| "trading_per_minute SETTINGS_SIMULATION_RISK_LIMITS_RATE_LIMITER = 20"
| "trading_per_minute SETTINGS_TRADING_SWITCH_RATE_LIMITER = 20"

text \<open>The state of all of them: \<open>Inl\<close> an endpoint of \<open>auth\<close>, \<open>Inr\<close> one of \<open>trading\<close>.\<close>

type_synonym limiter_name = "auth_limiter + trading_limiter"

definition limiter_at_start :: "limiter_name \<Rightarrow> SlidingWindowRateLimiter" where
  "limiter_at_start name = \<lparr>max_requests = case_sum auth_per_minute trading_per_minute name,
     window_us = 60 * us_per_second, hits = (\<lambda>k. [])\<rparr>"

section \<open>A sequence of checks\<close>

text \<open>\<open>admitted L rs\<close>: the requests (key and time) of \<open>rs\<close> that are let through; \<open>checked L rs\<close>: the limiter afterwards.\<close>

fun admitted :: "SlidingWindowRateLimiter \<Rightarrow> (string \<times> int) list \<Rightarrow> (string \<times> int) list" where
  "admitted L [] = []"
| "admitted L ((k, t) # rs) = 
     (if fst (fst (check_hit L k t)) then [(k, t)] else []) @ admitted (snd (check_hit L k t)) rs"

fun checked :: "SlidingWindowRateLimiter \<Rightarrow> (string \<times> int) list \<Rightarrow> SlidingWindowRateLimiter" where
  "checked L [] = L"
| "checked L ((k, t) # rs) = checked (snd (check_hit L k t)) rs"

definition times :: "string \<Rightarrow> (string \<times> int) list \<Rightarrow> int list" where
  "times key rs = map snd (filter (\<lambda>r. fst r = key) rs)"

lemma times_simps [simp]:
  "times key [] = []"
  "times key ((k, t) # rs) = (if k = key then t # times key rs else times key rs)"
  by (simp_all add: times_def)

lemma drop_expired_dropWhile: "drop_expired c ts = dropWhile (\<lambda>t. t \<le> c) ts"
  by (induction ts) auto

lemma drop_expired_split: obtains p where "ts = p @ drop_expired c ts" "\<forall>t \<in> set p. t \<le> c"
  by (metis drop_expired_dropWhile set_takeWhileD takeWhile_dropWhile_id)

lemma drop_expired_live: "sorted ts \<Longrightarrow> t \<in> set (drop_expired c ts) \<Longrightarrow> c < t"
  by (induction ts) (auto split: if_splits)

lemma drop_expired_length: "length (drop_expired c ts) \<le> length ts"
  by (simp add: drop_expired_dropWhile length_dropWhile_le)

lemma drop_expired_twice: "c \<le> d \<Longrightarrow> drop_expired d (drop_expired c ts) = drop_expired d ts"
  by (induction ts) auto

lemma set_drop_expired: "x \<in> set (drop_expired c ts) \<Longrightarrow> x \<in> set ts"
  by (metis drop_expired_dropWhile set_dropWhileD)

lemma sorted_drop_expired: "sorted ts \<Longrightarrow> sorted (drop_expired c ts)"
  by (simp add: drop_expired_dropWhile sorted_dropWhile)

text \<open>One key at a time: what the queue of a key lets through of a list of times.\<close>

fun admit :: "int \<Rightarrow> int \<Rightarrow> int list \<Rightarrow> int list \<Rightarrow> int list" where
  "admit n w h [] = []"
| "admit n w h (t # ts) = (let live = drop_expired (t - w) h in
     if n \<le> int (length live) then admit n w live ts else t # admit n w (live @ [t]) ts)"

lemma times_admitted:
  "times key (admitted L rs) = admit (max_requests L) (window_us L) (hits L key) (times key rs)"
  by (induction L rs rule: admitted.induct) (auto simp: check_hit_def Let_def)

lemma set_admit: "set (admit n w h ts) \<subseteq> set ts"
  by (induction n w h ts rule: admit.induct) (auto simp: Let_def)

text \<open>
  Queued and later admitted times together never crowd a window: an expired time cannot share a window
  with a time after the one that expired it.
\<close>

abbreviation in_window :: "int \<Rightarrow> int \<Rightarrow> int list \<Rightarrow> int list" where
  "in_window a w ts \<equiv> filter (\<lambda>x. a < x \<and> x \<le> a + w) ts"

lemma admit_window:
  assumes "sorted (h @ ts)" and "int (length h) \<le> n" and "0 < w"
  shows "int (length (in_window a w (h @ admit n w h ts))) \<le> n"
  using assms
proof (induction n w h ts rule: admit.induct)
  case (1 n w h)
  have "int (length (in_window a w h)) \<le> int (length h)" by (simp add: length_filter_le)
  then show ?case using 1(2) unfolding append_Nil2 admit.simps by (rule order.trans)
next
  case (2 n w h t ts)
  define live where "live = drop_expired (t - w) h"
  obtain p where p: "h = p @ live" "\<forall>x \<in> set p. x \<le> t - w"
    unfolding live_def by (rule drop_expired_split)
  define later where "later = admit n w h (t # ts)"
  have later: "later = (if n \<le> int (length live) then admit n w live ts else t # admit n w (live @ [t]) ts)"
    by (simp add: later_def live_def Let_def)
  have after: "t \<le> x" if "x \<in> set later" for x
    using that 2(3) set_admit [of n w h "t # ts"] by (auto simp: later_def sorted_append)
  have rest: "int (length (in_window a w (live @ later))) \<le> n"
  proof (cases "n \<le> int (length live)")
    case True
    then show ?thesis using 2(1) [OF live_def] 2(3,4,5) p(1) by (simp add: later sorted_append)
  next
    case False
    then show ?thesis using 2(2) [OF live_def] 2(3,4,5) p(1) by (simp add: later sorted_append)
  qed
  show ?case
  proof (cases "\<exists>x \<in> set p. a < x")
    case True
    then have "a + w < t" using p(2) by force
    then have "in_window a w later = []" using after by (force simp: filter_empty_conv)
    then have "length (in_window a w (h @ later)) \<le> length h"
      by (simp add: length_filter_le)
    then show ?thesis using 2(4) by (simp add: later_def)
  next
    case False
    then have "in_window a w p = []" by (auto simp: filter_empty_conv)
    then show ?thesis using rest p(1) by (simp add: later_def)
  qed
qed

section \<open>What the limiter keeps\<close>

definition limiter_ok :: "SlidingWindowRateLimiter \<Rightarrow> bool" where
  "limiter_ok L \<longleftrightarrow> 1 \<le> max_requests L \<and> 0 < window_us L \<and>
     (\<forall>k. sorted (hits L k) \<and> int (length (hits L k)) \<le> max_requests L)"

lemma limiter_ok_new: "new_limiter n w = Inr L \<Longrightarrow> limiter_ok L"
  by (auto simp: new_limiter_def limiter_ok_def split: if_splits)

lemma new_limiter_fields:
  "new_limiter n w = Inr L \<Longrightarrow> max_requests L = n \<and> window_us L = w \<and> hits L = (\<lambda>k. [])"
  by (auto simp: new_limiter_def split: if_splits)

lemma limiter_at_start_ok: "limiter_ok (limiter_at_start name)"
proof -
  have "1 \<le> auth_per_minute a" "1 \<le> trading_per_minute b" for a b
    by (cases a; simp) (cases b; simp)
  then have "1 \<le> case_sum auth_per_minute trading_per_minute name"
    by (simp split: sum.split)
  then show ?thesis by (simp add: limiter_at_start_def limiter_ok_def us_per_second_def)
qed

lemma check_hit_const [simp]:
  "max_requests (snd (check_hit L k t)) = max_requests L" "window_us (snd (check_hit L k t)) = window_us L"
  by (simp_all add: check_hit_def Let_def)

lemma check_hit_others: "k' \<noteq> k \<Longrightarrow> hits (snd (check_hit L k t)) k' = hits L k'"
  by (simp add: check_hit_def Let_def)

lemma check_hit_hits: "set (hits (snd (check_hit L k t)) k') \<subseteq> insert t (set (hits L k'))"
  by (auto simp: check_hit_def Let_def drop_expired_dropWhile dest: set_dropWhileD)

lemma limiter_ok_check:
  assumes "limiter_ok L" and "\<forall>x \<in> set (hits L k). x \<le> t"
  shows "limiter_ok (snd (check_hit L k t))"
proof -
  define live where "live = drop_expired (t - window_us L) (hits L k)"
  have live: "sorted live" "int (length live) \<le> max_requests L" "\<forall>x \<in> set live. x \<le> t"
    using assms drop_expired_length [of "t - window_us L" "hits L k"]
    by (auto simp: limiter_ok_def live_def sorted_drop_expired dest: set_drop_expired intro: order.trans [rotated])
  have "snd (check_hit L k t) = L\<lparr>hits := (hits L)(k := if max_requests L \<le> int (length live) then live else live @ [t])\<rparr>"
    by (simp add: check_hit_def Let_def live_def)
  then show ?thesis using assms(1) live by (auto simp: limiter_ok_def sorted_append)
qed

lemma limiter_ok_checked:
  assumes "limiter_ok L" and "sorted (map snd rs)" and "\<forall>k x t. x \<in> set (hits L k) \<longrightarrow> t \<in> snd ` set rs \<longrightarrow> x \<le> t"
  shows "limiter_ok (checked L rs)"
  using assms
proof (induction L rs rule: checked.induct)
  case (2 L k t rs)
  have "limiter_ok (snd (check_hit L k t))" using 2(2,4) by (intro limiter_ok_check) auto
  then show ?case using 2(1) 2(3,4) check_hit_hits [of L k t] by force
qed simp

lemma checked_const [simp]:
  "max_requests (checked L rs) = max_requests L" "window_us (checked L rs) = window_us L"
  by (induction L rs rule: checked.induct) simp_all

lemma set_hits_checked: "set (hits (checked L rs) k) \<subseteq> set (hits L k) \<union> snd ` set rs"
proof (induction L rs rule: checked.induct)
  case (2 L k' t rs)
  then show ?case using check_hit_hits [of L k' t k] by auto
qed simp

section \<open>Properties\<close>

text \<open>
  C24: The limit holds in every window: of the requests of one key, at times that never go back, a
  fresh limiter lets at most \<open>max_requests\<close> through in any window of its length, wherever the window
  starts; and it never remembers more than that many times per key.
\<close>
theorem limiter_bounds_every_window:
  assumes "new_limiter n w = Inr L" and "sorted (map snd rs)"
  shows "int (length (in_window a w (times key (admitted L rs)))) \<le> n \<and>
     int (length (hits (checked L rs) key)) \<le> n"
proof -
  have L: "limiter_ok L" "max_requests L = n" "window_us L = w" "hits L = (\<lambda>k. [])"
    using assms(1) limiter_ok_new new_limiter_fields by blast+
  have "sorted (times key rs)" using assms(2) by (simp add: times_def sorted_map sorted_wrt_filter)
  then have "int (length (in_window a w (times key (admitted L rs)))) \<le> n"
    using admit_window [of "[]" "times key rs" n w a] L by (simp add: times_admitted limiter_ok_def)
  moreover have "limiter_ok (checked L rs)" using limiter_ok_checked [OF L(1) assms(2)] L(4) by simp
  ultimately show ?thesis using L(2) by (simp add: limiter_ok_def)
qed

lemma limiter_bounds_every_window_witness:
  "int (length (in_window 0 10 (times ''a'' (admitted \<lparr>max_requests = 1, window_us = 10, hits = (\<lambda>k. [])\<rparr>
     [(''a'', 1), (''b'', 2), (''a'', 3), (''a'', 12)])))) \<le> 1"
  by (rule limiter_bounds_every_window [THEN conjunct1]) (simp_all add: new_limiter_def)

text \<open>
  C29: The announced waiting time is exact: after a refusal at time \<open>t\<close> with \<open>retry_after\<close> \<open>r\<close>, a
  positive time, the next check of the key at a time \<open>u\<close> is allowed if and only if \<open>t + r \<le> u\<close>; so a client that
  waits the whole seconds of the \<open>Retry-After\<close> header is let through, and other keys are not affected.
\<close>
theorem limiter_retry_after_exact:
  assumes "new_limiter n w = Inr L0" and "sorted (map snd rs @ [t])" and "L = checked L0 rs"
    and "check_hit L key t = ((False, r), L')"
  shows "0 < r \<and> (fst (fst (check_hit L' key u)) \<longleftrightarrow> t + r \<le> u) \<and>
     fst (fst (check_hit L' key (t + us_per_second * retry_after_seconds r))) \<and> (\<forall>k. k \<noteq> key \<longrightarrow> hits L' k = hits L k)"
proof -
  have fresh: "limiter_ok L0" "max_requests L0 = n" "window_us L0 = w" "hits L0 = (\<lambda>k. [])"
    using assms(1) limiter_ok_new new_limiter_fields by blast+
  have ok: "limiter_ok L"
    using limiter_ok_checked [OF fresh(1)] fresh(4) assms(2,3) by (simp add: sorted_append)
  define live where "live = drop_expired (t - window_us L) (hits L key)"
  have refused: "max_requests L \<le> int (length live)" and r: "r = max (hd live + window_us L - t) 0"
    and L': "L' = L\<lparr>hits := (hits L)(key := live)\<rparr>"
    using assms(4) by (auto simp: check_hit_def Let_def live_def split: if_splits)
  have full: "int (length live) = max_requests L" "live \<noteq> []"
    using refused ok drop_expired_length [of "t - window_us L" "hits L key"]
    by (auto simp: limiter_ok_def live_def intro: order.antisym) (smt (verit, best) of_nat_mono)
  then have r_pos: "0 < hd live + window_us L - t"
    using drop_expired_live [of "hits L key" "hd live" "t - window_us L"] ok
    by (auto simp: limiter_ok_def live_def)
  have again: "fst (fst (check_hit L' key v)) \<longleftrightarrow> hd live \<le> v - window_us L" for v
    using full drop_expired_length [of "v - window_us L" "tl live"]
    by (cases live) (auto simp: check_hit_def Let_def L')
  have "r \<le> us_per_second * retry_after_seconds r"
    using minus_mod_eq_mult_div [of "- r" us_per_second]
    by (auto simp: retry_after_seconds_def us_per_second_def)
  moreover have "r = hd live + window_us L - t" using r r_pos by simp
  moreover have "\<forall>k. k \<noteq> key \<longrightarrow> hits L' k = hits L k" by (simp add: L')
  ultimately show ?thesis unfolding again using r_pos by auto
qed

lemma limiter_retry_after_exact_witness:
  "fst (fst (check_hit \<lparr>max_requests = 1, window_us = 10, hits = (\<lambda>k. [])(''a'' := [1])\<rparr> ''a'' 11))"
  using limiter_retry_after_exact [where n = 1 and w = 10 and rs = "[(''a'', 1)]" and t = 3 and key = "''a''" and r = 8
      and u = 11 and L = "\<lparr>max_requests = 1, window_us = 10, hits = (\<lambda>k. [])(''a'' := [1])\<rparr>"
      and L' = "\<lparr>max_requests = 1, window_us = 10, hits = (\<lambda>k. [])(''a'' := [1])\<rparr>"
      and ?L0.0 = "\<lparr>max_requests = 1, window_us = 10, hits = (\<lambda>k. [])\<rparr>"]
  by (simp add: new_limiter_def check_hit_def)

end
