(* ===== verification/World.thy ===== *)
theory World
  imports Models RateLimiter
begin

text \<open>
  The world a service runs in: what it cannot decide itself is the environment (a record of
  functions the theorems quantify over), what it changes is the state (the tables, the cache and the
  log of the calls made to the exchange).  A service operation is a state transformer that returns
  an exception or a value; a state change made before an exception stays, as it does in a session
  that is committed afterwards.
\<close>

section \<open>Environment and state\<close>

datatype binance_call =
    GetBalances
  | GetMarketData string
  | GetExchangeInfo string
  | GetTrades string
  | GetKlines string string int
  | GetOrder string "int option" "string option"
  | CreateOrder string string string string "string option" string
  | CancelOrder string "int option" "string option"
  | GetAccountInfo
  | GetApiKeyPermissions

text \<open>
  The answer of Google's token endpoint, read by \<open>urllib\<close>: a body (None when it is not JSON), an HTTP
  error, or no answer.
\<close>

datatype url_reply = UrlBody "json option" | UrlHTTPError int | UrlError

text \<open>
  \<open>client\<close> answers a call from the history of the calls made so far: any behaviour of the exchange,
  failures and price moves included, is one such function.  \<open>clock\<close> and \<open>monotonic\<close> give the n-th
  reading of the clocks in microseconds, \<open>uuid4\<close> the n-th generated identifier, \<open>sha256\<close> the
  hexadecimal digest of a text.  Fernet, a token format of the cryptography package, is known by three functions: whether
  a text is a key, the token of a key and a text (and a nonce), and the text of a token, if the key made it.
  \<open>token_urlsafe\<close> gives the n-th random token, \<open>google_token\<close> exchanges an authorization code, and
  \<open>verify_oauth2_token\<close> (the google-auth package) the claims of a valid ID token for a client id.
\<close>

record env =
  getenv :: "string \<Rightarrow> string option"
  sha256 :: "string \<Rightarrow> string"
  uuid4 :: "nat \<Rightarrow> uuid"
  clock :: "nat \<Rightarrow> int"
  monotonic :: "nat \<Rightarrow> int"
  fernet_key :: "string \<Rightarrow> bool"
  fernet_encrypt :: "string \<Rightarrow> nat \<Rightarrow> string \<Rightarrow> string"
  fernet_decrypt :: "string \<Rightarrow> string \<Rightarrow> string option"
  client :: "binance_call list \<Rightarrow> binance_call \<Rightarrow> json result"
  token_urlsafe :: "nat \<Rightarrow> string"
  google_token :: "string \<Rightarrow> url_reply"
  verify_oauth2_token :: "string \<Rightarrow> string \<Rightarrow> json option"

record sys =
  orders :: "Order list"
  order_events :: "OrderEvent list"
  audit_log :: "AuditLogEntry list"
  idempotency_keys :: "IdempotencyKey list"
  bots :: "Bot list"
  bot_positions :: "BotPosition list"
  simulation_accounts :: "SimulationAccount list"
  simulation_orders :: "SimulationOrder list"
  user_settings :: "UserTradingSettings list"
  credentials :: "UserBinanceCredential list"
  info_cache :: "(string \<times> int \<times> json) list"
  calls :: "binance_call list"
  ticks :: nat
  uuids :: nat
  portfolio_snapshots :: "PortfolioSnapshot list"
  simulation_snapshots :: "SimulationSnapshot list"
  users :: "User list"
  roles :: "Role list"
  permission_rows :: "Permission list"
  user_roles :: "(uuid \<times> uuid) list"
  role_permissions :: "(uuid \<times> uuid) list"
  identities :: "Identity list"
  sessions :: "SessionRow list"
  oauth_states :: "(string \<times> int \<times> string) list"
  limiters :: "limiter_name \<Rightarrow> SlidingWindowRateLimiter"

section \<open>Operations with state and exceptions\<close>

type_synonym ('e, 'a) EM = "sys \<Rightarrow> ('e + 'a) \<times> sys"
type_synonym 'a M = "(exn, 'a) EM"

definition ret :: "'a \<Rightarrow> ('e, 'a) EM" where
  "ret x s = (Inr x, s)"

definition raise :: "'e \<Rightarrow> ('e, 'a) EM" where
  "raise e s = (Inl e, s)"

definition bnd :: "('e, 'a) EM \<Rightarrow> ('a \<Rightarrow> ('e, 'b) EM) \<Rightarrow> ('e, 'b) EM" where
  "bnd m f s = (case m s of (Inl e, s') \<Rightarrow> (Inl e, s') | (Inr x, s') \<Rightarrow> f x s')"

definition seq :: "('e, unit) EM \<Rightarrow> ('e, 'b) EM \<Rightarrow> ('e, 'b) EM" where
  "seq m n = bnd m (\<lambda>_. n)"

definition lift :: "'e + 'a \<Rightarrow> ('e, 'a) EM" where
  "lift r s = (r, s)"

definition gets :: "(sys \<Rightarrow> 'a) \<Rightarrow> ('e, 'a) EM" where
  "gets f s = (Inr (f s), s)"

definition modify :: "(sys \<Rightarrow> sys) \<Rightarrow> ('e, unit) EM" where
  "modify f s = (Inr (), f s)"

text \<open>\<open>try_any\<close> is \<open>except Exception\<close>, \<open>try_binance\<close> is \<open>except BinanceError\<close>.\<close>

definition try_any :: "'a M \<Rightarrow> 'a result M" where
  "try_any m s = (case m s of (r, s') \<Rightarrow> (Inr r, s'))"

definition try_binance :: "'a M \<Rightarrow> (binance_err + 'a) M" where
  "try_binance m s = (case m s of
      (Inl (BinanceErr b), s') \<Rightarrow> (Inr (Inl b), s')
    | (Inl e, s') \<Rightarrow> (Inl e, s')
    | (Inr x, s') \<Rightarrow> (Inr (Inr x), s'))"

text \<open>
  \<open>ThreadPoolExecutor.map\<close>: every task runs, then the first exception in the order of the items is
  raised, or the list of results returned.  The tasks run in the order of the items; on a real pool
  their calls to the exchange interleave.
\<close>

fun run_all :: "('a \<Rightarrow> 'b M) \<Rightarrow> 'a list \<Rightarrow> 'b result list M" where
  "run_all f [] = ret []"
| "run_all f (x # xs) = bnd (try_any (f x)) (\<lambda>r. bnd (run_all f xs) (\<lambda>rs. ret (r # rs)))"

definition executor_map :: "('a \<Rightarrow> 'b M) \<Rightarrow> 'a list \<Rightarrow> 'b list M" where
  "executor_map f xs = bnd (run_all f xs) (\<lambda>rs. lift (rmap (\<lambda>r. r) rs))"

section \<open>Weakest preconditions\<close>

definition wp :: "('e, 'a) EM \<Rightarrow> ('e + 'a \<Rightarrow> sys \<Rightarrow> bool) \<Rightarrow> sys \<Rightarrow> bool" where
  "wp m Q s = Q (fst (m s)) (snd (m s))"

named_theorems wp_simps "weakest preconditions of the primitive operations"

lemma wp_ret [wp_simps]: "wp (ret x) Q s = Q (Inr x) s"
  by (simp add: wp_def ret_def)

lemma wp_raise [wp_simps]: "wp (raise e) Q s = Q (Inl e) s"
  by (simp add: wp_def raise_def)

lemma wp_bnd [wp_simps]:
  "wp (bnd m f) Q s = wp m (\<lambda>r s'. case r of Inl e \<Rightarrow> Q (Inl e) s' | Inr x \<Rightarrow> wp (f x) Q s') s"
  by (simp add: wp_def bnd_def split: prod.split sum.split)

lemma wp_seq [wp_simps]:
  "wp (seq m n) Q s = wp m (\<lambda>r s'. case r of Inl e \<Rightarrow> Q (Inl e) s' | Inr x \<Rightarrow> wp n Q s') s"
  by (simp add: seq_def wp_bnd)

lemma wp_lift [wp_simps]: "wp (lift r) Q s = Q r s"
  by (simp add: wp_def lift_def)

lemma wp_gets [wp_simps]: "wp (gets f) Q s = Q (Inr (f s)) s"
  by (simp add: wp_def gets_def)

lemma wp_modify [wp_simps]: "wp (modify f) Q s = Q (Inr ()) (f s)"
  by (simp add: wp_def modify_def)

lemma wp_try_any [wp_simps]: "wp (try_any m) Q s = wp m (\<lambda>r. Q (Inr r)) s"
  by (simp add: wp_def try_any_def split: prod.split)

lemma wp_try_binance [wp_simps]:
  "wp (try_binance m) Q s = wp m (\<lambda>r s'. case r of
       Inl e \<Rightarrow> (case e of BinanceErr b \<Rightarrow> Q (Inr (Inl b)) s' | _ \<Rightarrow> Q (Inl e) s')
     | Inr x \<Rightarrow> Q (Inr (Inr x)) s') s"
  by (simp add: wp_def try_binance_def split: prod.split sum.split exn.split)

lemma wp_mono: "wp m P s \<Longrightarrow> (\<And>r s'. P r s' \<Longrightarrow> Q r s') \<Longrightarrow> wp m Q s"
  by (simp add: wp_def)

lemma wp_conj: "wp m P s \<Longrightarrow> wp m Q s \<Longrightarrow> wp m (\<lambda>r s'. P r s' \<and> Q r s') s"
  by (simp add: wp_def)

lemma wp_conjD: "wp m P s \<Longrightarrow> wp m (\<lambda>r s'. P r s' \<longrightarrow> Q r s') s \<Longrightarrow> wp m Q s"
  by (simp add: wp_def)

lemma wpI: "(\<And>r s'. m s = (r, s') \<Longrightarrow> Q r s') \<Longrightarrow> wp m Q s"
  by (simp add: wp_def)

lemma wpD: "wp m Q s \<Longrightarrow> m s = (r, s') \<Longrightarrow> Q r s'"
  by (simp add: wp_def)

lemma wp_cong: "m s = m' s \<Longrightarrow> wp m Q s = wp m' Q s"
  by (simp add: wp_def)

lemma wp_True [simp]: "wp m (\<lambda>r s'. True) s"
  by (simp add: wp_def)

text \<open>A rule for every shape of sequencing: a specification of the first part feeds the second.\<close>

lemma wp_bndI:
  assumes "wp m P s"
    and "\<And>x s'. P (Inr x) s' \<Longrightarrow> wp (f x) Q s'"
    and "\<And>e s'. P (Inl e) s' \<Longrightarrow> Q (Inl e) s'"
  shows "wp (bnd m f) Q s"
  unfolding wp_bnd by (rule wp_mono [OF assms(1)]) (use assms(2,3) in \<open>auto split: sum.split\<close>)

lemma wp_bnd_any:
  "(\<And>x t. wp (f x) Q t) \<Longrightarrow> (\<And>e t. Q (Inl e) t) \<Longrightarrow> wp (bnd m f) Q s"
  by (rule wp_bndI [where P = "\<lambda>r s'. True"]) simp_all

lemma seq_assoc: "seq (seq m n) k = seq m (seq n k)"
  by (rule ext) (simp add: seq_def bnd_def split: prod.split sum.split)

lemma seq_bnd: "seq (bnd m f) k = bnd m (\<lambda>x. seq (f x) k)"
  by (rule ext) (simp add: seq_def bnd_def split: prod.split sum.split)

section \<open>What an operation leaves alone\<close>

text \<open>
  \<open>keeps R m\<close>: the states before and after \<open>m\<close> are related by \<open>R\<close>, whatever the outcome.  For a
  reflexive and transitive \<open>R\<close> this is compositional, so a frame condition of a service is proved by
  its structure from the frame conditions of the primitives.
\<close>

definition keeps :: "(sys \<Rightarrow> sys \<Rightarrow> bool) \<Rightarrow> ('e, 'a) EM \<Rightarrow> bool" where
  "keeps R m \<longleftrightarrow> (\<forall>s. R s (snd (m s)))"

lemma keepsD: "keeps R m \<Longrightarrow> m s = (r, s') \<Longrightarrow> R s s'"
  by (metis keeps_def snd_conv)

lemma keeps_wp: "keeps R m \<Longrightarrow> wp m (\<lambda>r s'. R s s') s"
  by (simp add: keeps_def wp_def)

lemma keeps_wp_iff: "keeps R m \<longleftrightarrow> (\<forall>s. wp m (\<lambda>r s'. R s s') s)"
  by (simp add: keeps_def wp_def)

locale frame =
  fixes R :: "sys \<Rightarrow> sys \<Rightarrow> bool"
  assumes refl: "R s s"
    and trans: "R s t \<Longrightarrow> R t u \<Longrightarrow> R s u"
begin

lemma ret: "keeps R (ret x)"
  by (simp add: keeps_def ret_def refl)

lemma raise: "keeps R (raise e)"
  by (simp add: keeps_def raise_def refl)

lemma lift: "keeps R (lift r)"
  by (simp add: keeps_def lift_def refl)

lemma gets: "keeps R (gets f)"
  by (simp add: keeps_def gets_def refl)

lemma modify: "(\<And>s. R s (f s)) \<Longrightarrow> keeps R (modify f)"
  by (simp add: keeps_def modify_def)

lemma bnd: "keeps R m \<Longrightarrow> (\<And>x. keeps R (f x)) \<Longrightarrow> keeps R (bnd m f)"
  unfolding keeps_def bnd_def by (auto split: prod.split sum.split) (metis snd_conv trans)+

lemma seq: "keeps R m \<Longrightarrow> keeps R n \<Longrightarrow> keeps R (seq m n)"
  unfolding seq_def by (rule bnd)

lemma try_any: "keeps R m \<Longrightarrow> keeps R (try_any m)"
  unfolding keeps_def try_any_def by (auto split: prod.split) (metis snd_conv)

lemma try_binance: "keeps R m \<Longrightarrow> keeps R (try_binance m)"
  unfolding keeps_def try_binance_def
  by (auto split: prod.split sum.split exn.split) (metis snd_conv)+

lemma run_all: "(\<And>x. keeps R (f x)) \<Longrightarrow> keeps R (run_all f xs)"
  by (induction xs) (auto intro!: ret bnd try_any)

lemma executor_map: "(\<And>x. keeps R (f x)) \<Longrightarrow> keeps R (executor_map f xs)"
  unfolding executor_map_def by (intro bnd run_all lift)

lemma cond: "keeps R m \<Longrightarrow> keeps R n \<Longrightarrow> keeps R (if b then m else n)"
  by simp

lemma case_opt: "keeps R m \<Longrightarrow> (\<And>x. keeps R (f x)) \<Longrightarrow> keeps R (case v of None \<Rightarrow> m | Some x \<Rightarrow> f x)"
  by (simp split: option.split)

lemma case_sum: "(\<And>e. keeps R (f e)) \<Longrightarrow> (\<And>x. keeps R (g x)) \<Longrightarrow> keeps R (case v of Inl e \<Rightarrow> f e | Inr x \<Rightarrow> g x)"
  by (simp split: sum.split)

lemma case_pair: "(\<And>x y. keeps R (f x y)) \<Longrightarrow> keeps R (case v of (x, y) \<Rightarrow> f x y)"
  by (simp split: prod.split)

lemma let_in: "(\<And>x. keeps R (f x)) \<Longrightarrow> keeps R (let x = v in f x)"
  by simp

lemmas intros = ret raise lift gets bnd seq try_any try_binance executor_map
  cond case_opt case_sum case_pair let_in

end

section \<open>Primitive effects\<close>

definition now_utc :: "env \<Rightarrow> ('e, int) EM" where
  "now_utc E s = (Inr (clock E (ticks s)), s\<lparr>ticks := ticks s + 1\<rparr>)"

definition now_monotonic :: "env \<Rightarrow> ('e, int) EM" where
  "now_monotonic E s = (Inr (monotonic E (ticks s)), s\<lparr>ticks := ticks s + 1\<rparr>)"

definition new_uuid :: "env \<Rightarrow> ('e, uuid) EM" where
  "new_uuid E s = (Inr (uuid4 E (uuids s)), s\<lparr>uuids := uuids s + 1\<rparr>)"

definition call_binance :: "env \<Rightarrow> binance_call \<Rightarrow> json M" where
  "call_binance E c s = (client E (calls s) c, s\<lparr>calls := calls s @ [c]\<rparr>)"

definition add_event :: "uuid \<Rightarrow> OrderEventType \<Rightarrow> string option \<Rightarrow> unit M" where
  "add_event oid ty detail = modify (\<lambda>s. s\<lparr>order_events := order_events s @
     [\<lparr>oe_order_id = oid, oe_event_type = ty, oe_detail = detail\<rparr>]\<rparr>)"

definition add_audit :: "AuditLogEntry \<Rightarrow> unit M" where
  "add_audit e = modify (\<lambda>s. s\<lparr>audit_log := audit_log s @ [e]\<rparr>)"

text \<open>
  The orders: an insertion fails on either unique column; an object of the session is read and
  written through its row.
\<close>

definition add_order :: "Order \<Rightarrow> unit M" where
  "add_order o1 s =
     (if o_id o1 \<in> o_id ` set (orders s) \<or>
         o_binance_client_order_id o1 \<in> o_binance_client_order_id ` set (orders s)
      then (Inl (IntegrityErr ''duplicate key value violates unique constraint''), s)
      else (Inr (), s\<lparr>orders := orders s @ [o1]\<rparr>))"

definition the_order :: "uuid \<Rightarrow> Order M" where
  "the_order oid s = (case lookup_row o_id (orders s) oid of
      Some o1 \<Rightarrow> (Inr o1, s)
    | None \<Rightarrow> (Inl (ObjectDeletedErr ''Instance <Order> has been deleted''), s))"

definition upd_order :: "uuid \<Rightarrow> (Order \<Rightarrow> Order) \<Rightarrow> unit M" where
  "upd_order oid f = modify (\<lambda>s. s\<lparr>orders := map (\<lambda>x. if o_id x = oid then f x else x) (orders s)\<rparr>)"

lemma wp_now_utc [wp_simps]:
  "wp (now_utc E) Q s = Q (Inr (clock E (ticks s))) (s\<lparr>ticks := ticks s + 1\<rparr>)"
  by (simp add: wp_def now_utc_def)

lemma wp_now_monotonic [wp_simps]:
  "wp (now_monotonic E) Q s = Q (Inr (monotonic E (ticks s))) (s\<lparr>ticks := ticks s + 1\<rparr>)"
  by (simp add: wp_def now_monotonic_def)

lemma wp_new_uuid [wp_simps]:
  "wp (new_uuid E) Q s = Q (Inr (uuid4 E (uuids s))) (s\<lparr>uuids := uuids s + 1\<rparr>)"
  by (simp add: wp_def new_uuid_def)

lemma wp_call_binance [wp_simps]:
  "wp (call_binance E c) Q s = Q (client E (calls s) c) (s\<lparr>calls := calls s @ [c]\<rparr>)"
  by (simp add: wp_def call_binance_def)

lemma wp_add_event [wp_simps]:
  "wp (add_event oid ty d) Q s = Q (Inr ()) (s\<lparr>order_events := order_events s @
     [\<lparr>oe_order_id = oid, oe_event_type = ty, oe_detail = d\<rparr>]\<rparr>)"
  by (simp add: add_event_def wp_simps)

lemma wp_add_audit [wp_simps]: "wp (add_audit e) Q s = Q (Inr ()) (s\<lparr>audit_log := audit_log s @ [e]\<rparr>)"
  by (simp add: add_audit_def wp_simps)

lemma wp_the_order [wp_simps]:
  "wp (the_order oid) Q s = (case lookup_row o_id (orders s) oid of
      Some o1 \<Rightarrow> Q (Inr o1) s
    | None \<Rightarrow> Q (Inl (ObjectDeletedErr ''Instance <Order> has been deleted'')) s)"
  by (simp add: wp_def the_order_def split: option.split)

lemma wp_upd_order [wp_simps]:
  "wp (upd_order oid f) Q s =
     Q (Inr ()) (s\<lparr>orders := map (\<lambda>x. if o_id x = oid then f x else x) (orders s)\<rparr>)"
  by (simp add: upd_order_def wp_simps)

lemma wp_add_order [wp_simps]:
  "wp (add_order o1) Q s =
     (if o_id o1 \<in> o_id ` set (orders s) \<or>
         o_binance_client_order_id o1 \<in> o_binance_client_order_id ` set (orders s)
      then Q (Inl (IntegrityErr ''duplicate key value violates unique constraint'')) s
      else Q (Inr ()) (s\<lparr>orders := orders s @ [o1]\<rparr>))"
  by (simp add: wp_def add_order_def)

text \<open>Looking a row up after an update of one row in place.\<close>

lemma lookup_map_row:
  assumes "\<And>x. key x = k \<Longrightarrow> key (f x) = k"
  shows "lookup_row key (map (\<lambda>x. if key x = k then f x else x) rows) k' =
     (if k' = k then map_option f (lookup_row key rows k) else lookup_row key rows k')"
  by (induction rows) (auto simp: assms)

section \<open>A demonstration system\<close>

text \<open>An idle system, and an exchange that never answers: the inputs of the concrete instances.\<close>

definition idle :: sys where
  "idle = \<lparr>orders = [], order_events = [], audit_log = [], idempotency_keys = [], bots = [],
     bot_positions = [], simulation_accounts = [], simulation_orders = [], user_settings = [],
     credentials = [], info_cache = [], calls = [], ticks = 0, uuids = 0,
     portfolio_snapshots = [], simulation_snapshots = [], users = [], roles = [], permission_rows = [],
     user_roles = [], role_permissions = [], identities = [], sessions = [], oauth_states = [],
     limiters = limiter_at_start\<rparr>"

definition demo_env :: env where
  "demo_env = \<lparr>getenv = (\<lambda>n. if n = ''TRADING_ENABLED'' then Some ''true'' else None), sha256 = (\<lambda>t. t),
     uuid4 = (\<lambda>n. n + 1), clock = (\<lambda>n. int n), monotonic = (\<lambda>n. int n),
     fernet_key = (\<lambda>k. length k = 4), fernet_encrypt = (\<lambda>k n t. k @ t),
     fernet_decrypt = (\<lambda>k c. if take 4 c = k then Some (drop 4 c) else None),
     client = (\<lambda>h c. Inl (BinanceErr (BinanceRequestError ''Binance request timed out''))),
     token_urlsafe = (\<lambda>n. ''token'' @ show_nat n), google_token = (\<lambda>c. UrlError),
     verify_oauth2_token = (\<lambda>t c. None)\<rparr>"

end
