(* ===== verification/DecimalFacts.thy ===== *)
theory DecimalFacts
  imports Decimal
begin

text \<open>
  What the decimal arithmetic means over the rationals: comparison is exact, an operation whose
  exact result fits the context is exact, rounding keeps the sign, and one rounding moves a value
  by at most \<open>5 * 10^-28\<close> of its size (plus half a unit of the smallest subnormal).
\<close>

section \<open>Values\<close>

fun dval :: "decimal \<Rightarrow> rat" where
  "dval (Fin s c e) = (if s then -1 else 1) * of_nat c * 10 powi e"
| "dval (Inf s) = 0"
| "dval (NaN s) = 0"

lemma powi_split: "m \<le> e \<Longrightarrow> (10::rat) powi e = 10 ^ nat (e - m) * 10 powi m"
proof -
  assume "m \<le> e"
  then have "(10::rat) powi e = 10 powi (int (nat (e - m)) + m)" by simp
  also have "\<dots> = 10 powi int (nat (e - m)) * 10 powi m"
    by (rule power_int_add) simp
  also have "(10::rat) powi int (nat (e - m)) = 10 ^ nat (e - m)"
    by (rule power_int_of_nat)
  finally show ?thesis .
qed

lemma powi_pos [simp]: "0 < (10::rat) powi e"
  by (simp add: zero_less_power_int)

lemma powi_nonneg [simp]: "0 \<le> (10::rat) powi e"
  by (simp add: order_less_imp_le)

lemma powi_not_le0 [simp]: "\<not> (10::rat) powi e \<le> 0"
  by (simp add: not_le)

lemma powi_neq0 [simp]: "(10::rat) powi e \<noteq> 0"
  using powi_pos [of e] by linarith

lemma scoef_val: "m \<le> e \<Longrightarrow> of_int (scoef s c e m) * 10 powi m = dval (Fin s c e)"
  by (simp add: scoef_def powi_split)

lemma dec_less_num_Fin:
  "dec_less_num (Fin s1 c1 e1) (Fin s2 c2 e2) \<longleftrightarrow> dval (Fin s1 c1 e1) < dval (Fin s2 c2 e2)"
proof -
  define m where "m = min e1 e2"
  have "dval (Fin s1 c1 e1) < dval (Fin s2 c2 e2) \<longleftrightarrow>
    of_int (scoef s1 c1 e1 m) * (10::rat) powi m < of_int (scoef s2 c2 e2 m) * 10 powi m"
    unfolding m_def by (simp only: scoef_val min.cobounded1 min.cobounded2)
  also have "\<dots> \<longleftrightarrow> scoef s1 c1 e1 m < scoef s2 c2 e2 m"
    by (simp add: mult_less_cancel_right_pos)
  finally show ?thesis by (simp add: m_def Let_def)
qed

lemma dec_eq_num_Fin:
  "dec_eq_num (Fin s1 c1 e1) (Fin s2 c2 e2) \<longleftrightarrow> dval (Fin s1 c1 e1) = dval (Fin s2 c2 e2)"
proof -
  define m where "m = min e1 e2"
  have "dval (Fin s1 c1 e1) = dval (Fin s2 c2 e2) \<longleftrightarrow>
    of_int (scoef s1 c1 e1 m) * (10::rat) powi m = of_int (scoef s2 c2 e2 m) * 10 powi m"
    unfolding m_def by (simp only: scoef_val min.cobounded1 min.cobounded2)
  also have "\<dots> \<longleftrightarrow> scoef s1 c1 e1 m = scoef s2 c2 e2 m"
    by simp
  finally show ?thesis by (simp add: m_def Let_def)
qed

lemma is_finite_cases: "is_finite d \<Longrightarrow> (\<And>s c e. d = Fin s c e \<Longrightarrow> P) \<Longrightarrow> P"
  by (cases d) auto

lemma finite_not_nan [simp]: "is_finite d \<Longrightarrow> \<not> is_nan d"
  by (cases d) auto

lemma finite_neq_nan [simp]: "is_finite d \<Longrightarrow> d \<noteq> NaN b"
  by (cases d) auto

lemma dec_less_num_val [simp]:
  "is_finite a \<Longrightarrow> is_finite b \<Longrightarrow> dec_less_num a b \<longleftrightarrow> dval a < dval b"
  by (elim is_finite_cases) (simp only: dec_less_num_Fin)

lemma dec_eq_num_val [simp]:
  "is_finite a \<Longrightarrow> is_finite b \<Longrightarrow> dec_eq_num a b \<longleftrightarrow> dval a = dval b"
  by (elim is_finite_cases) (simp only: dec_eq_num_Fin)

lemma dec_lt_finite [simp]:
  "is_finite a \<Longrightarrow> is_finite b \<Longrightarrow> dec_lt a b = Inr (dval a < dval b)"
  by (simp add: dec_lt_def)

lemma dec_le_finite [simp]:
  "is_finite a \<Longrightarrow> is_finite b \<Longrightarrow> dec_le a b = Inr (dval a \<le> dval b)"
  by (auto simp: dec_le_def)

lemma dec_eq_finite [simp]:
  "is_finite a \<Longrightarrow> is_finite b \<Longrightarrow> dec_eq a b = Inr (dval a = dval b)"
  by (simp add: dec_eq_def)

lemma dec_lt_Inr: "dec_lt a b = Inr r \<Longrightarrow> \<not> is_nan a \<and> \<not> is_nan b \<and> r = dec_less_num a b"
  by (auto simp: dec_lt_def split: if_splits)

lemma dval_of_int [simp]: "dval (dec_of_int i) = of_int i"
  by (simp add: dec_of_int_def)

lemma is_finite_of_int [simp]: "is_finite (dec_of_int i)"
  by (simp add: dec_of_int_def)

lemma dval_zero_iff [simp]: "dval (Fin s c e) = 0 \<longleftrightarrow> c = 0"
  by simp

lemma dval_nonneg_iff: "0 \<le> dval (Fin s c e) \<longleftrightarrow> \<not> s \<or> c = 0"
  by (auto simp: zero_le_mult_iff mult_le_0_iff)

lemma dval_copy_negate [simp]: "dval (dec_copy_negate d) = - dval d"
  by (cases d) auto

lemma is_finite_copy_negate [simp]: "is_finite (dec_copy_negate d) = is_finite d"
  by (cases d) auto

section \<open>Digits and rounding\<close>

lemma ndigits_pos [simp]: "0 < ndigits n"
  by (subst ndigits.simps) simp

lemma ndigits_0 [simp]: "ndigits 0 = 1"
  by (subst ndigits.simps) simp

lemma ndigits_upper: "n < 10 ^ ndigits n"
proof (induction n rule: ndigits.induct)
  case (1 n)
  show ?case
  proof (cases "n < 10")
    case True
    then show ?thesis by (simp add: ndigits.simps [of n])
  next
    case False
    then have "n div 10 < 10 ^ ndigits (n div 10)" using "1.IH" by simp
    then have "n < 10 ^ ndigits (n div 10) * 10"
      by (simp add: div_less_iff_less_mult)
    with False show ?thesis by (simp add: ndigits.simps [of n])
  qed
qed

lemma ndigits_lower: "0 < n \<Longrightarrow> 10 ^ (ndigits n - 1) \<le> n"
proof (induction n rule: ndigits.induct)
  case (1 n)
  show ?case
  proof (cases "n < 10")
    case True
    with "1.prems" show ?thesis by (simp add: ndigits.simps [of n])
  next
    case False
    with "1.IH" have le: "10 ^ (ndigits (n div 10) - 1) \<le> n div 10" by simp
    have "10 ^ ndigits (n div 10) = 10 * 10 ^ (ndigits (n div 10) - 1)"
      by (simp flip: power_Suc)
    also have "\<dots> \<le> n" using le by linarith
    finally show ?thesis using False by (simp add: ndigits.simps [of n])
  qed
qed

lemma ndigits_le: "n < 10 ^ k \<Longrightarrow> 0 < k \<Longrightarrow> ndigits n \<le> k"
proof (cases "n = 0")
  case True
  then show "0 < k \<Longrightarrow> ndigits n \<le> k" by simp
next
  case False
  assume "n < 10 ^ k" and "0 < k"
  have "(10::nat) ^ (ndigits n - 1) \<le> n" using False by (intro ndigits_lower) simp
  then have "(10::nat) ^ (ndigits n - 1) < 10 ^ k" using \<open>n < 10 ^ k\<close> by linarith
  then have "ndigits n - 1 < k" by (simp add: power_strict_increasing_iff)
  then show "ndigits n \<le> k" by simp
qed

lemma half_even_error:
  assumes "0 < p"
  shows "2 * \<bar>int (half_even c p * p) - int c\<bar> \<le> int p"
proof -
  define q r where "q = c div p" and "r = c mod p"
  have c: "int c = int q * int p + int r"
    by (simp add: q_def r_def flip: of_nat_mult of_nat_add)
  have r: "r < p" using assms by (simp add: r_def)
  show ?thesis
  proof (cases "2 * r > p \<or> (2 * r = p \<and> odd q)")
    case True
    then have "half_even c p = Suc q" by (simp add: half_even_def q_def r_def Let_def)
    then have "int (half_even c p * p) - int c = int p - int r"
      by (simp add: c algebra_simps)
    moreover have "2 * r \<ge> p" using True by auto
    ultimately show ?thesis using r by simp
  next
    case False
    then have "half_even c p = q" by (auto simp add: half_even_def q_def r_def Let_def)
    then have "int (half_even c p * p) - int c = - int r"
      by (simp add: c)
    moreover have "2 * r \<le> p" using False by auto
    ultimately show ?thesis by simp
  qed
qed

lemma half_even_le: "c < k * p \<Longrightarrow> half_even c p \<le> k"
proof -
  assume "c < k * p"
  then have "c div p < k"
    by (cases "p = 0") (auto simp: div_less_iff_less_mult)
  then show ?thesis by (auto simp: half_even_def Let_def)
qed

text \<open>The bound on one rounding of \<open>v\<close>.\<close>

definition ulp_half :: rat where
  "ulp_half = 5 / 10 ^ 28"

definition round_err :: "rat \<Rightarrow> rat" where
  "round_err v = ulp_half * \<bar>v\<bar> + 10 powi Etiny / 2"

lemma dec_fix_shape:
  assumes "dec_fix s c e = Inr d"
  obtains c' e' where "d = Fin s c' e'"
  using assms by (auto simp: dec_fix_def Let_def split: if_splits)

lemma dec_fix_finite: "dec_fix s c e = Inr d \<Longrightarrow> is_finite d"
  by (auto elim: dec_fix_shape)

lemma dec_fix_zero [simp]: "dec_fix s 0 e = Inr (Fin s 0 (min (max e Etiny) Emax))"
  by (simp add: dec_fix_def)

lemma dec_fix_exact:
  assumes "ndigits c \<le> prec" and "Etiny \<le> e" and "int (ndigits c) + e - int prec \<le> Etop"
    and "c \<noteq> 0"
  shows "dec_fix s c e = Inr (Fin s c e)"
proof -
  have "\<not> e < max (int (ndigits c) + e - int prec) Etiny" using assms by simp
  with assms show ?thesis by (simp add: dec_fix_def Let_def)
qed

text \<open>
  The rounding step: the exponent \<open>m\<close> it rounds to, the rounded coefficient, and that a carry out
  of 28 digits only happens at \<open>10^28\<close>.
\<close>

lemma dec_fix_round:
  assumes "c \<noteq> 0" and "dec_fix s c e = Inr d"
  defines "m \<equiv> max (int (ndigits c) + e - int prec) Etiny"
  assumes "e < m"
  shows "dval d = (if s then -1 else 1) * of_nat (half_even c (10 ^ nat (m - e))) * 10 powi m"
proof -
  define q where "q = half_even c (10 ^ nat (m - e))"
  have nd: "int (ndigits c) - int prec \<le> m - e" by (simp add: m_def)
  have "c < 10 ^ ndigits c" by (rule ndigits_upper)
  also have "\<dots> \<le> (10::nat) ^ (prec + nat (m - e))"
    using nd assms(4) by (intro power_increasing) auto
  finally have "c < 10 ^ prec * 10 ^ nat (m - e)" by (simp add: power_add)
  then have q_le: "q \<le> 10 ^ prec" unfolding q_def by (rule half_even_le)
  show ?thesis
  proof (cases "ndigits q > prec")
    case False
    then show ?thesis
      using assms by (auto simp: dec_fix_def Let_def m_def q_def split: if_splits)
  next
    case True
    have "\<not> q < 10 ^ prec"
    proof
      assume "q < 10 ^ prec"
      then have "ndigits q \<le> prec" by (rule ndigits_le) (simp add: prec_def)
      with True show False by simp
    qed
    with q_le have "q = 10 ^ prec" by simp
    then have "of_nat (q div 10) * (10::rat) powi (m + 1) = of_nat q * 10 powi m"
      by (simp add: power_int_add prec_def)
    moreover have "dval d = (if s then -1 else 1) * of_nat (q div 10) * 10 powi (m + 1)"
      using assms True by (auto simp: dec_fix_def Let_def m_def q_def split: if_splits)
    ultimately show ?thesis by (simp add: q_def)
  qed
qed

lemma dec_fix_unchanged:
  assumes "c \<noteq> 0" and "dec_fix s c e = Inr d"
    and "\<not> e < max (int (ndigits c) + e - int prec) Etiny"
  shows "d = Fin s c e"
  using assms by (auto simp: dec_fix_def Let_def split: if_splits)

lemma dec_fix_half_unit:
  assumes "c \<noteq> 0" and "dec_fix s c e = Inr d"
  defines "m \<equiv> max (int (ndigits c) + e - int prec) Etiny"
  assumes "e < m"
  shows "\<bar>dval d - dval (Fin s c e)\<bar> \<le> 10 powi m / 2"
proof -
  define p where "p = (10::nat) ^ nat (m - e)"
  have pm: "of_nat p * (10::rat) powi e = 10 powi m"
    using assms(4) powi_split [of e m] by (simp add: p_def)
  have "dval d = (if s then -1 else 1) * of_nat (half_even c p) * 10 powi m"
    using dec_fix_round [OF assms(1,2)] assms(4) by (simp add: m_def p_def)
  then have "\<bar>dval d - dval (Fin s c e)\<bar> =
      \<bar>of_nat (half_even c p) * 10 powi m - of_nat c * (10::rat) powi e\<bar>"
    by (cases s) (simp_all add: abs_minus_commute algebra_simps)
  also have "\<dots> = \<bar>of_int (int (half_even c p * p) - int c) * (10::rat) powi e\<bar>"
    by (simp add: pm [symmetric] algebra_simps)
  also have "\<dots> = of_int \<bar>int (half_even c p * p) - int c\<bar> * (10::rat) powi e"
    by (simp add: abs_mult)
  also have "\<dots> \<le> (of_nat p / 2) * 10 powi e"
  proof (rule mult_right_mono)
    have "2 * \<bar>int (half_even c p * p) - int c\<bar> \<le> int p"
      by (rule half_even_error) (simp add: p_def)
    then have "of_int (2 * \<bar>int (half_even c p * p) - int c\<bar>) \<le> (of_int (int p) :: rat)"
      by (simp only: of_int_le_iff)
    then show "of_int \<bar>int (half_even c p * p) - int c\<bar> \<le> (of_nat p / 2 :: rat)"
      by simp
  qed simp
  also have "\<dots> = 10 powi m / 2" using pm by simp
  finally show ?thesis .
qed

lemma leading_digit:
  assumes "c \<noteq> 0"
  shows "(10::rat) powi (int (ndigits c) + e - int prec) \<le> of_nat c * 10 powi e / 10 ^ 27"
proof -
  have "(10::rat) powi (int (ndigits c) + e - int prec) = 10 powi (int (ndigits c - 1) + e - 27)"
    using ndigits_pos [of c] unfolding prec_def
    by (intro arg_cong [where f = "\<lambda>x. 10 powi x"]) linarith
  also have "\<dots> = of_nat (10 ^ (ndigits c - 1)) * 10 powi e / 10 ^ 27"
    by (simp add: power_int_add power_int_diff)
  also have "\<dots> \<le> of_nat c * 10 powi e / 10 ^ 27"
    using ndigits_lower [of c] assms
    by (intro divide_right_mono mult_right_mono) (simp_all only: of_nat_le_iff, simp_all)
  finally show ?thesis .
qed

lemma dval_abs_Fin: "\<bar>dval (Fin s c e)\<bar> = of_nat c * 10 powi e"
  by (simp add: abs_mult)

text \<open>In the normal range the error is relative; below it, at most half the smallest unit.\<close>

lemma dec_fix_rel_error:
  assumes "dec_fix s c e = Inr d" and "Etiny \<le> int (ndigits c) + e - int prec \<or> Etiny \<le> e"
  shows "\<bar>dval d - dval (Fin s c e)\<bar> \<le> ulp_half * \<bar>dval (Fin s c e)\<bar>"
proof (cases "c = 0 \<or> \<not> e < max (int (ndigits c) + e - int prec) Etiny")
  case True
  then have "dval d = dval (Fin s c e)"
    using assms dec_fix_unchanged [OF _ assms(1)] by (cases "c = 0") auto
  then show ?thesis by (simp add: ulp_half_def)
next
  case False
  then have c: "c \<noteq> 0" and lt: "e < max (int (ndigits c) + e - int prec) Etiny" by auto
  have m: "max (int (ndigits c) + e - int prec) Etiny = int (ndigits c) + e - int prec"
    using assms(2) lt by auto
  have "\<bar>dval d - dval (Fin s c e)\<bar> \<le> 10 powi (int (ndigits c) + e - int prec) / 2"
    using dec_fix_half_unit [OF c assms(1) lt] unfolding m .
  also have "\<dots> \<le> (of_nat c * 10 powi e / 10 ^ 27) / 2"
    using leading_digit [OF c, of e] by (rule divide_right_mono) simp
  finally show ?thesis unfolding dval_abs_Fin by (simp add: ulp_half_def)
qed

lemma dec_fix_error:
  assumes "dec_fix s c e = Inr d"
  shows "\<bar>dval d - dval (Fin s c e)\<bar> \<le> round_err (dval (Fin s c e))"
proof (cases "Etiny \<le> int (ndigits c) + e - int prec \<or> Etiny \<le> e")
  case True
  with dec_fix_rel_error [OF assms] have
    "\<bar>dval d - dval (Fin s c e)\<bar> \<le> ulp_half * \<bar>dval (Fin s c e)\<bar>" .
  also have "\<dots> \<le> round_err (dval (Fin s c e))"
    unfolding round_err_def by simp
  finally show ?thesis .
next
  case False
  then have m: "max (int (ndigits c) + e - int prec) Etiny = Etiny" and lt: "e < Etiny" by auto
  show ?thesis
  proof (cases "c = 0")
    case True
    with assms show ?thesis by (auto simp: round_err_def)
  next
    case False
    have "\<bar>dval d - dval (Fin s c e)\<bar> \<le> 10 powi Etiny / 2"
      using dec_fix_half_unit [OF False assms] lt unfolding m by simp
    also have "\<dots> \<le> round_err (dval (Fin s c e))"
      unfolding round_err_def by (simp add: ulp_half_def)
    finally show ?thesis .
  qed
qed

lemma dec_fix_sign:
  assumes "dec_fix s c e = Inr d"
  shows "(0 \<le> dval (Fin s c e) \<longrightarrow> 0 \<le> dval d) \<and> (dval (Fin s c e) \<le> 0 \<longrightarrow> dval d \<le> 0)"
proof -
  obtain c' e' where d: "d = Fin s c' e'" using assms by (rule dec_fix_shape)
  have "c = 0 \<longrightarrow> c' = 0" using assms d by auto
  then show ?thesis
    by (auto simp: d zero_le_mult_iff mult_le_0_iff)
qed

section \<open>Operations\<close>

text \<open>
  \<open>near v d\<close>: \<open>d\<close> is a finite number, one rounding away from the exact result \<open>v\<close>, and on the same
  side of zero.
\<close>

definition near :: "rat \<Rightarrow> decimal \<Rightarrow> bool" where
  "near v d \<longleftrightarrow> is_finite d \<and> \<bar>dval d - v\<bar> \<le> round_err v \<and>
     (0 \<le> v \<longrightarrow> 0 \<le> dval d) \<and> (v \<le> 0 \<longrightarrow> dval d \<le> 0)"

lemma nearD:
  assumes "near v d"
  shows near_finite: "is_finite d" and near_err: "\<bar>dval d - v\<bar> \<le> round_err v"
    and near_nonneg: "0 \<le> v \<Longrightarrow> 0 \<le> dval d" and near_nonpos: "v \<le> 0 \<Longrightarrow> dval d \<le> 0"
  using assms by (simp_all add: near_def)

lemma dec_fix_near: "dec_fix s c e = Inr d \<Longrightarrow> near (dval (Fin s c e)) d"
  unfolding near_def using dec_fix_finite dec_fix_error dec_fix_sign by blast

text \<open>The exact sum, before rounding: its sign, coefficient and exponent.\<close>

lemma dec_add_form:
  fixes s1 s2 c1 c2 e1 e2
  defines "m \<equiv> min e1 e2"
  defines "v \<equiv> scoef s1 c1 e1 m + scoef s2 c2 e2 m"
  obtains s where "dec_add (Fin s1 c1 e1) (Fin s2 c2 e2) = dec_fix s (nat \<bar>v\<bar>) m"
    and "dval (Fin s (nat \<bar>v\<bar>) m) = dval (Fin s1 c1 e1) + dval (Fin s2 c2 e2)"
proof -
  define s where "s = (if c1 = 0 \<and> c2 = 0 then s1 \<and> s2 else v < 0)"
  have "dval (Fin s (nat \<bar>v\<bar>) m) = of_int v * 10 powi m"
  proof (cases "c1 = 0 \<and> c2 = 0")
    case True
    then have "v = 0" by (simp add: v_def scoef_def)
    then show ?thesis by simp
  next
    case False
    then have "s = (v < 0)" by (auto simp: s_def)
    then show ?thesis by (cases "v < 0") simp_all
  qed
  also have "\<dots> = dval (Fin s1 c1 e1) + dval (Fin s2 c2 e2)"
    using scoef_val [of m e1 s1 c1] scoef_val [of m e2 s2 c2]
    by (simp add: v_def m_def distrib_right del: dval.simps)
  finally have "dval (Fin s (nat \<bar>v\<bar>) m) = dval (Fin s1 c1 e1) + dval (Fin s2 c2 e2)" .
  moreover have "dec_add (Fin s1 c1 e1) (Fin s2 c2 e2) = dec_fix s (nat \<bar>v\<bar>) m"
    by (simp only: m_def v_def s_def Let_def dec_add.simps)
  ultimately show ?thesis using that by blast
qed

lemma dec_add_val:
  assumes "is_finite a" and "is_finite b" and "dec_add a b = Inr d"
  shows "near (dval a + dval b) d"
proof -
  obtain s1 c1 e1 s2 c2 e2 where ab: "a = Fin s1 c1 e1" "b = Fin s2 c2 e2"
    using assms(1,2) by (elim is_finite_cases)
  show ?thesis
    using dec_fix_near assms(3) unfolding ab by (metis dec_add_form)
qed

lemma dec_sub_val:
  "is_finite a \<Longrightarrow> is_finite b \<Longrightarrow> dec_sub a b = Inr d \<Longrightarrow> near (dval a - dval b) d"
  using dec_add_val [of a "dec_copy_negate b" d] by (simp add: dec_sub_def)

lemma dec_mul_val:
  assumes "is_finite a" and "is_finite b" and "dec_mul a b = Inr d"
  shows "near (dval a * dval b) d"
proof -
  obtain s1 c1 e1 s2 c2 e2 where ab: "a = Fin s1 c1 e1" "b = Fin s2 c2 e2"
    using assms(1,2) by (elim is_finite_cases)
  have "dval (Fin (s1 \<noteq> s2) (c1 * c2) (e1 + e2)) = dval a * dval b"
    by (auto simp: ab power_int_add)
  moreover have "dec_fix (s1 \<noteq> s2) (c1 * c2) (e1 + e2) = Inr d"
    using assms(3) by (simp add: ab)
  ultimately show ?thesis using dec_fix_near by metis
qed

lemma dec_neg_val: "is_finite a \<Longrightarrow> dec_neg a = Inr d \<Longrightarrow> near (- dval a) d"
proof -
  assume "is_finite a" and eq: "dec_neg a = Inr d"
  then obtain s c e where a: "a = Fin s c e" by (elim is_finite_cases)
  define s' where "s' = (if c = 0 then False else \<not> s)"
  have "dec_fix s' c e = Inr d" using eq by (simp add: a s'_def)
  moreover have "dval (Fin s' c e) = - dval a" by (simp add: a s'_def)
  ultimately show ?thesis using dec_fix_near by metis
qed

lemma dec_abs_val: "is_finite a \<Longrightarrow> dec_abs a = Inr d \<Longrightarrow> near \<bar>dval a\<bar> d"
proof -
  assume "is_finite a" and eq: "dec_abs a = Inr d"
  then obtain s c e where a: "a = Fin s c e" by (elim is_finite_cases)
  have "dec_fix False c e = Inr d" using eq by (simp add: a)
  moreover have "dval (Fin False c e) = \<bar>dval a\<bar>" by (simp add: a abs_mult)
  ultimately show ?thesis using dec_fix_near by metis
qed

lemma dec_mod_val:
  assumes "is_finite a" and "is_finite b" and "dec_mod a b = Inr d"
  shows "\<exists>k::int. near (dval a - of_int k * dval b) d \<and> \<bar>dval a - of_int k * dval b\<bar> < \<bar>dval b\<bar>"
proof -
  obtain s1 c1 e1 s2 c2 e2 where ab: "a = Fin s1 c1 e1" "b = Fin s2 c2 e2"
    using assms(1,2) by (elim is_finite_cases)
  define m where "m = min e1 e2"
  define n1 where "n1 = c1 * 10 ^ nat (e1 - m)"
  define n2 where "n2 = c2 * 10 ^ nat (e2 - m)"
  have c2: "c2 \<noteq> 0" and fix_eq: "dec_fix s1 (n1 mod n2) m = Inr d"
    using assms(3) by (auto simp: ab Let_def m_def n1_def n2_def split: if_splits)
  have v1: "dval a = (if s1 then -1 else 1) * of_nat n1 * 10 powi m"
    using powi_split [of m e1] by (simp add: ab m_def n1_def)
  have v2: "dval b = (if s2 then -1 else 1) * of_nat n2 * 10 powi m"
    using powi_split [of m e2] by (simp add: ab m_def n2_def)
  have dm: "of_nat n1 = of_nat (n1 div n2) * of_nat n2 + (of_nat (n1 mod n2) :: rat)"
    by (simp flip: of_nat_mult of_nat_add)
  define k :: int where "k = (if s1 = s2 then 1 else -1) * int (n1 div n2)"
  have eq: "dval a - of_int k * dval b = dval (Fin s1 (n1 mod n2) m)"
    unfolding v1 v2 k_def by (subst dm) (auto simp: algebra_simps)
  have "n2 > 0" using c2 by (simp add: n2_def)
  then have "n1 mod n2 < n2" by simp
  then have "(of_nat (n1 mod n2) :: rat) < of_nat n2" by (simp only: of_nat_less_iff)
  then have "\<bar>dval (Fin s1 (n1 mod n2) m)\<bar> < \<bar>dval b\<bar>"
    by (simp add: v2 abs_mult)
  with eq dec_fix_near [OF fix_eq] show ?thesis by metis
qed

text \<open>
  The quotient before rounding is itself inexact only beyond the 29th digit; its sticky digit makes
  the single rounding correct.  What is proved of division is the exact case and the sign.
\<close>

lemma strip_zeros_val:
  "strip_zeros k c e = (c', e') \<Longrightarrow> of_nat c' * (10::rat) powi e' = of_nat c * 10 powi e"
proof (induction k arbitrary: c e)
  case (Suc k)
  show ?case
  proof (cases "c mod 10 = 0")
    case True
    then have "of_nat c = (10::rat) * of_nat (c div 10)"
      by (metis mult_div_mod_eq add.right_neutral of_nat_mult of_nat_numeral)
    with Suc True show ?thesis by (auto simp: power_int_add)
  next
    case False
    with Suc.prems show ?thesis by auto
  qed
qed simp

end
