(* ===== verification/DecimalBounds.thy ===== *)
theory DecimalBounds
  imports DecimalFacts
begin

text \<open>
  Two classes of values on which the decimal arithmetic cannot trap.  An \<open>amount\<close> has at most ten
  decimal places and is below \<open>10^17\<close>, the range of the exchange's quantities and prices: sums,
  differences and remainders of amounts are exact.  A \<open>sane\<close> number has at most 28 digits and an
  exponent between -1000 and 1000: sums, products and quotients of sane numbers exist and are off
  by a relative error of at most \<open>10^-27\<close>.
\<close>

section \<open>Exact results\<close>

lemma dec_fix_small:
  assumes "c < 10 ^ 28" and "Etiny \<le> e" and "e \<le> Etop"
  shows "dec_fix s c e = Inr (Fin s c e)"
proof (cases "c = 0")
  case True
  with assms show ?thesis by (simp add: dec_fix_def dec_context)
next
  case False
  have "ndigits c \<le> 28" using assms(1) by (rule ndigits_le) simp
  with False assms show ?thesis
    by (intro dec_fix_exact) (simp_all add: prec_def)
qed

fun amount :: "decimal \<Rightarrow> bool" where
  "amount (Fin s c e) = (-10 \<le> e \<and> e \<le> 10 \<and> c * 10 ^ nat (e + 10) < 10 ^ 27)"
| "amount d = False"

lemma amount_finite [simp]: "amount d \<Longrightarrow> is_finite d"
  by (cases d) auto

lemma amount_copy_negate [simp]: "amount (dec_copy_negate d) = amount d"
  by (cases d) auto

lemma amount_aligned:
  assumes "amount (Fin s c e)" and "-10 \<le> m" and "m \<le> e"
  shows "c * 10 ^ nat (e - m) < 10 ^ 27"
proof -
  have "(10::nat) ^ nat (e - m) \<le> 10 ^ nat (e + 10)"
    using assms(2) by (intro power_increasing) auto
  then have "c * 10 ^ nat (e - m) \<le> c * 10 ^ nat (e + 10)"
    by (rule mult_le_mono2)
  also have "\<dots> < 10 ^ 27" using assms(1) by simp
  finally show ?thesis .
qed

lemma scoef_amount:
  assumes "amount (Fin s c e)" and "-10 \<le> m" and "m \<le> e"
  shows "\<bar>scoef s c e m\<bar> < 10 ^ 27"
proof -
  have "int (c * 10 ^ nat (e - m)) < int (10 ^ 27)"
    using amount_aligned [OF assms] by (simp only: of_nat_less_iff)
  then show ?thesis by (simp add: scoef_def)
qed

text \<open>A sum or difference of amounts is exact, again with at most ten decimal places.\<close>

definition exact_at :: "rat \<Rightarrow> decimal \<Rightarrow> bool" where
  "exact_at v d \<longleftrightarrow> dval d = v \<and> (\<exists>s c e. d = Fin s c e \<and> -10 \<le> e \<and> e \<le> 10 \<and>
     c * 10 ^ nat (e + 10) < 10 ^ 28)"

lemma exact_at_finite [simp]: "exact_at v d \<Longrightarrow> is_finite d"
  by (auto simp: exact_at_def)

lemma amount_exact_at: "amount d \<Longrightarrow> exact_at (dval d) d"
  by (cases d) (auto simp: exact_at_def)

lemma dec_add_amount:
  assumes "amount a" and "amount b"
  obtains d where "dec_add a b = Inr d" and "exact_at (dval a + dval b) d"
proof -
  obtain s1 c1 e1 s2 c2 e2 where ab: "a = Fin s1 c1 e1" "b = Fin s2 c2 e2"
    using assms by (metis amount_finite is_finite_cases)
  define m where "m = min e1 e2"
  have m: "-10 \<le> m" "m \<le> e1" "m \<le> e2" "m \<le> 10" using assms by (auto simp: ab m_def)
  define v where "v = scoef s1 c1 e1 m + scoef s2 c2 e2 m"
  obtain s where eq: "dec_add a b = dec_fix s (nat \<bar>v\<bar>) m"
      and val: "dval (Fin s (nat \<bar>v\<bar>) m) = dval a + dval b"
    unfolding ab v_def m_def by (rule dec_add_form)
  have shift: "\<bar>scoef t c e m\<bar> * 10 ^ nat (m + 10) = \<bar>scoef t c e (-10)\<bar>" if "m \<le> e" for t c e
    using that m by (simp add: scoef_def mult.assoc flip: power_add nat_add_distrib)
  have "\<bar>v\<bar> * 10 ^ nat (m + 10) \<le> \<bar>scoef s1 c1 e1 m\<bar> * 10 ^ nat (m + 10) + \<bar>scoef s2 c2 e2 m\<bar> * 10 ^ nat (m + 10)"
    unfolding v_def by (simp flip: distrib_right)
  also have "\<dots> < 10 ^ 27 + 10 ^ 27"
    using scoef_amount [of s1 c1 e1 "-10"] scoef_amount [of s2 c2 e2 "-10"] assms m
    unfolding shift [OF m(2)] shift [OF m(3)] ab by (intro add_strict_mono) auto
  finally have vb: "\<bar>v\<bar> * 10 ^ nat (m + 10) < 2 * 10 ^ 27" by simp
  then have "int (nat \<bar>v\<bar> * 10 ^ nat (m + 10)) < int (2 * 10 ^ 27)" by simp
  then have nb: "nat \<bar>v\<bar> * 10 ^ nat (m + 10) < 2 * 10 ^ 27" by (simp only: of_nat_less_iff)
  have "nat \<bar>v\<bar> \<le> nat \<bar>v\<bar> * 10 ^ nat (m + 10)" by simp
  also note nb
  also have "2 * 10 ^ 27 < (10::nat) ^ 28" by simp
  finally have "nat \<bar>v\<bar> < 10 ^ 28" .
  then have "dec_add a b = Inr (Fin s (nat \<bar>v\<bar>) m)"
    unfolding eq using m by (intro dec_fix_small) (simp_all add: dec_context)
  with val nb m show ?thesis by (intro that) (auto simp: exact_at_def)
qed

lemma dec_sub_amount:
  assumes "amount a" and "amount b"
  obtains d where "dec_sub a b = Inr d" and "exact_at (dval a - dval b) d"
  using dec_add_amount [of a "dec_copy_negate b"] assms by (auto simp: dec_sub_def)

text \<open>The remainder is exact, and zero exactly when the dividend is a multiple of the divisor.\<close>

lemma dec_mod_amount:
  assumes "exact_at v a" and "amount b" and "dval b \<noteq> 0"
  obtains d where "dec_mod a b = Inr d" and "is_finite d"
    and "dval d = 0 \<longleftrightarrow> (\<exists>k::int. v = of_int k * dval b)"
proof -
  obtain s1 c1 e1 where a: "a = Fin s1 c1 e1" and e1: "-10 \<le> e1" "e1 \<le> 10"
      and c1: "c1 * 10 ^ nat (e1 + 10) < 10 ^ 28"
    using assms(1) by (auto simp: exact_at_def)
  obtain s2 c2 e2 where b: "b = Fin s2 c2 e2"
    using assms by (metis amount_finite is_finite_cases)
  have c2: "c2 \<noteq> 0" using assms(3) by (auto simp: b)
  define m where "m = min e1 e2"
  have m: "-10 \<le> m" "m \<le> e1" "m \<le> e2" "m \<le> 10" using assms e1 by (auto simp: b m_def)
  define n1 where "n1 = c1 * 10 ^ nat (e1 - m)"
  define n2 where "n2 = c2 * 10 ^ nat (e2 - m)"
  have n2: "n2 > 0" using c2 by (simp add: n2_def)
  have "(10::nat) ^ nat (e1 - m) \<le> 10 ^ nat (e1 + 10)" using m by (intro power_increasing) auto
  then have "n1 \<le> c1 * 10 ^ nat (e1 + 10)" unfolding n1_def by (rule mult_le_mono2)
  with c1 have n1: "n1 < 10 ^ 28" by linarith
  have q: "\<not> n1 div n2 \<ge> 10 ^ 28" using n1 div_le_dividend [of n1 n2] by linarith
  have r: "n1 mod n2 < 10 ^ 28" using n1 mod_less_eq_dividend [of n1 n2] by linarith
  have eq: "dec_mod a b = Inr (Fin s1 (n1 mod n2) m)"
    using c2 q dec_fix_small [OF r, of m s1] m
    by (simp add: a b Let_def flip: m_def n1_def n2_def) (simp add: dec_context)
  have v1: "dval a = (if s1 then -1 else 1) * of_nat n1 * 10 powi m"
    using powi_split [of m e1] m by (simp add: a n1_def)
  have v2: "dval b = (if s2 then -1 else 1) * of_nat n2 * 10 powi m"
    using powi_split [of m e2] m by (simp add: b n2_def)
  have va: "v = dval a" using assms(1) by (simp add: exact_at_def)
  have "(\<exists>k::int. v = of_int k * dval b) \<longleftrightarrow> n2 dvd n1"
  proof
    assume "\<exists>k::int. v = of_int k * dval b"
    then obtain k :: int where "dval a = of_int k * dval b" using va by auto
    then have "\<bar>dval a\<bar> = \<bar>of_int k\<bar> * \<bar>dval b\<bar>" by (simp add: abs_mult)
    then have "of_nat n1 * (10::rat) powi m = of_int \<bar>k\<bar> * (of_nat n2 * 10 powi m)"
      unfolding v1 v2 by (cases s1; cases s2) (simp_all add: abs_mult)
    then have "(of_int (int n1) :: rat) = of_int (\<bar>k\<bar> * int n2)" by (simp add: mult.assoc [symmetric])
    then have "int n1 = \<bar>k\<bar> * int n2" by (simp only: of_int_eq_iff)
    then have "int n2 dvd int n1" by simp
    then show "n2 dvd n1" by (simp only: int_dvd_int_iff)
  next
    assume "n2 dvd n1"
    then obtain j where "n1 = n2 * j" by (elim dvdE)
    then have "v = of_int ((if s1 = s2 then 1 else -1) * int j) * dval b"
      unfolding va v1 v2 by auto
    then show "\<exists>k::int. v = of_int k * dval b" by blast
  qed
  moreover have "dval (Fin s1 (n1 mod n2) m) = 0 \<longleftrightarrow> n2 dvd n1"
    unfolding dval_zero_iff dvd_eq_mod_eq_0 ..
  ultimately show ?thesis using eq that is_finite.simps(1) by blast
qed

text \<open>The digits of a number; a product whose digits fit in 28 is exact.\<close>

fun coef :: "decimal \<Rightarrow> nat" where
  "coef (Fin s c e) = c"
| "coef d = 0"

lemma dec_mul_amount:
  assumes "amount a" and "amount b" and "coef a * coef b < 10 ^ 28"
  obtains d where "dec_mul a b = Inr d" and "is_finite d" and "dval d = dval a * dval b"
proof -
  obtain s1 c1 e1 s2 c2 e2 where ab: "a = Fin s1 c1 e1" "b = Fin s2 c2 e2"
    using assms by (metis amount_finite is_finite_cases)
  have "dec_mul a b = Inr (Fin (s1 \<noteq> s2) (c1 * c2) (e1 + e2))"
    using assms dec_fix_small [of "c1 * c2" "e1 + e2" "s1 \<noteq> s2"] by (simp add: ab dec_context)
  moreover have "dval (Fin (s1 \<noteq> s2) (c1 * c2) (e1 + e2)) = dval a * dval b"
    by (auto simp: ab power_int_add)
  ultimately show ?thesis using that is_finite.simps(1) by metis
qed

section \<open>Bounded relative error\<close>

definition sane :: "int \<Rightarrow> decimal \<Rightarrow> bool" where
  "sane B d \<longleftrightarrow> (case d of Fin s c e \<Rightarrow> c < 10 ^ 28 \<and> \<bar>e\<bar> \<le> B | _ \<Rightarrow> False)"

lemma sane_Fin [simp]: "sane B (Fin s c e) \<longleftrightarrow> c < 10 ^ 28 \<and> \<bar>e\<bar> \<le> B"
  by (simp add: sane_def)

lemma sane_cases: "sane B d \<Longrightarrow> (\<And>s c e. d = Fin s c e \<Longrightarrow> c < 10 ^ 28 \<Longrightarrow> \<bar>e\<bar> \<le> B \<Longrightarrow> P) \<Longrightarrow> P"
  by (cases d) (auto simp: sane_def)

lemma sane_finite [simp]: "sane B d \<Longrightarrow> is_finite d"
  by (auto elim: sane_cases)

lemma sane_mono: "sane B d \<Longrightarrow> B \<le> B' \<Longrightarrow> sane B' d"
  by (cases d) (auto simp: sane_def)

lemma amount_sane: "amount d \<Longrightarrow> sane 10 d"
proof (cases d)
  case (Fin s c e)
  assume "amount d"
  then have lt: "c * 10 ^ nat (e + 10) < 10 ^ 27" and e: "\<bar>e\<bar> \<le> 10" by (auto simp: Fin)
  have "c < 10 ^ 27" by (rule le_less_trans [OF _ lt]) simp
  with e show ?thesis by (simp add: Fin)
qed auto

text \<open>\<open>approx k v d\<close>: \<open>d\<close> is \<open>v\<close> up to \<open>k\<close> times the relative error \<open>10^-27\<close>.\<close>

definition approx :: "rat \<Rightarrow> rat \<Rightarrow> decimal \<Rightarrow> bool" where
  "approx \<epsilon> v d \<longleftrightarrow> \<bar>dval d - v\<bar> \<le> \<epsilon> * \<bar>v\<bar>"

lemma half_even_small: "c < 10 ^ 28 * p \<Longrightarrow> half_even c p \<le> 10 ^ 28"
  by (rule half_even_le)

lemma dec_fix_sane:
  assumes "ndigits c \<le> 200" and "\<bar>e\<bar> \<le> B" and "B \<le> 100000"
  obtains d where "dec_fix s c e = Inr d" and "sane (B + 200) d"
    and "approx ulp_half (dval (Fin s c e)) d"
proof -
  have ok: "\<exists>d. dec_fix s c e = Inr d \<and> sane (B + 200) d"
  proof (cases "c = 0")
    case True
    with assms show ?thesis by (simp add: dec_context)
  next
    case c: False
    define x where "x = int (ndigits c) + e - int prec"
    have x: "\<not> x > Etop" "max x Etiny = x \<or> max x Etiny = Etiny" "x \<le> e + 172"
      using assms by (auto simp: x_def dec_context)
    have x1: "\<not> x + 1 > Etop" using x(3) assms by (simp add: dec_context)
    have m: "max x Etiny = x"
      using assms ndigits_pos [of c] by (simp add: x_def dec_context del: ndigits_pos)
    show ?thesis
    proof (cases "e < x")
      case False
      then have "ndigits c \<le> 28" by (simp add: x_def prec_def)
      then have "(10::nat) ^ ndigits c \<le> 10 ^ 28" by (intro power_increasing) simp_all
      with ndigits_upper [of c] have "c < 10 ^ 28" by linarith
      with False x c m assms show ?thesis
        by (auto simp: dec_fix_def Let_def simp flip: x_def)
    next
      case True
      define q where "q = half_even c (10 ^ nat (x - e))"
      have "c < 10 ^ ndigits c" by (rule ndigits_upper)
      also have "ndigits c = 28 + nat (x - e)" using True by (simp add: x_def prec_def)
      finally have "q \<le> 10 ^ 28" unfolding q_def by (intro half_even_small) (simp add: power_add)
      then have q: "q < 10 ^ 28 \<or> ndigits q > prec \<and> q div 10 < 10 ^ 28"
        by (cases "q = 10 ^ 28") (simp_all add: ndigits.simps prec_def)
      have q': "ndigits q > prec \<longrightarrow> q div 10 < 10 ^ 28" using \<open>q \<le> 10 ^ 28\<close> by auto
      have "dec_fix s c e = Inr (if ndigits q > prec then Fin s (q div 10) (x + 1) else Fin s q x)"
        unfolding dec_fix_def Let_def x_def [symmetric] m q_def [symmetric]
        using c True x x1 by simp
      with q q' x(3) True assms show ?thesis by (auto split: if_splits)
    qed
  qed
  then obtain d where d: "dec_fix s c e = Inr d" "sane (B + 200) d" by blast
  have "Etiny \<le> e" using assms by (simp add: dec_context)
  with dec_fix_rel_error [OF d(1)] have "approx ulp_half (dval (Fin s c e)) d"
    by (simp add: approx_def)
  with d show ?thesis by (rule that)
qed

lemma ndigits_28: "c < 10 ^ 28 \<Longrightarrow> ndigits c \<le> 28"
  by (rule ndigits_le) simp_all

lemma ndigits_mult: "c < 10 ^ a \<Longrightarrow> d < 10 ^ b \<Longrightarrow> 0 < a \<Longrightarrow> ndigits (c * d) \<le> a + b"
  by (intro ndigits_le) (auto simp: power_add intro!: mult_strict_mono)

lemma dec_mul_sane:
  assumes "sane B a" and "sane B' b" and "B + B' \<le> 100000"
  obtains d where "dec_mul a b = Inr d" and "sane (B + B' + 200) d"
    and "approx ulp_half (dval a * dval b) d"
proof -
  obtain s1 c1 e1 where a: "a = Fin s1 c1 e1" "c1 < 10 ^ 28" "\<bar>e1\<bar> \<le> B"
    using assms(1) by (elim sane_cases)
  obtain s2 c2 e2 where b: "b = Fin s2 c2 e2" "c2 < 10 ^ 28" "\<bar>e2\<bar> \<le> B'"
    using assms(2) by (elim sane_cases)
  have nd: "ndigits (c1 * c2) \<le> 28 + 28" using a b by (intro ndigits_mult) simp_all
  obtain d where d: "dec_fix (s1 \<noteq> s2) (c1 * c2) (e1 + e2) = Inr d" "sane (B + B' + 200) d"
      "approx ulp_half (dval (Fin (s1 \<noteq> s2) (c1 * c2) (e1 + e2))) d"
    by (rule dec_fix_sane [of "c1 * c2" "e1 + e2" "B + B'" "s1 \<noteq> s2"])
      (use nd a b assms(3) in \<open>auto simp del: dval.simps\<close>)
  have "dval (Fin (s1 \<noteq> s2) (c1 * c2) (e1 + e2)) = dval a * dval b"
    by (auto simp: a b power_int_add)
  moreover have "dec_mul a b = dec_fix (s1 \<noteq> s2) (c1 * c2) (e1 + e2)"
    by (simp add: a b)
  ultimately show ?thesis using that d by metis
qed

lemma dec_add_sane:
  assumes "sane 80 a" and "sane 80 b"
  obtains d where "dec_add a b = Inr d" and "sane 300 d" and "approx ulp_half (dval a + dval b) d"
proof -
  obtain s1 c1 e1 where a: "a = Fin s1 c1 e1" "c1 < 10 ^ 28" "\<bar>e1\<bar> \<le> 80"
    using assms(1) by (elim sane_cases)
  obtain s2 c2 e2 where b: "b = Fin s2 c2 e2" "c2 < 10 ^ 28" "\<bar>e2\<bar> \<le> 80"
    using assms(2) by (elim sane_cases)
  define m where "m = min e1 e2"
  define v where "v = scoef s1 c1 e1 m + scoef s2 c2 e2 m"
  obtain s where eq: "dec_add a b = dec_fix s (nat \<bar>v\<bar>) m"
      and val: "dval (Fin s (nat \<bar>v\<bar>) m) = dval a + dval b"
    unfolding a b v_def m_def by (rule dec_add_form)
  have big: "\<bar>scoef t c e m\<bar> < 10 ^ 188" if "c < 10 ^ 28" "\<bar>e\<bar> \<le> 80" for t c e
  proof -
    have "nat (e - m) \<le> 160" using that a b by (auto simp: m_def)
    then have "c * 10 ^ nat (e - m) < 10 ^ 28 * 10 ^ 160"
      using that by (intro mult_less_le_imp_less power_increasing) auto
    then have "int (c * 10 ^ nat (e - m)) < int (10 ^ 28 * 10 ^ 160)" by (simp only: of_nat_less_iff)
    then show ?thesis by (simp add: scoef_def)
  qed
  have "\<bar>v\<bar> < 10 ^ 188 + 10 ^ 188"
    unfolding v_def using big [OF a(2,3), of s1] big [OF b(2,3), of s2]
    by (intro le_less_trans [OF abs_triangle_ineq] add_strict_mono)
  then have "int (nat \<bar>v\<bar>) < int (10 ^ 189)" by simp
  then have "nat \<bar>v\<bar> < 10 ^ 189" by (simp only: of_nat_less_iff)
  then have nd: "ndigits (nat \<bar>v\<bar>) \<le> 189" by (rule ndigits_le) simp
  obtain d where "dec_fix s (nat \<bar>v\<bar>) m = Inr d" "sane (80 + 200) d"
      "approx ulp_half (dval (Fin s (nat \<bar>v\<bar>) m)) d"
    by (rule dec_fix_sane [of "nat \<bar>v\<bar>" m 80 s])
      (use nd a b in \<open>auto simp: m_def simp del: dval.simps\<close>)
  then show ?thesis using that sane_mono eq val by fastforce
qed

text \<open>
  Division: the quotient before rounding has at least 29 digits, and its last digit is off by at
  most one, so the sticky digit and the rounding together stay within \<open>10^-27\<close>.
\<close>

lemma strip_zeros_bounds:
  "strip_zeros k c e = (c', e') \<Longrightarrow> c' \<le> c \<and> e \<le> e' \<and> e' \<le> e + int k"
proof (induction k arbitrary: c e)
  case (Suc k)
  show ?case
  proof (cases "c mod 10 = 0")
    case True
    with Suc have "c' \<le> c div 10 \<and> e + 1 \<le> e' \<and> e' \<le> e + 1 + int k" by simp
    moreover have "c div 10 \<le> c" by simp
    ultimately show ?thesis by linarith
  next
    case False
    with Suc.prems show ?thesis by auto
  qed
qed simp

lemma dec_quotient_bounds:
  assumes "c1 \<noteq> 0" and "c2 \<noteq> 0" and "c1 < 10 ^ 28" and "c2 < 10 ^ 28"
    and "dec_quotient c1 e1 c2 e2 = (q', e')"
  defines "v \<equiv> (of_nat c1 :: rat) * 10 powi e1 / (of_nat c2 * 10 powi e2)"
  shows "\<bar>of_nat q' * 10 powi e' - v\<bar> \<le> v / 10 ^ 28 \<and> ndigits q' \<le> 31 \<and> \<bar>e'\<bar> \<le> \<bar>e1\<bar> + \<bar>e2\<bar> + 100"
proof -
  define shift where "shift = int (ndigits c2) - int (ndigits c1) + int prec + 1"
  define e where "e = e1 - e2 - shift"
  define n where "n = (if shift \<ge> 0 then c1 * 10 ^ nat shift else c1)"
  define d where "d = (if shift \<ge> 0 then c2 else c2 * 10 ^ nat (- shift))"
  define q where "q = n div d"
  have d0: "d > 0" using assms(2) by (simp add: d_def)
  have sh: "\<bar>shift\<bar> \<le> 60"
    using ndigits_28 [OF assms(3)] ndigits_28 [OF assms(4)] ndigits_pos [of c1] ndigits_pos [of c2]
    by (simp add: shift_def prec_def del: ndigits_pos)
  have ratio: "(of_nat n / of_nat d :: rat) = of_nat c1 / of_nat c2 * 10 powi shift"
    by (auto simp: n_def d_def power_int_def divide_simps)
  have v: "v = of_nat n / of_nat d * 10 powi e"
    unfolding v_def ratio e_def by (simp add: power_int_diff divide_simps)
  have c2_lt: "(of_nat c2 :: rat) < 10 ^ ndigits c2"
    using ndigits_upper [of c2] by (metis of_nat_less_iff of_nat_numeral of_nat_power)
  have c2_ge: "(10::rat) ^ (ndigits c2 - 1) \<le> of_nat c2"
    using ndigits_lower [of c2] assms(2) by (metis gr0I of_nat_le_iff of_nat_numeral of_nat_power)
  have c1_lt: "(of_nat c1 :: rat) < 10 ^ ndigits c1"
    using ndigits_upper [of c1] by (metis of_nat_less_iff of_nat_numeral of_nat_power)
  have c1_ge: "(10::rat) ^ (ndigits c1 - 1) \<le> of_nat c1"
    using ndigits_lower [of c1] assms(1) by (metis gr0I of_nat_le_iff of_nat_numeral of_nat_power)
  have pw: "(10::rat) ^ k = 10 powi int k" for k by simp
  have lo: "10 ^ 28 \<le> (of_nat n / of_nat d :: rat)"
  proof -
    have "(10::rat) ^ 28 = 10 ^ (ndigits c1 - 1) / 10 ^ ndigits c2 * 10 powi shift"
      using ndigits_pos [of c1] unfolding pw shift_def prec_def
      by (simp add: of_nat_diff power_int_diff power_int_add divide_simps del: ndigits_pos)
    also have "\<dots> \<le> of_nat c1 / of_nat c2 * 10 powi shift"
      using c1_ge c2_lt assms(2) by (intro mult_right_mono frac_le) auto
    finally show ?thesis unfolding ratio .
  qed
  have hi: "(of_nat n / of_nat d :: rat) \<le> 10 ^ 30"
  proof -
    have "of_nat c1 / of_nat c2 * 10 powi shift \<le> 10 ^ ndigits c1 / 10 ^ (ndigits c2 - 1) * (10::rat) powi shift"
      using c1_lt c2_ge by (intro mult_right_mono frac_le) auto
    also have "\<dots> = 10 ^ 30"
      using ndigits_pos [of c2] unfolding pw shift_def prec_def
      by (simp add: of_nat_diff power_int_diff power_int_add divide_simps del: ndigits_pos)
    finally show ?thesis unfolding ratio .
  qed
  have nd: "(of_nat n :: rat) = of_nat q * of_nat d + of_nat (n mod d)"
    unfolding q_def by (simp flip: of_nat_mult of_nat_add)
  have frac: "(of_nat n / of_nat d :: rat) = of_nat q + of_nat (n mod d) / of_nat d"
    unfolding nd using d0 by (simp add: add_divide_distrib)
  have fr: "0 \<le> (of_nat (n mod d) / of_nat d :: rat)" "of_nat (n mod d) / of_nat d \<le> (1::rat)"
    using d0 by (simp_all add: divide_le_eq order_less_imp_le)
  have qr: "dec_quotient c1 e1 c2 e2 =
      (if n mod d \<noteq> 0 then ((if q mod 5 = 0 then q + 1 else q), e) else strip_zeros (nat shift) q e)"
    using assms(1) by (simp add: dec_quotient_def Let_def shift_def e_def n_def d_def q_def)
  have q_le: "q \<le> 10 ^ 30"
  proof -
    have "(of_nat q :: rat) \<le> of_nat n / of_nat d" unfolding frac using fr by linarith
    also note hi
    finally have "(of_nat q :: rat) \<le> of_nat (10 ^ 30)" by simp
    then show ?thesis by (simp only: of_nat_le_iff)
  qed
  show ?thesis
  proof (cases "n mod d = 0")
    case False
    then have q': "q' = (if q mod 5 = 0 then q + 1 else q)" and e': "e' = e" using assms(5) qr by auto
    have "\<bar>of_nat q' - (of_nat n / of_nat d :: rat)\<bar> \<le> 1"
      using fr unfolding frac q' by auto
    also have "\<dots> \<le> (of_nat n / of_nat d) / 10 ^ 28" using divide_right_mono [OF lo, of "10 ^ 28"] by simp
    finally have "\<bar>of_nat q' - (of_nat n / of_nat d :: rat)\<bar> * 10 powi e \<le> (of_nat n / of_nat d) / 10 ^ 28 * 10 powi e"
      by (rule mult_right_mono) simp
    moreover have "of_nat q' * 10 powi e' - v = (of_nat q' - of_nat n / of_nat d) * 10 powi e"
      unfolding v e' by (simp add: left_diff_distrib)
    ultimately have "\<bar>of_nat q' * 10 powi e' - v\<bar> \<le> v / 10 ^ 28"
      unfolding v by (simp add: abs_mult)
    moreover have "q' < 10 ^ 31" using q_le unfolding q' by auto
    then have "ndigits q' \<le> 31" by (rule ndigits_le) simp
    ultimately show ?thesis using sh unfolding e' e_def by auto
  next
    case True
    then have st: "strip_zeros (nat shift) q e = (q', e')" using assms(5) qr by simp
    have "of_nat q' * (10::rat) powi e' = of_nat q * 10 powi e" using strip_zeros_val [OF st] .
    also have "\<dots> = v" unfolding v frac using True by simp
    finally have "\<bar>of_nat q' * 10 powi e' - v\<bar> \<le> v / 10 ^ 28" by (simp add: v_def)
    moreover have "q' < 10 ^ 31"
    proof -
      have "q' \<le> q" using strip_zeros_bounds [OF st] by simp
      also note q_le
      also have "10 ^ 30 < (10::nat) ^ 31" by simp
      finally show ?thesis .
    qed
    then have "ndigits q' \<le> 31" by (rule ndigits_le) simp
    moreover have "\<bar>e'\<bar> \<le> \<bar>e1\<bar> + \<bar>e2\<bar> + 100"
      using strip_zeros_bounds [OF st] sh unfolding e_def by (cases "0 \<le> shift") linarith+
    ultimately show ?thesis by blast
  qed
qed

lemma approx_trans:
  assumes "approx \<epsilon> v d" and "\<bar>v - w\<bar> \<le> \<delta> * \<bar>w\<bar>" and "0 \<le> \<epsilon>"
  shows "approx (\<epsilon> * (1 + \<delta>) + \<delta>) w d"
proof -
  have v: "\<bar>v\<bar> \<le> (1 + \<delta>) * \<bar>w\<bar>"
    using assms(2) unfolding distrib_right by linarith
  have "\<bar>dval d - w\<bar> \<le> \<bar>dval d - v\<bar> + \<bar>v - w\<bar>" by linarith
  also have "\<dots> \<le> \<epsilon> * \<bar>v\<bar> + \<delta> * \<bar>w\<bar>"
    using assms(1,2) unfolding approx_def by linarith
  also have "\<dots> \<le> \<epsilon> * ((1 + \<delta>) * \<bar>w\<bar>) + \<delta> * \<bar>w\<bar>"
    using mult_left_mono [OF v assms(3)] by linarith
  also have "\<dots> = (\<epsilon> * (1 + \<delta>) + \<delta>) * \<bar>w\<bar>" by (simp add: algebra_simps)
  finally show ?thesis by (simp add: approx_def)
qed

lemma approx_weaken: "approx \<epsilon> v d \<Longrightarrow> \<epsilon> \<le> \<delta> \<Longrightarrow> approx \<delta> v d"
  unfolding approx_def by (meson abs_ge_zero mult_right_mono order_trans)

lemma dec_div_sane:
  assumes "sane B a" and "sane B' b" and "dval b \<noteq> 0" and "B + B' \<le> 90000"
  obtains d where "dec_div a b = Inr d" and "sane (B + B' + 300) d"
    and "approx (1 / 10 ^ 27) (dval a / dval b) d"
proof -
  obtain s1 c1 e1 where a: "a = Fin s1 c1 e1" "c1 < 10 ^ 28" "\<bar>e1\<bar> \<le> B"
    using assms(1) by (elim sane_cases)
  obtain s2 c2 e2 where b: "b = Fin s2 c2 e2" "c2 < 10 ^ 28" "\<bar>e2\<bar> \<le> B'"
    using assms(2) by (elim sane_cases)
  have c2: "c2 \<noteq> 0" using assms(3) by (auto simp: b)
  obtain q e where qe: "dec_quotient c1 e1 c2 e2 = (q, e)" by fastforce
  have eq: "dec_div a b = dec_fix (s1 \<noteq> s2) q e" using c2 by (simp add: a b qe)
  have bnd: "ndigits q \<le> 31 \<and> \<bar>e\<bar> \<le> B + B' + 100 \<and>
      \<bar>dval (Fin (s1 \<noteq> s2) q e) - dval a / dval b\<bar> \<le> 1 / 10 ^ 28 * \<bar>dval a / dval b\<bar>"
  proof (cases "c1 = 0")
    case True
    then show ?thesis using qe a b by (auto simp: dec_quotient_def)
  next
    case False
    have "dval (Fin (s1 \<noteq> s2) q e) - dval a / dval b = (if s1 \<noteq> s2 then -1 else 1) *
        (of_nat q * 10 powi e - of_nat c1 * 10 powi e1 / (of_nat c2 * 10 powi e2))"
      by (cases s1; cases s2) (simp_all add: a b algebra_simps)
    then have "\<bar>dval (Fin (s1 \<noteq> s2) q e) - dval a / dval b\<bar> =
        \<bar>of_nat q * 10 powi e - of_nat c1 * 10 powi e1 / (of_nat c2 * 10 powi e2)\<bar>"
      by (simp add: abs_mult)
    moreover have "\<bar>dval a / dval b\<bar> = of_nat c1 * 10 powi e1 / (of_nat c2 * 10 powi e2)"
      unfolding a b abs_divide dval_abs_Fin ..
    ultimately show ?thesis
      using dec_quotient_bounds [OF False c2 a(2) b(2) qe] a b by auto
  qed
  obtain d where d: "dec_fix (s1 \<noteq> s2) q e = Inr d" "sane (B + B' + 100 + 200) d"
      "approx ulp_half (dval (Fin (s1 \<noteq> s2) q e)) d"
    by (rule dec_fix_sane [of q e "B + B' + 100" "s1 \<noteq> s2"])
      (use bnd assms(4) in \<open>auto simp del: dval.simps\<close>)
  have "approx (ulp_half * (1 + 1 / 10 ^ 28) + 1 / 10 ^ 28) (dval a / dval b) d"
    by (rule approx_trans [OF d(3)]) (use bnd in \<open>simp_all add: ulp_half_def del: dval.simps\<close>)
  then have "approx (1 / 10 ^ 27) (dval a / dval b) d"
    by (rule approx_weaken) (simp add: ulp_half_def)
  with d(1,2) show ?thesis using that unfolding eq by (simp add: add.assoc)
qed

end
