(* ===== verification/SimPortfolio.thy ===== *)
theory SimPortfolio
  imports World DecimalBounds
begin

text \<open>
  \<open>trading/simulation_portfolio_service.py\<close> and \<open>trading/live_portfolio_service.py\<close>: the value of a
  position, the return on the initial capital, and the walk over the filled orders of a bot that
  pairs each sell with the buy before it.  The two modules make the same walk over different rows; a
  \<open>ledger\<close> says how a row is read.
\<close>

section \<open>Values\<close>

definition compute_position_value :: "decimal \<Rightarrow> decimal \<Rightarrow> decimal result" where
  "compute_position_value current_quantity market_price = dec_mul current_quantity market_price"

definition compute_total_value :: "decimal \<Rightarrow> decimal \<Rightarrow> decimal \<Rightarrow> decimal result" where
  "compute_total_value cash_balance_quote current_quantity market_price =
     rbind (compute_position_value current_quantity market_price) (dec_add cash_balance_quote)"

definition compute_return_pct :: "decimal \<Rightarrow> decimal \<Rightarrow> decimal option result" where
  "compute_return_pct total_value_quote initial_capital_quote =
     rbind (dec_eq initial_capital_quote dec_zero) (\<lambda>none.
     if none then Inr None
     else rbind (dec_sub total_value_quote initial_capital_quote) (\<lambda>d.
       rbind (dec_div d initial_capital_quote) (\<lambda>q.
       rbind (dec_mul q (dec_of_int 100)) (\<lambda>p. Inr (Some p)))))"

section \<open>The ledger\<close>

text \<open>
  How an order is read: whether it counts as filled, its side and end, what a buy cost and what a
  sell brought.
\<close>

record 'o ledger =
  lg_filled :: "'o \<Rightarrow> bool"
  lg_terminal :: "'o \<Rightarrow> int"
  lg_side :: "'o \<Rightarrow> OrderSide"
  lg_cost :: "'o \<Rightarrow> decimal result"
  lg_proceeds :: "'o \<Rightarrow> decimal result"

definition filled_orders :: "'o ledger \<Rightarrow> 'o list \<Rightarrow> 'o list" where
  "filled_orders L os = sort_key (lg_terminal L) (filter (lg_filled L) os)"

fun realized_walk :: "'o ledger \<Rightarrow> int \<Rightarrow> 'o list \<Rightarrow> 'o option \<Rightarrow> decimal \<Rightarrow> decimal result" where
  "realized_walk L today_start [] open_buy acc = Inr acc"
| "realized_walk L today_start (x # xs) open_buy acc =
     (case lg_side L x of
        BUY \<Rightarrow> realized_walk L today_start xs (Some x) acc
      | SELL \<Rightarrow> (case open_buy of
          None \<Rightarrow> realized_walk L today_start xs None acc
        | Some b \<Rightarrow>
            rbind (lg_cost L b) (\<lambda>buy_cost.
            rbind (lg_proceeds L x) (\<lambda>sell_proceeds.
            rbind (dec_sub sell_proceeds buy_cost) (\<lambda>pnl.
            rbind (if lg_terminal L x \<ge> today_start then dec_add acc pnl else Inr acc) (\<lambda>acc'.
            realized_walk L today_start xs None acc'))))))"

record TradeStats =
  trade_count :: nat
  win_rate_pct :: "decimal option"

fun stats_walk :: "'o ledger \<Rightarrow> 'o list \<Rightarrow> 'o option \<Rightarrow> nat \<Rightarrow> nat \<Rightarrow> (nat \<times> nat) result" where
  "stats_walk L [] open_buy round_trips wins = Inr (round_trips, wins)"
| "stats_walk L (x # xs) open_buy round_trips wins =
     (case lg_side L x of
        BUY \<Rightarrow> stats_walk L xs (Some x) round_trips wins
      | SELL \<Rightarrow> (case open_buy of
          None \<Rightarrow> stats_walk L xs None round_trips wins
        | Some b \<Rightarrow>
            rbind (lg_cost L b) (\<lambda>buy_cost.
            rbind (lg_proceeds L x) (\<lambda>sell_proceeds.
            rbind (dec_lt buy_cost sell_proceeds) (\<lambda>win.
            stats_walk L xs None (round_trips + 1) (if win then wins + 1 else wins))))))"

definition trade_stats :: "nat \<times> nat \<Rightarrow> TradeStats result" where
  "trade_stats c =
     (if fst c = 0 then Inr \<lparr>trade_count = 0, win_rate_pct = None\<rparr>
      else rbind (dec_div (dec_of_int (int (snd c))) (dec_of_int (int (fst c)))) (\<lambda>q.
        rbind (dec_mul q (dec_of_int 100)) (\<lambda>p. Inr \<lparr>trade_count = fst c, win_rate_pct = Some p\<rparr>)))"

section \<open>Simulation orders\<close>

text \<open>\<open>Decimal(None)\<close> raises a TypeError.\<close>

definition dec_of_opt :: "decimal option \<Rightarrow> decimal result" where
  "dec_of_opt d = (case d of None \<Rightarrow> Inl (TypeErr ''conversion from NoneType to Decimal is not supported'')
     | Some x \<Rightarrow> Inr x)"

definition sim_ledger :: "SimulationOrder ledger" where
  "sim_ledger = \<lparr>
     lg_filled = (\<lambda>x. so_status x = SimulationOrderStatus.FILLED \<and> so_terminal_at x \<noteq> None),
     lg_terminal = (\<lambda>x. the (so_terminal_at x)),
     lg_side = so_side,
     lg_cost = (\<lambda>x. rbind (dec_of_opt (so_fill_price x)) (\<lambda>p. rbind (dec_mul p (so_executed_quantity x)) (\<lambda>v.
        dec_add v (so_fee_quote x)))),
     lg_proceeds = (\<lambda>x. rbind (dec_of_opt (so_fill_price x)) (\<lambda>p. rbind (dec_mul p (so_executed_quantity x)) (\<lambda>v.
        dec_sub v (so_fee_quote x))))\<rparr>"

definition compute_realized_pnl_today :: "SimulationOrder list \<Rightarrow> int \<Rightarrow> decimal result" where
  "compute_realized_pnl_today os now =
     realized_walk sim_ledger (start_of_day now) (filled_orders sim_ledger os) None dec_zero"

definition compute_trade_stats :: "SimulationOrder list \<Rightarrow> TradeStats result" where
  "compute_trade_stats os = rbind (stats_walk sim_ledger (filled_orders sim_ledger os) None 0 0) trade_stats"

section \<open>Live orders\<close>

definition live_ledger :: "Order ledger" where
  "live_ledger = \<lparr>
     lg_filled = (\<lambda>x. o_status x = OrderStatus.FILLED \<and> o_terminal_at x \<noteq> None \<and> o_average_fill_price x \<noteq> None),
     lg_terminal = (\<lambda>x. the (o_terminal_at x)),
     lg_side = o_side,
     lg_cost = (\<lambda>x. rbind (dec_of_opt (o_average_fill_price x)) (\<lambda>p. dec_mul p (o_executed_quantity x))),
     lg_proceeds = (\<lambda>x. rbind (dec_of_opt (o_average_fill_price x)) (\<lambda>p. dec_mul p (o_executed_quantity x)))\<rparr>"

definition compute_live_realized_pnl_today :: "Order list \<Rightarrow> int \<Rightarrow> decimal result" where
  "compute_live_realized_pnl_today os now =
     realized_walk live_ledger (start_of_day now) (filled_orders live_ledger os) None dec_zero"

definition compute_live_trade_stats :: "Order list \<Rightarrow> TradeStats result" where
  "compute_live_trade_stats os = rbind (stats_walk live_ledger (filled_orders live_ledger os) None 0 0) trade_stats"

section \<open>Round trips\<close>

text \<open>The closed round trips of a history: each sell with the last buy since the sell before it.\<close>

fun closed_trips :: "'o ledger \<Rightarrow> 'o list \<Rightarrow> 'o option \<Rightarrow> ('o \<times> 'o) list" where
  "closed_trips L [] open_buy = []"
| "closed_trips L (x # xs) open_buy =
     (case lg_side L x of
        BUY \<Rightarrow> closed_trips L xs (Some x)
      | SELL \<Rightarrow> (case open_buy of None \<Rightarrow> closed_trips L xs None | Some b \<Rightarrow> (b, x) # closed_trips L xs None))"

definition trip_pnl :: "'o ledger \<Rightarrow> 'o \<times> 'o \<Rightarrow> decimal result" where
  "trip_pnl L t = rbind (lg_cost L (fst t)) (\<lambda>c. rbind (lg_proceeds L (snd t)) (\<lambda>p. dec_sub p c))"

definition trip_wins :: "'o ledger \<Rightarrow> 'o \<times> 'o \<Rightarrow> bool result" where
  "trip_wins L t = rbind (lg_cost L (fst t)) (\<lambda>c. rbind (lg_proceeds L (snd t)) (\<lambda>p. dec_lt c p))"

text \<open>A sell closes exactly one trip, and no order is in two trips.\<close>

lemma closed_trips_from:
  "(b, x) \<in> set (closed_trips L xs open_buy) \<Longrightarrow> x \<in> set xs \<and> lg_side L x = SELL \<and>
     (b \<in> set xs \<and> lg_side L b = BUY \<or> open_buy = Some b)"
  by (induction L xs open_buy rule: closed_trips.induct) (auto split: OrderSide.splits option.splits)

text \<open>The walk is the sum of the profits of the trips closed today, in order.\<close>

definition sum_trips :: "'o ledger \<Rightarrow> int \<Rightarrow> ('o \<times> 'o) list \<Rightarrow> decimal \<Rightarrow> decimal result" where
  "sum_trips L start trips acc =
     rbind (rmap (\<lambda>t. rbind (trip_pnl L t) (\<lambda>p. Inr (lg_terminal L (snd t), p))) trips) (\<lambda>ps.
     dec_sum (map snd (filter (\<lambda>p. fst p \<ge> start) ps)) acc)"

lemma rmap_Cons_Inr:
  "rmap f (x # xs) = Inr ys \<longleftrightarrow> (\<exists>z zs. f x = Inr z \<and> rmap f xs = Inr zs \<and> ys = z # zs)"
  by (auto simp: rbind_Inr_iff)

lemma realized_walk_trips:
  "realized_walk L start xs open_buy acc = Inr r \<longleftrightarrow> sum_trips L start (closed_trips L xs open_buy) acc = Inr r"
proof (induction L start xs open_buy acc rule: realized_walk.induct)
  case (1 L start open_buy acc)
  then show ?case by (simp add: sum_trips_def rbind_def)
next
  case (2 L start x xs open_buy acc)
  show ?case
  proof (cases "lg_side L x")
    case BUY
    with 2 show ?thesis by simp
  next
    case SELL
    show ?thesis
    proof (cases open_buy)
      case None
      with SELL 2 show ?thesis by simp
    next
      case (Some b)
      note IH = 2(3) [OF SELL Some]
      have "realized_walk L start (x # xs) open_buy acc = Inr r \<longleftrightarrow>
          (\<exists>c p g a. lg_cost L b = Inr c \<and> lg_proceeds L x = Inr p \<and> dec_sub p c = Inr g \<and>
            (if start \<le> lg_terminal L x then dec_add acc g else Inr acc) = Inr a \<and>
            sum_trips L start (closed_trips L xs None) a = Inr r)"
        using SELL Some by (simp add: rbind_Inr_iff IH)
      also have "\<dots> \<longleftrightarrow> sum_trips L start ((b, x) # closed_trips L xs None) acc = Inr r"
        by (cases "start \<le> lg_terminal L x")
          (auto simp: sum_trips_def trip_pnl_def rbind_Inr_iff rmap_Cons_Inr simp del: rmap.simps(2))
      finally show ?thesis using SELL Some by simp
    qed
  qed
qed

lemma stats_walk_trips:
  "stats_walk L xs open_buy n w = Inr (n', w') \<longleftrightarrow>
     (\<exists>ws. rmap (trip_wins L) (closed_trips L xs open_buy) = Inr ws \<and>
        n' = n + length ws \<and> w' = w + count_list ws True)"
proof (induction L xs open_buy n w rule: stats_walk.induct)
  case (1 L open_buy n w)
  then show ?case by auto
next
  case (2 L x xs open_buy n w)
  show ?case
  proof (cases "lg_side L x")
    case BUY
    with 2 show ?thesis by simp
  next
    case SELL
    show ?thesis
    proof (cases open_buy)
      case None
      with SELL 2 show ?thesis by simp
    next
      case (Some b)
      note IH = 2(3) [OF SELL Some]
      have "stats_walk L (x # xs) open_buy n w = Inr (n', w') \<longleftrightarrow>
          (\<exists>c p win. lg_cost L b = Inr c \<and> lg_proceeds L x = Inr p \<and> dec_lt c p = Inr win \<and>
            stats_walk L xs None (n + 1) (if win then w + 1 else w) = Inr (n', w'))"
        using SELL Some by (simp add: rbind_Inr_iff)
      also have "\<dots> \<longleftrightarrow> (\<exists>win ws. trip_wins L (b, x) = Inr win \<and>
          rmap (trip_wins L) (closed_trips L xs None) = Inr ws \<and>
          n' = n + length (win # ws) \<and> w' = w + count_list (win # ws) True)"
        unfolding IH by (auto simp: trip_wins_def rbind_Inr_iff)
      also have "\<dots> \<longleftrightarrow> (\<exists>ws. rmap (trip_wins L) (closed_trips L (x # xs) open_buy) = Inr ws \<and>
          n' = n + length ws \<and> w' = w + count_list ws True)"
        unfolding closed_trips.simps SELL OrderSide.case Some option.case rmap_Cons_Inr by blast
      finally show ?thesis .
    qed
  qed
qed

section \<open>Properties\<close>

text \<open>
  C33: The realized profit of today is the sum, in order, of the profits of the round trips closed
  today: every sell of the filled orders, in the order they ended, with the last buy after the sell
  before it.  The walk returns a value exactly when that sum does, and the same value.
\<close>
theorem realized_pnl_is_sum_of_trips:
  "compute_realized_pnl_today os now = Inr r \<longleftrightarrow>
     sum_trips sim_ledger (start_of_day now) (closed_trips sim_ledger (filled_orders sim_ledger os) None) dec_zero = Inr r"
  unfolding compute_realized_pnl_today_def by (rule realized_walk_trips)

text \<open>
  The statistics count round trips: the trade count is their number, and the win rate is None
  exactly when there are none, otherwise the percentage of those that brought more than they cost.
\<close>
theorem trade_stats_count_trips:
  assumes "compute_trade_stats os = Inr st"
  shows "\<exists>ws. rmap (trip_wins sim_ledger) (closed_trips sim_ledger (filled_orders sim_ledger os) None) = Inr ws \<and>
     trade_count st = length ws \<and> (win_rate_pct st = None \<longleftrightarrow> ws = []) \<and>
     (ws \<noteq> [] \<longrightarrow> rbind (dec_div (dec_of_int (int (count_list ws True))) (dec_of_int (int (length ws))))
        (\<lambda>q. rbind (dec_mul q (dec_of_int 100)) (\<lambda>p. Inr (Some p))) = Inr (win_rate_pct st))"
proof -
  obtain n w where nw: "stats_walk sim_ledger (filled_orders sim_ledger os) None 0 0 = Inr (n, w)"
    and st: "trade_stats (n, w) = Inr st"
    using assms by (auto simp: compute_trade_stats_def rbind_Inr_iff)
  then obtain ws where "rmap (trip_wins sim_ledger) (closed_trips sim_ledger (filled_orders sim_ledger os) None) = Inr ws"
      "n = length ws" "w = count_list ws True"
    by (auto simp: stats_walk_trips)
  with st show ?thesis
    by (intro exI [of _ ws]) (auto simp: trade_stats_def rbind_Inr_iff split: if_splits)
qed

definition demo_fill :: "OrderSide \<Rightarrow> decimal \<Rightarrow> int \<Rightarrow> SimulationOrder" where
  "demo_fill side price t = \<lparr>so_id = 1, so_bot_id = 1, so_simulation_account_id = 1, so_symbol = ''BTCUSDT'',
     so_side = side, so_order_type = MARKET, so_status = SimulationOrderStatus.FILLED,
     so_requested_quantity = Fin False 1 0, so_fill_price = Some price, so_executed_quantity = Fin False 1 0,
     so_fee_quote = dec_zero, so_slippage_quote = dec_zero, so_reason = None, so_created_at = 0,
     so_terminal_at = Some t\<rparr>"

lemma trade_stats_count_trips_witness:
  "\<exists>st. compute_trade_stats [demo_fill BUY (Fin False 100 0) 1, demo_fill SELL (Fin False 110 0) 2] = Inr st \<and>
     trade_count st = 1"
proof -
  let ?os = "[demo_fill BUY (Fin False 100 0) 1, demo_fill SELL (Fin False 110 0) 2]"
  have "compute_trade_stats ?os = Inr \<lparr>trade_count = 1, win_rate_pct = Some (Fin False 100 0)\<rparr>"
    by (simp add: compute_trade_stats_def filled_orders_def sim_ledger_def demo_fill_def dec_of_opt_def
        trade_stats_def dec_eval)
  from trade_stats_count_trips [OF this] this show ?thesis by auto
qed

end
