(* ===== verification/RiskEngine.thy ===== *)
theory RiskEngine
  imports DecimalBounds DecimalText
begin

text \<open>
  \<open>trading/risk_engine.py\<close>: the last gate before the exchange, a pure function of the limits, the
  order and the account snapshot.  A limit of None rejects.
\<close>

section \<open>Data\<close>

record RiskLimits =
  max_order_notional_quote :: "decimal option"
  max_symbol_exposure_pct :: "decimal option"
  max_total_exposure_pct :: "decimal option"
  max_daily_loss_pct :: "decimal option"
  max_open_positions :: "int option"
  allowed_symbols :: "string set option"

record OrderRiskRequest =
  rr_symbol :: string
  rr_side :: string
  rr_notional :: decimal
  rr_is_new_symbol :: bool

record AccountRiskSnapshot =
  total_portfolio_value_quote :: decimal
  current_symbol_exposure_quote :: decimal
  current_total_exposure_quote :: decimal
  open_position_count :: int
  realized_loss_today_quote :: decimal

datatype RiskDecision = Approved | Rejected string

section \<open>Checks\<close>

definition check_all_values_finite :: "OrderRiskRequest \<Rightarrow> AccountRiskSnapshot \<Rightarrow> RiskDecision" where
  "check_all_values_finite request snapshot =
    (case find (\<lambda>nv. \<not> is_finite (snd nv))
       [(''estimated_notional_quote'', rr_notional request),
        (''total_portfolio_value_quote'', total_portfolio_value_quote snapshot),
        (''current_symbol_exposure_quote'', current_symbol_exposure_quote snapshot),
        (''current_total_exposure_quote'', current_total_exposure_quote snapshot),
        (''realized_loss_today_quote'', realized_loss_today_quote snapshot)] of
       None \<Rightarrow> Approved
     | Some (name, v) \<Rightarrow> Rejected (name @ '' is not a finite number ('' @ dec_str v @ '')''))"

definition check_allowed_symbol :: "RiskLimits \<Rightarrow> OrderRiskRequest \<Rightarrow> RiskDecision" where
  "check_allowed_symbol limits request =
    (case allowed_symbols limits of
       None \<Rightarrow> Rejected ''HERMES_RISK_ALLOWED_SYMBOLS is not configured; no symbol is tradable''
     | Some syms \<Rightarrow>
         if syms = {} then
           Rejected ''HERMES_RISK_ALLOWED_SYMBOLS is not configured; no symbol is tradable''
         else if upper (rr_symbol request) \<notin> syms then
           Rejected (rr_symbol request @ '' is not an allowed symbol'')
         else Approved)"

text \<open>\<open>part / total * 100\<close>.\<close>

definition percent_of :: "decimal \<Rightarrow> decimal \<Rightarrow> decimal result" where
  "percent_of part tot = rbind (dec_div part tot) (\<lambda>r. dec_mul r (dec_of_int 100))"

definition check_daily_loss :: "RiskLimits \<Rightarrow> AccountRiskSnapshot \<Rightarrow> RiskDecision result" where
  "check_daily_loss limits snapshot =
    (case max_daily_loss_pct limits of
       None \<Rightarrow> Inr (Rejected ''HERMES_RISK_MAX_DAILY_LOSS_PCT is not configured'')
     | Some limit \<Rightarrow>
         rbind (dec_le (total_portfolio_value_quote snapshot) dec_zero) (\<lambda>nonpos.
         if nonpos then Inr (Rejected ''Portfolio value is zero or unavailable'')
         else rbind (percent_of (realized_loss_today_quote snapshot) (total_portfolio_value_quote snapshot)) (\<lambda>loss_pct.
         rbind (dec_le limit loss_pct) (\<lambda>reached.
         Inr (if reached then Rejected (''Daily loss '' @ dec_fmt2 loss_pct @ ''% has reached the '' @
                dec_str limit @ ''% limit'')
              else Approved)))))"

definition check_order_notional :: "RiskLimits \<Rightarrow> OrderRiskRequest \<Rightarrow> RiskDecision result" where
  "check_order_notional limits request =
    (case max_order_notional_quote limits of
       None \<Rightarrow> Inr (Rejected ''HERMES_RISK_MAX_ORDER_NOTIONAL_USD is not configured'')
     | Some limit \<Rightarrow>
         rbind (dec_lt limit (rr_notional request)) (\<lambda>over.
         Inr (if over then Rejected (''Order notional '' @ dec_str (rr_notional request) @
                '' exceeds the '' @ dec_str limit @ '' limit'')
              else Approved)))"

text \<open>The two exposure checks have one shape: the exposure after the order, as a share of the total.\<close>

definition check_exposure ::
  "decimal option \<Rightarrow> string \<Rightarrow> (string \<Rightarrow> string) \<Rightarrow> decimal \<Rightarrow> OrderRiskRequest \<Rightarrow> AccountRiskSnapshot
     \<Rightarrow> RiskDecision result" where
  "check_exposure opt_limit unset over_reason current request snapshot =
    (case opt_limit of
       None \<Rightarrow> Inr (Rejected unset)
     | Some limit \<Rightarrow>
         rbind (dec_le (total_portfolio_value_quote snapshot) dec_zero) (\<lambda>nonpos.
         if nonpos then Inr (Rejected ''Portfolio value is zero or unavailable'')
         else rbind (dec_add current (rr_notional request)) (\<lambda>projected_exposure.
         rbind (percent_of projected_exposure (total_portfolio_value_quote snapshot)) (\<lambda>projected_pct.
         rbind (dec_lt limit projected_pct) (\<lambda>over.
         Inr (if over then Rejected (over_reason (dec_fmt2 projected_pct) @ dec_str limit @ ''% limit'')
              else Approved))))))"

definition check_symbol_exposure ::
  "RiskLimits \<Rightarrow> OrderRiskRequest \<Rightarrow> AccountRiskSnapshot \<Rightarrow> RiskDecision result" where
  "check_symbol_exposure limits request snapshot =
     check_exposure (max_symbol_exposure_pct limits)
       ''HERMES_RISK_MAX_SYMBOL_EXPOSURE_PCT is not configured''
       (\<lambda>pct. rr_symbol request @ '' exposure would reach '' @ pct @ ''%, over the '')
       (current_symbol_exposure_quote snapshot) request snapshot"

definition check_total_exposure ::
  "RiskLimits \<Rightarrow> OrderRiskRequest \<Rightarrow> AccountRiskSnapshot \<Rightarrow> RiskDecision result" where
  "check_total_exposure limits request snapshot =
     check_exposure (max_total_exposure_pct limits)
       ''HERMES_RISK_MAX_TOTAL_EXPOSURE_PCT is not configured''
       (\<lambda>pct. ''Total exposure would reach '' @ pct @ ''%, over the '')
       (current_total_exposure_quote snapshot) request snapshot"

definition check_open_positions ::
  "RiskLimits \<Rightarrow> OrderRiskRequest \<Rightarrow> AccountRiskSnapshot \<Rightarrow> RiskDecision" where
  "check_open_positions limits request snapshot =
    (case max_open_positions limits of
       None \<Rightarrow> Rejected ''HERMES_RISK_MAX_OPEN_POSITIONS is not configured''
     | Some limit \<Rightarrow>
         if rr_is_new_symbol request \<and> open_position_count snapshot \<ge> limit
         then Rejected (''Already at the '' @ show_int limit @ ''-open-position limit'')
         else Approved)"

text \<open>Run the checks in order; the first rejection, or exception, is the result.\<close>

fun first_rejection :: "RiskDecision result list \<Rightarrow> RiskDecision result" where
  "first_rejection [] = Inr Approved"
| "first_rejection (c # cs) =
     rbind c (\<lambda>d. case d of Approved \<Rightarrow> first_rejection cs | Rejected r \<Rightarrow> Inr (Rejected r))"

definition validate_order ::
  "RiskLimits \<Rightarrow> OrderRiskRequest \<Rightarrow> AccountRiskSnapshot \<Rightarrow> RiskDecision result" where
  "validate_order limits request snapshot = first_rejection
     ([Inr (check_all_values_finite request snapshot),
       Inr (check_allowed_symbol limits request),
       check_daily_loss limits snapshot,
       check_order_notional limits request] @
      (if rr_side request = ''BUY'' then
        [check_symbol_exposure limits request snapshot,
         check_total_exposure limits request snapshot,
         Inr (check_open_positions limits request snapshot)]
       else []))"

section \<open>What a decision means\<close>

lemma first_rejection_Approved [result_iff]:
  "first_rejection cs = Inr Approved \<longleftrightarrow> (\<forall>c \<in> set cs. c = Inr Approved)"
proof (induction cs)
  case (Cons c cs)
  then show ?case by (cases c) (auto split: RiskDecision.splits)
qed simp

lemma first_rejection_total:
  "\<forall>c \<in> set cs. \<exists>d. c = Inr d \<Longrightarrow> \<exists>d. first_rejection cs = Inr d"
proof (induction cs)
  case (Cons c cs)
  then obtain d where "c = Inr d" by auto
  with Cons show ?case by (cases d) auto
qed simp

lemma check_all_values_finite_Approved:
  "check_all_values_finite request snapshot = Approved \<longleftrightarrow>
     is_finite (rr_notional request) \<and> is_finite (total_portfolio_value_quote snapshot) \<and>
     is_finite (current_symbol_exposure_quote snapshot) \<and>
     is_finite (current_total_exposure_quote snapshot) \<and>
     is_finite (realized_loss_today_quote snapshot)"
  by (auto simp: check_all_values_finite_def)

lemma check_allowed_symbol_Approved:
  "check_allowed_symbol limits request = Approved \<longleftrightarrow>
     (\<exists>syms. allowed_symbols limits = Some syms \<and> upper (rr_symbol request) \<in> syms)"
  by (auto simp: check_allowed_symbol_def split: option.splits)

lemma check_open_positions_Approved:
  "check_open_positions limits request snapshot = Approved \<longleftrightarrow>
     (\<exists>n. max_open_positions limits = Some n \<and>
        (rr_is_new_symbol request \<longrightarrow> open_position_count snapshot < n))"
  by (auto simp: check_open_positions_def split: option.splits)

text \<open>An approved BUY passed every check, an approved SELL the first four.\<close>

lemma validate_order_Approved:
  "validate_order limits request snapshot = Inr Approved \<longleftrightarrow>
     check_all_values_finite request snapshot = Approved \<and>
     check_allowed_symbol limits request = Approved \<and>
     check_daily_loss limits snapshot = Inr Approved \<and>
     check_order_notional limits request = Inr Approved \<and>
     (rr_side request = ''BUY'' \<longrightarrow>
        check_symbol_exposure limits request snapshot = Inr Approved \<and>
        check_total_exposure limits request snapshot = Inr Approved \<and>
        check_open_positions limits request snapshot = Approved)"
  unfolding validate_order_def first_rejection_Approved by auto

lemma approx_lower:
  assumes "approx \<epsilon> v d" and "dval d \<le> l" and "\<epsilon> \<le> 1 / 2" and "0 \<le> \<epsilon>" and "0 \<le> v"
  shows "v \<le> l * (1 + 2 * \<epsilon>)"
proof -
  have "v - dval d \<le> \<epsilon> * v" using assms(1,5) by (simp add: approx_def)
  then have "v * (1 - \<epsilon>) \<le> l" using assms(2) by (simp add: algebra_simps)
  then have "v * (1 - \<epsilon>) * (1 + 2 * \<epsilon>) \<le> l * (1 + 2 * \<epsilon>)"
    using assms(4) by (intro mult_right_mono) simp_all
  moreover have "v * 1 \<le> v * ((1 - \<epsilon>) * (1 + 2 * \<epsilon>))"
  proof (rule mult_left_mono)
    have "0 \<le> \<epsilon> * (1 - 2 * \<epsilon>)" using assms(3,4) by (intro mult_nonneg_nonneg) simp_all
    then show "1 \<le> (1 - \<epsilon>) * (1 + 2 * \<epsilon>)" by (simp add: algebra_simps)
  qed (use assms(5) in simp)
  ultimately show ?thesis by (simp add: mult.assoc)
qed

lemma approx_upper:
  assumes "approx \<epsilon> v d" and "v * (1 + \<epsilon>) \<le> l" and "0 \<le> v"
  shows "dval d \<le> l"
  using assms by (auto simp: approx_def algebra_simps abs_le_iff)

lemma scale_error:
  fixes x y k :: rat
  assumes "\<bar>x - y\<bar> \<le> \<epsilon> * \<bar>y\<bar>"
  shows "\<bar>x * k - y * k\<bar> \<le> \<epsilon> * \<bar>y * k\<bar>"
  using mult_right_mono [OF assms abs_ge_zero [of k]]
  by (simp add: abs_mult mult.assoc flip: left_diff_distrib)

lemma percent_of_sane:
  assumes "sane 300 part" and "sane 80 tot" and "0 < dval tot"
  obtains p where "percent_of part tot = Inr p" and "sane 2000 p"
    and "approx (2 / 10 ^ 27) (dval part / dval tot * 100) p"
proof -
  obtain r where r: "dec_div part tot = Inr r" "sane (300 + 80 + 300) r"
      "approx (1 / 10 ^ 27) (dval part / dval tot) r"
    by (rule dec_div_sane [OF assms(1,2)]) (use assms(3) in auto)
  have h: "sane 0 (dec_of_int 100)" by (simp add: dec_of_int_def)
  obtain p where p: "dec_mul r (dec_of_int 100) = Inr p" "sane (300 + 80 + 300 + 0 + 200) p"
      "approx ulp_half (dval r * dval (dec_of_int 100)) p"
    by (rule dec_mul_sane [OF r(2) h]) auto
  have "\<bar>dval r * 100 - dval part / dval tot * 100\<bar> \<le> 1 / 10 ^ 27 * \<bar>dval part / dval tot * 100\<bar>"
    using r(3) unfolding approx_def by (rule scale_error)
  then have "approx (ulp_half * (1 + 1 / 10 ^ 27) + 1 / 10 ^ 27) (dval part / dval tot * 100) p"
    using approx_trans [OF p(3), of "dval part / dval tot * 100" "1 / 10 ^ 27"]
    by (simp add: ulp_half_def)
  then have "approx (2 / 10 ^ 27) (dval part / dval tot * 100) p"
    by (rule approx_weaken) (simp add: ulp_half_def)
  moreover have "sane 2000 p" using p(2) sane_mono by fastforce
  ultimately show ?thesis using that r(1) p(1) by (simp add: percent_of_def)
qed

section \<open>The limits, in exact arithmetic\<close>

text \<open>
  The accounts the theorems speak of: finite values of the usual size that are not negative, and
  finite limits.  A share computed in decimal arithmetic is compared with its limit up to the factor
  \<open>1 + tol\<close>, four units of the 27th digit for a loss and six for a projected exposure.
\<close>

definition risk_inputs :: "RiskLimits \<Rightarrow> OrderRiskRequest \<Rightarrow> AccountRiskSnapshot \<Rightarrow> bool" where
  "risk_inputs limits request snapshot \<longleftrightarrow>
     (\<forall>d \<in> {rr_notional request, total_portfolio_value_quote snapshot,
        current_symbol_exposure_quote snapshot, current_total_exposure_quote snapshot,
        realized_loss_today_quote snapshot}. sane 80 d \<and> 0 \<le> dval d) \<and>
     (\<forall>l \<in> {max_order_notional_quote limits, max_symbol_exposure_pct limits,
        max_total_exposure_pct limits, max_daily_loss_pct limits}. \<forall>d \<in> set_option l. is_finite d)"

definition tol :: rat where "tol = 6 / 10 ^ 27"

definition loss_pct :: "AccountRiskSnapshot \<Rightarrow> rat" where
  "loss_pct snapshot =
     dval (realized_loss_today_quote snapshot) / dval (total_portfolio_value_quote snapshot) * 100"

definition exposure_pct :: "decimal \<Rightarrow> OrderRiskRequest \<Rightarrow> AccountRiskSnapshot \<Rightarrow> rat" where
  "exposure_pct current request snapshot =
     (dval current + dval (rr_notional request)) / dval (total_portfolio_value_quote snapshot) * 100"

text \<open>\<open>slack\<close> scales a limit: above 1 for what an approval guarantees, below 1 for what suffices.\<close>

definition in_limit :: "rat \<Rightarrow> rat \<Rightarrow> decimal option \<Rightarrow> bool" where
  "in_limit slack x l \<longleftrightarrow> (\<exists>d. l = Some d \<and> x \<le> dval d * slack)"

definition below_limit :: "rat \<Rightarrow> rat \<Rightarrow> decimal option \<Rightarrow> bool" where
  "below_limit slack x l \<longleftrightarrow> (\<exists>d. l = Some d \<and> x * slack < dval d)"

definition basic_rules :: "RiskLimits \<Rightarrow> OrderRiskRequest \<Rightarrow> AccountRiskSnapshot \<Rightarrow> bool" where
  "basic_rules limits request snapshot \<longleftrightarrow>
     (\<exists>syms. allowed_symbols limits = Some syms \<and> upper (rr_symbol request) \<in> syms) \<and>
     in_limit 1 (dval (rr_notional request)) (max_order_notional_quote limits) \<and>
     0 < dval (total_portfolio_value_quote snapshot) \<and>
     (rr_side request = ''BUY'' \<longrightarrow> (\<exists>n. max_open_positions limits = Some n \<and>
        (rr_is_new_symbol request \<longrightarrow> open_position_count snapshot < n)))"

lemma check_order_notional_Approved:
  assumes "risk_inputs limits request snapshot"
  shows "check_order_notional limits request = Inr Approved \<longleftrightarrow>
    in_limit 1 (dval (rr_notional request)) (max_order_notional_quote limits)"
  using assms by (auto simp: check_order_notional_def in_limit_def risk_inputs_def split: option.splits if_splits)

lemma check_daily_loss_value:
  assumes "risk_inputs limits request snapshot" and "0 < dval (total_portfolio_value_quote snapshot)"
    and "max_daily_loss_pct limits = Some l"
  obtains p where "is_finite p" and "approx (2 / 10 ^ 27) (loss_pct snapshot) p"
    and "check_daily_loss limits snapshot = Inr Approved \<longleftrightarrow> dval p < dval l"
    and "\<exists>d. check_daily_loss limits snapshot = Inr d"
proof -
  have s: "sane 80 (realized_loss_today_quote snapshot)" "sane 80 (total_portfolio_value_quote snapshot)"
      "is_finite l"
    using assms(1,3) by (auto simp: risk_inputs_def)
  obtain p where p: "percent_of (realized_loss_today_quote snapshot) (total_portfolio_value_quote snapshot) = Inr p"
      "sane 2000 p" "approx (2 / 10 ^ 27) (loss_pct snapshot) p"
    by (rule percent_of_sane [OF sane_mono [OF s(1)] s(2) assms(2)]) (auto simp: loss_pct_def)
  show ?thesis
    by (rule that [of p]) (use p s assms in \<open>auto simp: check_daily_loss_def\<close>)
qed

lemma check_exposure_value:
  assumes "sane 80 current" and "0 \<le> dval current" and "risk_inputs limits request snapshot"
    and "0 < dval (total_portfolio_value_quote snapshot)" and "is_finite l"
  obtains p where "is_finite p" and "approx (3 / 10 ^ 27) (exposure_pct current request snapshot) p"
    and "check_exposure (Some l) unset msg current request snapshot = Inr Approved \<longleftrightarrow> dval p \<le> dval l"
    and "\<exists>d. check_exposure (Some l) unset msg current request snapshot = Inr d"
proof -
  have s: "sane 80 (rr_notional request)" "sane 80 (total_portfolio_value_quote snapshot)"
    using assms(3) by (auto simp: risk_inputs_def)
  obtain e where e: "dec_add current (rr_notional request) = Inr e" "sane 300 e"
      "approx ulp_half (dval current + dval (rr_notional request)) e"
    by (rule dec_add_sane [OF assms(1) s(1)])
  obtain p where p: "percent_of e (total_portfolio_value_quote snapshot) = Inr p" "sane 2000 p"
      "approx (2 / 10 ^ 27) (dval e / dval (total_portfolio_value_quote snapshot) * 100) p"
    by (rule percent_of_sane [OF e(2) s(2) assms(4)])
  have "\<bar>dval e * (100 / dval (total_portfolio_value_quote snapshot)) - exposure_pct current request snapshot\<bar>
      \<le> ulp_half * \<bar>exposure_pct current request snapshot\<bar>"
    using scale_error [OF e(3) [unfolded approx_def], of "100 / dval (total_portfolio_value_quote snapshot)"]
    by (simp add: exposure_pct_def)
  then have "approx (2 / 10 ^ 27 * (1 + ulp_half) + ulp_half) (exposure_pct current request snapshot) p"
    using approx_trans [OF p(3)] by simp
  then have "approx (3 / 10 ^ 27) (exposure_pct current request snapshot) p"
    by (rule approx_weaken) (simp add: ulp_half_def)
  then show ?thesis
    by (intro that [of p]) (use p e s assms in \<open>auto simp: check_exposure_def\<close>)
qed

definition exposure_rules ::
  "(rat \<Rightarrow> decimal option \<Rightarrow> bool) \<Rightarrow> RiskLimits \<Rightarrow> OrderRiskRequest \<Rightarrow> AccountRiskSnapshot \<Rightarrow> bool" where
  "exposure_rules cmp limits request snapshot \<longleftrightarrow>
     cmp (exposure_pct (current_symbol_exposure_quote snapshot) request snapshot) (max_symbol_exposure_pct limits) \<and>
     cmp (exposure_pct (current_total_exposure_quote snapshot) request snapshot) (max_total_exposure_pct limits)"

lemma risk_inputsD:
  assumes "risk_inputs limits request snapshot"
  shows "check_all_values_finite request snapshot = Approved"
    and "0 \<le> loss_pct snapshot"
    and "0 \<le> exposure_pct (current_symbol_exposure_quote snapshot) request snapshot"
    and "0 \<le> exposure_pct (current_total_exposure_quote snapshot) request snapshot"
    and "0 \<le> dval (total_portfolio_value_quote snapshot)"
  using assms
  by (auto simp: risk_inputs_def check_all_values_finite_Approved loss_pct_def exposure_pct_def)

lemma nonpositive_portfolio:
  assumes "risk_inputs limits request snapshot" and "\<not> 0 < dval (total_portfolio_value_quote snapshot)"
  shows "check_daily_loss limits snapshot \<noteq> Inr Approved"
    and "\<exists>d. check_daily_loss limits snapshot = Inr d"
    and "\<exists>d. check_exposure l unset msg current request snapshot = Inr d"
  using assms by (auto simp: check_daily_loss_def check_exposure_def risk_inputs_def split: option.splits)

lemma check_exposure_sound:
  assumes "risk_inputs limits request snapshot" and "0 < dval (total_portfolio_value_quote snapshot)"
    and "current \<in> {current_symbol_exposure_quote snapshot, current_total_exposure_quote snapshot}"
    and "\<forall>d \<in> set_option l. is_finite d"
    and "check_exposure l unset msg current request snapshot = Inr Approved"
  shows "in_limit (1 + tol) (exposure_pct current request snapshot) l"
proof (cases l)
  case None
  with assms(5) show ?thesis by (simp add: check_exposure_def)
next
  case (Some d)
  have c: "sane 80 current" "0 \<le> dval current" using assms(1,3) by (auto simp: risk_inputs_def)
  obtain p where p: "approx (3 / 10 ^ 27) (exposure_pct current request snapshot) p"
      "check_exposure (Some d) unset msg current request snapshot = Inr Approved \<longleftrightarrow> dval p \<le> dval d"
    by (rule check_exposure_value [OF c assms(1,2)]) (use assms(4) Some in auto)
  have "exposure_pct current request snapshot \<le> dval d * (1 + 2 * (3 / 10 ^ 27))"
    by (rule approx_lower [OF p(1)]) (use p(2) assms Some risk_inputsD [OF assms(1)] in auto)
  then show ?thesis using Some by (simp add: in_limit_def tol_def)
qed

lemma check_exposure_complete:
  assumes "risk_inputs limits request snapshot" and "0 < dval (total_portfolio_value_quote snapshot)"
    and "current \<in> {current_symbol_exposure_quote snapshot, current_total_exposure_quote snapshot}"
    and "\<forall>d \<in> set_option l. is_finite d"
    and "below_limit (1 + tol) (exposure_pct current request snapshot) l"
  shows "check_exposure l unset msg current request snapshot = Inr Approved"
proof -
  obtain d where d: "l = Some d" "exposure_pct current request snapshot * (1 + tol) < dval d"
    using assms(5) by (auto simp: below_limit_def)
  have c: "sane 80 current" "0 \<le> dval current" using assms(1,3) by (auto simp: risk_inputs_def)
  obtain p where p: "approx (3 / 10 ^ 27) (exposure_pct current request snapshot) p"
      "check_exposure (Some d) unset msg current request snapshot = Inr Approved \<longleftrightarrow> dval p \<le> dval d"
    by (rule check_exposure_value [OF c assms(1,2)]) (use assms(4) d in auto)
  have nn: "0 \<le> exposure_pct current request snapshot" using assms(3) risk_inputsD [OF assms(1)] by auto
  have "exposure_pct current request snapshot * (1 + 3 / 10 ^ 27) \<le> exposure_pct current request snapshot * (1 + tol)"
    using nn by (intro mult_left_mono) (simp_all add: tol_def)
  then have "dval p \<le> dval d" using approx_upper [OF p(1) _ nn, of "dval d"] d(2) by linarith
  with p(2) d(1) show ?thesis by simp
qed

lemma check_daily_loss_sound:
  assumes "risk_inputs limits request snapshot" and "0 < dval (total_portfolio_value_quote snapshot)"
    and "check_daily_loss limits snapshot = Inr Approved"
  shows "in_limit (1 + tol) (loss_pct snapshot) (max_daily_loss_pct limits)"
proof (cases "max_daily_loss_pct limits")
  case None
  with assms(3) show ?thesis by (simp add: check_daily_loss_def)
next
  case (Some d)
  obtain p where p: "approx (2 / 10 ^ 27) (loss_pct snapshot) p"
      "check_daily_loss limits snapshot = Inr Approved \<longleftrightarrow> dval p < dval d"
    by (rule check_daily_loss_value [OF assms(1,2) Some])
  have le: "dval p \<le> dval d" using p(2) assms(3) by simp
  have le': "loss_pct snapshot \<le> dval d * (1 + 2 * (2 / 10 ^ 27))"
    by (rule approx_lower [OF p(1) le]) (use risk_inputsD [OF assms(1)] in auto)
  then have "0 \<le> dval d * (1 + 2 * (2 / 10 ^ 27))" using risk_inputsD(2) [OF assms(1)] by linarith
  then have "0 \<le> dval d" by (simp add: zero_le_mult_iff)
  then have "dval d * (1 + 2 * (2 / 10 ^ 27)) \<le> dval d * (1 + tol)"
    by (intro mult_left_mono) (simp_all add: tol_def)
  with le' Some show ?thesis by (auto simp: in_limit_def)
qed

lemma check_daily_loss_complete:
  assumes "risk_inputs limits request snapshot" and "0 < dval (total_portfolio_value_quote snapshot)"
    and "below_limit (1 + tol) (loss_pct snapshot) (max_daily_loss_pct limits)"
  shows "check_daily_loss limits snapshot = Inr Approved"
proof -
  obtain d where d: "max_daily_loss_pct limits = Some d" "loss_pct snapshot * (1 + tol) < dval d"
    using assms(3) by (auto simp: below_limit_def)
  obtain p where p: "approx (2 / 10 ^ 27) (loss_pct snapshot) p"
      "check_daily_loss limits snapshot = Inr Approved \<longleftrightarrow> dval p < dval d"
    by (rule check_daily_loss_value [OF assms(1,2) d(1)])
  have nn: "0 \<le> loss_pct snapshot" by (rule risk_inputsD [OF assms(1)])
  have "loss_pct snapshot * (1 + 2 / 10 ^ 27) \<le> loss_pct snapshot * (1 + tol)"
    using nn by (intro mult_left_mono) (simp_all add: tol_def)
  moreover have "dval p \<le> loss_pct snapshot * (1 + 2 / 10 ^ 27)"
    by (rule approx_upper [OF p(1) _ nn]) simp
  ultimately show ?thesis using p(2) d(2) by simp
qed

lemma validate_order_sound:
  assumes "risk_inputs limits request snapshot" and "validate_order limits request snapshot = Inr Approved"
  shows "basic_rules limits request snapshot \<and>
    in_limit (1 + tol) (loss_pct snapshot) (max_daily_loss_pct limits) \<and>
    (rr_side request = ''BUY'' \<longrightarrow> exposure_rules (in_limit (1 + tol)) limits request snapshot)"
proof -
  note ok = assms(2) [unfolded validate_order_Approved]
  have pos: "0 < dval (total_portfolio_value_quote snapshot)"
    using nonpositive_portfolio [OF assms(1)] ok by blast
  have fin: "\<forall>d \<in> set_option (max_symbol_exposure_pct limits). is_finite d"
      "\<forall>d \<in> set_option (max_total_exposure_pct limits). is_finite d"
    using assms(1) by (auto simp: risk_inputs_def)
  have "basic_rules limits request snapshot"
    using ok pos check_order_notional_Approved [OF assms(1)]
    by (auto simp: basic_rules_def check_allowed_symbol_Approved check_open_positions_Approved)
  moreover have "rr_side request = ''BUY'' \<longrightarrow> exposure_rules (in_limit (1 + tol)) limits request snapshot"
    using ok check_exposure_sound [OF assms(1) pos _ fin(1)] check_exposure_sound [OF assms(1) pos _ fin(2)]
    by (auto simp: exposure_rules_def check_symbol_exposure_def check_total_exposure_def)
  ultimately show ?thesis using ok check_daily_loss_sound [OF assms(1) pos] by blast
qed

lemma validate_order_complete:
  assumes "risk_inputs limits request snapshot" and "basic_rules limits request snapshot"
    and "below_limit (1 + tol) (loss_pct snapshot) (max_daily_loss_pct limits)"
    and "rr_side request = ''BUY'' \<longrightarrow> exposure_rules (below_limit (1 + tol)) limits request snapshot"
  shows "validate_order limits request snapshot = Inr Approved"
proof -
  have pos: "0 < dval (total_portfolio_value_quote snapshot)" using assms(2) by (simp add: basic_rules_def)
  have fin: "\<forall>d \<in> set_option (max_symbol_exposure_pct limits). is_finite d"
      "\<forall>d \<in> set_option (max_total_exposure_pct limits). is_finite d"
    using assms(1) by (auto simp: risk_inputs_def)
  have exp: "rr_side request = ''BUY'' \<longrightarrow> check_symbol_exposure limits request snapshot = Inr Approved \<and>
      check_total_exposure limits request snapshot = Inr Approved"
    using assms(4) check_exposure_complete [OF assms(1) pos _ fin(1)] check_exposure_complete [OF assms(1) pos _ fin(2)]
    by (auto simp: exposure_rules_def check_symbol_exposure_def check_total_exposure_def)
  have loss: "check_daily_loss limits snapshot = Inr Approved"
    by (rule check_daily_loss_complete [OF assms(1) pos assms(3)])
  show ?thesis
    unfolding validate_order_Approved
    using exp loss assms(2) risk_inputsD(1) [OF assms(1)] check_order_notional_Approved [OF assms(1)]
    by (auto simp: basic_rules_def check_allowed_symbol_Approved check_open_positions_Approved)
qed

text \<open>
  Loosening a limit never turns an approval into a rejection: \<open>looser\<close> compares limits with the same
  or wider allowances.
\<close>

definition wider :: "decimal option \<Rightarrow> decimal option \<Rightarrow> bool" where
  "wider l l' \<longleftrightarrow> (\<forall>d \<in> set_option l. \<exists>d'. l' = Some d' \<and> is_finite d' \<and> dval d \<le> dval d')"

definition looser :: "RiskLimits \<Rightarrow> RiskLimits \<Rightarrow> bool" where
  "looser l l' \<longleftrightarrow> wider (max_order_notional_quote l) (max_order_notional_quote l') \<and>
     wider (max_symbol_exposure_pct l) (max_symbol_exposure_pct l') \<and>
     wider (max_total_exposure_pct l) (max_total_exposure_pct l') \<and>
     wider (max_daily_loss_pct l) (max_daily_loss_pct l') \<and>
     (\<forall>n \<in> set_option (max_open_positions l). \<exists>n'. max_open_positions l' = Some n' \<and> n \<le> n') \<and>
     (\<forall>S \<in> set_option (allowed_symbols l). \<exists>S'. allowed_symbols l' = Some S' \<and> S \<subseteq> S')"

definition finite_limits :: "RiskLimits \<Rightarrow> bool" where
  "finite_limits l \<longleftrightarrow> (\<forall>x \<in> {max_order_notional_quote l, max_symbol_exposure_pct l,
     max_total_exposure_pct l, max_daily_loss_pct l}. \<forall>d \<in> set_option x. is_finite d)"

lemma dec_mul_is_finite: "is_finite a \<Longrightarrow> is_finite b \<Longrightarrow> dec_mul a b = Inr d \<Longrightarrow> is_finite d"
  using dec_mul_val near_def by blast

lemma dec_div_is_finite: "is_finite a \<Longrightarrow> is_finite b \<Longrightarrow> dec_div a b = Inr d \<Longrightarrow> is_finite d"
  by (elim is_finite_cases) (auto split: if_splits prod.splits dest: dec_fix_finite)

lemma percent_of_is_finite:
  "is_finite a \<Longrightarrow> is_finite b \<Longrightarrow> percent_of a b = Inr d \<Longrightarrow> is_finite d"
  unfolding percent_of_def rbind_Inr_iff
  using dec_div_is_finite dec_mul_is_finite is_finite_of_int by blast

lemma check_exposure_Approved:
  assumes "is_finite l" and "is_finite current" and "is_finite (rr_notional request)"
    and "is_finite (total_portfolio_value_quote snapshot)"
  shows "check_exposure (Some l) unset msg current request snapshot = Inr Approved \<longleftrightarrow>
    0 < dval (total_portfolio_value_quote snapshot) \<and>
    (\<exists>e p. dec_add current (rr_notional request) = Inr e \<and>
       percent_of e (total_portfolio_value_quote snapshot) = Inr p \<and> dval p \<le> dval l)"
proof (cases "dec_add current (rr_notional request)")
  case (Inl x)
  with assms show ?thesis by (simp add: check_exposure_def)
next
  case (Inr e)
  have e: "is_finite e" using dec_add_val [OF assms(2,3) Inr] by (simp add: near_def)
  show ?thesis
  proof (cases "percent_of e (total_portfolio_value_quote snapshot)")
    case Inl
    with Inr assms show ?thesis by (simp add: check_exposure_def)
  next
    case p: (Inr p)
    have "is_finite p" by (rule percent_of_is_finite [OF e assms(4) p])
    with Inr p assms show ?thesis by (simp add: check_exposure_def not_le not_less)
  qed
qed

lemma check_daily_loss_Approved:
  assumes "max_daily_loss_pct limits = Some l" and "is_finite l"
    and "is_finite (realized_loss_today_quote snapshot)"
    and "is_finite (total_portfolio_value_quote snapshot)"
  shows "check_daily_loss limits snapshot = Inr Approved \<longleftrightarrow>
    0 < dval (total_portfolio_value_quote snapshot) \<and>
    (\<exists>p. percent_of (realized_loss_today_quote snapshot) (total_portfolio_value_quote snapshot) = Inr p \<and>
       dval p < dval l)"
proof (cases "percent_of (realized_loss_today_quote snapshot) (total_portfolio_value_quote snapshot)")
  case Inl
  with assms show ?thesis by (simp add: check_daily_loss_def)
next
  case p: (Inr p)
  have "is_finite p" by (rule percent_of_is_finite [OF assms(3,4) p])
  with p assms show ?thesis by (simp add: check_daily_loss_def not_le not_less)
qed

lemma check_exposure_looser:
  assumes "wider l l'" and "\<forall>d \<in> set_option l. is_finite d"
    and "is_finite current" and "is_finite (rr_notional request)"
    and "is_finite (total_portfolio_value_quote snapshot)"
    and "check_exposure l unset msg current request snapshot = Inr Approved"
  shows "check_exposure l' unset msg current request snapshot = Inr Approved"
proof -
  obtain d where d: "l = Some d" using assms(6) by (cases l) (simp_all add: check_exposure_def)
  obtain d' where d': "l' = Some d'" "is_finite d'" "dval d \<le> dval d'" using assms(1) d by (auto simp: wider_def)
  have fin: "is_finite d" using assms(2) d by simp
  show ?thesis
    using assms(6) d'(3) unfolding d d'(1) check_exposure_Approved [OF fin assms(3-5)]
      check_exposure_Approved [OF d'(2) assms(3-5)] by (meson order_trans)
qed

lemma check_daily_loss_looser:
  assumes "wider (max_daily_loss_pct l) (max_daily_loss_pct l')"
    and "\<forall>d \<in> set_option (max_daily_loss_pct l). is_finite d"
    and "is_finite (realized_loss_today_quote snapshot)"
    and "is_finite (total_portfolio_value_quote snapshot)"
    and "check_daily_loss l snapshot = Inr Approved"
  shows "check_daily_loss l' snapshot = Inr Approved"
proof -
  obtain d where d: "max_daily_loss_pct l = Some d"
    using assms(5) by (cases "max_daily_loss_pct l") (simp_all add: check_daily_loss_def)
  obtain d' where d': "max_daily_loss_pct l' = Some d'" "is_finite d'" "dval d \<le> dval d'"
    using assms(1) d by (auto simp: wider_def)
  have fin: "is_finite d" using assms(2) d by simp
  show ?thesis
    using assms(5) d'(3) unfolding check_daily_loss_Approved [OF d fin assms(3,4)]
      check_daily_loss_Approved [OF d'(1,2) assms(3,4)] by (meson order_less_le_trans)
qed

lemma check_order_notional_looser:
  assumes "wider (max_order_notional_quote l) (max_order_notional_quote l')"
    and "\<forall>d \<in> set_option (max_order_notional_quote l). is_finite d"
    and "is_finite (rr_notional request)" and "check_order_notional l request = Inr Approved"
  shows "check_order_notional l' request = Inr Approved"
  using assms by (auto simp: check_order_notional_def wider_def split: option.splits if_splits)

lemma check_open_positions_looser:
  assumes "\<forall>n \<in> set_option (max_open_positions l). \<exists>n'. max_open_positions l' = Some n' \<and> n \<le> n'"
    and "check_open_positions l request snapshot = Approved"
  shows "check_open_positions l' request snapshot = Approved"
  using assms by (auto simp: check_open_positions_Approved)

lemma validate_order_looser:
  assumes "looser l l'" and "finite_limits l" and "validate_order l request snapshot = Inr Approved"
  shows "validate_order l' request snapshot = Inr Approved"
proof -
  note ok = assms(3) [unfolded validate_order_Approved]
  note fin = conjunct1 [OF ok, unfolded check_all_values_finite_Approved]
  have lim: "\<forall>d \<in> set_option (max_order_notional_quote l). is_finite d"
      "\<forall>d \<in> set_option (max_symbol_exposure_pct l). is_finite d"
      "\<forall>d \<in> set_option (max_total_exposure_pct l). is_finite d"
      "\<forall>d \<in> set_option (max_daily_loss_pct l). is_finite d"
    using assms(2) by (auto simp: finite_limits_def)
  note l = assms(1) [unfolded looser_def]
  have "check_allowed_symbol l' request = Approved"
    using ok l by (fastforce simp: check_allowed_symbol_Approved)
  moreover have "check_daily_loss l' snapshot = Inr Approved"
    by (rule check_daily_loss_looser [OF _ lim(4)]) (use ok l fin in simp_all)
  moreover have "check_order_notional l' request = Inr Approved"
    by (rule check_order_notional_looser [OF _ lim(1)]) (use ok l fin in simp_all)
  moreover have "check_symbol_exposure l' request snapshot = Inr Approved" if "rr_side request = ''BUY''"
    unfolding check_symbol_exposure_def
    by (rule check_exposure_looser [OF _ lim(2)])
      (use ok l fin that in \<open>simp_all add: check_symbol_exposure_def\<close>)
  moreover have "check_total_exposure l' request snapshot = Inr Approved" if "rr_side request = ''BUY''"
    unfolding check_total_exposure_def
    by (rule check_exposure_looser [OF _ lim(3)])
      (use ok l fin that in \<open>simp_all add: check_total_exposure_def\<close>)
  moreover have "check_open_positions l' request snapshot = Approved" if "rr_side request = ''BUY''"
    by (rule check_open_positions_looser [of l]) (use ok l that in simp_all)
  ultimately show ?thesis using ok unfolding validate_order_Approved by blast
qed

text \<open>A check that approves found its limit configured.\<close>

lemma approved_configured:
  "check_allowed_symbol limits request = Approved \<Longrightarrow> allowed_symbols limits \<noteq> None"
  "check_daily_loss limits snapshot = Inr Approved \<Longrightarrow> max_daily_loss_pct limits \<noteq> None"
  "check_order_notional limits request = Inr Approved \<Longrightarrow> max_order_notional_quote limits \<noteq> None"
  "check_symbol_exposure limits request snapshot = Inr Approved \<Longrightarrow> max_symbol_exposure_pct limits \<noteq> None"
  "check_total_exposure limits request snapshot = Inr Approved \<Longrightarrow> max_total_exposure_pct limits \<noteq> None"
  "check_open_positions limits request snapshot = Approved \<Longrightarrow> max_open_positions limits \<noteq> None"
  subgoal by (cases "allowed_symbols limits") (simp_all add: check_allowed_symbol_def)
  subgoal by (cases "max_daily_loss_pct limits") (simp_all add: check_daily_loss_def)
  subgoal by (cases "max_order_notional_quote limits") (simp_all add: check_order_notional_def)
  subgoal by (cases "max_symbol_exposure_pct limits") (simp_all add: check_symbol_exposure_def check_exposure_def)
  subgoal by (cases "max_total_exposure_pct limits") (simp_all add: check_total_exposure_def check_exposure_def)
  subgoal by (cases "max_open_positions limits") (simp_all add: check_open_positions_def)
  done

section \<open>Properties\<close>

text \<open>A small account for the witnesses: 10000 in total, 1000 in the symbol, no loss today.\<close>

definition demo_limits :: RiskLimits where
  "demo_limits = \<lparr>max_order_notional_quote = Some (Fin False 1000 0),
     max_symbol_exposure_pct = Some (Fin False 50 0), max_total_exposure_pct = Some (Fin False 100 0),
     max_daily_loss_pct = Some (Fin False 20 0), max_open_positions = Some 5,
     allowed_symbols = Some {''BTCUSDT''}\<rparr>"

definition demo_request :: OrderRiskRequest where
  "demo_request = \<lparr>rr_symbol = ''BTCUSDT'', rr_side = ''BUY'', rr_notional = Fin False 500 0,
     rr_is_new_symbol = False\<rparr>"

definition demo_snapshot :: AccountRiskSnapshot where
  "demo_snapshot = \<lparr>total_portfolio_value_quote = Fin False 10000 0,
     current_symbol_exposure_quote = Fin False 1000 0, current_total_exposure_quote = Fin False 1000 0,
     open_position_count = 1, realized_loss_today_quote = dec_zero\<rparr>"

lemma demo_ok:
  "risk_inputs demo_limits demo_request demo_snapshot"
  "basic_rules demo_limits demo_request demo_snapshot"
  "below_limit (1 + tol) (loss_pct demo_snapshot) (max_daily_loss_pct demo_limits)"
  "exposure_rules (below_limit (1 + tol)) demo_limits demo_request demo_snapshot"
  by (auto simp: risk_inputs_def basic_rules_def below_limit_def in_limit_def exposure_rules_def
      loss_pct_def exposure_pct_def tol_def demo_limits_def demo_request_def demo_snapshot_def
      upper_def upper_char_def)

lemma demo_approved: "validate_order demo_limits demo_request demo_snapshot = Inr Approved"
  using validate_order_complete [OF demo_ok(1-3)] demo_ok(4) by blast

text \<open>
  C5: An approval respects every configured limit.  The symbol is on the allow list, the notional is
  at most its limit, the portfolio has a positive value, today's loss share and, for a BUY, both
  exposures after the order are at most their limits (up to six units of the 27th digit, the
  rounding of the decimal context), and a BUY of a new symbol leaves room for one more position.
\<close>
theorem risk_approval_respects_limits:
  assumes "risk_inputs limits request snapshot"
    and "validate_order limits request snapshot = Inr Approved"
  shows "basic_rules limits request snapshot \<and>
    in_limit (1 + tol) (loss_pct snapshot) (max_daily_loss_pct limits) \<and>
    (rr_side request = ''BUY'' \<longrightarrow> exposure_rules (in_limit (1 + tol)) limits request snapshot)"
  by (rule validate_order_sound [OF assms])

lemma risk_approval_respects_limits_witness:
  "exposure_rules (in_limit (1 + tol)) demo_limits demo_request demo_snapshot"
  using risk_approval_respects_limits [OF demo_ok(1) demo_approved] by (simp add: demo_request_def)

text \<open>
  C29: The gate is not vacuous: an order that stays below every limit by the same tiny margin is
  approved, with no exception from the arithmetic.
\<close>
theorem risk_within_limits_approved:
  assumes "risk_inputs limits request snapshot" and "basic_rules limits request snapshot"
    and "below_limit (1 + tol) (loss_pct snapshot) (max_daily_loss_pct limits)"
    and "rr_side request = ''BUY'' \<longrightarrow> exposure_rules (below_limit (1 + tol)) limits request snapshot"
  shows "validate_order limits request snapshot = Inr Approved"
  by (rule validate_order_complete [OF assms])

lemma risk_within_limits_approved_witness:
  "validate_order demo_limits demo_request demo_snapshot = Inr Approved"
  using risk_within_limits_approved [OF demo_ok(1-3)] demo_ok(4) by blast

text \<open>
  Fail closed: with any of the six limits unset no BUY is approved, and with the allow list, the
  loss limit or the notional limit unset no order at all.
\<close>
theorem risk_unset_limit_rejects:
  assumes "validate_order limits request snapshot = Inr Approved"
  shows "allowed_symbols limits \<noteq> None \<and> max_daily_loss_pct limits \<noteq> None \<and>
    max_order_notional_quote limits \<noteq> None \<and>
    (rr_side request = ''BUY'' \<longrightarrow> max_symbol_exposure_pct limits \<noteq> None \<and>
       max_total_exposure_pct limits \<noteq> None \<and> max_open_positions limits \<noteq> None)"
  using assms [unfolded validate_order_Approved] approved_configured by blast

lemma risk_unset_limit_rejects_witness: "max_open_positions demo_limits \<noteq> None"
  using risk_unset_limit_rejects [OF demo_approved] by (simp add: demo_request_def)

text \<open>
  A SELL needs only the first three limits: it is approved with both exposure limits and the
  open-position limit unset.  (The module's description says that every order is rejected until all
  six limits are set.)
\<close>
theorem risk_sell_ignores_exposure_limits:
  assumes "rr_side request \<noteq> ''BUY''"
  shows "validate_order (limits\<lparr>max_symbol_exposure_pct := None, max_total_exposure_pct := None,
      max_open_positions := None\<rparr>) request snapshot = validate_order limits request snapshot"
  using assms
  by (simp add: validate_order_def check_allowed_symbol_def check_daily_loss_def check_order_notional_def)

lemma risk_sell_ignores_exposure_limits_witness:
  "validate_order (demo_limits\<lparr>max_symbol_exposure_pct := None, max_total_exposure_pct := None,
      max_open_positions := None\<rparr>) (demo_request\<lparr>rr_side := ''SELL''\<rparr>) demo_snapshot =
   validate_order demo_limits (demo_request\<lparr>rr_side := ''SELL''\<rparr>) demo_snapshot"
  by (rule risk_sell_ignores_exposure_limits) (simp add: demo_request_def)

text \<open>
  Monotone in the limits: an order approved under some limits is approved under wider ones.
\<close>
theorem risk_monotone_in_limits:
  assumes "looser l l'" and "finite_limits l" and "validate_order l request snapshot = Inr Approved"
  shows "validate_order l' request snapshot = Inr Approved"
  by (rule validate_order_looser [OF assms])

lemma risk_monotone_in_limits_witness:
  "validate_order (demo_limits\<lparr>max_open_positions := Some 9\<rparr>) demo_request demo_snapshot = Inr Approved"
  by (rule risk_monotone_in_limits [OF _ _ demo_approved])
    (auto simp: looser_def wider_def finite_limits_def demo_limits_def)

end
