(* ===== verification/Settings.thy ===== *)
theory Settings
  imports World RiskEngine
begin

text \<open>
  \<open>trading/user_risk_settings_service.py\<close>, \<open>trading/config.py\<close>, \<open>trading/kill_switch.py\<close> and
  \<open>trading/simulation_config.py\<close>: the limits of a user, the two trading switches and the simulation
  parameters.  One settings row per user; a user without one has every real limit unset, trading
  enabled and the default simulation limits.
\<close>

section \<open>Environment switches\<close>

definition falsy_values :: "string list" where
  "falsy_values = ['''', ''0'', ''false'', ''no'', ''off'']"

definition is_trading_enabled :: "env \<Rightarrow> bool" where
  "is_trading_enabled E =
    (let v = (case getenv E ''TRADING_ENABLED'' of None \<Rightarrow> ''false'' | Some v \<Rightarrow> v)
     in lower (strip v) \<notin> set falsy_values)"

definition parse_decimal_env :: "env \<Rightarrow> string \<Rightarrow> decimal \<Rightarrow> decimal result" where
  "parse_decimal_env E name dflt =
    (case getenv E name of
       None \<Rightarrow> Inr dflt
     | Some raw \<Rightarrow>
         if strip raw = [] then Inr dflt
         else (case dec_of_str (strip raw) of
             Inl (DecimalErr InvalidOperation) \<Rightarrow> Inl (ValueErr (name @ '' must be a decimal number''))
           | r \<Rightarrow> r))"

definition default_simulation_initial_capital :: "env \<Rightarrow> decimal result" where
  "default_simulation_initial_capital E =
     parse_decimal_env E ''HERMES_SIMULATION_INITIAL_CAPITAL_USD'' (Fin False 10000 0)"

definition default_simulation_quote_asset :: string where
  "default_simulation_quote_asset = ''USDT''"

definition simulation_fee_rate_pct :: "env \<Rightarrow> decimal result" where
  "simulation_fee_rate_pct E = parse_decimal_env E ''HERMES_SIMULATION_FEE_RATE_PCT'' dec_zero"

definition simulation_slippage_rate_pct :: "env \<Rightarrow> decimal result" where
  "simulation_slippage_rate_pct E = parse_decimal_env E ''HERMES_SIMULATION_SLIPPAGE_RATE_PCT'' dec_zero"

section \<open>The settings row of a user\<close>

abbreviation settings_of :: "sys \<Rightarrow> uuid \<Rightarrow> UserTradingSettings option" where
  "settings_of s \<equiv> lookup_row us_user_id (user_settings s)"

text \<open>A new row has the defaults of the database columns.\<close>

definition new_settings :: "uuid \<Rightarrow> UserTradingSettings" where
  "new_settings u = \<lparr>us_user_id = u, us_trading_enabled = True,
     us_max_order_notional_quote = None, us_max_symbol_exposure_pct = None,
     us_max_total_exposure_pct = None, us_max_daily_loss_pct = None,
     us_max_open_positions = None, us_allowed_symbols = None,
     us_sim_max_order_notional_quote = Fin False 1000 0, us_sim_max_symbol_exposure_pct = Fin False 50 0,
     us_sim_max_total_exposure_pct = Fin False 100 0, us_sim_max_daily_loss_pct = Fin False 20 0,
     us_sim_max_open_positions = 5, us_sim_allowed_symbols = [''BTCUSDT'', ''ETHUSDT'']\<rparr>"

definition the_settings :: "sys \<Rightarrow> uuid \<Rightarrow> UserTradingSettings" where
  "the_settings s u = (case settings_of s u of None \<Rightarrow> new_settings u | Some r \<Rightarrow> r)"

definition save_settings :: "UserTradingSettings \<Rightarrow> unit M" where
  "save_settings r = modify (\<lambda>s. s\<lparr>user_settings := save_row us_user_id r (user_settings s)\<rparr>)"

definition unset_limits :: RiskLimits where
  "unset_limits = \<lparr>max_order_notional_quote = None, max_symbol_exposure_pct = None,
     max_total_exposure_pct = None, max_daily_loss_pct = None, max_open_positions = None,
     allowed_symbols = None\<rparr>"

text \<open>An empty list of symbols reads as not configured.\<close>

definition get_user_risk_limits :: "uuid \<Rightarrow> sys \<Rightarrow> RiskLimits" where
  "get_user_risk_limits u s = (case settings_of s u of
      None \<Rightarrow> unset_limits
    | Some row \<Rightarrow>
       \<lparr>max_order_notional_quote = us_max_order_notional_quote row,
        max_symbol_exposure_pct = us_max_symbol_exposure_pct row,
        max_total_exposure_pct = us_max_total_exposure_pct row,
        max_daily_loss_pct = us_max_daily_loss_pct row,
        max_open_positions = us_max_open_positions row,
        allowed_symbols = (case us_allowed_symbols row of
            Some (x # xs) \<Rightarrow> Some (set (x # xs)) | _ \<Rightarrow> None)\<rparr>)"

definition save_user_risk_limits :: "uuid \<Rightarrow> RiskLimits \<Rightarrow> RiskLimits M" where
  "save_user_risk_limits u limits =
     bnd (gets (\<lambda>s. the_settings s u)) (\<lambda>row.
     seq (save_settings (row\<lparr>
        us_max_order_notional_quote := max_order_notional_quote limits,
        us_max_symbol_exposure_pct := max_symbol_exposure_pct limits,
        us_max_total_exposure_pct := max_total_exposure_pct limits,
        us_max_daily_loss_pct := max_daily_loss_pct limits,
        us_max_open_positions := max_open_positions limits,
        us_allowed_symbols := (case allowed_symbols limits of
            Some S \<Rightarrow> if S = {} then None else Some (sorted_list_of_set S) | None \<Rightarrow> None)\<rparr>))
     (gets (get_user_risk_limits u)))"

definition default_simulation_risk_limits :: RiskLimits where
  "default_simulation_risk_limits = \<lparr>max_order_notional_quote = Some (Fin False 1000 0),
     max_symbol_exposure_pct = Some (Fin False 50 0), max_total_exposure_pct = Some (Fin False 100 0),
     max_daily_loss_pct = Some (Fin False 20 0), max_open_positions = Some 5,
     allowed_symbols = Some {''BTCUSDT'', ''ETHUSDT''}\<rparr>"

definition get_user_simulation_risk_limits :: "uuid \<Rightarrow> sys \<Rightarrow> RiskLimits" where
  "get_user_simulation_risk_limits u s = (case settings_of s u of
      None \<Rightarrow> default_simulation_risk_limits
    | Some row \<Rightarrow>
       \<lparr>max_order_notional_quote = Some (us_sim_max_order_notional_quote row),
        max_symbol_exposure_pct = Some (us_sim_max_symbol_exposure_pct row),
        max_total_exposure_pct = Some (us_sim_max_total_exposure_pct row),
        max_daily_loss_pct = Some (us_sim_max_daily_loss_pct row),
        max_open_positions = Some (us_sim_max_open_positions row),
        allowed_symbols = Some (set (us_sim_allowed_symbols row))\<rparr>)"

text \<open>
  The columns are not nullable: a None reaches the database as NULL and its flush fails.  The route
  never passes one.
\<close>

definition save_user_simulation_risk_limits :: "uuid \<Rightarrow> RiskLimits \<Rightarrow> RiskLimits M" where
  "save_user_simulation_risk_limits u limits =
    (case (max_order_notional_quote limits, max_symbol_exposure_pct limits,
           max_total_exposure_pct limits, max_daily_loss_pct limits, max_open_positions limits) of
       (Some a, Some b, Some c, Some d, Some n) \<Rightarrow>
         bnd (gets (\<lambda>s. the_settings s u)) (\<lambda>row.
         seq (save_settings (row\<lparr>
            us_sim_max_order_notional_quote := a, us_sim_max_symbol_exposure_pct := b,
            us_sim_max_total_exposure_pct := c, us_sim_max_daily_loss_pct := d,
            us_sim_max_open_positions := n,
            us_sim_allowed_symbols := (case allowed_symbols limits of
                Some S \<Rightarrow> sorted_list_of_set S | None \<Rightarrow> [])\<rparr>))
         (gets (get_user_simulation_risk_limits u)))
     | _ \<Rightarrow> raise (IntegrityErr ''null value violates not-null constraint''))"

definition is_user_trading_enabled :: "uuid \<Rightarrow> sys \<Rightarrow> bool" where
  "is_user_trading_enabled u s = (case settings_of s u of None \<Rightarrow> True | Some row \<Rightarrow> us_trading_enabled row)"

definition set_user_trading_enabled :: "uuid \<Rightarrow> bool \<Rightarrow> bool M" where
  "set_user_trading_enabled u enabled =
     seq (bnd (gets (\<lambda>s. the_settings s u)) (\<lambda>row. save_settings (row\<lparr>us_trading_enabled := enabled\<rparr>)))
     (gets (is_user_trading_enabled u))"

section \<open>The kill switch\<close>

definition is_trading_permitted :: "env \<Rightarrow> uuid \<Rightarrow> sys \<Rightarrow> bool" where
  "is_trading_permitted E u s = (if \<not> is_trading_enabled E then False else is_user_trading_enabled u s)"

section \<open>Facts\<close>

lemma settings_of_user: "settings_of s u = Some r \<Longrightarrow> us_user_id r = u"
  by (auto dest: lookup_row_Some)

lemma the_settings_user [simp]: "us_user_id (the_settings s u) = u"
  by (auto simp: the_settings_def new_settings_def split: option.split dest: settings_of_user)

lemma wp_save_settings [wp_simps]:
  "wp (save_settings r) Q s = Q (Inr ()) (s\<lparr>user_settings := save_row us_user_id r (user_settings s)\<rparr>)"
  by (simp add: save_settings_def wp_simps)

lemma settings_of_save [simp]:
  "settings_of (s\<lparr>user_settings := save_row us_user_id r (user_settings s)\<rparr>) u =
     (if u = us_user_id r then Some r else settings_of s u)"
  by (simp add: lookup_save_row)

definition finite_symbols :: "RiskLimits \<Rightarrow> bool" where
  "finite_symbols l \<longleftrightarrow> (\<forall>S \<in> set_option (allowed_symbols l). finite S)"

text \<open>Saving an empty set of symbols reads back as None, everything else as it was written.\<close>

definition normal_limits :: "RiskLimits \<Rightarrow> RiskLimits" where
  "normal_limits l = l\<lparr>allowed_symbols := (if allowed_symbols l = Some {} then None else allowed_symbols l)\<rparr>"

lemma sorted_list_nonempty:
  fixes S :: "string set"
  assumes "finite S" and "S \<noteq> {}"
  obtains x xs where "sorted_list_of_set S = x # xs" and "insert x (set xs) = S"
proof -
  have "set (sorted_list_of_set S) = S" using assms(1) by (rule set_sorted_list_of_set)
  then show ?thesis using assms(2) that by (cases "sorted_list_of_set S") auto
qed

lemma the_settings_limits: "settings_of s u = Some r \<Longrightarrow> the_settings s u = r"
  by (simp add: the_settings_def)

text \<open>Whether another field of the settings is read, a row written for it changes nothing.\<close>

lemma the_settings_get:
  "is_user_trading_enabled u s = us_trading_enabled (the_settings s u)"
  "get_user_simulation_risk_limits u s =
     \<lparr>max_order_notional_quote = Some (us_sim_max_order_notional_quote (the_settings s u)),
      max_symbol_exposure_pct = Some (us_sim_max_symbol_exposure_pct (the_settings s u)),
      max_total_exposure_pct = Some (us_sim_max_total_exposure_pct (the_settings s u)),
      max_daily_loss_pct = Some (us_sim_max_daily_loss_pct (the_settings s u)),
      max_open_positions = Some (us_sim_max_open_positions (the_settings s u)),
      allowed_symbols = Some (set (us_sim_allowed_symbols (the_settings s u)))\<rparr>"
  by (simp_all add: is_user_trading_enabled_def get_user_simulation_risk_limits_def the_settings_def
      new_settings_def default_simulation_risk_limits_def split: option.split)

section \<open>Properties\<close>

text \<open>
  Limits read back as they were saved (an empty symbol set as not configured), and saving them
  touches neither the simulation limits, nor anybody's trading switch, nor another user's limits.
\<close>
theorem risk_limits_roundtrip:
  assumes "finite_symbols l"
  shows "wp (save_user_risk_limits u l) (\<lambda>r s'. r = Inr (normal_limits l) \<and>
      get_user_risk_limits u s' = normal_limits l \<and>
      (\<forall>v. v \<noteq> u \<longrightarrow> get_user_risk_limits v s' = get_user_risk_limits v s) \<and>
      (\<forall>v. get_user_simulation_risk_limits v s' = get_user_simulation_risk_limits v s \<and>
         is_user_trading_enabled v s' = is_user_trading_enabled v s)) s"
proof -
  define row where "row = (the_settings s u)\<lparr>
      us_max_order_notional_quote := max_order_notional_quote l,
      us_max_symbol_exposure_pct := max_symbol_exposure_pct l,
      us_max_total_exposure_pct := max_total_exposure_pct l,
      us_max_daily_loss_pct := max_daily_loss_pct l, us_max_open_positions := max_open_positions l,
      us_allowed_symbols := (case allowed_symbols l of
          Some S \<Rightarrow> if S = {} then None else Some (sorted_list_of_set S) | None \<Rightarrow> None)\<rparr>"
  define s' where "s' = s\<lparr>user_settings := save_row us_user_id row (user_settings s)\<rparr>"
  have row: "us_user_id row = u" by (simp add: row_def)
  have at: "settings_of s' v = (if v = u then Some row else settings_of s v)" for v
    by (simp add: s'_def row lookup_save_row)
  have own: "get_user_risk_limits u s' = normal_limits l"
  proof (cases "allowed_symbols l")
    case None
    then show ?thesis by (simp add: get_user_risk_limits_def at row_def normal_limits_def)
  next
    case (Some S)
    show ?thesis
    proof (cases "S = {}")
      case True
      with Some show ?thesis by (simp add: get_user_risk_limits_def at row_def normal_limits_def)
    next
      case False
      have "finite S" using assms Some by (simp add: finite_symbols_def)
      then obtain x xs where "sorted_list_of_set S = x # xs" "insert x (set xs) = S"
        using False by (rule sorted_list_nonempty)
      with Some False show ?thesis by (simp add: get_user_risk_limits_def at row_def normal_limits_def)
    qed
  qed
  have sim: "get_user_simulation_risk_limits v s' = get_user_simulation_risk_limits v s \<and>
      is_user_trading_enabled v s' = is_user_trading_enabled v s" for v
    by (simp add: the_settings_get the_settings_def [of s'] at) (simp add: row_def the_settings_def)
  show ?thesis
    unfolding save_user_risk_limits_def wp_simps sum.case row_def [symmetric] s'_def [symmetric]
    using own sim by (auto simp: get_user_risk_limits_def at)
qed

lemma risk_limits_roundtrip_witness:
  "wp (save_user_risk_limits 7 demo_limits)
     (\<lambda>r s'. get_user_risk_limits 7 s' = normal_limits demo_limits) idle"
  by (rule wp_mono [OF risk_limits_roundtrip]) (simp_all add: finite_symbols_def demo_limits_def)

text \<open>
  The two switches are a conjunction, and each user's switch is their own: trading is permitted
  exactly when the global switch is on and the user has not paused, and setting one user's switch
  changes nothing for another.
\<close>
theorem trading_switches:
  "wp (set_user_trading_enabled u b) (\<lambda>r s'. r = Inr b \<and>
     (\<forall>v. is_trading_permitted E v s' \<longleftrightarrow>
        is_trading_enabled E \<and> (if v = u then b else is_user_trading_enabled v s))) s"
  by (simp add: set_user_trading_enabled_def wp_simps is_trading_permitted_def
      is_user_trading_enabled_def lookup_save_row)

end
