(* ===== verification/Idempotency.thy ===== *)
theory Idempotency
  imports World
begin

text \<open>
  \<open>trading/idempotency.py\<close>: a caller's key is reserved, once, for a user and an endpoint before
  anything is done; a later request with the same key gets the stored response, or an error.
  The abstract specification is a map from (user, endpoint, key) to a slot that is free, in progress
  or done with a response.
\<close>

section \<open>Operations\<close>

definition PROCESSING_SENTINEL :: json where
  "PROCESSING_SENTINEL = JObj [(''status'', JStr ''PROCESSING'')]"

definition compute_request_hash :: "env \<Rightarrow> json \<Rightarrow> string" where
  "compute_request_hash E payload = sha256 E (json_dumps payload)"

definition derive_binance_client_order_id :: "env \<Rightarrow> uuid \<Rightarrow> string \<Rightarrow> string \<Rightarrow> string" where
  "derive_binance_client_order_id E user_id endpoint key =
     ''hm-'' @ take 32 (sha256 E (str_uuid user_id @ '':'' @ endpoint @ '':'' @ key))"

record IdempotencyReservation =
  ir_key_row_id :: uuid
  ir_is_new :: bool
  ir_stored_response :: json

type_synonym scope = "uuid \<times> string \<times> string"

definition ik_scope :: "IdempotencyKey \<Rightarrow> scope" where
  "ik_scope r = (ik_user_id r, ik_endpoint r, ik_key r)"

abbreviation key_row :: "sys \<Rightarrow> scope \<Rightarrow> IdempotencyKey option" where
  "key_row s \<equiv> lookup_row ik_scope (idempotency_keys s)"

text \<open>
  The insertion of the reservation, in a savepoint: it fails, and changes nothing, when either the
  scope or the primary key is taken.
\<close>

definition insert_key :: "IdempotencyKey \<Rightarrow> bool M" where
  "insert_key r s =
     (if ik_scope r \<in> ik_scope ` set (idempotency_keys s) \<or> ik_id r \<in> ik_id ` set (idempotency_keys s)
      then (Inr False, s)
      else (Inr True, s\<lparr>idempotency_keys := idempotency_keys s @ [r]\<rparr>))"

definition reserve :: "env \<Rightarrow> uuid \<Rightarrow> string \<Rightarrow> string \<Rightarrow> json \<Rightarrow> IdempotencyReservation M" where
  "reserve E user_id endpoint key payload =
     (let request_hash = compute_request_hash E payload in
      bnd (new_uuid E) (\<lambda>rid.
      bnd (insert_key \<lparr>ik_id = rid, ik_user_id = user_id, ik_endpoint = endpoint, ik_key = key,
             ik_request_hash = request_hash, ik_response_snapshot = PROCESSING_SENTINEL\<rparr>) (\<lambda>inserted.
      if inserted then
        ret \<lparr>ir_key_row_id = rid, ir_is_new = True, ir_stored_response = JNull\<rparr>
      else
        bnd (gets (\<lambda>s. key_row s (user_id, endpoint, key))) (\<lambda>existing.
        case existing of
          None \<Rightarrow> raise (IntegrityErr ''duplicate key value violates unique constraint'')
        | Some row \<Rightarrow>
            if ik_response_snapshot row = PROCESSING_SENTINEL then
              raise (IdempotencyInProgressErr (''A request with idempotency key '' @ repr key @ '' for '' @
                repr endpoint @ '' is already being processed.''))
            else if ik_request_hash row \<noteq> request_hash then
              raise (IdempotencyConflictErr (''Idempotency key '' @ repr key @ '' was already used for '' @
                repr endpoint @ '' with a different request body.''))
            else ret \<lparr>ir_key_row_id = ik_id row, ir_is_new = False,
                   ir_stored_response = ik_response_snapshot row\<rparr>))))"

definition finalize :: "uuid \<Rightarrow> json \<Rightarrow> unit M" where
  "finalize key_row_id response_snapshot s =
     (case lookup_row ik_id (idempotency_keys s) key_row_id of
        None \<Rightarrow> (Inl (ValueErr (''No idempotency_keys row with id='' @ str_uuid key_row_id)), s)
      | Some row \<Rightarrow> (Inr (), s\<lparr>idempotency_keys :=
          map (\<lambda>r. if ik_id r = key_row_id then r\<lparr>ik_response_snapshot := response_snapshot\<rparr> else r)
            (idempotency_keys s)\<rparr>))"

section \<open>Specification\<close>

datatype slot = Free | InProgress string | Done string json

definition slot_of :: "sys \<Rightarrow> scope \<Rightarrow> slot" where
  "slot_of s k = (case key_row s k of
      None \<Rightarrow> Free
    | Some r \<Rightarrow> if ik_response_snapshot r = PROCESSING_SENTINEL then InProgress (ik_request_hash r)
               else Done (ik_request_hash r) (ik_response_snapshot r))"

text \<open>Well-formed: both unique constraints hold.\<close>

definition keys_ok :: "sys \<Rightarrow> bool" where
  "keys_ok s \<longleftrightarrow> unique_key ik_scope (idempotency_keys s) \<and> unique_key ik_id (idempotency_keys s)"

definition owns :: "sys \<Rightarrow> uuid \<Rightarrow> scope \<Rightarrow> bool" where
  "owns s rid k \<longleftrightarrow> (\<exists>r \<in> set (idempotency_keys s). ik_id r = rid \<and> ik_scope r = k)"

text \<open>The outcome a reservation must have, given the slot it found.\<close>

definition reserve_spec :: "slot \<Rightarrow> string \<Rightarrow> IdempotencyReservation result \<Rightarrow> bool" where
  "reserve_spec sl h r = (case sl of
      Free \<Rightarrow> (\<exists>x. r = Inr x \<and> ir_is_new x) \<or> (\<exists>m. r = Inl (IntegrityErr m))
    | InProgress h' \<Rightarrow> (\<exists>m. r = Inl (IdempotencyInProgressErr m))
    | Done h' v \<Rightarrow> if h' = h then (\<exists>x. r = Inr x \<and> \<not> ir_is_new x \<and> ir_stored_response x = v)
                  else (\<exists>m. r = Inl (IdempotencyConflictErr m)))"

lemma wp_insert_key [wp_simps]:
  "wp (insert_key r) Q s =
     (if ik_scope r \<in> ik_scope ` set (idempotency_keys s) \<or> ik_id r \<in> ik_id ` set (idempotency_keys s)
      then Q (Inr False) s else Q (Inr True) (s\<lparr>idempotency_keys := idempotency_keys s @ [r]\<rparr>))"
  by (simp add: wp_def insert_key_def)

lemma wp_finalize [wp_simps]:
  "wp (finalize rid v) Q s = (case lookup_row ik_id (idempotency_keys s) rid of
      None \<Rightarrow> Q (Inl (ValueErr (''No idempotency_keys row with id='' @ str_uuid rid))) s
    | Some row \<Rightarrow> Q (Inr ()) (s\<lparr>idempotency_keys :=
        map (\<lambda>r. if ik_id r = rid then r\<lparr>ik_response_snapshot := v\<rparr> else r) (idempotency_keys s)\<rparr>))"
  by (simp add: wp_def finalize_def split: option.split)

lemma ik_scope_update [simp]: "ik_scope (r\<lparr>ik_response_snapshot := v\<rparr>) = ik_scope r"
  by (simp add: ik_scope_def)

lemma slot_of_Free: "slot_of s k = Free \<longleftrightarrow> k \<notin> ik_scope ` set (idempotency_keys s)"
  by (simp add: slot_of_def lookup_row_None [symmetric] split: option.split)

lemma slot_of_cong: "idempotency_keys s' = idempotency_keys s \<Longrightarrow> slot_of s' = slot_of s"
  by (rule ext) (simp add: slot_of_def)

lemma keys_ok_append:
  "keys_ok s \<Longrightarrow> ik_scope r \<notin> ik_scope ` set (idempotency_keys s) \<Longrightarrow>
     ik_id r \<notin> ik_id ` set (idempotency_keys s) \<Longrightarrow>
     keys_ok (s\<lparr>idempotency_keys := idempotency_keys s @ [r]\<rparr>)"
  by (auto simp: keys_ok_def unique_key_def)

text \<open>
  Reserving refines the specification: the answer depends on the slot alone, a free slot becomes in
  progress with the request's hash, and no other slot changes.
\<close>

lemma wp_reserve:
  assumes "keys_ok s"
  shows "wp (reserve E u ep key payload) (\<lambda>r s'.
     reserve_spec (slot_of s (u, ep, key)) (compute_request_hash E payload) r \<and>
     keys_ok s' \<and>
     (case r of
        Inr x \<Rightarrow> if ir_is_new x
          then slot_of s (u, ep, key) = Free \<and> owns s' (ir_key_row_id x) (u, ep, key) \<and>
               slot_of s' = (slot_of s)((u, ep, key) := InProgress (compute_request_hash E payload))
          else slot_of s' = slot_of s
      | Inl e \<Rightarrow> slot_of s' = slot_of s) \<and>
     s' = s\<lparr>uuids := uuids s', idempotency_keys := idempotency_keys s'\<rparr> \<and>
     (\<forall>x. r = Inr x \<and> ir_is_new x \<longrightarrow> (\<exists>h. idempotency_keys s' = idempotency_keys s @
        [\<lparr>ik_id = ir_key_row_id x, ik_user_id = u, ik_endpoint = ep, ik_key = key, ik_request_hash = h,
          ik_response_snapshot = PROCESSING_SENTINEL\<rparr>])) \<and>
     (\<not> (\<exists>x. r = Inr x \<and> ir_is_new x) \<longrightarrow> idempotency_keys s' = idempotency_keys s)) s"
proof -
  define k where "k = (u, ep, key)"
  define h where "h = compute_request_hash E payload"
  define rid where "rid = uuid4 E (uuids s)"
  define row where "row = \<lparr>ik_id = rid, ik_user_id = u, ik_endpoint = ep, ik_key = key,
    ik_request_hash = h, ik_response_snapshot = PROCESSING_SENTINEL\<rparr>"
  have sc: "ik_scope row = k" "ik_id row = rid" "ik_request_hash row = h"
      "ik_response_snapshot row = PROCESSING_SENTINEL"
    by (simp_all add: ik_scope_def row_def k_def)
  show ?thesis
  proof (cases "k \<in> ik_scope ` set (idempotency_keys s) \<or> rid \<in> ik_id ` set (idempotency_keys s)")
    case False
    then have free: "slot_of s k = Free" by (simp add: slot_of_Free)
    have ok: "keys_ok (s\<lparr>idempotency_keys := idempotency_keys s @ [row]\<rparr>)"
      using assms False by (intro keys_ok_append) (simp_all add: sc)
    have none: "key_row s k = None" using False by (simp add: lookup_row_None)
    have slots: "slot_of (s\<lparr>uuids := uuids s + 1, idempotency_keys := idempotency_keys s @ [row]\<rparr>) =
        (slot_of s)(k := InProgress h)"
      using none by (intro ext) (simp add: slot_of_def lookup_row_append sc split: option.split)
    show ?thesis
      using False free ok slots
      by (simp add: reserve_def wp_simps Let_def reserve_spec_def owns_def sc flip: k_def h_def rid_def row_def)
        (auto simp: keys_ok_def sc, auto simp: row_def)
  next
    case True
    then show ?thesis
      using assms
      by (cases "key_row s k")
        (auto simp: reserve_def wp_simps Let_def reserve_spec_def slot_of_def sc keys_ok_def
          simp flip: k_def h_def rid_def row_def)
  qed
qed

lemma wp_finalize_slot:
  assumes "keys_ok s" and "owns s rid k" and "v \<noteq> PROCESSING_SENTINEL"
  shows "wp (finalize rid v) (\<lambda>r s'. r = Inr () \<and> keys_ok s' \<and>
     (\<exists>h. slot_of s' = (slot_of s)(k := Done h v) \<and> slot_of s k \<in> {InProgress h} \<union> range (Done h)) \<and>
     s' = s\<lparr>idempotency_keys := idempotency_keys s'\<rparr>) s"
proof -
  obtain row where row: "row \<in> set (idempotency_keys s)" "ik_id row = rid" "ik_scope row = k"
    using assms(2) by (auto simp: owns_def)
  have lk: "lookup_row ik_id (idempotency_keys s) rid = Some row"
    using assms(1) lookup_row_unique [of ik_id _ row] row by (simp add: keys_ok_def)
  have lk2: "key_row s k = Some row"
    using assms(1) lookup_row_unique [of ik_scope _ row] row by (simp add: keys_ok_def)
  define s' where "s' = s\<lparr>idempotency_keys :=
      map (\<lambda>r. if ik_id r = rid then r\<lparr>ik_response_snapshot := v\<rparr> else r) (idempotency_keys s)\<rparr>"
  have same: "ik_id r = rid \<longleftrightarrow> ik_scope r = k" if "r \<in> set (idempotency_keys s)" for r
    using that assms(1) row inj_onD [of ik_id "set (idempotency_keys s)" r row]
      inj_onD [of ik_scope "set (idempotency_keys s)" r row]
    by (auto simp: keys_ok_def unique_key_def distinct_map)
  have rows: "idempotency_keys s' =
      map (\<lambda>r. if ik_scope r = k then r\<lparr>ik_response_snapshot := v\<rparr> else r) (idempotency_keys s)"
    unfolding s'_def using same by simp
  have key: "key_row s' k' = (if k' = k then Some (row\<lparr>ik_response_snapshot := v\<rparr>) else key_row s k')" for k'
    unfolding rows by (subst lookup_map_row) (simp_all add: lk2)
  have "map ik_scope (idempotency_keys s') = map ik_scope (idempotency_keys s)"
      "map ik_id (idempotency_keys s') = map ik_id (idempotency_keys s)"
    by (simp_all add: s'_def)
  then have ok: "keys_ok s'" using assms(1) by (simp add: keys_ok_def unique_key_def)
  have "slot_of s' = (slot_of s)(k := Done (ik_request_hash row) v)"
    using assms(3) by (intro ext) (simp add: slot_of_def key)
  moreover have "slot_of s k \<in> {InProgress (ik_request_hash row)} \<union> range (Done (ik_request_hash row))"
    by (simp add: slot_of_def lk2)
  ultimately show ?thesis
    using ok by (simp add: wp_simps lk flip: s'_def) (auto simp: s'_def)
qed

section \<open>Histories\<close>

text \<open>Any sequence of reservations and finalizations, by any users, interleaved in any way.\<close>

datatype idem_op = Reserve uuid string string json | Finalize uuid json

fun run_op :: "env \<Rightarrow> idem_op \<Rightarrow> sys \<Rightarrow> (scope \<times> IdempotencyReservation result) list \<times> sys" where
  "run_op E (Reserve u ep key payload) s =
     (let (r, s') = reserve E u ep key payload s in ([((u, ep, key), r)], s'))"
| "run_op E (Finalize rid v) s = ([], snd (finalize rid v s))"

fun run_ops :: "env \<Rightarrow> idem_op list \<Rightarrow> sys \<Rightarrow> (scope \<times> IdempotencyReservation result) list \<times> sys" where
  "run_ops E [] s = ([], s)"
| "run_ops E (op # ops) s =
     (let (out, s') = run_op E op s; (outs, s'') = run_ops E ops s' in (out @ outs, s''))"

definition grants :: "scope \<Rightarrow> (scope \<times> IdempotencyReservation result) list \<Rightarrow> nat" where
  "grants k outs = length (filter (\<lambda>(k', r). k' = k \<and> (case r of Inr x \<Rightarrow> ir_is_new x | Inl e \<Rightarrow> False)) outs)"

lemma grants_append [simp]: "grants k (xs @ ys) = grants k xs + grants k ys"
  by (simp add: grants_def)

lemma run_op_grants:
  assumes "keys_ok s" and "run_op E op s = (out, s')"
  shows "keys_ok s' \<and> grants k out + (if slot_of s' k = Free then 1 else 0) \<le> (if slot_of s k = Free then 1 else (0::nat))"
proof (cases op)
  case (Reserve u ep key payload)
  obtain r where r: "reserve E u ep key payload s = (r, s')" "out = [((u, ep, key), r)]"
    using assms(2) Reserve by (auto split: prod.splits)
  note spec = wpD [OF wp_reserve [OF assms(1)] r(1)]
  then show ?thesis
    by (cases r) (auto simp: grants_def r(2) split: if_splits)
next
  case (Finalize rid v)
  then have s': "s' = snd (finalize rid v s)" and out: "out = []" using assms(2) by auto
  have m: "map ik_scope (idempotency_keys s') = map ik_scope (idempotency_keys s)"
      "map ik_id (idempotency_keys s') = map ik_id (idempotency_keys s)"
    by (auto simp: s' finalize_def split: option.split)
  then have "ik_scope ` set (idempotency_keys s') = ik_scope ` set (idempotency_keys s)"
    by (metis list.set_map)
  with m assms(1) show ?thesis
    by (simp add: out grants_def slot_of_Free keys_ok_def unique_key_def)
qed

lemma run_ops_grants:
  assumes "keys_ok s"
  shows "grants k (fst (run_ops E ops s)) \<le> (if slot_of s k = Free then 1 else 0)"
  using assms
proof (induction ops arbitrary: s)
  case Nil
  then show ?case by (simp add: grants_def)
next
  case (Cons op ops)
  obtain out s' where o: "run_op E op s = (out, s')" by fastforce
  from run_op_grants [OF Cons.prems o, of k] Cons.IH [of s'] show ?case
    by (simp add: o split: prod.split) (auto split: if_splits)
qed

lemma idle_keys_ok [simp]: "keys_ok idle"
  by (simp add: idle_def keys_ok_def)

lemma idle_slot [simp]: "slot_of idle k = Free"
  by (simp add: idle_def slot_of_Free)

section \<open>Properties\<close>

text \<open>
  C15: \<open>reserve\<close> refines the map of slots.  A free slot is granted and becomes in progress with the
  hash of the request (or, when the generated row id is taken, nothing happens and the database error
  is raised); an occupied slot is never granted: in progress raises InProgress, done replays the stored
  response for the same request and raises Conflict for another.  No other slot changes.
\<close>
theorem reserve_refines_slots:
  assumes "keys_ok s"
  shows "wp (reserve E u ep key payload) (\<lambda>r s'.
     reserve_spec (slot_of s (u, ep, key)) (compute_request_hash E payload) r \<and> keys_ok s' \<and>
     (case r of
        Inr x \<Rightarrow> if ir_is_new x
          then slot_of s' = (slot_of s)((u, ep, key) := InProgress (compute_request_hash E payload))
          else slot_of s' = slot_of s
      | Inl e \<Rightarrow> slot_of s' = slot_of s)) s"
  by (rule wp_mono [OF wp_reserve [OF assms]]) (auto split: sum.splits if_splits)

lemma reserve_refines_slots_witness:
  "wp (reserve demo_env 1 ''POST /orders'' ''k'' JNull) (\<lambda>r s'. reserve_spec Free (sha256 demo_env ''null'') r) idle"
  by (rule wp_mono [OF reserve_refines_slots]) (simp_all add: compute_request_hash_def)

text \<open>
  At most one execution per key.  In any history of reservations and finalizations, whoever makes
  them and in whatever order, a (user, endpoint, key) is granted at most once.
\<close>
theorem at_most_one_grant:
  assumes "keys_ok s"
  shows "grants k (fst (run_ops E ops s)) \<le> 1"
  using run_ops_grants [OF assms, of k E ops] by (auto split: if_splits)

lemma at_most_one_grant_witness:
  "grants (1, ''e'', ''k'') (fst (run_ops demo_env [Reserve 1 ''e'' ''k'' JNull, Reserve 1 ''e'' ''k'' JNull] idle)) \<le> 1"
  by (rule at_most_one_grant) simp

text \<open>
  A retry replays.  Once a granted key has been finalized with a response, the same request gets
  exactly that response and is not granted again; a request with another hash gets a Conflict.
\<close>
theorem retry_replays_response:
  assumes "keys_ok s" and "slot_of s (u, ep, key) = Free" and "v \<noteq> PROCESSING_SENTINEL"
  shows "wp (bnd (reserve E u ep key p) (\<lambda>x. seq (finalize (ir_key_row_id x) v) (reserve E u ep key q)))
    (\<lambda>r s'. (\<exists>m. r = Inl (IntegrityErr m)) \<or>
      (if compute_request_hash E q = compute_request_hash E p
       then \<exists>y. r = Inr y \<and> \<not> ir_is_new y \<and> ir_stored_response y = v
       else \<exists>m. r = Inl (IdempotencyConflictErr m))) s"
proof (rule wp_bndI [OF wp_reserve [OF assms(1)]], goal_cases)
  case (1 x s1)
  then have x: "ir_is_new x" "owns s1 (ir_key_row_id x) (u, ep, key)" "keys_ok s1"
      "slot_of s1 (u, ep, key) = InProgress (compute_request_hash E p)"
    using assms(2) by (auto simp: reserve_spec_def)
  show ?case
    unfolding seq_def
  proof (rule wp_bndI [OF wp_finalize_slot [OF x(3,2) assms(3)]], goal_cases)
    case (1 y s2)
    then have fin: "slot_of s2 (u, ep, key) = Done (compute_request_hash E p) v" "keys_ok s2"
      using x(4) by auto
    show ?case
      by (rule wp_mono [OF wp_reserve [OF fin(2)]]) (auto simp: fin(1) reserve_spec_def split: if_splits)
  qed auto
next
  case (2 e s1)
  then show ?case using assms(2) by (auto simp: reserve_spec_def)
qed

lemma retry_replays_response_witness:
  "wp (bnd (reserve demo_env 1 ''e'' ''k'' JNull) (\<lambda>x. seq (finalize (ir_key_row_id x) (JInt 5)) (reserve demo_env 1 ''e'' ''k'' JNull)))
     (\<lambda>r s'. (\<exists>m. r = Inl (IntegrityErr m)) \<or> (\<exists>y. r = Inr y \<and> \<not> ir_is_new y \<and> ir_stored_response y = JInt 5)) idle"
  by (rule wp_mono [OF retry_replays_response]) (simp_all add: PROCESSING_SENTINEL_def)

end
