(* ===== verification/Reconciliation.thy ===== *)
theory Reconciliation
  imports World DecimalFacts
begin

text \<open>
  \<open>trading/reconciliation.py\<close>: an order payload of the exchange is folded into the order row, field
  by field.  A field that raises leaves the earlier fields updated, as the mutation of the row does.
\<close>

section \<open>Operations\<close>

definition binance_status_map :: "(string \<times> OrderStatus) list" where
  "binance_status_map = [
     (''NEW'', NEW), (''PARTIALLY_FILLED'', PARTIALLY_FILLED), (''FILLED'', OrderStatus.FILLED),
     (''CANCELED'', OrderStatus.CANCELED), (''PENDING_CANCEL'', PENDING_CANCEL),
     (''REJECTED'', OrderStatus.REJECTED), (''EXPIRED'', EXPIRED), (''EXPIRED_IN_MATCH'', EXPIRED)]"

definition map_binance_status :: "json \<Rightarrow> OrderStatus result" where
  "map_binance_status j = (case j of
      JList xs \<Rightarrow> Inl (TypeErr (''unhashable type: '' @ repr ''list''))
    | JObj kvs \<Rightarrow> Inl (TypeErr (''unhashable type: '' @ repr ''dict''))
    | _ \<Rightarrow> (case (case j of JStr s \<Rightarrow> map_of binance_status_map s | _ \<Rightarrow> None) of
         Some st \<Rightarrow> Inr st
       | None \<Rightarrow> Inl (UnknownBinanceStatusErr
           (''No Hermes OrderStatus mapping for Binance status '' @ py_repr j))))"

definition reconcile_status :: "json \<Rightarrow> Order \<Rightarrow> (Order \<times> bool) result" where
  "reconcile_status payload o1 =
     rbind (jget_opt ''status'' payload) (\<lambda>st.
     if st = JNull then Inr (o1, False)
     else rbind (map_binance_status st) (\<lambda>new_status.
       Inr (if o_status o1 \<noteq> new_status then (o1\<lparr>o_status := new_status\<rparr>, True) else (o1, False))))"

definition reconcile_order_id :: "json \<Rightarrow> Order \<Rightarrow> (Order \<times> bool) result" where
  "reconcile_order_id payload o1 =
     rbind (jget_opt ''order_id'' payload) (\<lambda>oid.
     Inr (if oid \<noteq> JNull \<and> o_binance_order_id o1 \<noteq> Some (py_str oid)
          then (o1\<lparr>o_binance_order_id := Some (py_str oid)\<rparr>, True) else (o1, False)))"

definition reconcile_executed :: "json \<Rightarrow> Order \<Rightarrow> (Order \<times> bool) result" where
  "reconcile_executed payload o1 =
     rbind (jget_opt ''executed_qty'' payload) (\<lambda>q.
     if q = JNull then Inr (o1, False)
     else rbind (dec_of_json_str q) (\<lambda>new_qty.
       rbind (dec_eq (o_executed_quantity o1) new_qty) (\<lambda>same.
       Inr (if \<not> same then (o1\<lparr>o_executed_quantity := new_qty\<rparr>, True) else (o1, False)))))"

definition average_fill_price :: "json \<Rightarrow> decimal option result" where
  "average_fill_price payload =
     rbind (jget_opt ''cummulative_quote_qty'' payload) (\<lambda>cq.
     rbind (jget_opt ''executed_qty'' payload) (\<lambda>q.
     if cq = JNull \<or> q = JNull then Inr None
     else rbind (dec_of_json_str q) (\<lambda>executed.
       rbind (dec_eq executed dec_zero) (\<lambda>zero.
       if zero then Inr None
       else rbind (dec_of_json_str cq) (\<lambda>c. rbind (dec_div c executed) (\<lambda>p. Inr (Some p)))))))"

definition reconcile_average :: "json \<Rightarrow> Order \<Rightarrow> (Order \<times> bool) result" where
  "reconcile_average payload o1 =
     rbind (average_fill_price payload) (\<lambda>avg. case avg of
       None \<Rightarrow> Inr (o1, False)
     | Some p \<Rightarrow> rbind (case o_average_fill_price o1 of None \<Rightarrow> Inr False | Some q \<Rightarrow> dec_eq q p) (\<lambda>same.
         Inr (if \<not> same then (o1\<lparr>o_average_fill_price := Some p\<rparr>, True) else (o1, False))))"

fun run_fields :: "(Order \<Rightarrow> (Order \<times> bool) result) list \<Rightarrow> bool \<Rightarrow> Order \<Rightarrow> bool result \<times> Order" where
  "run_fields [] changed o1 = (Inr changed, o1)"
| "run_fields (f # fs) changed o1 = (case f o1 of
      Inl e \<Rightarrow> (Inl e, o1)
    | Inr (o2, c) \<Rightarrow> run_fields fs (changed \<or> c) o2)"

definition reconcile_fields :: "json \<Rightarrow> (Order \<Rightarrow> (Order \<times> bool) result) list" where
  "reconcile_fields payload =
     [reconcile_status payload, reconcile_order_id payload, reconcile_executed payload,
      reconcile_average payload]"

definition reconcile_from_binance_payload :: "json \<Rightarrow> Order \<Rightarrow> bool result \<times> Order" where
  "reconcile_from_binance_payload payload = run_fields (reconcile_fields payload) False"

text \<open>On the row of the session.\<close>

definition reconcile_row :: "uuid \<Rightarrow> json \<Rightarrow> bool M" where
  "reconcile_row oid payload =
     bnd (the_order oid) (\<lambda>o1.
     seq (upd_order oid (\<lambda>x. snd (reconcile_from_binance_payload payload x)))
     (lift (fst (reconcile_from_binance_payload payload o1))))"

section \<open>What a reconciliation changes\<close>

text \<open>Everything but the four reconciled columns is left alone.\<close>

definition same_request :: "Order \<Rightarrow> Order \<Rightarrow> bool" where
  "same_request o1 o2 \<longleftrightarrow> o2 = o1\<lparr>o_status := o_status o2, o_binance_order_id := o_binance_order_id o2,
     o_executed_quantity := o_executed_quantity o2, o_average_fill_price := o_average_fill_price o2\<rparr>"

lemma same_request_refl [simp]: "same_request o1 o1"
  by (simp add: same_request_def)

lemma same_request_trans: "same_request o1 o2 \<Longrightarrow> same_request o2 o3 \<Longrightarrow> same_request o1 o3"
  unfolding same_request_def by (cases o1; cases o2; cases o3) simp

lemma same_request_fields:
  assumes "same_request o1 o2"
  shows "o_id o2 = o_id o1" "o_user_id o2 = o_user_id o1" "o_bot_id o2 = o_bot_id o1"
    "o_symbol o2 = o_symbol o1" "o_side o2 = o_side o1" "o_order_type o2 = o_order_type o1"
    "o_requested_quantity o2 = o_requested_quantity o1" "o_requested_price o2 = o_requested_price o1"
    "o_binance_client_order_id o2 = o_binance_client_order_id o1" "o_error_message o2 = o_error_message o1"
    "o_created_at o2 = o_created_at o1" "o_submitted_at o2 = o_submitted_at o1"
    "o_terminal_at o2 = o_terminal_at o1"
  by (subst assms [unfolded same_request_def], simp)+

lemma reconcile_fields_same:
  "f \<in> set (reconcile_fields payload) \<Longrightarrow> f o1 = Inr (o2, c) \<Longrightarrow> same_request o1 o2"
  by (auto simp: reconcile_fields_def reconcile_status_def reconcile_order_id_def reconcile_executed_def
      reconcile_average_def same_request_def rbind_def split: sum.splits if_splits option.splits)

lemma run_fields_same:
  assumes "\<And>f o1 o2 c. f \<in> set fs \<Longrightarrow> f o1 = Inr (o2, c) \<Longrightarrow> same_request o1 o2"
  shows "run_fields fs b o1 = (r, o2) \<Longrightarrow> same_request o1 o2"
  using assms
proof (induction fs arbitrary: b o1)
  case (Cons f fs)
  show ?case
  proof (cases "f o1")
    case Inl
    with Cons.prems show ?thesis by simp
  next
    case (Inr p)
    obtain o3 c where p: "p = (o3, c)" by fastforce
    have "same_request o1 o3" by (rule Cons.prems(2) [of f]) (use Inr p in simp_all)
    moreover have "same_request o3 o2"
      by (rule Cons.IH [of "b \<or> c" o3]) (use Cons.prems Inr p in auto)
    ultimately show ?thesis by (rule same_request_trans)
  qed
qed simp

lemma reconcile_same: "reconcile_from_binance_payload payload o1 = (r, o2) \<Longrightarrow> same_request o1 o2"
  unfolding reconcile_from_binance_payload_def
  using run_fields_same [of "reconcile_fields payload"] reconcile_fields_same by blast

lemma wp_reconcile_row [wp_simps]:
  "wp (reconcile_row oid payload) Q s = (case lookup_row o_id (orders s) oid of
      None \<Rightarrow> Q (Inl (ObjectDeletedErr ''Instance <Order> has been deleted'')) s
    | Some o1 \<Rightarrow> Q (fst (reconcile_from_binance_payload payload o1))
        (s\<lparr>orders := map (\<lambda>x. if o_id x = oid then snd (reconcile_from_binance_payload payload x) else x)
           (orders s)\<rparr>))"
  by (simp add: reconcile_row_def wp_simps split: option.split)

text \<open>A second reconciliation with the same payload changes nothing.\<close>

definition settles :: "(Order \<Rightarrow> (Order \<times> bool) result) \<Rightarrow> Order \<Rightarrow> bool" where
  "settles f o1 \<longleftrightarrow> f o1 = Inr (o1, False)"

lemma dec_eq_refl: "\<not> is_nan d \<Longrightarrow> dec_eq d d = Inr True"
proof -
  assume "\<not> is_nan d"
  then have "dec_eq_num d d" "d \<noteq> NaN True" by (cases d; simp add: Let_def)+
  then show ?thesis by (simp add: dec_eq_def)
qed

lemma reconcile_status_settles:
  assumes "reconcile_status p o1 = Inr (o2, c)" and "o_status o3 = o_status o2"
  shows "settles (reconcile_status p) o3"
  using assms by (auto simp: settles_def reconcile_status_def rbind_def split: sum.splits if_splits)

lemma reconcile_order_id_settles:
  assumes "reconcile_order_id p o1 = Inr (o2, c)" and "o_binance_order_id o3 = o_binance_order_id o2"
  shows "settles (reconcile_order_id p) o3"
  using assms by (auto simp: settles_def reconcile_order_id_def rbind_def split: sum.splits if_splits)

lemma reconcile_executed_settles:
  assumes "reconcile_executed p o1 = Inr (o2, c)" and "o_executed_quantity o3 = o_executed_quantity o2"
    and "\<not> is_nan (o_executed_quantity o2)"
  shows "settles (reconcile_executed p) o3"
  using assms dec_eq_refl
  by (auto simp: settles_def reconcile_executed_def rbind_def split: sum.splits if_splits)

lemma reconcile_average_settles:
  assumes "reconcile_average p o1 = Inr (o2, c)" and "o_average_fill_price o3 = o_average_fill_price o2"
    and "\<forall>d \<in> set_option (o_average_fill_price o2). \<not> is_nan d"
  shows "settles (reconcile_average p) o3"
  using assms dec_eq_refl
  by (auto simp: settles_def reconcile_average_def rbind_def split: sum.splits if_splits option.splits)

lemma reconcile_Inr:
  assumes "reconcile_from_binance_payload p o1 = (Inr c, o2)"
  obtains a b d c1 c2 c3 c4 where "reconcile_status p o1 = Inr (a, c1)" and "reconcile_order_id p a = Inr (b, c2)"
    and "reconcile_executed p b = Inr (d, c3)" and "reconcile_average p d = Inr (o2, c4)"
    and "c = (c1 \<or> c2 \<or> c3 \<or> c4)"
  using assms
  by (auto simp: reconcile_from_binance_payload_def reconcile_fields_def split: sum.splits prod.splits)

lemma reconcile_field_frames:
  "reconcile_order_id p o1 = Inr (o2, c) \<Longrightarrow> o_status o2 = o_status o1"
  "reconcile_executed p o1 = Inr (o2, c) \<Longrightarrow> o_status o2 = o_status o1 \<and> o_binance_order_id o2 = o_binance_order_id o1"
  "reconcile_average p o1 = Inr (o2, c) \<Longrightarrow> o_status o2 = o_status o1 \<and>
     o_binance_order_id o2 = o_binance_order_id o1 \<and> o_executed_quantity o2 = o_executed_quantity o1"
  by (auto simp: reconcile_order_id_def reconcile_executed_def reconcile_average_def rbind_def
      split: sum.splits if_splits option.splits)

lemma reconcile_again:
  assumes "reconcile_from_binance_payload p o1 = (Inr c, o2)"
    and "\<not> is_nan (o_executed_quantity o2)" and "\<forall>d \<in> set_option (o_average_fill_price o2). \<not> is_nan d"
  shows "reconcile_from_binance_payload p o2 = (Inr False, o2)"
proof -
  obtain a b d c1 c2 c3 c4 where st: "reconcile_status p o1 = Inr (a, c1)" "reconcile_order_id p a = Inr (b, c2)"
      "reconcile_executed p b = Inr (d, c3)" "reconcile_average p d = Inr (o2, c4)"
    using assms(1) by (rule reconcile_Inr)
  note fr = reconcile_field_frames(1) [OF st(2)] reconcile_field_frames(2) [OF st(3)] reconcile_field_frames(3) [OF st(4)]
  have "settles (reconcile_status p) o2" by (rule reconcile_status_settles [OF st(1)]) (simp add: fr)
  moreover have "settles (reconcile_order_id p) o2" by (rule reconcile_order_id_settles [OF st(2)]) (simp add: fr)
  moreover have "settles (reconcile_executed p) o2"
    by (rule reconcile_executed_settles [OF st(3)]) (use fr assms(2) in simp_all)
  moreover have "settles (reconcile_average p) o2"
    by (rule reconcile_average_settles [OF st(4)]) (use assms(3) in simp_all)
  ultimately show ?thesis
    by (simp add: reconcile_from_binance_payload_def reconcile_fields_def settles_def)
qed

section \<open>Properties\<close>

text \<open>
  Reconciliation is idempotent: folding the same payload in again changes no field and reports
  that nothing changed (for quantities that are numbers).
\<close>
theorem reconcile_idempotent:
  assumes "reconcile_from_binance_payload p o1 = (Inr c, o2)"
    and "\<not> is_nan (o_executed_quantity o2)" and "\<forall>d \<in> set_option (o_average_fill_price o2). \<not> is_nan d"
  shows "reconcile_from_binance_payload p o2 = (Inr False, o2)"
  by (rule reconcile_again [OF assms])

definition demo_order :: Order where
  "demo_order = \<lparr>o_id = 1, o_user_id = 7, o_bot_id = None, o_symbol = ''BTCUSDT'', o_side = BUY,
     o_order_type = MARKET, o_status = PENDING, o_requested_quantity = Fin False 1 0,
     o_requested_price = None, o_executed_quantity = dec_zero, o_average_fill_price = None,
     o_binance_order_id = None, o_binance_client_order_id = ''hm-1'', o_error_message = None,
     o_created_at = 0, o_submitted_at = None, o_terminal_at = None\<rparr>"

lemma reconcile_idempotent_witness:
  "reconcile_from_binance_payload (JObj [(''status'', JStr ''FILLED''), (''order_id'', JStr ''42'')])
     (demo_order\<lparr>o_status := OrderStatus.FILLED, o_binance_order_id := Some ''42''\<rparr>) =
   (Inr False, demo_order\<lparr>o_status := OrderStatus.FILLED, o_binance_order_id := Some ''42''\<rparr>)"
  by (rule reconcile_idempotent [of _ demo_order True])
    (simp_all add: reconcile_from_binance_payload_def reconcile_fields_def reconcile_status_def
      reconcile_order_id_def reconcile_executed_def reconcile_average_def average_fill_price_def
      jget_opt_def map_binance_status_def binance_status_map_def py_str_def demo_order_def)

end
