(* ===== verification/MarketData.thy ===== *)
theory MarketData
  imports World DecimalBounds
begin

text \<open>
  The readers of the exchange: \<open>trading/exchange_info_cache.py\<close>, \<open>trading/positions_service.py\<close> and
  \<open>trading/portfolio_service.py\<close>.  A position is a balance together with the cost basis of the
  asset's trades; the portfolio is the balances at current prices.
\<close>

section \<open>Exchange information cache\<close>

definition info_ttl :: int where "info_ttl = 3600 * us_per_second"

definition cache_lookup :: "string \<Rightarrow> sys \<Rightarrow> (int \<times> json) option" where
  "cache_lookup symb s = map_option snd (lookup_row fst (info_cache s) symb)"

definition cached_exchange_info :: "env \<Rightarrow> string \<Rightarrow> json M" where
  "cached_exchange_info E symb =
     bnd (now_monotonic E) (\<lambda>now.
     bnd (gets (cache_lookup (upper symb))) (\<lambda>entry.
     if (case entry of None \<Rightarrow> False | Some (expires, info) \<Rightarrow> expires > now)
     then ret (snd (the entry))
     else bnd (call_binance E (GetExchangeInfo (upper symb))) (\<lambda>info.
       seq (modify (\<lambda>s. s\<lparr>info_cache := save_row fst (upper symb, now + info_ttl, info) (info_cache s)\<rparr>))
       (ret info))))"

section \<open>Positions\<close>

record Position =
  p_symbol :: string
  p_asset :: string
  p_quantity :: decimal
  p_average_entry_price :: "decimal option"
  p_current_price :: "decimal option"
  p_value_quote :: "decimal option"
  p_unrealized_pnl_quote :: "decimal option"
  p_unrealized_pnl_pct :: "decimal option"

text \<open>\<open>trade.get("time") or 0\<close>, an integer.\<close>

definition trade_time :: "json \<Rightarrow> int result" where
  "trade_time trade = rbind (jget_opt ''time'' trade) (\<lambda>t.
     if \<not> truthy t then Inr 0
     else (case t of JInt i \<Rightarrow> Inr i | JBool b \<Rightarrow> Inr 1
       | _ \<Rightarrow> Inl (TypeErr ''trade time is not comparable'')))"

record walk_state =
  held_qty :: decimal
  total_cost :: decimal

record walk_step =
  ws_time :: int
  ws_held :: decimal
  ws_avg_cost :: decimal
  ws_realized :: decimal

text \<open>One trade: a buy adds to the cost, a sell takes at most what is held out at average cost.\<close>

definition walk_buy :: "decimal \<Rightarrow> decimal \<Rightarrow> walk_state \<Rightarrow> (walk_state \<times> decimal) result" where
  "walk_buy qty price w =
     rbind (dec_mul qty price) (\<lambda>c.
     rbind (dec_add (total_cost w) c) (\<lambda>cost.
     rbind (dec_add (held_qty w) qty) (\<lambda>held.
     Inr (\<lparr>held_qty = held, total_cost = cost\<rparr>, dec_zero))))"

definition walk_sell :: "decimal \<Rightarrow> decimal \<Rightarrow> walk_state \<Rightarrow> (walk_state \<times> decimal) result" where
  "walk_sell qty price w =
     rbind (dec_lt dec_zero (held_qty w)) (\<lambda>pos.
     if pos then
       rbind (dec_div (total_cost w) (held_qty w)) (\<lambda>avg_cost.
       rbind (dec_min qty (held_qty w)) (\<lambda>sold_qty.
       rbind (dec_sub price avg_cost) (\<lambda>gain.
       rbind (dec_mul gain sold_qty) (\<lambda>realized.
       rbind (dec_mul avg_cost sold_qty) (\<lambda>out_cost.
       rbind (dec_sub (total_cost w) out_cost) (\<lambda>cost.
       rbind (dec_sub (held_qty w) sold_qty) (\<lambda>held.
       Inr (\<lparr>held_qty = held, total_cost = cost\<rparr>, realized))))))))
     else Inr (w, dec_zero))"

definition walk_trade :: "json \<Rightarrow> walk_state \<Rightarrow> (walk_state \<times> walk_step) result" where
  "walk_trade trade w =
     rbind (rbind (jget ''qty'' trade) dec_of_json_str) (\<lambda>qty.
     rbind (rbind (jget ''price'' trade) dec_of_json_str) (\<lambda>price.
     rbind (trade_time trade) (\<lambda>t.
     rbind (jget_opt ''is_buyer'' trade) (\<lambda>buyer.
     rbind (if truthy buyer then walk_buy qty price w else walk_sell qty price w) (\<lambda>(w', realized).
     rbind (dec_lt dec_zero (held_qty w')) (\<lambda>pos.
     rbind (if pos then dec_div (total_cost w') (held_qty w') else Inr dec_zero) (\<lambda>avg.
     Inr (w', \<lparr>ws_time = t, ws_held = held_qty w', ws_avg_cost = avg, ws_realized = realized\<rparr>))))))))"

fun walk_trades :: "json list \<Rightarrow> walk_state \<Rightarrow> walk_step list result" where
  "walk_trades [] w = Inr []"
| "walk_trades (t # ts) w =
     rbind (walk_trade t w) (\<lambda>(w', st). rbind (walk_trades ts w') (\<lambda>rest. Inr (st # rest)))"

text \<open>Sorted by time first; the sort is stable.\<close>

definition cost_basis_walk :: "json list \<Rightarrow> walk_step list result" where
  "cost_basis_walk trades =
     rbind (rmap (\<lambda>t. rbind (trade_time t) (\<lambda>k. Inr (k, t))) trades) (\<lambda>keyed.
     walk_trades (map snd (sort_key fst keyed)) \<lparr>held_qty = dec_zero, total_cost = dec_zero\<rparr>)"

definition today_start_ms :: "int \<Rightarrow> int" where
  "today_start_ms now = start_of_day now div 1000"

definition get_trades :: "env \<Rightarrow> string \<Rightarrow> json list M" where
  "get_trades E symb = bnd (call_binance E (GetTrades symb)) (\<lambda>j. lift (jlist j))"

definition get_balances_call :: "env \<Rightarrow> json list M" where
  "get_balances_call E = bnd (call_binance E GetBalances) (\<lambda>j. lift (jlist j))"

definition trades_or_none :: "env \<Rightarrow> string \<Rightarrow> json list M" where
  "trades_or_none E symb =
     bnd (try_binance (get_trades E symb)) (\<lambda>r. ret (case r of Inl b \<Rightarrow> [] | Inr ts \<Rightarrow> ts))"

text \<open>\<open>current_price - average\<close> and its share, when both are known.\<close>

definition unrealized_pnl ::
  "decimal \<Rightarrow> decimal option \<Rightarrow> decimal option \<Rightarrow> (decimal option \<times> decimal option) result" where
  "unrealized_pnl quantity average current = (case (average, current) of
      (Some a, Some c) \<Rightarrow>
        rbind (dec_sub c a) (\<lambda>d. rbind (dec_mul d quantity) (\<lambda>pnl.
        rbind (dec_lt dec_zero a) (\<lambda>pos.
        if pos then rbind (dec_sub c a) (\<lambda>d2. rbind (dec_div d2 a) (\<lambda>r. rbind (dec_mul r (dec_of_int 100)) (\<lambda>pct.
          Inr (Some pnl, Some pct))))
        else Inr (Some pnl, None))))
    | _ \<Rightarrow> Inr (None, None))"

definition average_entry_price :: "walk_step list \<Rightarrow> decimal option result" where
  "average_entry_price steps =
     (if steps = [] then Inr None
      else rbind (dec_lt dec_zero (ws_held (last steps))) (\<lambda>pos.
        Inr (if pos then Some (ws_avg_cost (last steps)) else None)))"

definition build_position :: "env \<Rightarrow> string \<Rightarrow> string \<Rightarrow> decimal \<Rightarrow> Position M" where
  "build_position E quote asset quantity =
     (let symb = asset @ quote in
     bnd (trades_or_none E symb) (\<lambda>trades.
     bnd (lift (rbind (cost_basis_walk trades) average_entry_price)) (\<lambda>average.
     bnd (try_binance (bnd (call_binance E (GetMarketData symb)) (\<lambda>m.
            lift (rbind (jget ''last_price'' m) dec_of_json)))) (\<lambda>price.
     (let current = (case price of Inl b \<Rightarrow> None | Inr d \<Rightarrow> Some d) in
     bnd (lift (case current of None \<Rightarrow> Inr None
            | Some c \<Rightarrow> rbind (dec_mul quantity c) (\<lambda>v. Inr (Some v)))) (\<lambda>value.
     bnd (lift (unrealized_pnl quantity average current)) (\<lambda>(pnl, pct).
     ret \<lparr>p_symbol = symb, p_asset = asset, p_quantity = quantity, p_average_entry_price = average,
       p_current_price = current, p_value_quote = value, p_unrealized_pnl_quote = pnl,
       p_unrealized_pnl_pct = pct\<rparr>)))))))"

text \<open>\<open>Decimal(balance["free"]) + Decimal(balance["locked"])\<close>.\<close>

definition balance_quantity :: "json \<Rightarrow> decimal result" where
  "balance_quantity b =
     rbind (rbind (jget ''free'' b) dec_of_json) (\<lambda>free.
     rbind (rbind (jget ''locked'' b) dec_of_json) (\<lambda>locked. dec_add free locked))"

definition balance_asset :: "json \<Rightarrow> string result" where
  "balance_asset b = rbind (jget ''asset'' b) jstring"

fun eligible_balances :: "string \<Rightarrow> json list \<Rightarrow> (string \<times> decimal) list result" where
  "eligible_balances quote [] = Inr []"
| "eligible_balances quote (b # bs) =
     rbind (balance_asset b) (\<lambda>asset.
     if asset = quote then eligible_balances quote bs
     else rbind (balance_quantity b) (\<lambda>q.
       rbind (dec_le q dec_zero) (\<lambda>none.
       if none then eligible_balances quote bs
       else rbind (eligible_balances quote bs) (\<lambda>rest. Inr ((asset, q) # rest)))))"

definition get_positions :: "env \<Rightarrow> string \<Rightarrow> Position list M" where
  "get_positions E quote =
     bnd (get_balances_call E) (\<lambda>balances.
     bnd (lift (eligible_balances quote balances)) (\<lambda>eligible.
     executor_map (\<lambda>(asset, q). build_position E quote asset q) eligible))"

text \<open>A dictionary of the balances by asset: the last one of an asset wins.\<close>

definition balance_map :: "json list \<Rightarrow> (string \<times> json) list result" where
  "balance_map balances = rbind (rmap (\<lambda>b. rbind (balance_asset b) (\<lambda>a. Inr (a, b))) balances) (\<lambda>kvs. Inr (rev kvs))"

definition base_asset :: "string \<Rightarrow> string \<Rightarrow> string" where
  "base_asset quote symb = (if quote = [] then [] else take (length symb - length quote) symb)"

definition get_position :: "env \<Rightarrow> string \<Rightarrow> string \<Rightarrow> Position option M" where
  "get_position E quote symbol =
     (let symb = upper symbol in
      if \<not> ends_with quote symb then ret None
      else bnd (get_balances_call E) (\<lambda>balances.
        bnd (lift (balance_map balances)) (\<lambda>kvs.
        case map_of kvs (base_asset quote symb) of
          None \<Rightarrow> ret None
        | Some b \<Rightarrow> bnd (lift (balance_quantity b)) (\<lambda>q.
            bnd (lift (dec_le q dec_zero)) (\<lambda>none.
            if none then ret None
            else bnd (build_position E quote (base_asset quote symb) q) (\<lambda>p. ret (Some p)))))))"

fun sum_realized :: "int \<Rightarrow> walk_step list \<Rightarrow> decimal \<Rightarrow> decimal result" where
  "sum_realized start [] acc = Inr acc"
| "sum_realized start (st # steps) acc =
     (if ws_time st \<ge> start then rbind (dec_add acc (ws_realized st)) (sum_realized start steps)
      else sum_realized start steps acc)"

fun sum_assets :: "int \<Rightarrow> json list list \<Rightarrow> decimal \<Rightarrow> decimal result" where
  "sum_assets start [] acc = Inr acc"
| "sum_assets start (ts # tss) acc =
     rbind (cost_basis_walk ts) (\<lambda>steps. rbind (sum_realized start steps acc) (sum_assets start tss))"

definition loss_of :: "decimal \<Rightarrow> decimal result" where
  "loss_of r = rbind (dec_lt r dec_zero) (\<lambda>neg. if neg then dec_neg r else Inr dec_zero)"

definition get_realized_loss_today_quote :: "env \<Rightarrow> string \<Rightarrow> int \<Rightarrow> decimal M" where
  "get_realized_loss_today_quote E quote now =
     bnd (get_balances_call E) (\<lambda>balances.
     bnd (lift (rmap balance_asset balances)) (\<lambda>names.
     (let assets = filter (\<lambda>a. a \<noteq> quote) names in
      if assets = [] then ret dec_zero
      else bnd (executor_map (\<lambda>a. trades_or_none E (a @ quote)) assets) (\<lambda>trades.
        lift (rbind (sum_assets (today_start_ms now) trades dec_zero) loss_of)))))"

section \<open>Portfolio\<close>

record PricedBalance =
  pb_asset :: string
  pb_free :: decimal
  pb_locked :: decimal
  pb_value_quote :: "decimal option"
  pb_priced :: bool

record Portfolio =
  pf_quote_asset :: string
  pf_total_value_quote :: decimal
  pf_as_of :: string
  pf_balances :: "PricedBalance list"

definition price_balance :: "env \<Rightarrow> string \<Rightarrow> json \<Rightarrow> PricedBalance M" where
  "price_balance E quote entry =
     bnd (lift (balance_asset entry)) (\<lambda>asset.
     bnd (lift (rbind (jget ''free'' entry) dec_of_json)) (\<lambda>free.
     bnd (lift (rbind (jget ''locked'' entry) dec_of_json)) (\<lambda>locked.
     bnd (lift (dec_add free locked)) (\<lambda>total_quantity.
     if asset = quote then
       ret \<lparr>pb_asset = asset, pb_free = free, pb_locked = locked, pb_value_quote = Some total_quantity,
         pb_priced = True\<rparr>
     else
       bnd (try_binance (bnd (call_binance E (GetMarketData (asset @ quote))) (\<lambda>m.
              lift (rbind (jget ''last_price'' m) dec_of_json)))) (\<lambda>price. case price of
         Inl b \<Rightarrow> ret \<lparr>pb_asset = asset, pb_free = free, pb_locked = locked, pb_value_quote = None,
             pb_priced = False\<rparr>
       | Inr p \<Rightarrow> bnd (lift (dec_mul total_quantity p)) (\<lambda>v.
           ret \<lparr>pb_asset = asset, pb_free = free, pb_locked = locked, pb_value_quote = Some v,
             pb_priced = True\<rparr>))))))"

definition portfolio_balances :: "env \<Rightarrow> string \<Rightarrow> PricedBalance list M" where
  "portfolio_balances E quote =
     bnd (get_balances_call E) (\<lambda>raw. if raw = [] then ret [] else executor_map (price_balance E quote) raw)"

definition get_portfolio :: "env \<Rightarrow> string \<Rightarrow> Portfolio M" where
  "get_portfolio E quote =
     bnd (portfolio_balances E quote) (\<lambda>balances.
     bnd (lift (dec_sum (List.map_filter pb_value_quote balances) dec_zero)) (\<lambda>total_value.
     bnd (now_utc E) (\<lambda>now.
     ret \<lparr>pf_quote_asset = quote, pf_total_value_quote = total_value, pf_as_of = isoformat now,
       pf_balances = balances\<rparr>)))"

definition get_total_value_quote :: "env \<Rightarrow> string \<Rightarrow> decimal M" where
  "get_total_value_quote E quote = bnd (get_portfolio E quote) (\<lambda>p. ret (pf_total_value_quote p))"

section \<open>Readers write nothing\<close>

fun is_write :: "binance_call \<Rightarrow> bool" where
  "is_write (CreateOrder a b c d e f) = True"
| "is_write (CancelOrder a b c) = True"
| "is_write x = False"

definition reads :: "sys \<Rightarrow> sys \<Rightarrow> bool" where
  "reads s s' \<longleftrightarrow> s' = s\<lparr>info_cache := info_cache s', calls := calls s', ticks := ticks s'\<rparr> \<and>
     (\<exists>cs. calls s' = calls s @ cs \<and> (\<forall>c \<in> set cs. \<not> is_write c))"

interpretation reads: frame reads
proof unfold_locales
  show "reads s s" for s by (simp add: reads_def)
  show "reads s u" if "reads s t" "reads t u" for s t u
    using that unfolding reads_def by (cases s; cases t; cases u) auto
qed

lemma reads_call: "\<not> is_write c \<Longrightarrow> keeps reads (call_binance E c)"
  by (simp add: keeps_def call_binance_def reads_def)

lemma reads_clock: "keeps reads (now_utc E)" "keeps reads (now_monotonic E)"
  by (simp_all add: keeps_def now_utc_def now_monotonic_def reads_def)

lemma reads_cache: "keeps reads (modify (\<lambda>s. s\<lparr>info_cache := f s\<rparr>))"
  by (rule reads.modify) (simp add: reads_def)

lemma reads_balances: "keeps reads (get_balances_call E)"
  unfolding get_balances_call_def by (intro reads.intros reads_call) simp

lemma reads_trades: "keeps reads (trades_or_none E symb)"
  unfolding trades_or_none_def get_trades_def by (intro reads.intros reads_call) simp

lemma reads_build_position: "keeps reads (build_position E quote asset q)"
  unfolding build_position_def
  by (intro reads.let_in reads.bnd reads_trades reads.lift reads.try_binance reads_call reads.case_pair
      reads.ret) simp

lemma reads_get_positions: "keeps reads (get_positions E quote)"
  unfolding get_positions_def
  by (intro reads.bnd reads_balances reads.lift reads.executor_map reads.case_pair reads_build_position)

lemma reads_get_position: "keeps reads (get_position E quote symbol)"
  unfolding get_position_def
  by (intro reads.let_in reads.cond reads.bnd reads_balances reads.lift reads.case_opt reads_build_position
      reads.ret)

lemma reads_loss: "keeps reads (get_realized_loss_today_quote E quote now)"
  unfolding get_realized_loss_today_quote_def
  by (intro reads.let_in reads.cond reads.bnd reads_balances reads.lift reads.executor_map reads_trades
      reads.ret)

lemma reads_price_balance: "keeps reads (price_balance E quote entry)"
  unfolding price_balance_def
  by (intro reads.cond reads.bnd reads.lift reads.try_binance reads_call reads.case_sum reads.ret) simp

lemma reads_portfolio: "keeps reads (get_portfolio E quote)"
  unfolding get_portfolio_def portfolio_balances_def
  by (intro reads.cond reads.bnd reads_balances reads.lift reads.executor_map reads_price_balance
      reads_clock reads.ret)

lemma reads_total_value: "keeps reads (get_total_value_quote E quote)"
  unfolding get_total_value_quote_def by (intro reads.bnd reads_portfolio reads.ret)

lemma reads_exchange_info: "keeps reads (cached_exchange_info E symb)"
  unfolding cached_exchange_info_def
  by (intro reads.cond reads.bnd reads.gets reads_clock reads_call reads.seq reads_cache reads.ret) simp

section \<open>Cost basis\<close>

lemma dec_add_nonneg:
  "is_finite a \<Longrightarrow> is_finite b \<Longrightarrow> 0 \<le> dval a \<Longrightarrow> 0 \<le> dval b \<Longrightarrow> dec_add a b = Inr d \<Longrightarrow>
     is_finite d \<and> 0 \<le> dval d"
  using dec_add_val [of a b d] by (auto simp: near_def)

text \<open>The state of a walk is sound when the tracked quantity is a number that is not negative.\<close>

definition walk_ok :: "walk_state \<Rightarrow> bool" where
  "walk_ok w \<longleftrightarrow> is_finite (held_qty w) \<and> 0 \<le> dval (held_qty w)"

lemma walk_buy_ok:
  assumes "walk_ok w" and "is_finite qty" and "0 \<le> dval qty" and "walk_buy qty price w = Inr (w', r)"
  shows "walk_ok w'"
  using assms dec_add_nonneg [of "held_qty w" qty]
  by (auto simp: walk_buy_def walk_ok_def rbind_def split: sum.splits)

lemma walk_sell_ok:
  assumes "walk_ok w" and "is_finite qty" and "walk_sell qty price w = Inr (w', r)"
  shows "walk_ok w'"
proof (cases "0 < dval (held_qty w)")
  case False
  with assms show ?thesis by (simp add: walk_sell_def walk_ok_def)
next
  case True
  have h: "is_finite (held_qty w)" using assms(1) by (simp add: walk_ok_def)
  define sold where "sold = (if dval (held_qty w) < dval qty then held_qty w else qty)"
  have sold: "dec_min qty (held_qty w) = Inr sold" using h assms(2) by (simp add: dec_min_def sold_def)
  have sf: "is_finite sold" "dval sold \<le> dval (held_qty w)" using h assms(2) by (auto simp: sold_def)
  have "dec_sub (held_qty w) sold = Inr (held_qty w')"
    using assms(3) True h sold by (auto simp: walk_sell_def rbind_def split: sum.splits)
  from dec_sub_val [OF h sf(1) this] sf(2) show ?thesis by (simp add: walk_ok_def near_def)
qed

definition trade_ok :: "json \<Rightarrow> bool" where
  "trade_ok t \<longleftrightarrow> (\<exists>q. rbind (jget ''qty'' t) dec_of_json_str = Inr q \<and> is_finite q \<and> 0 \<le> dval q)"

lemma walk_trade_ok:
  assumes "walk_ok w" and "trade_ok t" and "walk_trade t w = Inr (w', st)"
  shows "walk_ok w' \<and> ws_held st = held_qty w'"
proof -
  obtain q where q: "rbind (jget ''qty'' t) dec_of_json_str = Inr q" "is_finite q" "0 \<le> dval q"
    using assms(2) by (auto simp: trade_ok_def)
  show ?thesis
    using assms(3) walk_buy_ok [OF assms(1) q(2,3)] walk_sell_ok [OF assms(1) q(2)]
    unfolding walk_trade_def q(1)
    by (auto simp: rbind_def split: sum.splits prod.splits if_splits)
qed

lemma walk_trades_ok:
  "walk_ok w \<Longrightarrow> (\<forall>t \<in> set ts. trade_ok t) \<Longrightarrow> walk_trades ts w = Inr steps \<Longrightarrow>
     \<forall>st \<in> set steps. is_finite (ws_held st) \<and> 0 \<le> dval (ws_held st)"
proof (induction ts arbitrary: w steps)
  case (Cons t ts)
  obtain w' st rest where "walk_trade t w = Inr (w', st)" "walk_trades ts w' = Inr rest" "steps = st # rest"
    using Cons.prems(3) by (auto simp: rbind_def split: sum.splits prod.splits)
  with Cons.IH [of w' rest] Cons.prems walk_trade_ok [of w t w' st] show ?case
    by (auto simp: walk_ok_def)
qed simp

lemma rmap_trade_keys:
  "rmap (\<lambda>t. rbind (trade_time t) (\<lambda>k. Inr (k, t))) ts = Inr keyed \<Longrightarrow> map snd keyed = ts"
  by (induction ts arbitrary: keyed) (auto simp: rbind_def split: sum.splits)

lemma cost_basis_walk_held:
  assumes "\<forall>t \<in> set ts. trade_ok t" and "cost_basis_walk ts = Inr steps"
  shows "length steps \<le> length ts \<and> (\<forall>st \<in> set steps. is_finite (ws_held st) \<and> 0 \<le> dval (ws_held st))"
proof -
  obtain keyed where k: "rmap (\<lambda>t. rbind (trade_time t) (\<lambda>k. Inr (k, t))) ts = Inr keyed"
      and w: "walk_trades (map snd (sort_key fst keyed)) \<lparr>held_qty = dec_zero, total_cost = dec_zero\<rparr> = Inr steps"
    using assms(2) by (auto simp: cost_basis_walk_def rbind_def split: sum.splits)
  have ts: "set (map snd (sort_key fst keyed)) = set ts"
    using arg_cong [OF rmap_trade_keys [OF k], of set] by simp
  have "length steps = length us" if "walk_trades us v = Inr steps" for us v
    using that by (induction us arbitrary: v steps) (auto simp: rbind_def split: sum.splits prod.splits)
  from this [OF w] have "length steps = length ts" using rmap_trade_keys [OF k] by auto
  moreover have "\<forall>st \<in> set steps. is_finite (ws_held st) \<and> 0 \<le> dval (ws_held st)"
    by (rule walk_trades_ok [OF _ _ w]) (use assms(1) ts in \<open>auto simp: walk_ok_def\<close>)
  ultimately show ?thesis by simp
qed

lemma loss_of_nonneg:
  assumes "is_finite r" and "loss_of r = Inr d"
  shows "is_finite d \<and> 0 \<le> dval d"
proof (cases "dval r < 0")
  case True
  then have "dec_neg r = Inr d" using assms by (simp add: loss_of_def)
  from dec_neg_val [OF assms(1) this] True show ?thesis by (simp add: near_def)
next
  case False
  with assms show ?thesis by (auto simp: loss_of_def)
qed

section \<open>Properties\<close>

text \<open>
  A cached entry is served until it expires: before that no call is made and nothing but the
  clock moves; otherwise the exchange is asked exactly once and a successful answer is stored for an
  hour under the upper-case symbol.
\<close>
theorem exchange_info_cached:
  "wp (cached_exchange_info E symb) (\<lambda>r s'.
     (case cache_lookup (upper symb) s of
        Some (expires, info) \<Rightarrow> monotonic E (ticks s) < expires \<longrightarrow> r = Inr info \<and> s' = s\<lparr>ticks := ticks s + 1\<rparr>
      | None \<Rightarrow> True) \<and>
     ((\<forall>x \<in> set_option (cache_lookup (upper symb) s). fst x \<le> monotonic E (ticks s)) \<longrightarrow>
        r = client E (calls s) (GetExchangeInfo (upper symb)) \<and>
        calls s' = calls s @ [GetExchangeInfo (upper symb)] \<and>
        (\<forall>info. r = Inr info \<longrightarrow>
           cache_lookup (upper symb) s' = Some (monotonic E (ticks s) + info_ttl, info)))) s"
  by (auto simp: cached_exchange_info_def wp_simps cache_lookup_def lookup_save_row
      split: option.splits sum.splits prod.splits)

lemma exchange_info_cached_witness:
  "wp (cached_exchange_info demo_env ''btcusdt'') (\<lambda>r s'. r = Inr JNull)
     (idle\<lparr>ticks := 0, info_cache := [(upper ''btcusdt'', 5, JNull)]\<rparr>)"
  by (rule wp_mono [OF exchange_info_cached]) (simp add: cache_lookup_def demo_env_def)

text \<open>
  The cost-basis walk never tracks a negative holding: with trades whose quantities are not
  negative, every step of the walk, sells beyond the tracked quantity included, holds a finite
  quantity that is at least zero.
\<close>
theorem cost_basis_never_negative:
  assumes "\<forall>t \<in> set ts. trade_ok t" and "cost_basis_walk ts = Inr steps"
  shows "length steps \<le> length ts \<and> (\<forall>st \<in> set steps. is_finite (ws_held st) \<and> 0 \<le> dval (ws_held st))"
  by (rule cost_basis_walk_held [OF assms])

lemma cost_basis_never_negative_witness:
  "\<exists>steps. cost_basis_walk [JObj [(''qty'', JStr ''1''), (''price'', JStr ''2''), (''time'', JInt 3),
       (''is_buyer'', JBool False)]] = Inr steps \<and> (\<forall>st \<in> set steps. 0 \<le> dval (ws_held st))"
proof -
  define ts where "ts = [JObj [(''qty'', JStr ''1''), (''price'', JStr ''2''), (''time'', JInt 3),
       (''is_buyer'', JBool False)]]"
  have parse: "dec_of_str ''1'' = Inr (Fin False 1 0)" "dec_of_str ''2'' = Inr (Fin False 2 0)"
    by (simp_all add: dec_of_str_def strip_def is_space_def parse_signed_def parse_unsigned_def lower_def
        lower_char_def is_digit_def nat_of_digits_def digit_val_def parse_exp_def)
  have run: "cost_basis_walk ts = Inr [\<lparr>ws_time = 3, ws_held = dec_zero, ws_avg_cost = dec_zero, ws_realized = dec_zero\<rparr>]"
    by (simp add: ts_def cost_basis_walk_def walk_trade_def walk_sell_def trade_time_def jget_def jget_opt_def
        dec_of_json_str_def py_str_def parse)
  have "\<forall>t \<in> set ts. trade_ok t"
    by (simp add: ts_def trade_ok_def jget_def dec_of_json_str_def py_str_def parse)
  from cost_basis_never_negative [OF this run] run show ?thesis by (auto simp: ts_def)
qed

end
