(* ===== verification/OrderValidator.thy ===== *)
theory OrderValidator
  imports DecimalBounds Json
begin

text \<open>
  \<open>trading/order_validator.py\<close>: the check of an order against the trading rules of the exchange.
  A pure function of the request, the market price and the symbol's filters.
\<close>

section \<open>Data\<close>

record OrderValidationRequest =
  ov_symbol :: string
  ov_side :: string
  ov_order_type :: string
  ov_quantity :: decimal
  ov_price :: "decimal option"

record SymbolFilters =
  sf_status :: string
  sf_min_qty :: decimal
  sf_max_qty :: decimal
  sf_step_size :: decimal
  sf_min_price :: decimal
  sf_max_price :: decimal
  sf_tick_size :: decimal
  sf_min_notional :: decimal

record OrderValidationResult =
  vr_approved :: bool
  vr_reason :: "string option"
  vr_notional :: "decimal option"

definition required_filters :: "string list" where
  "required_filters = [''min_qty'', ''max_qty'', ''step_size'', ''min_price'', ''max_price'',
     ''tick_size'', ''min_notional'']"

definition parse_filters :: "json \<Rightarrow> json \<Rightarrow> SymbolFilters result" where
  "parse_filters info fs =
     rbind (jget_or ''status'' (JStr '''') info) (\<lambda>status.
     rbind (rbind (jget ''min_qty'' fs) dec_of_json) (\<lambda>min_qty.
     rbind (rbind (jget ''max_qty'' fs) dec_of_json) (\<lambda>max_qty.
     rbind (rbind (jget ''step_size'' fs) dec_of_json) (\<lambda>step_size.
     rbind (rbind (jget ''min_price'' fs) dec_of_json) (\<lambda>min_price.
     rbind (rbind (jget ''max_price'' fs) dec_of_json) (\<lambda>max_price.
     rbind (rbind (jget ''tick_size'' fs) dec_of_json) (\<lambda>tick_size.
     rbind (rbind (jget ''min_notional'' fs) dec_of_json) (\<lambda>min_notional.
     Inr \<lparr>sf_status = py_str status, sf_min_qty = min_qty, sf_max_qty = max_qty,
       sf_step_size = step_size, sf_min_price = min_price, sf_max_price = max_price,
       sf_tick_size = tick_size, sf_min_notional = min_notional\<rparr>))))))))"

text \<open>
  Missing filters are an error of their own; so is a value that is not a number.  The status is
  only compared with \<open>"TRADING"\<close> and printed, so it is kept as its text.
\<close>

definition symbol_filters_from_exchange_info :: "json \<Rightarrow> SymbolFilters result" where
  "symbol_filters_from_exchange_info info =
     rbind (jget_or ''filters'' (JObj []) info) (\<lambda>fs.
     rbind (rmap (\<lambda>name. rbind (jget_opt name fs) (\<lambda>v. Inr (name, v))) required_filters) (\<lambda>vals.
     rbind (jget_opt ''symbol'' info) (\<lambda>sym.
       (let missing = map fst (filter (\<lambda>nv. snd nv = JNull) vals) in
        if missing \<noteq> [] then
          Inl (SymbolFiltersErr (''exchangeInfo for '' @ py_repr sym @ '' is missing filter(s): ''
            @ join '', '' missing))
        else (case parse_filters info fs of
            Inl (DecimalErr InvalidOperation) \<Rightarrow>
              Inl (SymbolFiltersErr (''exchangeInfo for '' @ py_repr sym
                @ '' has a non-numeric filter value''))
          | r \<Rightarrow> r)))))"

section \<open>Validation\<close>

definition rejected :: "string \<Rightarrow> OrderValidationResult result" where
  "rejected r = Inr \<lparr>vr_approved = False, vr_reason = Some r, vr_notional = None\<rparr>"

text \<open>
  \<open>low <= x <= high\<close> as Python evaluates it: the second comparison only when the first holds.
\<close>

definition in_range :: "decimal \<Rightarrow> decimal \<Rightarrow> decimal \<Rightarrow> bool result" where
  "in_range low x high = rbind (dec_le low x) (\<lambda>l. if l then dec_le x high else Inr False)"

text \<open>\<open>step > 0 and (x - low) % step != 0\<close>.\<close>

definition off_grid :: "decimal \<Rightarrow> decimal \<Rightarrow> decimal \<Rightarrow> bool result" where
  "off_grid x low step = rbind (dec_lt dec_zero step) (\<lambda>pos. if pos
     then rbind (dec_sub x low) (\<lambda>d. rbind (dec_mod d step) (\<lambda>r. rbind (dec_eq r dec_zero) (\<lambda>z. Inr (\<not> z))))
     else Inr False)"

definition range_reason :: "string \<Rightarrow> decimal \<Rightarrow> decimal \<Rightarrow> decimal \<Rightarrow> string" where
  "range_reason what x low high = what @ '' '' @ dec_str x @ '' is outside the allowed range ['' @
     dec_str low @ '', '' @ dec_str high @ '']''"

definition validate_notional ::
  "decimal \<Rightarrow> decimal \<Rightarrow> SymbolFilters \<Rightarrow> OrderValidationResult result" where
  "validate_notional quantity effective_price filters =
     rbind (dec_mul quantity effective_price) (\<lambda>estimated_notional.
     rbind (dec_lt estimated_notional (sf_min_notional filters)) (\<lambda>below.
     if below then rejected (''Order notional '' @ dec_str estimated_notional @
         '' is below the minimum '' @ dec_str (sf_min_notional filters))
     else Inr \<lparr>vr_approved = True, vr_reason = None, vr_notional = Some estimated_notional\<rparr>))"

definition validate_limit_price ::
  "decimal \<Rightarrow> decimal \<Rightarrow> SymbolFilters \<Rightarrow> OrderValidationResult result" where
  "validate_limit_price quantity price filters =
     rbind (in_range (sf_min_price filters) price (sf_max_price filters)) (\<lambda>ok.
     if \<not> ok then rejected
         (range_reason ''Price'' price (sf_min_price filters) (sf_max_price filters))
     else rbind (off_grid price (sf_min_price filters) (sf_tick_size filters)) (\<lambda>off.
     if off then rejected (''Price '' @ dec_str price @ '' does not match tick size '' @
         dec_str (sf_tick_size filters))
     else validate_notional quantity price filters))"

definition validate ::
  "OrderValidationRequest \<Rightarrow> decimal \<Rightarrow> SymbolFilters \<Rightarrow> OrderValidationResult result" where
  "validate request market_price filters =
    (let quantity = ov_quantity request; price = ov_price request in
     if ov_side request \<notin> {''BUY'', ''SELL''} then
       rejected (''Invalid side: '' @ repr (ov_side request))
     else if ov_order_type request \<notin> {''MARKET'', ''LIMIT''} then
       rejected (''Invalid order type: '' @ repr (ov_order_type request))
     else if \<not> is_finite quantity then
       rejected (''Quantity must be a finite number, got '' @ dec_str quantity)
     else if (case price of Some p \<Rightarrow> \<not> is_finite p | None \<Rightarrow> False) then
       rejected (''Price must be a finite number, got '' @ dec_str (the price))
     else if \<not> is_finite market_price then
       rejected ''Market price is unavailable or non-finite''
     else rbind (dec_le quantity dec_zero) (\<lambda>nonpos.
     if nonpos then rejected ''Quantity must be positive''
     else if ov_order_type request = ''MARKET'' \<and> price \<noteq> None then
       rejected ''MARKET orders must not specify a price''
     else rbind (if ov_order_type request = ''LIMIT''
                 then (case price of None \<Rightarrow> Inr True | Some p \<Rightarrow> dec_le p dec_zero)
                 else Inr False) (\<lambda>bad_price.
     if bad_price then rejected ''LIMIT orders require a positive price''
     else if sf_status filters \<noteq> ''TRADING'' then
       rejected (ov_symbol request @ '' is not currently tradable ('' @ sf_status filters @ '')'')
     else rbind (in_range (sf_min_qty filters) quantity (sf_max_qty filters)) (\<lambda>ok.
     if \<not> ok then rejected
         (range_reason ''Quantity'' quantity (sf_min_qty filters) (sf_max_qty filters))
     else rbind (off_grid quantity (sf_min_qty filters) (sf_step_size filters)) (\<lambda>off.
     if off then rejected (''Quantity '' @ dec_str quantity @ '' does not match step size '' @
         dec_str (sf_step_size filters))
     else if ov_order_type request = ''LIMIT''
     then validate_limit_price quantity (the price) filters
     else validate_notional quantity market_price filters)))))"

section \<open>The trading rules, in exact arithmetic\<close>

definition on_grid :: "rat \<Rightarrow> rat \<Rightarrow> rat \<Rightarrow> bool" where
  "on_grid x low step \<longleftrightarrow> (0 < step \<longrightarrow> (\<exists>k::int. x - low = of_int k * step))"

definition price_rules :: "OrderValidationRequest \<Rightarrow> SymbolFilters \<Rightarrow> bool" where
  "price_rules request f \<longleftrightarrow>
     (if ov_order_type request = ''LIMIT'' then
        (case ov_price request of None \<Rightarrow> False
         | Some p \<Rightarrow> 0 < dval p \<and> dval (sf_min_price f) \<le> dval p \<and> dval p \<le> dval (sf_max_price f) \<and>
             on_grid (dval p) (dval (sf_min_price f)) (dval (sf_tick_size f)))
      else ov_price request = None)"

definition effective_price :: "OrderValidationRequest \<Rightarrow> decimal \<Rightarrow> decimal" where
  "effective_price request market_price =
     (if ov_order_type request = ''LIMIT'' then the (ov_price request) else market_price)"

definition exchange_rules :: "OrderValidationRequest \<Rightarrow> decimal \<Rightarrow> SymbolFilters \<Rightarrow> bool" where
  "exchange_rules request market_price f \<longleftrightarrow>
     ov_side request \<in> {''BUY'', ''SELL''} \<and> ov_order_type request \<in> {''MARKET'', ''LIMIT''} \<and>
     0 < dval (ov_quantity request) \<and> price_rules request f \<and> sf_status f = ''TRADING'' \<and>
     dval (sf_min_qty f) \<le> dval (ov_quantity request) \<and>
     dval (ov_quantity request) \<le> dval (sf_max_qty f) \<and>
     on_grid (dval (ov_quantity request)) (dval (sf_min_qty f)) (dval (sf_step_size f)) \<and>
     dval (sf_min_notional f) \<le> dval (ov_quantity request) * dval (effective_price request market_price)"

text \<open>The inputs of the exact theorem: amounts, and a notional of at most 28 digits.\<close>

definition amount_filters :: "SymbolFilters \<Rightarrow> bool" where
  "amount_filters f \<longleftrightarrow> amount (sf_min_qty f) \<and> amount (sf_max_qty f) \<and> amount (sf_step_size f) \<and>
     amount (sf_min_price f) \<and> amount (sf_max_price f) \<and> amount (sf_tick_size f) \<and>
     amount (sf_min_notional f)"

definition amount_request :: "OrderValidationRequest \<Rightarrow> decimal \<Rightarrow> bool" where
  "amount_request request market_price \<longleftrightarrow> amount (ov_quantity request) \<and> amount market_price \<and>
     (\<forall>p \<in> set_option (ov_price request). amount p) \<and>
     (\<forall>p \<in> insert market_price (set_option (ov_price request)). coef (ov_quantity request) * coef p < 10 ^ 28)"

definition settled :: "OrderValidationResult result \<Rightarrow> bool \<Rightarrow> rat \<Rightarrow> bool" where
  "settled r ok v \<longleftrightarrow> (\<exists>res. r = Inr res \<and> vr_approved res = ok \<and>
     (ok \<longrightarrow> (\<exists>n. vr_notional res = Some n \<and> is_finite n \<and> dval n = v)) \<and>
     (\<not> ok \<longrightarrow> vr_reason res \<noteq> None))"

lemma settled_rejected [simp]: "settled (rejected r) ok v \<longleftrightarrow> \<not> ok"
  by (auto simp: settled_def rejected_def)

lemma in_range_finite [simp]:
  "is_finite low \<Longrightarrow> is_finite x \<Longrightarrow> is_finite high \<Longrightarrow>
     in_range low x high = Inr (dval low \<le> dval x \<and> dval x \<le> dval high)"
  by (simp add: in_range_def)

lemma off_grid_amount:
  assumes "amount x" and "amount low" and "amount step"
  shows "off_grid x low step = Inr (\<not> on_grid (dval x) (dval low) (dval step))"
proof (cases "0 < dval step")
  case False
  with assms show ?thesis by (simp add: off_grid_def on_grid_def)
next
  case True
  obtain d where d: "dec_sub x low = Inr d" "exact_at (dval x - dval low) d"
    by (rule dec_sub_amount [OF assms(1,2)])
  obtain r where "dec_mod d step = Inr r" "is_finite r"
      "dval r = 0 \<longleftrightarrow> (\<exists>k::int. dval x - dval low = of_int k * dval step)"
    by (rule dec_mod_amount [OF d(2) assms(3)]) (use True in auto)
  with d True assms show ?thesis by (simp add: off_grid_def on_grid_def)
qed

lemma validate_notional_settled:
  assumes "amount q" and "amount p" and "coef q * coef p < 10 ^ 28" and "amount (sf_min_notional f)"
  shows "settled (validate_notional q p f) (dval (sf_min_notional f) \<le> dval q * dval p) (dval q * dval p)"
proof -
  obtain n where "dec_mul q p = Inr n" "is_finite n" "dval n = dval q * dval p"
    by (rule dec_mul_amount [OF assms(1,2,3)])
  with assms(4) show ?thesis
    by (auto simp: validate_notional_def settled_def rejected_def)
qed

lemma validate_limit_price_settled:
  assumes "amount q" and "amount p" and "coef q * coef p < 10 ^ 28" and "amount_filters f"
  shows "settled (validate_limit_price q p f)
    (dval (sf_min_price f) \<le> dval p \<and> dval p \<le> dval (sf_max_price f) \<and>
     on_grid (dval p) (dval (sf_min_price f)) (dval (sf_tick_size f)) \<and>
     dval (sf_min_notional f) \<le> dval q * dval p) (dval q * dval p)"
  using assms validate_notional_settled [of q p f]
  by (auto simp: validate_limit_price_def amount_filters_def off_grid_amount)

text \<open>Validation is exact: it returns a verdict, and approves precisely the orders the rules allow.\<close>

lemma validate_settled:
  assumes "amount_request request m" and "amount_filters f"
  shows "settled (validate request m f) (exchange_rules request m f)
    (dval (ov_quantity request) * dval (effective_price request m))"
proof -
  define q where "q = ov_quantity request"
  have am: "amount q" "amount m" "coef q * coef m < 10 ^ 28"
    using assms(1) by (auto simp: amount_request_def q_def)
  have f: "amount (sf_min_qty f)" "amount (sf_max_qty f)" "amount (sf_step_size f)" "amount (sf_min_notional f)"
    using assms(2) by (auto simp: amount_filters_def)
  show ?thesis
  proof (cases "ov_order_type request = ''LIMIT''")
    case True
    show ?thesis
    proof (cases "ov_price request")
      case None
      with True am f show ?thesis
        by (simp add: validate_def exchange_rules_def price_rules_def q_def Let_def)
    next
      case (Some p)
      then have p: "amount p" "coef q * coef p < 10 ^ 28"
        using assms(1) by (auto simp: amount_request_def q_def)
      show ?thesis
        using True Some am f p validate_limit_price_settled [OF am(1) p assms(2)]
        by (simp add: validate_def exchange_rules_def price_rules_def effective_price_def Let_def
            off_grid_amount flip: q_def) (auto simp: settled_def)
    qed
  next
    case False
    show ?thesis
      using False am f validate_notional_settled [OF am f(4)] assms(1)
      by (auto simp: validate_def exchange_rules_def price_rules_def effective_price_def Let_def
          off_grid_amount amount_request_def simp flip: q_def split: option.splits)
  qed
qed

text \<open>Whatever the inputs, an approval carries the notional.\<close>

definition approval_has_notional :: "OrderValidationResult result \<Rightarrow> bool" where
  "approval_has_notional r \<longleftrightarrow> (\<forall>v. r = Inr v \<longrightarrow> vr_approved v \<longrightarrow> vr_notional v \<noteq> None)"

lemma approval_has_notional_intros:
  "approval_has_notional (rejected t)"
  "approval_has_notional (Inr \<lparr>vr_approved = True, vr_reason = None, vr_notional = Some n\<rparr>)"
  "approval_has_notional r \<Longrightarrow> approval_has_notional r' \<Longrightarrow> approval_has_notional (if b then r else r')"
  "(\<And>x. approval_has_notional (f x)) \<Longrightarrow> approval_has_notional (rbind m f)"
  by (auto simp: approval_has_notional_def rejected_def rbind_def split: sum.splits)

lemma validate_has_notional: "approval_has_notional (validate request m f)"
  unfolding validate_def validate_limit_price_def validate_notional_def Let_def
  by (auto intro!: approval_has_notional_intros(1-4) split: option.split)

section \<open>Properties\<close>

text \<open>
  C6: Validation decides the exchange's rules exactly.  For amounts whose notional fits in 28 digits
  it returns a verdict, never an exception; it approves precisely when side, type, status, quantity
  range, step size, price range, tick size and minimum notional all hold over the rationals; an
  approval carries the exact notional and a rejection carries a reason.
\<close>
theorem validate_decides_exchange_rules:
  assumes "amount_request request m" and "amount_filters f"
  shows "settled (validate request m f) (exchange_rules request m f)
    (dval (ov_quantity request) * dval (effective_price request m))"
  by (rule validate_settled [OF assms])

definition btc_filters :: SymbolFilters where
  "btc_filters = \<lparr>sf_status = ''TRADING'', sf_min_qty = Fin False 1 (-5), sf_max_qty = Fin False 9000 0,
     sf_step_size = Fin False 1 (-5), sf_min_price = Fin False 1 (-2), sf_max_price = Fin False 1000000 0,
     sf_tick_size = Fin False 1 (-2), sf_min_notional = Fin False 5 0\<rparr>"

definition btc_order :: OrderValidationRequest where
  "btc_order = \<lparr>ov_symbol = ''BTCUSDT'', ov_side = ''BUY'', ov_order_type = ''LIMIT'',
     ov_quantity = Fin False 123 (-3), ov_price = Some (Fin False 6500050 (-2))\<rparr>"

lemma validate_decides_exchange_rules_witness:
  "settled (validate btc_order (Fin False 6500000 (-2)) btc_filters)
     (exchange_rules btc_order (Fin False 6500000 (-2)) btc_filters)
     (dval (ov_quantity btc_order) * dval (effective_price btc_order (Fin False 6500000 (-2))))"
  by (rule validate_decides_exchange_rules)
    (simp_all add: amount_request_def amount_filters_def btc_order_def btc_filters_def)

end
