(* ===== verification/OrderService.thy ===== *)
theory OrderService
  imports Settings Idempotency Reconciliation MarketData OrderValidator RiskEngine
begin

text \<open>
  \<open>trading/order_service.py\<close>: every order goes through idempotency, kill switch, validation, risk
  and only then to the exchange, and ends in a row, events, an audit entry and a finalized
  reservation.  Each method is one definition; the in-memory order is its row.
\<close>

section \<open>Helpers\<close>

definition create_endpoint :: string where "create_endpoint = ''POST /orders''"
definition cancel_endpoint :: string where "cancel_endpoint = ''POST /orders/{id}/cancel''"
definition close_endpoint :: string where "close_endpoint = ''POST /positions/{symbol}/close''"

text \<open>The service object: its quote asset, and the moment its positions service was built.\<close>

record OrderServiceObj =
  os_quote :: string
  os_now :: int

definition make_order_service :: "env \<Rightarrow> string \<Rightarrow> OrderServiceObj M" where
  "make_order_service E quote_asset =
     bnd (now_utc E) (\<lambda>t. ret \<lparr>os_quote = upper quote_asset, os_now = t\<rparr>)"

definition audit ::
  "uuid \<Rightarrow> string \<Rightarrow> string option \<Rightarrow> decimal option \<Rightarrow> AuditResult \<Rightarrow> uuid option \<Rightarrow> string option
     \<Rightarrow> string option \<Rightarrow> unit M" where
  "audit user_id action symbol quantity res hermes_order_id binance_order_id detail =
     add_audit \<lparr>ae_user_id = user_id, ae_action = action, ae_symbol = symbol, ae_quantity = quantity,
       ae_result = res, ae_hermes_order_id = hermes_order_id, ae_binance_order_id = binance_order_id,
       ae_detail = (case detail of None \<Rightarrow> None | Some d \<Rightarrow> if d = [] then None else Some (take 1000 d))\<rparr>"

text \<open>The audit entry of an order, with the columns of its row.\<close>

definition audit_order :: "Order \<Rightarrow> string \<Rightarrow> AuditResult \<Rightarrow> string option \<Rightarrow> string option \<Rightarrow> unit M" where
  "audit_order o1 action res binance_order_id detail =
     audit (o_user_id o1) action (Some (o_symbol o1)) (Some (o_requested_quantity o1)) res
       (Some (o_id o1)) binance_order_id detail"

definition disabled_reason :: string where "disabled_reason = ''Trading is disabled.''"

definition disabled_detail :: string where
  "disabled_detail = ''Trading is not permitted (global or per-user switch is off)''"

text \<open>How an order is named to the exchange: by the exchange's id once there is one.\<close>

definition order_reference :: "Order \<Rightarrow> (int option \<times> string option) result" where
  "order_reference o1 = (case o_binance_order_id o1 of
      Some (c # cs) \<Rightarrow> rbind (int_of_str (c # cs)) (\<lambda>i. Inr (Some i, None))
    | _ \<Rightarrow> Inr (None, Some (o_binance_client_order_id o1)))"

definition binance_final :: "OrderStatus \<Rightarrow> bool" where
  "binance_final st \<longleftrightarrow> status_value st \<in> {''FILLED'', ''CANCELED'', ''REJECTED'', ''EXPIRED''}"

section \<open>Rejection and submission\<close>

definition reject_order :: "env \<Rightarrow> uuid \<Rightarrow> OrderEventType \<Rightarrow> string \<Rightarrow> string \<Rightarrow> json M" where
  "reject_order E oid event_type reason action =
     bnd (now_utc E) (\<lambda>t.
     seq (upd_order oid (\<lambda>o1. o1\<lparr>o_status := OrderStatus.REJECTED, o_error_message := Some (take 500 reason),
            o_terminal_at := Some t\<rparr>))
     (seq (add_event oid event_type (Some (take 1000 reason)))
     (bnd (the_order oid) (\<lambda>o1.
     seq (audit_order o1 action AuditResult.REJECTED None (Some reason))
     (ret (envelope ''order'' (order_to_response o1) ''REJECTED'' (Some reason)))))))"

text \<open>After the exchange confirmed an order: reconcile the row, record, answer with its status.\<close>

definition confirm_order ::
  "env \<Rightarrow> uuid \<Rightarrow> json \<Rightarrow> OrderEventType \<Rightarrow> string option \<Rightarrow> string \<Rightarrow> string option \<Rightarrow> json M" where
  "confirm_order E oid payload event_type event_detail action audit_detail =
     bnd (reconcile_row oid payload) (\<lambda>_.
     bnd (the_order oid) (\<lambda>o1.
     seq (if binance_final (o_status o1)
          then bnd (now_utc E) (\<lambda>t. upd_order oid (\<lambda>x. x\<lparr>o_terminal_at := Some t\<rparr>))
          else ret ())
     (seq (add_event oid event_type event_detail)
     (bnd (the_order oid) (\<lambda>o2.
     seq (audit_order o2 action AuditResult.SUCCESS (o_binance_order_id o2) audit_detail)
     (ret (envelope ''order'' (order_to_response o2) (status_value (o_status o2)) None)))))))"

definition handle_ambiguous_create_failure :: "env \<Rightarrow> uuid \<Rightarrow> binance_err \<Rightarrow> string \<Rightarrow> json M" where
  "handle_ambiguous_create_failure E oid original_error action =
     bnd (the_order oid) (\<lambda>o1.
     bnd (try_binance (call_binance E (GetOrder (o_symbol o1) None (Some (o_binance_client_order_id o1))))) (\<lambda>r.
     case r of
       Inl b \<Rightarrow>
         (let msg = take 500 (''Order submission failed and could not be confirmed: '' @ binance_err_str original_error) in
          bnd (now_utc E) (\<lambda>t.
          seq (upd_order oid (\<lambda>x. x\<lparr>o_status := OrderStatus.FAILED, o_error_message := Some msg, o_terminal_at := Some t\<rparr>))
          (seq (add_event oid BINANCE_ERROR (Some (take 1000 (binance_err_str original_error))))
          (bnd (the_order oid) (\<lambda>o2.
          seq (audit_order o2 action AuditResult.FAILED None (o_error_message o2))
          (ret (envelope ''order'' (order_to_response o2) ''FAILED'' (o_error_message o2))))))))
     | Inr payload \<Rightarrow>
         confirm_order E oid payload RECONCILED
           (Some ''Confirmed on Binance after an ambiguous submission failure.'') action
           (Some ''Confirmed after ambiguous failure'')))"

definition submit_to_binance ::
  "env \<Rightarrow> uuid \<Rightarrow> string \<Rightarrow> string \<Rightarrow> decimal \<Rightarrow> decimal option \<Rightarrow> string \<Rightarrow> json M" where
  "submit_to_binance E oid side order_type quantity price action =
     bnd (now_utc E) (\<lambda>t.
     seq (upd_order oid (\<lambda>x. x\<lparr>o_submitted_at := Some t\<rparr>))
     (seq (add_event oid SUBMITTED None)
     (bnd (the_order oid) (\<lambda>o1.
     bnd (try_binance (call_binance E (CreateOrder (o_symbol o1) side order_type (dec_str quantity)
            (map_option dec_str price) (o_binance_client_order_id o1)))) (\<lambda>r.
     case r of
       Inl exc \<Rightarrow> handle_ambiguous_create_failure E oid exc action
     | Inr payload \<Rightarrow> confirm_order E oid payload BINANCE_ACK None action None)))))"

section \<open>The pipeline\<close>

definition evaluate_risk :: "env \<Rightarrow> OrderServiceObj \<Rightarrow> Order \<Rightarrow> string \<Rightarrow> decimal \<Rightarrow> RiskDecision M" where
  "evaluate_risk E svc o1 side estimated_notional =
     bnd (gets (get_user_risk_limits (o_user_id o1))) (\<lambda>limits.
     bnd (get_position E (os_quote svc) (o_symbol o1)) (\<lambda>existing_position.
     bnd (get_positions E (os_quote svc)) (\<lambda>all_positions.
     bnd (lift (dec_sum (List.map_filter p_value_quote all_positions) dec_zero)) (\<lambda>total_exposure.
     bnd (get_total_value_quote E (os_quote svc)) (\<lambda>total_value.
     bnd (get_realized_loss_today_quote E (os_quote svc) (os_now svc)) (\<lambda>loss.
     lift (validate_order limits
       \<lparr>rr_symbol = o_symbol o1, rr_side = side, rr_notional = estimated_notional,
        rr_is_new_symbol = (side = ''BUY'' \<and> existing_position = None)\<rparr>
       \<lparr>total_portfolio_value_quote = total_value,
        current_symbol_exposure_quote = (case existing_position of
            Some p \<Rightarrow> (case p_value_quote p of Some v \<Rightarrow> v | None \<Rightarrow> dec_zero) | None \<Rightarrow> dec_zero),
        current_total_exposure_quote = total_exposure,
        open_position_count = int (length all_positions),
        realized_loss_today_quote = loss\<rparr>)))))))"

definition validate_and_execute ::
  "env \<Rightarrow> OrderServiceObj \<Rightarrow> Order \<Rightarrow> string \<Rightarrow> string \<Rightarrow> decimal \<Rightarrow> decimal option \<Rightarrow> string \<Rightarrow> json M" where
  "validate_and_execute E svc o1 side order_type quantity price action =
     bnd (try_binance (bnd (call_binance E (GetMarketData (o_symbol o1))) (\<lambda>m.
            lift (rbind (jget ''last_price'' m) dec_of_json_str)))) (\<lambda>r1. case r1 of
       Inl exc \<Rightarrow> reject_order E (o_id o1) VALIDATION_FAILED
         (''Could not fetch market price: '' @ binance_err_str exc) action
     | Inr market_price \<Rightarrow>
     bnd (try_binance (bnd (cached_exchange_info E (o_symbol o1)) (\<lambda>info.
            lift (symbol_filters_from_exchange_info info)))) (\<lambda>r2. case r2 of
       Inl exc \<Rightarrow> reject_order E (o_id o1) VALIDATION_FAILED
         (''Could not fetch exchange info: '' @ binance_err_str exc) action
     | Inr filters \<Rightarrow>
     bnd (lift (validate \<lparr>ov_symbol = o_symbol o1, ov_side = side, ov_order_type = order_type,
            ov_quantity = quantity, ov_price = price\<rparr> market_price filters)) (\<lambda>validation.
     if \<not> vr_approved validation then
       reject_order E (o_id o1) VALIDATION_FAILED (the (vr_reason validation)) action
     else
     bnd (try_binance (evaluate_risk E svc o1 side (the (vr_notional validation)))) (\<lambda>r3. case r3 of
       Inl exc \<Rightarrow> reject_order E (o_id o1) RISK_REJECTED
         (''Could not evaluate risk (account state unavailable): '' @ binance_err_str exc) action
     | Inr (Rejected reason) \<Rightarrow> reject_order E (o_id o1) RISK_REJECTED reason action
     | Inr Approved \<Rightarrow> submit_to_binance E (o_id o1) side order_type quantity price action))))"

text \<open>The safety net around the pipeline: record the failure, finalize, raise again.\<close>

definition internal_failure :: "env \<Rightarrow> uuid \<Rightarrow> uuid \<Rightarrow> exn \<Rightarrow> string \<Rightarrow> json M" where
  "internal_failure E rid oid exc action =
     bnd (now_utc E) (\<lambda>t.
     seq (upd_order oid (\<lambda>x. x\<lparr>o_status := OrderStatus.FAILED,
            o_error_message := Some ''An unexpected internal error occurred.'', o_terminal_at := Some t\<rparr>))
     (seq (add_event oid INTERNAL_ERROR (Some (take 1000 (str_exn exc))))
     (bnd (the_order oid) (\<lambda>o2.
     seq (audit_order o2 action AuditResult.FAILED None (Some (take 1000 (str_exn exc))))
     (seq (finalize rid (envelope ''order'' (order_to_response o2) ''FAILED'' (o_error_message o2)))
     (raise exc))))))"

definition refuse_disabled :: "uuid \<Rightarrow> uuid \<Rightarrow> string \<Rightarrow> string option \<Rightarrow> decimal option \<Rightarrow> 'a M" where
  "refuse_disabled rid user_id action symbol quantity =
     seq (finalize rid (envelope ''order'' JNull ''REJECTED'' (Some disabled_reason)))
     (seq (audit user_id action symbol quantity AuditResult.REJECTED None None (Some disabled_detail))
     (raise (TradingDisabledErr disabled_reason)))"

definition create_and_execute ::
  "env \<Rightarrow> OrderServiceObj \<Rightarrow> uuid \<Rightarrow> uuid \<Rightarrow> string \<Rightarrow> string \<Rightarrow> string \<Rightarrow> decimal \<Rightarrow> decimal option
     \<Rightarrow> string \<Rightarrow> string \<Rightarrow> string \<Rightarrow> json M" where
  "create_and_execute E svc rid user_id symbol side order_type quantity price key endpoint action =
     bnd (gets (is_trading_permitted E user_id)) (\<lambda>permitted.
     if \<not> permitted then refuse_disabled rid user_id action (Some symbol) (Some quantity)
     else
     bnd (lift (OrderSide_of side)) (\<lambda>side_e.
     bnd (lift (OrderType_of order_type)) (\<lambda>type_e.
     bnd (new_uuid E) (\<lambda>oid.
     bnd (now_utc E) (\<lambda>t.
     (let o1 = \<lparr>o_id = oid, o_user_id = user_id, o_bot_id = None, o_symbol = symbol, o_side = side_e,
            o_order_type = type_e, o_status = PENDING, o_requested_quantity = quantity,
            o_requested_price = price, o_executed_quantity = dec_zero, o_average_fill_price = None,
            o_binance_order_id = None,
            o_binance_client_order_id = derive_binance_client_order_id E user_id endpoint key,
            o_error_message = None, o_created_at = t, o_submitted_at = None, o_terminal_at = None\<rparr> in
     seq (add_order o1)
     (bnd (try_any (validate_and_execute E svc o1 side order_type quantity price action)) (\<lambda>r. case r of
        Inl exc \<Rightarrow> internal_failure E rid oid exc action
      | Inr response \<Rightarrow> seq (finalize rid response) (ret response)))))))))"

definition create_order ::
  "env \<Rightarrow> OrderServiceObj \<Rightarrow> uuid \<Rightarrow> string \<Rightarrow> string \<Rightarrow> string \<Rightarrow> decimal \<Rightarrow> decimal option \<Rightarrow> string \<Rightarrow> json M" where
  "create_order E svc user_id symbol side order_type quantity price key =
     (let symb = upper symbol;
          payload = JObj [(''symbol'', JStr symb), (''side'', JStr side), (''order_type'', JStr order_type),
            (''quantity'', JStr (dec_str quantity)), (''price'', jopt jdec price)] in
     bnd (reserve E user_id create_endpoint key payload) (\<lambda>reservation.
     if \<not> ir_is_new reservation then ret (ir_stored_response reservation)
     else create_and_execute E svc (ir_key_row_id reservation) user_id symb side order_type quantity price
       key create_endpoint ''orders.create''))"

section \<open>Cancelling\<close>

definition cancel_failed :: "uuid \<Rightarrow> uuid \<Rightarrow> uuid \<Rightarrow> binance_err \<Rightarrow> json M" where
  "cancel_failed rid user_id oid exc =
     seq (upd_order oid (\<lambda>x. x\<lparr>o_error_message := Some (take 500 (binance_err_str exc))\<rparr>))
     (seq (add_event oid BINANCE_ERROR (Some (take 1000 (binance_err_str exc))))
     (bnd (the_order oid) (\<lambda>o2.
     seq (audit user_id ''orders.cancel'' (Some (o_symbol o2)) (Some (o_requested_quantity o2))
            AuditResult.FAILED (Some oid) (o_binance_order_id o2) (o_error_message o2))
     (let response = envelope ''order'' (order_to_response o2) ''FAILED'' (o_error_message o2) in
      seq (finalize rid response) (ret response)))))"

definition cancel_confirmed :: "env \<Rightarrow> uuid \<Rightarrow> uuid \<Rightarrow> uuid \<Rightarrow> json \<Rightarrow> json M" where
  "cancel_confirmed E rid user_id oid payload =
     bnd (reconcile_row oid payload) (\<lambda>_.
     bnd (now_utc E) (\<lambda>t.
     seq (upd_order oid (\<lambda>x. x\<lparr>o_terminal_at := Some t\<rparr>))
     (seq (add_event oid OrderEventType.CANCELED None)
     (bnd (the_order oid) (\<lambda>o2.
     seq (audit user_id ''orders.cancel'' (Some (o_symbol o2)) (Some (o_requested_quantity o2))
            AuditResult.SUCCESS (Some oid) (o_binance_order_id o2) None)
     (let response = envelope ''order'' (order_to_response o2) (status_value (o_status o2)) None in
      seq (finalize rid response) (ret response)))))))"

definition cancel_order :: "env \<Rightarrow> uuid \<Rightarrow> uuid \<Rightarrow> string \<Rightarrow> json M" where
  "cancel_order E user_id order_id key =
     bnd (reserve E user_id cancel_endpoint key (JObj [(''order_id'', juuid order_id)])) (\<lambda>reservation.
     if \<not> ir_is_new reservation then ret (ir_stored_response reservation)
     else (let rid = ir_key_row_id reservation in
     bnd (gets (is_trading_permitted E user_id)) (\<lambda>permitted.
     if \<not> permitted then refuse_disabled rid user_id ''orders.cancel'' None None
     else
     bnd (gets (\<lambda>s. lookup_row o_id (orders s) order_id)) (\<lambda>found.
     case (case found of Some o1 \<Rightarrow> if o_user_id o1 = user_id then Some o1 else None | None \<Rightarrow> None) of
       None \<Rightarrow>
         seq (finalize rid (envelope ''order'' JNull ''REJECTED'' (Some ''Order not found.'')))
         (seq (audit user_id ''orders.cancel'' None None AuditResult.REJECTED None None (Some ''Order not found''))
         (raise (OrderNotFoundErr (''No order '' @ str_uuid order_id @ '' for this user.''))))
     | Some o1 \<Rightarrow>
         if \<not> is_cancelable_status (o_status o1) then
           seq (finalize rid (envelope ''order'' (order_to_response o1) ''REJECTED''
                  (Some (''Order is '' @ status_value (o_status o1) @ '', not cancelable.''))))
           (seq (audit user_id ''orders.cancel'' (Some (o_symbol o1)) (Some (o_requested_quantity o1))
                  AuditResult.REJECTED (Some (o_id o1)) (o_binance_order_id o1)
                  (Some (''Order is '' @ status_value (o_status o1) @ '', not cancelable'')))
           (raise (OrderNotCancelableErr (''Order '' @ str_uuid order_id @ '' is '' @
              status_value (o_status o1) @ '', not cancelable.''))))
         else
           seq (add_event (o_id o1) CANCEL_REQUESTED None)
           (bnd (try_binance (bnd (lift (order_reference o1)) (\<lambda>(i, c).
                  call_binance E (CancelOrder (o_symbol o1) i c)))) (\<lambda>r. case r of
              Inl exc \<Rightarrow> cancel_failed rid user_id (o_id o1) exc
            | Inr payload \<Rightarrow> cancel_confirmed E rid user_id (o_id o1) payload))))))"

section \<open>Closing a position\<close>

definition close_position :: "env \<Rightarrow> OrderServiceObj \<Rightarrow> uuid \<Rightarrow> string \<Rightarrow> string \<Rightarrow> json M" where
  "close_position E svc user_id symbol key =
     (let symb = upper symbol in
     bnd (get_position E (os_quote svc) symb) (\<lambda>position.
     case position of
       None \<Rightarrow> raise (PositionNotFoundErr (''No open position for '' @ symb @ ''.''))
     | Some p \<Rightarrow>
         bnd (reserve E user_id close_endpoint key
                (JObj [(''symbol'', JStr symb), (''quantity'', jdec (p_quantity p))])) (\<lambda>reservation.
         if \<not> ir_is_new reservation then ret (ir_stored_response reservation)
         else create_and_execute E svc (ir_key_row_id reservation) user_id symb ''SELL'' ''MARKET''
           (p_quantity p) None key close_endpoint ''positions.close'')))"

end
