(* ===== verification/OrderFacts.thy ===== *)
theory OrderFacts
  imports OrderService
begin

text \<open>
  What the order service may touch, what it sends to the exchange, and what it leaves behind: the
  facts behind its properties.
\<close>

section \<open>Frames\<close>

text \<open>No write call: the calls made since are all readers.\<close>

definition no_write :: "sys \<Rightarrow> sys \<Rightarrow> bool" where
  "no_write s s' \<longleftrightarrow> (\<exists>cs. calls s' = calls s @ cs \<and> (\<forall>c \<in> set cs. \<not> is_write c))"

interpretation no_write: frame no_write
proof unfold_locales
  show "no_write s s" for s by (simp add: no_write_def)
  show "no_write s u" if "no_write s t" "no_write t u" for s t u
    using that unfolding no_write_def by auto
qed

text \<open>
  \<open>only_order oid\<close>: of the orders only the columns the exchange decides, and only of the row \<open>oid\<close>,
  change; events are appended for that order, audit entries appended; the reservations, the settings
  and every other table are as before.
\<close>

definition same_identity :: "Order \<Rightarrow> Order \<Rightarrow> bool" where
  "same_identity x y \<longleftrightarrow> y = x\<lparr>o_status := o_status y, o_executed_quantity := o_executed_quantity y,
     o_average_fill_price := o_average_fill_price y, o_binance_order_id := o_binance_order_id y,
     o_error_message := o_error_message y, o_submitted_at := o_submitted_at y,
     o_terminal_at := o_terminal_at y\<rparr>"

lemma same_identity_refl [simp]: "same_identity x x"
  by (simp add: same_identity_def)

lemma same_identity_trans: "same_identity x y \<Longrightarrow> same_identity y z \<Longrightarrow> same_identity x z"
  unfolding same_identity_def by (cases x; cases y; cases z) simp

lemma same_identity_fields:
  assumes "same_identity x y"
  shows "o_id y = o_id x" "o_user_id y = o_user_id x" "o_bot_id y = o_bot_id x" "o_symbol y = o_symbol x"
    "o_side y = o_side x" "o_order_type y = o_order_type x" "o_requested_quantity y = o_requested_quantity x"
    "o_requested_price y = o_requested_price x" "o_binance_client_order_id y = o_binance_client_order_id x"
    "o_created_at y = o_created_at x"
  by (subst assms [unfolded same_identity_def], simp)+

lemma same_request_identity: "same_request x y \<Longrightarrow> same_identity x y"
  unfolding same_request_def same_identity_def by (cases x; cases y) simp

definition row_kept :: "uuid \<Rightarrow> Order \<Rightarrow> Order \<Rightarrow> bool" where
  "row_kept oid x y \<longleftrightarrow> (if o_id x = oid then same_identity x y else y = x)"

lemma row_kept_refl: "row_kept oid x x"
  by (simp add: row_kept_def)

lemma row_kept_trans: "row_kept oid x y \<Longrightarrow> row_kept oid y z \<Longrightarrow> row_kept oid x z"
  using same_identity_trans same_identity_fields(1) by (fastforce simp: row_kept_def split: if_splits)

lemma row_kept_id: "row_kept oid x y \<Longrightarrow> o_id y = o_id x \<and>
    o_user_id y = o_user_id x \<and> o_binance_client_order_id y = o_binance_client_order_id x"
  using same_identity_fields by (auto simp: row_kept_def split: if_splits)

definition only_order :: "uuid \<Rightarrow> sys \<Rightarrow> sys \<Rightarrow> bool" where
  "only_order oid s s' \<longleftrightarrow> list_all2 (row_kept oid) (orders s) (orders s') \<and>
     (\<exists>es. order_events s' = order_events s @ es \<and> (\<forall>e \<in> set es. oe_order_id e = oid)) \<and>
     (\<exists>xs. audit_log s' = audit_log s @ xs) \<and> (\<exists>cs. calls s' = calls s @ cs) \<and>
     s' = s\<lparr>orders := orders s', order_events := order_events s', audit_log := audit_log s',
       info_cache := info_cache s', calls := calls s', ticks := ticks s'\<rparr>"

interpretation only_order: frame "only_order oid" for oid
proof unfold_locales
  show "only_order oid s s" for s
    by (simp add: only_order_def list_all2_refl row_kept_refl)
  show "only_order oid s u" if a: "only_order oid s t" and b: "only_order oid t u" for s t u
  proof -
    have "list_all2 (row_kept oid) (orders s) (orders u)"
      using a b list_all2_trans [of "row_kept oid" "row_kept oid" "row_kept oid"] row_kept_trans
      unfolding only_order_def by blast
    moreover have "u = s\<lparr>orders := orders u, order_events := order_events u, audit_log := audit_log u,
       info_cache := info_cache u, calls := calls u, ticks := ticks u\<rparr>"
      using a b unfolding only_order_def by (cases s; cases t; cases u) simp
    moreover have "\<exists>es. order_events u = order_events s @ es \<and> (\<forall>e \<in> set es. oe_order_id e = oid)"
        "\<exists>xs. audit_log u = audit_log s @ xs" "\<exists>cs. calls u = calls s @ cs"
      using a b unfolding only_order_def by auto
    ultimately show ?thesis unfolding only_order_def by blast
  qed
qed

lemma only_order_same:
  assumes "only_order oid s s'"
  shows "idempotency_keys s' = idempotency_keys s" and "user_settings s' = user_settings s"
    and "bots s' = bots s" and "bot_positions s' = bot_positions s" and "credentials s' = credentials s"
    and "simulation_accounts s' = simulation_accounts s" and "simulation_orders s' = simulation_orders s"
    and "uuids s' = uuids s"
  using assms unfolding only_order_def by (cases s; cases s'; simp)+

lemma reads_only_order: "reads s s' \<Longrightarrow> only_order oid s s'"
  unfolding reads_def only_order_def
  by (cases s; cases s') (auto simp: list_all2_refl row_kept_refl)

lemma reads_no_write: "reads s s' \<Longrightarrow> no_write s s'"
  by (auto simp: reads_def no_write_def)

lemma keeps_weaken: "keeps R m \<Longrightarrow> (\<And>s s'. R s s' \<Longrightarrow> R' s s') \<Longrightarrow> keeps R' m"
  by (simp add: keeps_def)

lemma keeps_reads:
  assumes "keeps reads m"
  shows "keeps (only_order oid) m" and "keeps no_write m"
  using keeps_weaken [OF assms] reads_only_order reads_no_write by blast+

text \<open>The primitives.\<close>

lemma only_order_upd:
  assumes "\<And>x. same_identity x (f x)"
  shows "keeps (only_order oid) (upd_order oid f)"
  unfolding upd_order_def
  by (rule only_order.modify) (simp add: only_order_def list_all2_map2 list_all2_refl row_kept_def assms)

lemma only_order_prims:
  "keeps (only_order oid) (the_order oid')" "keeps no_write (the_order oid')"
  "keeps (only_order oid) (add_event oid ty d)" "keeps no_write (add_event oid' ty d)"
  "keeps (only_order oid) (audit u a sy q res h b d)" "keeps no_write (audit u a sy q res h b d)"
  "keeps (only_order oid) (audit_order o1 a res b d)" "keeps no_write (audit_order o1 a res b d)"
  "keeps no_write (upd_order oid' f)" "keeps (only_order oid) (call_binance E c)"
  "keeps (only_order oid) (now_utc E)" "keeps no_write (now_utc E)"
  "keeps no_write (new_uuid E)" "keeps no_write (add_order o1)" "keeps no_write (finalize rid v)"
  by (auto simp: keeps_wp_iff wp_simps only_order_def no_write_def audit_def audit_order_def
      list_all2_refl row_kept_refl split: option.split)

lemma no_write_call: "\<not> is_write c \<Longrightarrow> keeps no_write (call_binance E c)"
  by (simp add: keeps_wp_iff wp_simps no_write_def)

lemma only_order_reconcile: "keeps (only_order oid) (reconcile_row oid payload)"
  unfolding reconcile_row_def
proof (intro only_order.bnd only_order.seq only_order.lift only_order_prims only_order_upd)
  show "same_identity x (snd (reconcile_from_binance_payload payload x))" for x
    using reconcile_same [of payload x] same_request_identity by (metis prod.collapse)
qed

lemma no_write_reconcile: "keeps no_write (reconcile_row oid payload)"
  unfolding reconcile_row_def by (intro no_write.bnd no_write.seq no_write.lift only_order_prims)

lemma same_identity_updates [simp]:
  "same_identity x (x\<lparr>o_status := a, o_error_message := b, o_terminal_at := c\<rparr>)"
  "same_identity x (x\<lparr>o_terminal_at := c\<rparr>)" "same_identity x (x\<lparr>o_submitted_at := c\<rparr>)"
  "same_identity x (x\<lparr>o_error_message := b\<rparr>)"
  by (simp_all add: same_identity_def)

lemma reject_order_frame:
  "keeps (only_order oid) (reject_order E oid ty reason action)"
  "keeps no_write (reject_order E oid ty reason action)"
  unfolding reject_order_def
  by (intro only_order.bnd only_order.seq only_order.ret only_order_prims only_order_upd,
      simp) (intro no_write.bnd no_write.seq no_write.ret only_order_prims)

lemma confirm_order_frame:
  "keeps (only_order oid) (confirm_order E oid payload ty d action ad)"
  "keeps no_write (confirm_order E oid payload ty d action ad)"
  unfolding confirm_order_def
  by (intro only_order.bnd only_order.seq only_order.ret only_order.cond only_order_prims only_order_upd
      only_order_reconcile, simp)
    (intro no_write.bnd no_write.seq no_write.ret no_write.cond only_order_prims no_write_reconcile)

lemma ambiguous_frame:
  "keeps (only_order oid) (handle_ambiguous_create_failure E oid b action)"
  "keeps no_write (handle_ambiguous_create_failure E oid b action)"
  unfolding handle_ambiguous_create_failure_def
  by (intro only_order.bnd only_order.seq only_order.ret only_order.case_sum only_order.let_in
      only_order.try_binance only_order_prims only_order_upd confirm_order_frame, simp)
    (intro no_write.bnd no_write.seq no_write.ret no_write.case_sum no_write.let_in no_write.try_binance
      only_order_prims confirm_order_frame no_write_call, simp)

lemma submit_frame: "keeps (only_order oid) (submit_to_binance E oid side ty q p action)"
  unfolding submit_to_binance_def
  by (intro only_order.bnd only_order.seq only_order.try_binance only_order.case_sum only_order_prims
      only_order_upd confirm_order_frame ambiguous_frame) simp

lemma reads_evaluate_risk: "keeps reads (evaluate_risk E svc o1 side n)"
  unfolding evaluate_risk_def
  by (intro reads.bnd reads.gets reads.lift reads_get_position reads_get_positions reads_total_value reads_loss)

lemma reads_market_price:
  "keeps reads (bnd (call_binance E (GetMarketData symb)) (\<lambda>m. lift (f m)))"
  by (intro reads.bnd reads_call reads.lift) simp

lemma reads_filters: "keeps reads (bnd (cached_exchange_info E symb) (\<lambda>i. lift (f i)))"
  by (intro reads.bnd reads_exchange_info reads.lift)

lemmas gate_reads = reads_market_price reads_filters reads_evaluate_risk
lemmas gate_frames = gate_reads [THEN keeps_reads(1)]

lemma validate_and_execute_frame:
  "keeps (only_order (o_id o1)) (validate_and_execute E svc o1 side ty q p action)"
  unfolding validate_and_execute_def
  by (rule only_order.bnd only_order.try_binance only_order.case_sum only_order.lift only_order.cond
      gate_frames reject_order_frame)+
    (simp add: reject_order_frame submit_frame split: RiskDecision.split)

section \<open>The row of the order\<close>

lemma lookup_row_kept:
  assumes "list_all2 (row_kept oid) rows rows'" and "lookup_row o_id rows oid = Some x"
  obtains y where "lookup_row o_id rows' oid = Some y" and "same_identity x y"
proof -
  have "\<exists>y. lookup_row o_id rows' oid = Some y \<and> same_identity x y"
    using assms
  proof (induction rule: list_all2_induct)
    case (Cons a as b bs)
    show ?case
    proof (cases "o_id a = oid")
      case True
      then have "same_identity a b" using Cons.hyps(1) by (simp add: row_kept_def)
      then show ?thesis using Cons.prems True same_identity_fields(1) by fastforce
    next
      case False
      then have "b = a" using Cons.hyps(1) by (simp add: row_kept_def)
      then show ?thesis using Cons False by simp
    qed
  qed simp
  then show ?thesis using that by blast
qed

lemma only_order_lookup:
  "only_order oid s s' \<Longrightarrow> lookup_row o_id (orders s) oid = Some x \<Longrightarrow>
     \<exists>y. lookup_row o_id (orders s') oid = Some y \<and> same_identity x y"
  unfolding only_order_def using lookup_row_kept by blast

section \<open>What is sent, and when\<close>

text \<open>The calls that follow an approval: one order, then at most readers.\<close>

lemma wp_submit_to_binance:
  assumes "lookup_row o_id (orders s) oid = Some o1"
  shows "wp (submit_to_binance E oid side ty q p action) (\<lambda>r s'. \<exists>cs. calls s' = calls s @
      CreateOrder (o_symbol o1) side ty (dec_str q) (map_option dec_str p) (o_binance_client_order_id o1) # cs \<and>
      (\<forall>c \<in> set cs. \<not> is_write c)) s"
proof -
  define order_call where "order_call =
    CreateOrder (o_symbol o1) side ty (dec_str q) (map_option dec_str p) (o_binance_client_order_id o1)"
  have rest: "wp m (\<lambda>r s'. \<exists>cs. calls s' = calls t @ cs \<and> (\<forall>c \<in> set cs. \<not> is_write c)) t"
    if "keeps no_write m" for m :: "json M" and t
    using keeps_wp [OF that] by (simp add: no_write_def)
  show ?thesis
    by (auto simp: submit_to_binance_def wp_simps assms lookup_map_row simp flip: order_call_def
        split: sum.split exn.split
        intro!: wp_mono [OF rest [OF ambiguous_frame(2)]] wp_mono [OF rest [OF confirm_order_frame(2)]])
qed

text \<open>
  \<open>gated\<close>: the validator approved the request against some market price and filters, and the risk
  engine approved its notional under the user's limits, in this very state.
\<close>

definition gated :: "sys \<Rightarrow> uuid \<Rightarrow> string \<Rightarrow> string \<Rightarrow> string \<Rightarrow> decimal \<Rightarrow> decimal option \<Rightarrow> bool" where
  "gated s user symb side ty q p \<longleftrightarrow> (\<exists>m f v rq sn n.
     validate \<lparr>ov_symbol = symb, ov_side = side, ov_order_type = ty, ov_quantity = q, ov_price = p\<rparr> m f = Inr v \<and>
     vr_approved v \<and> vr_notional v = Some n \<and>
     validate_order (get_user_risk_limits user s) rq sn = Inr Approved \<and>
     rr_symbol rq = symb \<and> rr_side rq = side \<and> rr_notional rq = n)"

lemma gatedI:
  assumes "validate \<lparr>ov_symbol = symb, ov_side = side, ov_order_type = ty, ov_quantity = q, ov_price = p\<rparr> m f = Inr v"
    and "vr_approved v" and "vr_notional v = Some n"
    and "validate_order (get_user_risk_limits user s) rq sn = Inr Approved"
    and "rr_symbol rq = symb" and "rr_side rq = side" and "rr_notional rq = n"
  shows "gated s user symb side ty q p"
  unfolding gated_def by (intro exI conjI) (rule assms)+

lemma gated_cong: "user_settings s' = user_settings s \<Longrightarrow> gated s' = gated s"
  by (intro ext) (simp add: gated_def get_user_risk_limits_def)

definition sends :: "sys \<Rightarrow> Order \<Rightarrow> string \<Rightarrow> string \<Rightarrow> decimal \<Rightarrow> decimal option \<Rightarrow> sys \<Rightarrow> bool" where
  "sends s o1 side ty q p s' \<longleftrightarrow> (\<exists>cs. calls s' = calls s @ cs \<and>
     (filter is_write cs = [] \<or>
      filter is_write cs = [CreateOrder (o_symbol o1) side ty (dec_str q) (map_option dec_str p)
        (o_binance_client_order_id o1)] \<and> gated s (o_user_id o1) (o_symbol o1) side ty q p))"

lemma no_write_sends: "no_write s s' \<Longrightarrow> sends s o1 side ty q p s'"
  by (auto simp: no_write_def sends_def filter_empty_conv)

lemma sends_after:
  assumes "reads s t" and "sends t o1 side ty q p s'"
  shows "sends s o1 side ty q p s'"
proof -
  obtain cs where cs: "calls t = calls s @ cs" "\<forall>c \<in> set cs. \<not> is_write c"
    using assms(1) by (auto simp: reads_def)
  then have "filter is_write (cs @ xs) = filter is_write xs" for xs by simp
  moreover have "user_settings t = user_settings s"
    using assms(1) unfolding reads_def by (cases s; cases t) simp
  ultimately show ?thesis
    using assms(2) cs(1) unfolding sends_def gated_cong [OF \<open>user_settings t = user_settings s\<close>]
    by (metis append.assoc)
qed

lemma evaluate_risk_gates:
  "wp (evaluate_risk E svc o1 side n) (\<lambda>r s'. r = Inr Approved \<longrightarrow> (\<exists>rq sn.
     validate_order (get_user_risk_limits (o_user_id o1) s) rq sn = Inr Approved \<and>
     rr_symbol rq = o_symbol o1 \<and> rr_side rq = side \<and> rr_notional rq = n)) s"
  unfolding evaluate_risk_def wp_bnd [of "gets _"] wp_gets sum.case
  by (intro wp_bnd_any, unfold wp_lift) (fastforce+)

lemma sends_reject:
  "wp (reject_order E oid ev reason action) (\<lambda>r s'. sends s o1 side ty q p s') s"
  by (rule wp_mono [OF keeps_wp [OF reject_order_frame(2)]]) (rule no_write_sends)

lemma reads_same:
  "reads s t \<Longrightarrow> orders t = orders s" "reads s t \<Longrightarrow> user_settings t = user_settings s"
  "reads s t \<Longrightarrow> idempotency_keys t = idempotency_keys s"
  unfolding reads_def by (cases s; cases t; simp)+

lemma sends_raise: "reads s t \<Longrightarrow> sends s o1 side ty q p t"
  by (rule no_write_sends [OF reads_no_write])

text \<open>One rule per stage: reading the account keeps the goal, whatever is read.\<close>

lemma wp_reads_bnd:
  assumes "keeps reads m"
    and "\<And>x t. reads s t \<Longrightarrow> wp (f x) (\<lambda>r s'. sends t o1 side ty q p s') t"
  shows "wp (bnd m f) (\<lambda>r s'. sends s o1 side ty q p s') s"
proof (rule wp_bndI [OF keeps_wp [OF assms(1)]])
  show "wp (f x) (\<lambda>r s'. sends s o1 side ty q p s') t" if "reads s t" for x t
    by (rule wp_mono [OF assms(2) [OF that]]) (rule sends_after [OF that])
qed (rule sends_raise)

lemma keeps_reads_try: "keeps reads m \<Longrightarrow> keeps reads (try_binance m)"
  by (rule reads.try_binance)

lemma risk_sends:
  assumes "lookup_row o_id (orders s) (o_id o1) = Some o1"
    and "validate \<lparr>ov_symbol = o_symbol o1, ov_side = side, ov_order_type = ty, ov_quantity = q, ov_price = p\<rparr> m f = Inr v"
    and "vr_approved v" and "vr_notional v = Some n"
  shows "wp (bnd (try_binance (evaluate_risk E svc o1 side n)) (\<lambda>r3. case r3 of
       Inl exc \<Rightarrow> reject_order E (o_id o1) RISK_REJECTED (msg exc) action
     | Inr (Rejected reason) \<Rightarrow> reject_order E (o_id o1) RISK_REJECTED reason action
     | Inr Approved \<Rightarrow> submit_to_binance E (o_id o1) side ty q p action)) (\<lambda>r s'. sends s o1 side ty q p s') s"
proof (rule wp_bndI [where P = "\<lambda>r t. reads s t \<and> (r = Inr (Inr Approved) \<longrightarrow> gated s (o_user_id o1) (o_symbol o1) side ty q p)"])
  have "wp (evaluate_risk E svc o1 side n) (\<lambda>r t. reads s t \<and>
      (r = Inr Approved \<longrightarrow> gated s (o_user_id o1) (o_symbol o1) side ty q p)) s"
  proof (rule wp_mono [OF wp_conj [OF keeps_wp [OF reads_evaluate_risk] evaluate_risk_gates]], intro conjI impI)
    fix r t
    assume "reads s t \<and> (r = Inr Approved \<longrightarrow> (\<exists>rq sn.
      validate_order (get_user_risk_limits (o_user_id o1) s) rq sn = Inr Approved \<and>
      rr_symbol rq = o_symbol o1 \<and> rr_side rq = side \<and> rr_notional rq = n))" "r = Inr Approved"
    then obtain rq sn where "validate_order (get_user_risk_limits (o_user_id o1) s) rq sn = Inr Approved"
        "rr_symbol rq = o_symbol o1" "rr_side rq = side" "rr_notional rq = n" by blast
    then show "gated s (o_user_id o1) (o_symbol o1) side ty q p" by (rule gatedI [OF assms(2-4)])
  qed simp
  then show "wp (try_binance (evaluate_risk E svc o1 side n)) (\<lambda>r t. reads s t \<and>
      (r = Inr (Inr Approved) \<longrightarrow> gated s (o_user_id o1) (o_symbol o1) side ty q p)) s"
    unfolding wp_try_binance by (rule wp_mono) (auto split: sum.split exn.split)
next
  fix x t assume t: "reads s t \<and> (Inr x = (Inr (Inr Approved) :: (binance_err + RiskDecision) result) \<longrightarrow> gated s (o_user_id o1) (o_symbol o1) side ty q p)"
  have row: "lookup_row o_id (orders t) (o_id o1) = Some o1"
    using assms(1) reads_same(1) [OF conjunct1 [OF t]] by simp
  have "wp (case x of
       Inl exc \<Rightarrow> reject_order E (o_id o1) RISK_REJECTED (msg exc) action
     | Inr (Rejected reason) \<Rightarrow> reject_order E (o_id o1) RISK_REJECTED reason action
     | Inr Approved \<Rightarrow> submit_to_binance E (o_id o1) side ty q p action) (\<lambda>r s'. sends t o1 side ty q p s') t"
  proof (cases "x = Inr Approved")
    case True
    then have "gated t (o_user_id o1) (o_symbol o1) side ty q p" using True t gated_cong [OF reads_same(2) [OF conjunct1 [OF t]]] by simp
    then show ?thesis
      unfolding True by (simp, intro wp_mono [OF wp_submit_to_binance [OF row]])
        (auto simp: sends_def filter_empty_conv)
  next
    case False
    then show ?thesis by (auto simp: sends_reject split: sum.split RiskDecision.split)
  qed
  then show "wp (case x of
       Inl exc \<Rightarrow> reject_order E (o_id o1) RISK_REJECTED (msg exc) action
     | Inr (Rejected reason) \<Rightarrow> reject_order E (o_id o1) RISK_REJECTED reason action
     | Inr Approved \<Rightarrow> submit_to_binance E (o_id o1) side ty q p action) (\<lambda>r s'. sends s o1 side ty q p s') t"
    by (rule wp_mono) (rule sends_after [OF conjunct1 [OF t]])
qed (auto simp: sends_raise)

lemma validated_sends:
  assumes "lookup_row o_id (orders s) (o_id o1) = Some o1"
  shows "wp (bnd (lift (validate \<lparr>ov_symbol = o_symbol o1, ov_side = side, ov_order_type = ty,
            ov_quantity = q, ov_price = p\<rparr> m f)) (\<lambda>validation.
     if \<not> vr_approved validation then
       reject_order E (o_id o1) VALIDATION_FAILED (the (vr_reason validation)) action
     else
     bnd (try_binance (evaluate_risk E svc o1 side (the (vr_notional validation)))) (\<lambda>r3. case r3 of
       Inl exc \<Rightarrow> reject_order E (o_id o1) RISK_REJECTED (msg exc) action
     | Inr (Rejected reason) \<Rightarrow> reject_order E (o_id o1) RISK_REJECTED reason action
     | Inr Approved \<Rightarrow> submit_to_binance E (o_id o1) side ty q p action)))
     (\<lambda>r s'. sends s o1 side ty q p s') s"
proof (cases "validate \<lparr>ov_symbol = o_symbol o1, ov_side = side, ov_order_type = ty,
            ov_quantity = q, ov_price = p\<rparr> m f")
  case (Inl e)
  then show ?thesis by (simp add: wp_bnd wp_lift sends_raise reads.refl)
next
  case (Inr v)
  then have "vr_approved v \<Longrightarrow> vr_notional v \<noteq> None"
    using validate_has_notional by (fastforce simp: approval_has_notional_def)
  then show ?thesis
    using risk_sends [OF assms Inr] by (auto simp: Inr wp_bnd [of "lift _"] wp_lift sends_reject)
qed

lemma wp_validate_and_execute:
  assumes "lookup_row o_id (orders s) (o_id o1) = Some o1"
  shows "wp (validate_and_execute E svc o1 side ty q p action) (\<lambda>r s'. sends s o1 side ty q p s') s"
  unfolding validate_and_execute_def
proof (rule wp_reads_bnd [OF keeps_reads_try [OF reads_market_price]], goal_cases)
  case (1 r1 s1)
  show ?case
  proof (cases r1)
    case (Inl b)
    then show ?thesis by (simp add: sends_reject)
  next
    case (Inr m)
    show ?thesis
      unfolding Inr sum.case
    proof (rule wp_reads_bnd [OF keeps_reads_try [OF reads_filters]], goal_cases)
      case (1 r2 s2)
      show ?case
      proof (cases r2)
        case (Inl b)
        then show ?thesis by (simp add: sends_reject)
      next
        case (Inr f)
        have "lookup_row o_id (orders s2) (o_id o1) = Some o1"
          using assms reads_same(1) [OF \<open>reads s s1\<close>] reads_same(1) [OF 1] by simp
        then show ?thesis
          unfolding Inr sum.case by (rule validated_sends)
      qed
    qed
  qed
qed


lemma sends_cong:
  "calls t = calls s \<Longrightarrow> user_settings t = user_settings s \<Longrightarrow> sends t o1 side ty q p = sends s o1 side ty q p"
  by (intro ext) (simp add: sends_def gated_cong [of t s])

section \<open>What is answered\<close>

text \<open>The answer describes the row of the order as it is left.\<close>

definition describes :: "Order \<Rightarrow> json \<Rightarrow> bool" where
  "describes y v \<longleftrightarrow> (\<exists>reason. v = envelope ''order'' (order_to_response y) (status_value (o_status y)) reason)"

definition answers :: "uuid \<Rightarrow> json result \<Rightarrow> sys \<Rightarrow> bool" where
  "answers oid r s \<longleftrightarrow> (\<forall>v. r = Inr v \<longrightarrow> (\<exists>y. lookup_row o_id (orders s) oid = Some y \<and> describes y v))"

lemma answers_Inl [simp]: "answers oid (Inl e) s"
  by (simp add: answers_def)

lemma describes_not_sentinel: "describes y v \<Longrightarrow> v \<noteq> PROCESSING_SENTINEL"
  by (auto simp: describes_def envelope_def PROCESSING_SENTINEL_def)

lemma wp_answer:
  "wp (bnd (the_order oid) (\<lambda>o2. seq (audit_order o2 action res (f o2) (g o2))
     (ret (envelope ''order'' (order_to_response o2) (status_value (o_status o2)) (h o2))))) (answers oid) s"
  by (auto simp: wp_simps audit_order_def audit_def answers_def describes_def split: option.split)

lemma wp_reject_order: "wp (reject_order E oid ev reason action) (answers oid) s"
  by (auto simp: reject_order_def wp_simps lookup_map_row audit_order_def audit_def answers_def describes_def
      split: option.split)

lemma wp_confirm_order: "wp (confirm_order E oid payload ev d action ad) (answers oid) s"
  unfolding confirm_order_def seq_def [of "if _ then _ else _"] seq_def [of "add_event _ _ _"]
  by (intro wp_bnd_any wp_answer) simp_all

lemma wp_ambiguous: "wp (handle_ambiguous_create_failure E oid b action) (answers oid) s"
  unfolding handle_ambiguous_create_failure_def
  by (intro wp_bnd_any) (auto simp: wp_confirm_order wp_simps lookup_map_row audit_order_def audit_def
      answers_def describes_def Let_def split: option.split sum.split)

lemma submit_answers: "wp (submit_to_binance E oid side ty q p action) (answers oid) s"
  unfolding submit_to_binance_def seq_def
  by (intro wp_bnd_any) (auto simp: wp_confirm_order wp_ambiguous split: sum.split)

lemma validate_and_execute_answers:
  "wp (validate_and_execute E svc o1 side ty q p action) (answers (o_id o1)) s"
  unfolding validate_and_execute_def
  by (intro wp_bnd_any) (auto simp: wp_reject_order submit_answers wp_lift wp_bnd_any split: sum.split RiskDecision.split
      intro!: wp_bnd_any)

end
