(* ===== verification/SimulationOrders.thy ===== *)
theory SimulationOrders
  imports OrderFacts SimPortfolio
begin

text \<open>
  \<open>trading/simulation_order_service.py\<close>: the virtual execution path.  The same reservation, switch,
  validator and risk engine as a real order; then a fill against the market price into the account of
  the bot, never a call that writes to the exchange.
\<close>

section \<open>Rows\<close>

abbreviation position_of :: "sys \<Rightarrow> uuid \<Rightarrow> BotPosition option" where
  "position_of s bid \<equiv> lookup_row bp_bot_id (bot_positions s) bid"

abbreviation account_of :: "sys \<Rightarrow> uuid \<Rightarrow> SimulationAccount option" where
  "account_of s bid \<equiv> lookup_row sa_bot_id (simulation_accounts s) bid"

text \<open>\<open>bot.position.instrument\<close>.\<close>

definition the_instrument :: "uuid \<Rightarrow> string M" where
  "the_instrument bid = bnd (gets (\<lambda>s. position_of s bid)) (\<lambda>p. case p of
      None \<Rightarrow> raise (AttributeErr (repr ''NoneType'' @ '' object has no attribute '' @ repr ''instrument''))
    | Some q \<Rightarrow> ret (bp_instrument q))"

definition add_sim_order :: "SimulationOrder \<Rightarrow> unit M" where
  "add_sim_order x s =
     (if so_id x \<in> so_id ` set (simulation_orders s)
      then (Inl (IntegrityErr ''duplicate key value violates unique constraint''), s)
      else (Inr (), s\<lparr>simulation_orders := simulation_orders s @ [x]\<rparr>))"

definition set_cash :: "uuid \<Rightarrow> decimal \<Rightarrow> unit M" where
  "set_cash aid cash = modify (\<lambda>s. s\<lparr>simulation_accounts :=
     map (\<lambda>a. if sa_id a = aid then a\<lparr>sa_cash_balance_quote := cash\<rparr> else a) (simulation_accounts s)\<rparr>)"

section \<open>Operations\<close>

definition simulation_endpoint :: "uuid \<Rightarrow> string" where
  "simulation_endpoint bid = ''POST /bots/'' @ str_uuid bid @ ''/simulation-order''"

definition simulation_audit_entry ::
  "uuid \<Rightarrow> uuid \<Rightarrow> AuditResult \<Rightarrow> uuid option \<Rightarrow> string option \<Rightarrow> sys \<Rightarrow> AuditLogEntry" where
  "simulation_audit_entry user_id bid res simulation_order_id detail s =
     (let full_detail = (case detail of
          Some (c # cs) \<Rightarrow> ''bot_id='' @ str_uuid bid @ '' (SIMULATION): '' @ c # cs
        | _ \<Rightarrow> ''bot_id='' @ str_uuid bid @ '' (SIMULATION)'') in
      \<lparr>ae_user_id = user_id, ae_action = ''bot.simulation_order'',
       ae_symbol = map_option bp_instrument (position_of s bid), ae_quantity = None, ae_result = res,
       ae_hermes_order_id = simulation_order_id, ae_binance_order_id = None,
       ae_detail = Some (take 1000 full_detail)\<rparr>)"

definition simulation_audit :: "uuid \<Rightarrow> uuid \<Rightarrow> AuditResult \<Rightarrow> uuid option \<Rightarrow> string option \<Rightarrow> unit M" where
  "simulation_audit user_id bid res simulation_order_id detail =
     bnd (gets (simulation_audit_entry user_id bid res simulation_order_id detail)) add_audit"

definition new_sim_order ::
  "uuid \<Rightarrow> uuid \<Rightarrow> SimulationAccount \<Rightarrow> string \<Rightarrow> OrderSide \<Rightarrow> SimulationOrderStatus \<Rightarrow> decimal \<Rightarrow> int \<Rightarrow> int
     \<Rightarrow> SimulationOrder" where
  "new_sim_order oid bid account symb side status quantity created terminal =
     \<lparr>so_id = oid, so_bot_id = bid, so_simulation_account_id = sa_id account, so_symbol = symb,
      so_side = side, so_order_type = MARKET, so_status = status, so_requested_quantity = quantity,
      so_fill_price = None, so_executed_quantity = dec_zero, so_fee_quote = dec_zero,
      so_slippage_quote = dec_zero, so_reason = None, so_created_at = created,
      so_terminal_at = Some terminal\<rparr>"

text \<open>An attempt that does not fill: a row with the reason, and nothing of the account.\<close>

definition simulation_terminal ::
  "env \<Rightarrow> uuid \<Rightarrow> uuid \<Rightarrow> uuid \<Rightarrow> SimulationAccount \<Rightarrow> string \<Rightarrow> decimal \<Rightarrow> SimulationOrderStatus \<Rightarrow> string option
     \<Rightarrow> json M" where
  "simulation_terminal E rid user_id bid account side quantity status reason =
     bnd (the_instrument bid) (\<lambda>symb.
     bnd (lift (OrderSide_of side)) (\<lambda>side_e.
     bnd (now_utc E) (\<lambda>terminal.
     bnd (new_uuid E) (\<lambda>oid.
     bnd (now_utc E) (\<lambda>created.
     (let order = (new_sim_order oid bid account symb side_e status quantity created terminal)\<lparr>
            so_reason := Some (take 500 (case reason of None \<Rightarrow> [] | Some r \<Rightarrow> r))\<rparr>;
          audit_result = (if status = SimulationOrderStatus.REJECTED then AuditResult.REJECTED else AuditResult.FAILED);
          response = envelope ''order'' (simulation_order_to_response order) (sim_status_value status) reason in
      seq (add_sim_order order)
      (seq (simulation_audit user_id bid audit_result (Some oid) reason)
      (seq (finalize rid response) (ret response)))))))))"

record Fill =
  f_price :: decimal
  f_fee :: decimal
  f_slippage :: decimal
  f_cash :: decimal

text \<open>The arithmetic of a fill, the new cash balance included.\<close>

definition fill_amounts ::
  "decimal \<Rightarrow> decimal \<Rightarrow> string \<Rightarrow> decimal \<Rightarrow> decimal \<Rightarrow> decimal \<Rightarrow> Fill result" where
  "fill_amounts slippage_pct fee_pct side quantity market_price cash =
     rbind (dec_div slippage_pct (dec_of_int 100)) (\<lambda>s.
     rbind (if side = ''BUY'' then dec_add (dec_of_int 1) s else dec_sub (dec_of_int 1) s) (\<lambda>factor.
     rbind (dec_mul market_price factor) (\<lambda>fill_price.
     rbind (dec_mul fill_price quantity) (\<lambda>notional.
     rbind (rbind (dec_mul notional fee_pct) (\<lambda>x. dec_div x (dec_of_int 100))) (\<lambda>fee.
     rbind (rbind (dec_sub fill_price market_price) (\<lambda>d. rbind (dec_abs d) (\<lambda>a. dec_mul a quantity))) (\<lambda>slippage.
     rbind (if side = ''BUY'' then rbind (dec_add notional fee) (dec_sub cash)
            else rbind (dec_sub notional fee) (dec_add cash)) (\<lambda>cash'.
     Inr \<lparr>f_price = fill_price, f_fee = fee, f_slippage = slippage, f_cash = cash'\<rparr>)))))))"

definition simulation_fill ::
  "env \<Rightarrow> uuid \<Rightarrow> uuid \<Rightarrow> uuid \<Rightarrow> SimulationAccount \<Rightarrow> string \<Rightarrow> decimal \<Rightarrow> decimal \<Rightarrow> json M" where
  "simulation_fill E rid user_id bid account side quantity market_price =
     bnd (lift (simulation_slippage_rate_pct E)) (\<lambda>slippage_pct.
     bnd (lift (simulation_fee_rate_pct E)) (\<lambda>fee_pct.
     bnd (lift (fill_amounts slippage_pct fee_pct side quantity market_price (sa_cash_balance_quote account))) (\<lambda>f.
     bnd (the_instrument bid) (\<lambda>symb.
     bnd (lift (OrderSide_of side)) (\<lambda>side_e.
     bnd (now_utc E) (\<lambda>terminal.
     bnd (new_uuid E) (\<lambda>oid.
     bnd (now_utc E) (\<lambda>created.
     (let order = (new_sim_order oid bid account symb side_e SimulationOrderStatus.FILLED quantity created terminal)\<lparr>
            so_fill_price := Some (f_price f), so_executed_quantity := quantity, so_fee_quote := f_fee f,
            so_slippage_quote := f_slippage f\<rparr>;
          response = envelope ''order'' (simulation_order_to_response order) ''FILLED'' None in
      seq (add_sim_order order)
      (seq (set_cash (sa_id account) (f_cash f))
      (seq (simulation_audit user_id bid AuditResult.SUCCESS (Some oid)
             (Some (''Simulated '' @ side @ '' '' @ dec_str quantity @ '' '' @ symb @ '' @ '' @ dec_str (f_price f))))
      (seq (finalize rid response) (ret response)))))))))))))"

definition simulation_evaluate_risk ::
  "env \<Rightarrow> uuid \<Rightarrow> uuid \<Rightarrow> SimulationAccount \<Rightarrow> string \<Rightarrow> decimal \<Rightarrow> decimal \<Rightarrow> RiskDecision M" where
  "simulation_evaluate_risk E user_id bid account side market_price estimated_notional =
     bnd (gets (get_user_simulation_risk_limits user_id)) (\<lambda>limits.
     bnd (gets (\<lambda>s. position_of s bid)) (\<lambda>position.
     (let current_quantity = (case position of None \<Rightarrow> dec_zero | Some p \<Rightarrow> bp_current_quantity p) in
     bnd (lift (dec_mul current_quantity market_price)) (\<lambda>current_exposure.
     bnd (lift (compute_total_value (sa_cash_balance_quote account) current_quantity market_price)) (\<lambda>total_value.
     bnd (gets (\<lambda>s. filter (\<lambda>x. so_bot_id x = bid) (simulation_orders s))) (\<lambda>orders_today.
     bnd (now_utc E) (\<lambda>now.
     bnd (lift (rbind (compute_realized_pnl_today orders_today now) (\<lambda>pnl. rbind (dec_neg pnl) (dec_max dec_zero)))) (\<lambda>loss.
     bnd (lift (dec_lt dec_zero current_quantity)) (\<lambda>holds.
     bnd (the_instrument bid) (\<lambda>symb.
     bnd (lift (if side = ''BUY'' then dec_eq current_quantity dec_zero else Inr False)) (\<lambda>is_new.
     lift (validate_order limits
       \<lparr>rr_symbol = symb, rr_side = side, rr_notional = estimated_notional, rr_is_new_symbol = is_new\<rparr>
       \<lparr>total_portfolio_value_quote = total_value, current_symbol_exposure_quote = current_exposure,
        current_total_exposure_quote = current_exposure, open_position_count = (if holds then 1 else 0),
        realized_loss_today_quote = loss\<rparr>)))))))))))) "

text \<open>The cost a buy is checked against: the notional, the fee rate and the slippage rate.\<close>

definition projected_cost :: "decimal \<Rightarrow> decimal \<Rightarrow> decimal \<Rightarrow> decimal result" where
  "projected_cost fee_pct slippage_pct estimated_notional =
     rbind (dec_div fee_pct (dec_of_int 100)) (\<lambda>f.
     rbind (dec_add (dec_of_int 1) f) (\<lambda>a.
     rbind (dec_div slippage_pct (dec_of_int 100)) (\<lambda>s.
     rbind (dec_add a s) (dec_mul estimated_notional))))"

definition dec_truthy :: "decimal \<Rightarrow> bool" where
  "dec_truthy d = (case d of Fin s c e \<Rightarrow> c \<noteq> 0 | _ \<Rightarrow> True)"

text \<open>After the risk engine: the balance of a buy, then the fill.\<close>

definition simulation_execute ::
  "env \<Rightarrow> uuid \<Rightarrow> uuid \<Rightarrow> uuid \<Rightarrow> SimulationAccount \<Rightarrow> string \<Rightarrow> decimal \<Rightarrow> decimal \<Rightarrow> decimal \<Rightarrow> json M" where
  "simulation_execute E rid user_id bid account side quantity market_price estimated_notional =
     (if side = ''BUY'' then
        bnd (lift (simulation_fee_rate_pct E)) (\<lambda>fee_pct.
        bnd (lift (simulation_slippage_rate_pct E)) (\<lambda>slippage_pct.
        bnd (lift (projected_cost fee_pct slippage_pct estimated_notional)) (\<lambda>cost.
        bnd (lift (dec_lt (sa_cash_balance_quote account) cost)) (\<lambda>short.
        if short then simulation_terminal E rid user_id bid account side quantity SimulationOrderStatus.REJECTED
          (Some (''Insufficient virtual balance: needs ~'' @ dec_str cost @ '' '' @ sa_quote_asset account @
             '', has '' @ dec_str (sa_cash_balance_quote account) @ ''.''))
        else simulation_fill E rid user_id bid account side quantity market_price))))
      else simulation_fill E rid user_id bid account side quantity market_price)"

text \<open>The gates: market price, filters, validator, risk engine.\<close>

definition simulation_gates ::
  "env \<Rightarrow> uuid \<Rightarrow> uuid \<Rightarrow> uuid \<Rightarrow> SimulationAccount \<Rightarrow> string \<Rightarrow> decimal \<Rightarrow> json M" where
  "simulation_gates E rid user_id bid account side quantity =
     bnd (the_instrument bid) (\<lambda>symb.
     bnd (try_binance (bnd (call_binance E (GetMarketData symb)) (\<lambda>m.
            lift (rbind (jget ''last_price'' m) dec_of_json_str)))) (\<lambda>r1. case r1 of
       Inl exc \<Rightarrow> simulation_terminal E rid user_id bid account side quantity SimulationOrderStatus.FAILED
         (Some (''Could not fetch market price: '' @ binance_err_str exc))
     | Inr market_price \<Rightarrow>
     bnd (try_binance (bnd (cached_exchange_info E symb) (\<lambda>info.
            lift (symbol_filters_from_exchange_info info)))) (\<lambda>r2. case r2 of
       Inl exc \<Rightarrow> simulation_terminal E rid user_id bid account side quantity SimulationOrderStatus.FAILED
         (Some (''Could not fetch exchange info: '' @ binance_err_str exc))
     | Inr filters \<Rightarrow>
     bnd (lift (validate \<lparr>ov_symbol = symb, ov_side = side, ov_order_type = ''MARKET'', ov_quantity = quantity,
            ov_price = None\<rparr> market_price filters)) (\<lambda>validation.
     if \<not> vr_approved validation then
       simulation_terminal E rid user_id bid account side quantity SimulationOrderStatus.REJECTED (vr_reason validation)
     else
     bnd (lift (case vr_notional validation of
         Some n \<Rightarrow> if dec_truthy n then Inr n else dec_mul market_price quantity
       | None \<Rightarrow> dec_mul market_price quantity)) (\<lambda>estimated_notional.
     bnd (simulation_evaluate_risk E user_id bid account side market_price estimated_notional) (\<lambda>decision. case decision of
       Rejected reason \<Rightarrow>
         simulation_terminal E rid user_id bid account side quantity SimulationOrderStatus.REJECTED (Some reason)
     | Approved \<Rightarrow>
         simulation_execute E rid user_id bid account side quantity market_price estimated_notional))))))"

definition place_bot_order :: "env \<Rightarrow> uuid \<Rightarrow> uuid \<Rightarrow> string \<Rightarrow> decimal \<Rightarrow> string \<Rightarrow> json M" where
  "place_bot_order E user_id bid side quantity key =
     (let payload = JObj [(''bot_id'', juuid bid), (''side'', JStr side), (''quantity'', jdec quantity)] in
     bnd (reserve E user_id (simulation_endpoint bid) key payload) (\<lambda>reservation.
     if \<not> ir_is_new reservation then ret (ir_stored_response reservation)
     else (let rid = ir_key_row_id reservation in
     bnd (gets (is_trading_permitted E user_id)) (\<lambda>permitted.
     if \<not> permitted then
       seq (finalize rid (envelope ''order'' JNull ''REJECTED'' (Some disabled_reason)))
       (seq (simulation_audit user_id bid AuditResult.REJECTED None (Some disabled_detail))
       (raise (TradingDisabledErr disabled_reason)))
     else
     bnd (gets (\<lambda>s. account_of s bid)) (\<lambda>account. case account of
       None \<Rightarrow>
         (let response = envelope ''order'' JNull ''FAILED'' (Some ''No simulation account exists for this bot.'') in
          seq (finalize rid response)
          (seq (simulation_audit user_id bid AuditResult.FAILED None (Some ''No simulation account found''))
          (ret response)))
     | Some a \<Rightarrow> simulation_gates E rid user_id bid a side quantity)))))"

end
