(* ===== verification/OrderProperties.thy ===== *)
theory OrderProperties
  imports OrderFacts
begin

text \<open>
  The properties of \<open>trading/order_service.py\<close>: what reaches the exchange has passed every gate, a
  reservation always ends with a response, a retry has no effect, and nothing but the order of the
  request changes.
\<close>

section \<open>The new row\<close>

definition new_order ::
  "env \<Rightarrow> sys \<Rightarrow> uuid \<Rightarrow> string \<Rightarrow> OrderSide \<Rightarrow> OrderType \<Rightarrow> decimal \<Rightarrow> decimal option \<Rightarrow> string \<Rightarrow> Order" where
  "new_order E s user_id symb side_e type_e quantity price cid =
     \<lparr>o_id = uuid4 E (uuids s), o_user_id = user_id, o_bot_id = None, o_symbol = symb, o_side = side_e,
      o_order_type = type_e, o_status = PENDING, o_requested_quantity = quantity,
      o_requested_price = price, o_executed_quantity = dec_zero, o_average_fill_price = None,
      o_binance_order_id = None, o_binance_client_order_id = cid, o_error_message = None,
      o_created_at = clock E (ticks s), o_submitted_at = None, o_terminal_at = None\<rparr>"

lemma new_order_fields [simp]:
  "o_id (new_order E s u symb se te q p cid) = uuid4 E (uuids s)"
  "o_user_id (new_order E s u symb se te q p cid) = u"
  "o_symbol (new_order E s u symb se te q p cid) = symb"
  "o_binance_client_order_id (new_order E s u symb se te q p cid) = cid"
  "o_side (new_order E s u symb se te q p cid) = se"
  "o_order_type (new_order E s u symb se te q p cid) = te"
  "o_requested_quantity (new_order E s u symb se te q p cid) = q"
  "o_requested_price (new_order E s u symb se te q p cid) = p"
  by (simp_all add: new_order_def)

lemma list_all2_row_kept_new:
  assumes "list_all2 (row_kept oid) (xs @ [x]) ys" and "oid \<notin> o_id ` set xs" and "o_id x = oid"
  obtains y where "ys = xs @ [y]" and "same_identity x y"
proof -
  obtain zs y where ys: "ys = zs @ [y]" "list_all2 (row_kept oid) xs zs" "row_kept oid x y"
    using assms(1) by (auto simp: list_all2_append1 list_all2_Cons1)
  have "zs = xs"
    using ys(2) assms(2) by (induction rule: list_all2_induct) (auto simp: row_kept_def)
  with ys assms(3) that show ?thesis by (auto simp: row_kept_def)
qed

text \<open>The pipeline on a fresh row: its row only, an answer that describes it, and gated sending.\<close>

lemma wp_pipeline:
  assumes "o_id o1 \<notin> o_id ` set (orders s)"
  shows "wp (validate_and_execute E svc o1 side ty q p action) (\<lambda>r s'.
     (\<exists>y. orders s' = orders s @ [y] \<and> same_identity o1 y \<and> (\<forall>v. r = Inr v \<longrightarrow> describes y v)) \<and>
     sends s o1 side ty q p s' \<and> only_order (o_id o1) (s\<lparr>orders := orders s @ [o1]\<rparr>) s')
     (s\<lparr>orders := orders s @ [o1]\<rparr>)"
proof -
  define t where "t = s\<lparr>orders := orders s @ [o1]\<rparr>"
  have none: "lookup_row o_id (orders s) (o_id o1) = None"
    using assms by (simp add: lookup_row_None)
  then have row: "lookup_row o_id (orders t) (o_id o1) = Some o1"
    by (simp add: t_def lookup_row_append)
  show ?thesis
    unfolding t_def [symmetric]
  proof (rule wp_mono [OF wp_conj [OF wp_conj [OF wp_validate_and_execute [OF row]
        validate_and_execute_answers] keeps_wp [OF validate_and_execute_frame]]])
    fix r s'
    assume post: "(sends t o1 side ty q p s' \<and> answers (o_id o1) r s') \<and> only_order (o_id o1) t s'"
    then have "list_all2 (row_kept (o_id o1)) (orders s @ [o1]) (orders s')"
      by (simp add: only_order_def t_def)
    then obtain y where y: "orders s' = orders s @ [y]" "same_identity o1 y"
      using assms by (rule list_all2_row_kept_new) simp
    have "lookup_row o_id (orders s') (o_id o1) = Some y"
      using none y same_identity_fields(1) [OF y(2)] by (simp add: lookup_row_append)
    then show "(\<exists>y. orders s' = orders s @ [y] \<and> same_identity o1 y \<and> (\<forall>v. r = Inr v \<longrightarrow> describes y v)) \<and>
        sends s o1 side ty q p s' \<and> only_order (o_id o1) t s'"
      using post y sends_cong [of t s] by (auto simp: answers_def t_def)
  qed
qed

section \<open>Settling the reservation\<close>

text \<open>Only the reservations differ in what \<open>owns\<close>, \<open>keys_ok\<close> and \<open>slot_of\<close> read.\<close>

lemma keys_cong:
  "idempotency_keys t = idempotency_keys s \<Longrightarrow> keys_ok t = keys_ok s"
  "idempotency_keys t = idempotency_keys s \<Longrightarrow> owns t rid k = owns s rid k"
  by (simp_all add: keys_ok_def owns_def)

text \<open>
  The slot \<open>k\<close>, in progress with the hash \<open>h\<close>, is held by the row \<open>rid\<close>; all other slots are those
  of \<open>f\<close>.
\<close>

definition holding :: "sys \<Rightarrow> uuid \<Rightarrow> scope \<Rightarrow> string \<Rightarrow> (scope \<Rightarrow> slot) \<Rightarrow> bool" where
  "holding s rid k h f \<longleftrightarrow> keys_ok s \<and> owns s rid k \<and> slot_of s = f \<and> f k = InProgress h"

definition settled_with :: "sys \<Rightarrow> scope \<Rightarrow> string \<Rightarrow> (scope \<Rightarrow> slot) \<Rightarrow> json \<Rightarrow> bool" where
  "settled_with s k h f v \<longleftrightarrow> keys_ok s \<and> slot_of s = f(k := Done h v)"

lemma holding_cong: "idempotency_keys t = idempotency_keys s \<Longrightarrow> holding t rid k h f = holding s rid k h f"
  by (simp add: holding_def keys_cong [of t s] slot_of_cong [of t s])

lemma settled_cong: "idempotency_keys t = idempotency_keys s \<Longrightarrow> settled_with t k h f v = settled_with s k h f v"
  by (simp add: settled_with_def keys_cong [of t s] slot_of_cong [of t s])

lemma settled_upd [simp]:
  "settled_with (t\<lparr>audit_log := a\<rparr>) k h f v = settled_with t k h f v"
  "settled_with (t\<lparr>ticks := n\<rparr>) k h f v = settled_with t k h f v"
  "settled_with (t\<lparr>orders := os\<rparr>) k h f v = settled_with t k h f v"
  "settled_with (t\<lparr>order_events := es\<rparr>) k h f v = settled_with t k h f v"
  by (rule settled_cong, simp)+

lemma wp_settle:
  assumes "holding s rid k h f" and "v \<noteq> PROCESSING_SENTINEL"
    and "\<And>t. settled_with t k h f v \<Longrightarrow> t = s\<lparr>idempotency_keys := idempotency_keys t\<rparr> \<Longrightarrow> Q (Inr ()) t"
  shows "wp (finalize rid v) Q s"
  using assms(1)
  by (intro wp_mono [OF wp_finalize_slot [OF _ _ assms(2)]]) (auto simp: holding_def settled_with_def intro!: assms(3))

lemma envelope_not_sentinel [simp]: "envelope what x status reason \<noteq> PROCESSING_SENTINEL"
  by (auto simp: envelope_def PROCESSING_SENTINEL_def)

lemma wp_refuse_disabled:
  assumes "holding s rid k h f"
  shows "wp (refuse_disabled rid u action symb q) (\<lambda>r s'. r = Inl (TradingDisabledErr disabled_reason) \<and>
     settled_with s' k h f (envelope ''order'' JNull ''REJECTED'' (Some disabled_reason)) \<and>
     s' = s\<lparr>idempotency_keys := idempotency_keys s', audit_log := audit_log s @
       [\<lparr>ae_user_id = u, ae_action = action, ae_symbol = symb, ae_quantity = q, ae_result = AuditResult.REJECTED,
         ae_hermes_order_id = None, ae_binance_order_id = None, ae_detail = Some disabled_detail\<rparr>]\<rparr>) s"
  unfolding refuse_disabled_def wp_seq
proof (rule wp_settle [OF assms envelope_not_sentinel], goal_cases)
  case (1 t)
  have "audit_log t = audit_log s" by (subst 1(2)) simp
  with 1 show ?case by (simp add: audit_def wp_simps disabled_detail_def)
qed

text \<open>The safety net: the row fails, the reservation is settled, the exception is raised again.\<close>

lemma wp_internal_failure:
  assumes "holding t rid k h f" and "orders t = rows @ [y]" and "o_id y = oid" and "oid \<notin> o_id ` set rows"
  shows "wp (internal_failure E rid oid exc action) (\<lambda>r s'. r = Inl exc \<and>
     (\<exists>z v. orders s' = rows @ [z] \<and> same_identity y z \<and> o_status z = OrderStatus.FAILED \<and> describes z v \<and>
       settled_with s' k h f v) \<and>
     (\<exists>es. order_events s' = order_events t @ es \<and> (\<forall>e \<in> set es. oe_order_id e = oid)) \<and>
     calls s' = calls t) t"
proof -
  have none: "lookup_row o_id rows oid = None" using assms(4) by (simp add: lookup_row_None)
  have same: "map (\<lambda>x. if o_id x = oid then g x else x) rows = rows" for g
    by (rule map_idI) (use assms(4) in auto)
  define z where "z = y\<lparr>o_status := OrderStatus.FAILED,
     o_error_message := Some ''An unexpected internal error occurred.'', o_terminal_at := Some (clock E (ticks t))\<rparr>"
  define v where "v = envelope ''order'' (order_to_response z) ''FAILED'' (o_error_message z)"
  have z: "o_id z = oid" "same_identity y z" "o_status z = OrderStatus.FAILED" "describes z v"
    using assms(3) by (auto simp: z_def v_def describes_def)
  have v: "v \<noteq> PROCESSING_SENTINEL" by (simp add: v_def)
  have wpf: "wp (finalize rid v) Q u" if "idempotency_keys u = idempotency_keys t"
      "\<And>w. settled_with w k h f v \<Longrightarrow> w = u\<lparr>idempotency_keys := idempotency_keys w\<rparr> \<Longrightarrow> Q (Inr ()) w" for Q u
  proof (rule wp_settle [OF _ v])
    show "holding u rid k h f" by (simp add: holding_cong [OF that(1)] assms(1))
  qed (rule that(2))
  have orders: "w = u\<lparr>idempotency_keys := idempotency_keys w\<rparr> \<Longrightarrow> orders w = orders u \<and>
      order_events w = order_events u \<and> calls w = calls u" for w u :: sys
    by (cases w; cases u) simp
  show ?thesis
    unfolding internal_failure_def
    by (simp add: wp_simps assms(2,3) same lookup_row_append none audit_order_def audit_def z(1)
        del: wp_finalize flip: z_def v_def)
      (intro conjI impI; rule wpf, simp, use z in \<open>auto simp: wp_raise dest!: orders\<close>)
qed

section \<open>Creating and executing\<close>

text \<open>The identifiers the database draws for the new rows are not taken.\<close>

definition fresh_order :: "env \<Rightarrow> sys \<Rightarrow> string \<Rightarrow> bool" where
  "fresh_order E s cid \<longleftrightarrow> uuid4 E (uuids s) \<notin> o_id ` set (orders s) \<and>
     cid \<notin> o_binance_client_order_id ` set (orders s)"

text \<open>
  \<open>executed\<close>: one row was added, the reservation is settled with a response that describes it, a
  normal return answers that response, an exception leaves the row failed, and what was sent was gated.
\<close>

definition executed ::
  "sys \<Rightarrow> Order \<Rightarrow> scope \<Rightarrow> string \<Rightarrow> (scope \<Rightarrow> slot) \<Rightarrow> string \<Rightarrow> string \<Rightarrow> decimal \<Rightarrow> decimal option
     \<Rightarrow> json result \<Rightarrow> sys \<Rightarrow> bool" where
  "executed s o1 k h f side ty q p r s' \<longleftrightarrow>
     (\<exists>y v. orders s' = orders s @ [y] \<and> same_identity o1 y \<and> describes y v \<and> settled_with s' k h f v \<and>
       (case r of Inr w \<Rightarrow> w = v | Inl e \<Rightarrow> o_status y = OrderStatus.FAILED)) \<and> sends s o1 side ty q p s'"

lemma calls_of_keys: "w = u\<lparr>idempotency_keys := idempotency_keys w\<rparr> \<Longrightarrow> orders w = orders u \<and> calls w = calls u"
  by (cases w; cases u) simp

lemma sends_same_calls: "sends s o1 side ty q p t \<Longrightarrow> calls t' = calls t \<Longrightarrow> sends s o1 side ty q p t'"
  by (simp add: sends_def)

lemma wp_create_and_execute:
  assumes "holding s rid k h f" and "is_trading_permitted E u s"
    and "OrderSide_of side = Inr se" and "OrderType_of ty = Inr te"
    and "fresh_order E s (derive_binance_client_order_id E u ep key)"
  shows "wp (create_and_execute E svc rid u symb side ty q p key ep action)
    (executed s (new_order E s u symb se te q p (derive_binance_client_order_id E u ep key)) k h f side ty q p) s"
proof -
  define o1 where "o1 = new_order E s u symb se te q p (derive_binance_client_order_id E u ep key)"
  define s1 where "s1 = s\<lparr>uuids := uuids s + 1, ticks := ticks s + 1\<rparr>"
  have same: "calls s1 = calls s" "user_settings s1 = user_settings s" "orders s1 = orders s"
      "idempotency_keys s1 = idempotency_keys s"
    by (simp_all add: s1_def)
  have fresh: "o_id o1 \<notin> o_id ` set (orders s)"
      "o_binance_client_order_id o1 \<notin> o_binance_client_order_id ` set (orders s)"
    using assms(5) by (simp_all add: fresh_order_def o1_def)
  have "wp (bnd (try_any (validate_and_execute E svc o1 side ty q p action)) (\<lambda>r. case r of
        Inl exc \<Rightarrow> internal_failure E rid (o_id o1) exc action
      | Inr response \<Rightarrow> seq (finalize rid response) (ret response)))
      (executed s o1 k h f side ty q p) (s1\<lparr>orders := orders s @ [o1]\<rparr>)"
    unfolding wp_bnd wp_try_any sum.case
  proof (rule wp_mono [OF wp_pipeline [of o1 s1, unfolded same(3), OF fresh(1)]], goal_cases)
    case (1 r t)
    then obtain y where y: "orders t = orders s @ [y]" "same_identity o1 y" "\<And>v. r = Inr v \<Longrightarrow> describes y v"
      and sent: "sends s o1 side ty q p t" and keys: "idempotency_keys t = idempotency_keys s"
      using sends_cong [OF same(1,2), of o1 side ty q p]
      using only_order_same(1) [of "o_id o1" "s1\<lparr>orders := orders s @ [o1]\<rparr>" t] by (auto simp: same(4))
    have hold: "holding t rid k h f" using assms(1) holding_cong [OF keys] by simp
    show ?case
    proof (cases r)
      case (Inl e)
      have "wp (internal_failure E rid (o_id o1) e action) (executed s o1 k h f side ty q p) t"
        by (rule wp_mono [OF wp_internal_failure [OF hold y(1) same_identity_fields(1) [OF y(2)] fresh(1)]])
          (use y(2) sent sends_same_calls same_identity_trans in \<open>fastforce simp: executed_def\<close>)
      then show ?thesis by (simp add: Inl)
    next
      case (Inr v)
      then have v: "describes y v" by (rule y(3))
      have "wp (finalize rid v) (\<lambda>r s'. case r of Inl e \<Rightarrow> executed s o1 k h f side ty q p (Inl e) s' |
          Inr x \<Rightarrow> wp (ret v) (executed s o1 k h f side ty q p) s') t"
        by (rule wp_settle [OF hold describes_not_sentinel [OF v]])
          (use y v sent sends_same_calls in \<open>auto simp: executed_def wp_ret dest!: calls_of_keys\<close>)
      then show ?thesis by (simp add: Inr wp_seq)
    qed
  qed
  then have "wp (bnd (try_any (validate_and_execute E svc o1 side ty q p action)) (\<lambda>r. case r of
        Inl exc \<Rightarrow> internal_failure E rid (uuid4 E (uuids s)) exc action
      | Inr response \<Rightarrow> seq (finalize rid response) (ret response)))
      (executed s o1 k h f side ty q p) (s1\<lparr>orders := orders s @ [o1]\<rparr>)"
    unfolding o1_def new_order_fields .
  then show ?thesis
    using assms(2-4) fresh unfolding o1_def [symmetric] create_and_execute_def
    by (simp add: wp_bnd [of "gets _"] wp_bnd [of "lift _"] wp_bnd [of "new_uuid _"] wp_bnd [of "now_utc _"]
        wp_seq [of "add_order _"] wp_gets wp_lift wp_new_uuid wp_now_utc wp_add_order Let_def s1_def
        flip: new_order_def) (simp add: o1_def)
qed

lemma permitted_cong: "user_settings s' = user_settings s \<Longrightarrow> is_trading_permitted E u s' = is_trading_permitted E u s"
  by (simp add: is_trading_permitted_def is_user_trading_enabled_def)

text \<open>The demonstration environment and the idle system.\<close>

definition demo_service :: OrderServiceObj where
  "demo_service = \<lparr>os_quote = ''USDT'', os_now = 0\<rparr>"

lemma demo_trading:
  "is_trading_enabled demo_env" "\<not> is_trading_enabled (demo_env\<lparr>getenv := \<lambda>n. None\<rparr>)"
  "is_user_trading_enabled u idle" "upper ''btcusdt'' = ''BTCUSDT''"
  by (simp_all add: is_trading_enabled_def demo_env_def is_user_trading_enabled_def idle_def) code_simp+

section \<open>Reserving first\<close>

definition free_slot :: "env \<Rightarrow> sys \<Rightarrow> scope \<Rightarrow> bool" where
  "free_slot E s k \<longleftrightarrow> keys_ok s \<and> slot_of s k = Free \<and> uuid4 E (uuids s) \<notin> ik_id ` set (idempotency_keys s)"

lemma wp_reserve_free:
  assumes "free_slot E s (u, ep, key)"
  shows "wp (reserve E u ep key payload) (\<lambda>r s'. \<exists>x. r = Inr x \<and> ir_is_new x \<and>
     holding s' (ir_key_row_id x) (u, ep, key) (compute_request_hash E payload)
       ((slot_of s)((u, ep, key) := InProgress (compute_request_hash E payload))) \<and>
     s' = s\<lparr>uuids := uuids s + 1, idempotency_keys := idempotency_keys s'\<rparr>) s"
proof -
  have ok: "keys_ok s" and free: "slot_of s (u, ep, key) = Free"
    and new: "uuid4 E (uuids s) \<notin> ik_id ` set (idempotency_keys s)"
    using assms by (auto simp: free_slot_def)
  have granted: "wp (reserve E u ep key payload) (\<lambda>r s'. (\<exists>x. r = Inr x \<and> ir_is_new x) \<and> uuids s' = uuids s + 1) s"
    using free new by (simp add: reserve_def wp_simps slot_of_Free ik_scope_def Let_def)
  show ?thesis
  proof (rule wp_mono [OF wp_conj [OF wp_reserve [OF ok] granted]])
    fix r s'
    assume post: "(reserve_spec (slot_of s (u, ep, key)) (compute_request_hash E payload) r \<and> keys_ok s' \<and>
      (case r of Inr x \<Rightarrow> if ir_is_new x
          then slot_of s (u, ep, key) = Free \<and> owns s' (ir_key_row_id x) (u, ep, key) \<and>
               slot_of s' = (slot_of s)((u, ep, key) := InProgress (compute_request_hash E payload))
          else slot_of s' = slot_of s
        | Inl e \<Rightarrow> slot_of s' = slot_of s) \<and>
      s' = s\<lparr>uuids := uuids s', idempotency_keys := idempotency_keys s'\<rparr> \<and>
      (\<forall>x. r = Inr x \<and> ir_is_new x \<longrightarrow> (\<exists>h. idempotency_keys s' = idempotency_keys s @
        [\<lparr>ik_id = ir_key_row_id x, ik_user_id = u, ik_endpoint = ep, ik_key = key, ik_request_hash = h,
          ik_response_snapshot = PROCESSING_SENTINEL\<rparr>])) \<and>
      (\<not> (\<exists>x. r = Inr x \<and> ir_is_new x) \<longrightarrow> idempotency_keys s' = idempotency_keys s)) \<and>
      (\<exists>x. r = Inr x \<and> ir_is_new x) \<and> uuids s' = uuids s + 1"
    then show "\<exists>x. r = Inr x \<and> ir_is_new x \<and>
       holding s' (ir_key_row_id x) (u, ep, key) (compute_request_hash E payload)
         ((slot_of s)((u, ep, key) := InProgress (compute_request_hash E payload))) \<and>
       s' = s\<lparr>uuids := uuids s + 1, idempotency_keys := idempotency_keys s'\<rparr>"
      by (auto simp: holding_def)
  qed
qed

text \<open>What a request that is not granted may do: nothing.\<close>

lemma wp_reserve_taken:
  assumes "keys_ok s" and "slot_of s (u, ep, key) \<noteq> Free"
  shows "wp (reserve E u ep key payload) (\<lambda>r s'. s' = s\<lparr>uuids := uuids s'\<rparr> \<and>
     reserve_spec (slot_of s (u, ep, key)) (compute_request_hash E payload) r \<and> (\<forall>x. r = Inr x \<longrightarrow> \<not> ir_is_new x)) s"
proof (rule wp_mono [OF wp_reserve [OF assms(1)]], goal_cases)
  case (1 r s')
  then have old: "\<forall>x. r = Inr x \<longrightarrow> \<not> ir_is_new x" using assms(2) by (auto split: if_splits)
  then have "idempotency_keys s' = idempotency_keys s" using 1 by blast
  moreover have "s' = s\<lparr>uuids := uuids s', idempotency_keys := idempotency_keys s'\<rparr>" using 1 by blast
  ultimately have "s' = s\<lparr>uuids := uuids s'\<rparr>" by (cases s; cases s') simp
  with 1 old show ?case by blast
qed

text \<open>The body of a request, as it is hashed.\<close>

definition order_payload :: "string \<Rightarrow> string \<Rightarrow> string \<Rightarrow> decimal \<Rightarrow> decimal option \<Rightarrow> json" where
  "order_payload symbol side order_type quantity price =
     JObj [(''symbol'', JStr (upper symbol)), (''side'', JStr side), (''order_type'', JStr order_type),
       (''quantity'', JStr (dec_str quantity)), (''price'', jopt jdec price)]"

lemma create_order_unfold:
  "create_order E svc u symbol side ty q p key =
     bnd (reserve E u create_endpoint key (order_payload symbol side ty q p)) (\<lambda>reservation.
     if \<not> ir_is_new reservation then ret (ir_stored_response reservation)
     else create_and_execute E svc (ir_key_row_id reservation) u (upper symbol) side ty q p
       key create_endpoint ''orders.create'')"
  by (simp add: create_order_def order_payload_def Let_def)

text \<open>
  Sending through \<open>create_and_execute\<close>, whatever the identifiers and whatever the strings: nothing, or
  the one gated order.
\<close>

definition order_sent ::
  "env \<Rightarrow> sys \<Rightarrow> uuid \<Rightarrow> string \<Rightarrow> string \<Rightarrow> string \<Rightarrow> decimal \<Rightarrow> decimal option \<Rightarrow> string \<Rightarrow> sys \<Rightarrow> bool" where
  "order_sent E s u symb side ty q p cid s' \<longleftrightarrow> (\<exists>cs. calls s' = calls s @ cs \<and>
     (filter is_write cs = [] \<or>
      filter is_write cs = [CreateOrder symb side ty (dec_str q) (map_option dec_str p) cid] \<and>
      is_trading_permitted E u s \<and> gated s u symb side ty q p))"

lemma order_sent_same: "calls s' = calls s \<Longrightarrow> order_sent E s u symb side ty q p cid s'"
  by (simp add: order_sent_def)

lemma order_sent_calls: "calls t' = calls t \<Longrightarrow> order_sent E s u symb side ty q p cid t \<Longrightarrow> order_sent E s u symb side ty q p cid t'"
  by (simp add: order_sent_def)

lemma same_calls_wp:
  "wp (finalize rid v) (\<lambda>r s'. calls s' = calls s) s"
  "wp (internal_failure E rid oid exc action) (\<lambda>r s'. calls s' = calls s) s"
  "wp (refuse_disabled rid u action sy qu) (\<lambda>r s'. calls s' = calls s) s"
  by (auto simp: internal_failure_def refuse_disabled_def wp_simps audit_order_def audit_def split: option.split)

lemma wp_create_and_execute_sends:
  "wp (create_and_execute E svc rid u symb side ty q p key ep action)
     (\<lambda>r s'. order_sent E s u symb side ty q p (derive_binance_client_order_id E u ep key) s') s"
proof -
  define cid where "cid = derive_binance_client_order_id E u ep key"
  have pipe: "wp (bnd (try_any (validate_and_execute E svc o1 side ty q p action)) (\<lambda>r. case r of
        Inl exc \<Rightarrow> internal_failure E rid oid exc action
      | Inr response \<Rightarrow> seq (finalize rid response) (ret response)))
      (\<lambda>r s'. order_sent E s u symb side ty q p cid s') t"
    if t: "t = s\<lparr>uuids := a, ticks := b, orders := orders s @ [o1]\<rparr>" "is_trading_permitted E u s"
      "o_id o1 \<notin> o_id ` set (orders s)" "o_user_id o1 = u" "o_symbol o1 = symb"
      "o_binance_client_order_id o1 = cid" for t o1 oid a b
  proof -
    have row: "lookup_row o_id (orders t) (o_id o1) = Some o1"
      using t(1,3) by (simp add: lookup_row_append lookup_row_None [THEN iffD2])
    have sent: "order_sent E s u symb side ty q p cid s'" if "sends t o1 side ty q p s'" for s'
    proof -
      have "sends t o1 side ty q p = sends s o1 side ty q p" by (rule sends_cong) (simp_all add: t(1))
      then show ?thesis using that t(2,4-6) by (auto simp: sends_def order_sent_def)
    qed
    show ?thesis
      unfolding wp_bnd wp_try_any sum.case
    proof (rule wp_mono [OF wp_validate_and_execute [OF row]])
      fix r t' assume "sends t o1 side ty q p t'"
      then have t': "order_sent E s u symb side ty q p cid t'" by (rule sent)
      show "wp (case r of Inl exc \<Rightarrow> internal_failure E rid oid exc action
          | Inr response \<Rightarrow> seq (finalize rid response) (ret response))
          (\<lambda>r s'. order_sent E s u symb side ty q p cid s') t'"
        by (cases r; simp add: wp_seq, intro wp_mono [OF same_calls_wp(1)] wp_mono [OF same_calls_wp(2)])
          (use t' order_sent_calls in \<open>auto simp: wp_ret split: sum.split\<close>)
    qed
  qed
  have refuse: "wp (refuse_disabled rid u action sy qu) (\<lambda>r s'. order_sent E s u symb side ty q p cid s') s" for sy qu
    by (rule wp_mono [OF same_calls_wp(3)]) (simp add: order_sent_same)
  show ?thesis
    unfolding create_and_execute_def cid_def [symmetric]
    by (simp add: wp_bnd [of "gets _"] wp_bnd [of "lift _"] wp_bnd [of "new_uuid _"] wp_bnd [of "now_utc _"]
        wp_seq [of "add_order _"] wp_gets wp_lift wp_new_uuid wp_now_utc wp_add_order Let_def refuse
        order_sent_same split: sum.split) (intro impI allI pipe [OF refl], simp_all)
qed

text \<open>A predicate of the final state that a taken slot and the database error leave true.\<close>

lemma wp_create_order_sends:
  assumes "keys_ok s"
  shows "wp (create_order E svc u symbol side ty q p key) (\<lambda>r s'.
     order_sent E s u (upper symbol) side ty q p (derive_binance_client_order_id E u create_endpoint key) s' \<and>
     (slot_of s (u, create_endpoint, key) \<noteq> Free \<longrightarrow> calls s' = calls s)) s"
  unfolding create_order_unfold
proof (rule wp_bndI [OF wp_reserve [OF assms]], goal_cases)
  case (1 x s1)
  then have s1: "calls s1 = calls s" "user_settings s1 = user_settings s"
    by (cases s; cases s1; simp)+
  have cong: "order_sent E s1 = order_sent E s"
    by (intro ext) (simp add: order_sent_def s1 gated_cong [OF s1(2)] is_trading_permitted_def
        is_user_trading_enabled_def)
  show ?case
  proof (cases "ir_is_new x")
    case True
    have free: "slot_of s (u, create_endpoint, key) = Free" using 1 True by auto
    show ?thesis
      using wp_create_and_execute_sends [of E svc "ir_key_row_id x" u "upper symbol" side ty q p key create_endpoint "''orders.create''" s1]
      by (simp add: True free cong)
  next
    case False
    then show ?thesis by (simp add: wp_ret s1 order_sent_same)
  qed
next
  case (2 e s1)
  then have "calls s1 = calls s" by (cases s; cases s1) simp
  then show ?case by (simp add: order_sent_same)
qed

text \<open>The calls of a submission: the order, and one query by its client id when that was not acknowledged.\<close>

lemma confirm_order_calls: "wp (confirm_order E oid payload ev d action ad) (\<lambda>r s'. calls s' = calls s) s"
  by (auto simp: confirm_order_def wp_simps audit_order_def audit_def split: option.split sum.split)

lemma confirm_order_status:
  "wp (confirm_order E oid payload ev d action ad) (\<lambda>r s'. \<forall>v j st. r = Inr v \<longrightarrow>
      jget_opt ''status'' payload = Inr j \<longrightarrow> map_binance_status j = Inr st \<longrightarrow>
      (\<exists>y. lookup_row o_id (orders s') oid = Some y \<and> describes y v \<and> o_status y = st)) s"
proof (cases "lookup_row o_id (orders s) oid")
  case None
  then show ?thesis by (simp add: confirm_order_def wp_simps)
next
  case (Some x)
  obtain rr y where rec: "reconcile_from_binance_payload payload x = (rr, y)" by fastforce
  have id: "o_id (snd (reconcile_from_binance_payload payload z)) = o_id z" for z
    using reconcile_same [of payload z] same_request_fields(1) by (metis prod.collapse)
  have st: "o_status y = st" if "rr = Inr c" "jget_opt ''status'' payload = Inr j" "map_binance_status j = Inr st" for c j st
    using rec unfolding that(1)
  proof (rule reconcile_Inr)
    fix a b e c1 c2 c3 c4
    assume "reconcile_status payload x = Inr (a, c1)" "reconcile_order_id payload a = Inr (b, c2)"
      "reconcile_executed payload b = Inr (e, c3)" "reconcile_average payload e = Inr (y, c4)"
    then have "reconcile_status payload x = Inr (a, c1)" "o_status y = o_status a"
      using reconcile_field_frames by metis+
    moreover have "j \<noteq> JNull" using that(3) by (auto simp: map_binance_status_def)
    ultimately show "o_status y = st" using that(2,3) by (auto simp: reconcile_status_def rbind_def split: if_splits)
  qed
  show ?thesis
    using st by (auto simp: confirm_order_def wp_simps Some rec lookup_map_row id audit_order_def audit_def describes_def
        simp del: map_map split: sum.split)
qed

definition acknowledged :: "uuid \<Rightarrow> json \<Rightarrow> json result \<Rightarrow> sys \<Rightarrow> bool" where
  "acknowledged oid payload r s \<longleftrightarrow> (\<forall>v j st. r = Inr v \<longrightarrow> jget_opt ''status'' payload = Inr j \<longrightarrow>
     map_binance_status j = Inr st \<longrightarrow>
     (\<exists>y. lookup_row o_id (orders s) oid = Some y \<and> describes y v \<and> o_status y = st))"

lemma wp_confirm_acknowledged:
  "wp (confirm_order E oid payload ev d action ad) (\<lambda>r s'. calls s' = calls s \<and> acknowledged oid payload r s') s"
  by (rule wp_mono [OF wp_conj [OF confirm_order_calls confirm_order_status]]) (simp add: acknowledged_def)

text \<open>The order call and the query that resolves its ambiguity.\<close>

definition create_call :: "Order \<Rightarrow> string \<Rightarrow> string \<Rightarrow> decimal \<Rightarrow> decimal option \<Rightarrow> binance_call" where
  "create_call o1 side ty q p =
     CreateOrder (o_symbol o1) side ty (dec_str q) (map_option dec_str p) (o_binance_client_order_id o1)"

definition query_call :: "Order \<Rightarrow> binance_call" where
  "query_call o1 = GetOrder (o_symbol o1) None (Some (o_binance_client_order_id o1))"

definition resolved :: "env \<Rightarrow> binance_call list \<Rightarrow> Order \<Rightarrow> json result \<Rightarrow> sys \<Rightarrow> bool" where
  "resolved E h o1 r s \<longleftrightarrow> (case client E h (query_call o1) of
      Inr payload \<Rightarrow> acknowledged (o_id o1) payload r s
    | Inl (BinanceErr b) \<Rightarrow> \<exists>y. lookup_row o_id (orders s) (o_id o1) = Some y \<and> o_status y = OrderStatus.FAILED \<and>
        r = Inr (envelope ''order'' (order_to_response y) ''FAILED'' (o_error_message y))
    | Inl e \<Rightarrow> r = Inl e)"

lemma resolved_cong:
  assumes "query_call a = query_call b" and "o_id a = o_id b"
  shows "resolved E h a = resolved E h b"
  by (intro ext) (unfold resolved_def assms, rule refl)

lemma wp_ambiguous_failure:
  assumes "lookup_row o_id (orders t) oid = Some o1" and "o_id o1 = oid"
  shows "wp (handle_ambiguous_create_failure E oid b action) (\<lambda>r s'.
     calls s' = calls t @ [query_call o1] \<and> resolved E (calls t) o1 r s') t"
  unfolding handle_ambiguous_create_failure_def resolved_def
  by (auto simp: wp_simps assms query_call_def lookup_map_row audit_order_def audit_def Let_def
      split: sum.split exn.split intro!: wp_mono [OF wp_confirm_acknowledged])

lemma order_upd_id: "o_id (o1\<lparr>o_submitted_at := v\<rparr>) = o_id o1"
  by simp

lemma if_granted: "ir_is_new x \<Longrightarrow> (if \<not> ir_is_new x then a else b) = b"
  by simp

section \<open>Properties\<close>

text \<open>
  C2: Nothing unvetted reaches the exchange.  Whatever a request asks, from whatever state, and
  whatever the exchange answers, \<open>create_order\<close> makes at most one write call; it is the order of the
  request under the client id derived from the user, the endpoint and the key, and it is made only for
  a key never used before, with trading permitted, after the validator approved the request against
  the market price and filters and the risk engine approved its notional under the user's limits.
\<close>
theorem create_order_sends_only_vetted:
  assumes "keys_ok s"
  shows "wp (create_order E svc u symbol side ty q p key) (\<lambda>r s'. \<exists>cs. calls s' = calls s @ cs \<and>
     (filter is_write cs = [] \<or>
      filter is_write cs = [CreateOrder (upper symbol) side ty (dec_str q) (map_option dec_str p)
        (derive_binance_client_order_id E u create_endpoint key)] \<and>
      slot_of s (u, create_endpoint, key) = Free \<and> is_trading_permitted E u s \<and>
      gated s u (upper symbol) side ty q p)) s"
  by (rule wp_mono [OF wp_create_order_sends [OF assms]]) (auto simp: order_sent_def)

lemma create_order_sends_only_vetted_witness:
  "wp (create_order demo_env demo_service 7 ''btcusdt'' ''BUY'' ''MARKET'' (Fin False 1 0) None ''k'')
     (\<lambda>r s'. length (filter is_write (calls s')) \<le> 1) idle"
  by (rule wp_mono [OF create_order_sends_only_vetted]) (auto simp: idle_def keys_ok_def)

text \<open>
  C4: No reservation is left hanging.  With trading permitted, a valid side and type and unused
  identifiers, a granted \<open>create_order\<close> adds exactly one row, with the columns of the request, and
  settles its slot with a response that describes that row as it is left: on a normal return that
  response is the answer, on any exception the row is FAILED.  No other slot changes.
\<close>
theorem create_order_always_settles:
  assumes "free_slot E s (u, create_endpoint, key)" and "is_trading_permitted E u s"
    and "OrderSide_of side = Inr se" and "OrderType_of ty = Inr te"
    and "uuid4 E (uuids s + 1) \<notin> o_id ` set (orders s)"
    and "derive_binance_client_order_id E u create_endpoint key \<notin> o_binance_client_order_id ` set (orders s)"
  shows "wp (create_order E svc u symbol side ty q p key) (\<lambda>r s'. \<exists>y v. orders s' = orders s @ [y] \<and>
     o_user_id y = u \<and> o_symbol y = upper symbol \<and> o_side y = se \<and> o_order_type y = te \<and>
     o_requested_quantity y = q \<and> o_requested_price y = p \<and> describes y v \<and> keys_ok s' \<and>
     slot_of s' = (slot_of s)((u, create_endpoint, key) :=
       Done (compute_request_hash E (order_payload symbol side ty q p)) v) \<and>
     (case r of Inr w \<Rightarrow> w = v | Inl e \<Rightarrow> o_status y = OrderStatus.FAILED)) s"
  unfolding create_order_unfold
proof (rule wp_bndI [OF wp_reserve_free [OF assms(1)]], goal_cases)
  case (1 x s1)
  then have x: "ir_is_new x" and hold: "holding s1 (ir_key_row_id x) (u, create_endpoint, key)
      (compute_request_hash E (order_payload symbol side ty q p)) ((slot_of s)((u, create_endpoint, key) :=
        InProgress (compute_request_hash E (order_payload symbol side ty q p))))"
    and s1: "orders s1 = orders s" "uuids s1 = uuids s + 1" "user_settings s1 = user_settings s"
    by (simp, simp, (cases s; cases s1; simp)+)
  have perm: "is_trading_permitted E u s1"
    using assms(2) permitted_cong [OF s1(3)] by simp
  have "fresh_order E s1 (derive_binance_client_order_id E u create_endpoint key)"
    using assms(5,6) by (simp add: fresh_order_def s1)
  note run = wp_create_and_execute [OF hold perm assms(3,4) this, of svc "upper symbol" q p "''orders.create''"]
  show ?case
    unfolding if_granted [OF x]
  proof (rule wp_mono [OF run], goal_cases)
    case (1 r s')
    then obtain y v where y: "same_identity (new_order E s1 u (upper symbol) se te q p
          (derive_binance_client_order_id E u create_endpoint key)) y"
      and rest: "orders s' = orders s @ [y]" "describes y v" "keys_ok s'" "slot_of s' = (slot_of s)
          ((u, create_endpoint, key) := Done (compute_request_hash E (order_payload symbol side ty q p)) v)"
        "case r of Inr w \<Rightarrow> w = v | Inl e \<Rightarrow> o_status y = OrderStatus.FAILED"
      by (auto simp: executed_def settled_with_def s1)
    show ?case by (intro exI [of _ y] exI [of _ v]) (simp add: rest same_identity_fields [OF y])
  qed
qed simp

lemma create_order_always_settles_witness:
  "wp (create_order demo_env demo_service 7 ''btcusdt'' ''BUY'' ''MARKET'' (Fin False 1 0) None ''k'')
     (\<lambda>r s'. \<exists>y. orders s' = [y] \<and> o_symbol y = ''BTCUSDT'') idle"
  by (rule wp_mono [OF create_order_always_settles [where se = BUY and te = MARKET]])
    (auto simp: free_slot_def is_trading_permitted_def demo_trading, auto simp: idle_def)

text \<open>
  C37: A retry has no effect.  When the key's slot is taken, \<open>create_order\<close> changes nothing but the
  counter of identifiers, makes no call, and answers from the slot: in progress raises InProgress, a
  settled slot replays its response for the same request and raises Conflict for another one.
\<close>
theorem create_order_retry_is_inert:
  assumes "keys_ok s" and "slot_of s (u, create_endpoint, key) \<noteq> Free"
  shows "wp (create_order E svc u symbol side ty q p key) (\<lambda>r s'. s' = s\<lparr>uuids := uuids s'\<rparr> \<and>
     (case slot_of s (u, create_endpoint, key) of
        Free \<Rightarrow> False
      | InProgress h \<Rightarrow> \<exists>m. r = Inl (IdempotencyInProgressErr m)
      | Done h v \<Rightarrow> if h = compute_request_hash E (order_payload symbol side ty q p) then r = Inr v
          else \<exists>m. r = Inl (IdempotencyConflictErr m))) s"
  unfolding create_order_unfold
  by (rule wp_bndI [OF wp_reserve_taken [OF assms]])
    (use assms(2) in \<open>auto simp: reserve_spec_def wp_ret split: slot.splits if_splits\<close>)

lemma create_order_retry_is_inert_witness:
  "wp (create_order demo_env demo_service 7 ''btcusdt'' ''BUY'' ''MARKET'' (Fin False 1 0) None ''k'') (\<lambda>r s'. \<exists>m. r = Inl (IdempotencyInProgressErr m))
     (idle\<lparr>idempotency_keys := [\<lparr>ik_id = 5, ik_user_id = 7, ik_endpoint = create_endpoint, ik_key = ''k'',
        ik_request_hash = ''h'', ik_response_snapshot = PROCESSING_SENTINEL\<rparr>]\<rparr>)"
  by (rule wp_mono [OF create_order_retry_is_inert])
    (auto simp: keys_ok_def unique_key_def slot_of_def ik_scope_def)

text \<open>
  C8: The kill switch stops everything.  With trading not permitted, a granted \<open>create_order\<close> makes no
  call and no row, settles its slot with a refusal, writes one audit entry and raises TradingDisabled.
\<close>
theorem create_order_kill_switch:
  assumes "free_slot E s (u, create_endpoint, key)" and "\<not> is_trading_permitted E u s"
  shows "wp (create_order E svc u symbol side ty q p key) (\<lambda>r s'. r = Inl (TradingDisabledErr ''Trading is disabled.'') \<and>
     calls s' = calls s \<and> orders s' = orders s \<and> order_events s' = order_events s \<and>
     length (audit_log s') = length (audit_log s) + 1 \<and>
     slot_of s' = (slot_of s)((u, create_endpoint, key) :=
       Done (compute_request_hash E (order_payload symbol side ty q p))
         (envelope ''order'' JNull ''REJECTED'' (Some ''Trading is disabled.'')))) s"
  unfolding create_order_unfold
proof (rule wp_bndI [OF wp_reserve_free [OF assms(1)]], goal_cases)
  case (1 x s1)
  then have x: "ir_is_new x" and hold: "holding s1 (ir_key_row_id x) (u, create_endpoint, key)
      (compute_request_hash E (order_payload symbol side ty q p)) ((slot_of s)((u, create_endpoint, key) :=
        InProgress (compute_request_hash E (order_payload symbol side ty q p))))"
    and s1: "s1 = s\<lparr>uuids := uuids s + 1, idempotency_keys := idempotency_keys s1\<rparr>"
    by auto
  have same: "orders s1 = orders s" "order_events s1 = order_events s" "audit_log s1 = audit_log s"
      "calls s1 = calls s" "user_settings s1 = user_settings s"
    by (subst s1, simp)+
  have "\<not> is_trading_permitted E u s1"
    using assms(2) permitted_cong [OF same(5)] by simp
  then have run: "create_and_execute E svc (ir_key_row_id x) u (upper symbol) side ty q p key create_endpoint
      ''orders.create'' s1 = refuse_disabled (ir_key_row_id x) u ''orders.create'' (Some (upper symbol)) (Some q) s1"
    by (simp add: create_and_execute_def bnd_def gets_def)
  show ?case
    unfolding if_granted [OF x]
  proof (subst wp_cong, rule run, rule wp_mono [OF wp_refuse_disabled [OF hold]], goal_cases)
    case (1 r s')
    then obtain e where s': "s' = s1\<lparr>idempotency_keys := idempotency_keys s', audit_log := audit_log s1 @ [e]\<rparr>"
      by blast
    have "orders s' = orders s1" "order_events s' = order_events s1" "calls s' = calls s1"
        "length (audit_log s') = length (audit_log s1) + 1"
      by (subst s', simp)+
    with 1 show ?case by (simp add: settled_with_def disabled_reason_def same)
  qed
qed simp

lemma create_order_kill_switch_witness:
  "wp (create_order (demo_env\<lparr>getenv := \<lambda>n. None\<rparr>) demo_service 7 ''btcusdt'' ''BUY'' ''MARKET'' (Fin False 1 0) None ''k'')
     (\<lambda>r s'. calls s' = []) idle"
  by (rule wp_mono [OF create_order_kill_switch])
    (auto simp: free_slot_def is_trading_permitted_def demo_trading, auto simp: idle_def)

text \<open>
  C10: An order that was not acknowledged is looked up, never sent twice.  When the order call fails with
  an exchange error, exactly one more call is made, the query for the same client id: when the exchange
  knows the order, the row takes the status it reports, and when it cannot be confirmed the row is
  FAILED and the answer says so.  When the order call succeeds, it is the only call.
\<close>
theorem submit_resolves_ambiguity:
  assumes "lookup_row o_id (orders s) oid = Some o1"
  shows "wp (submit_to_binance E oid side ty q p action) (\<lambda>r s'.
    case client E (calls s) (create_call o1 side ty q p) of
      Inr payload \<Rightarrow> calls s' = calls s @ [create_call o1 side ty q p] \<and> acknowledged oid payload r s'
    | Inl (BinanceErr b) \<Rightarrow> calls s' = calls s @ [create_call o1 side ty q p, query_call o1] \<and>
        resolved E (calls s @ [create_call o1 side ty q p]) o1 r s'
    | Inl e \<Rightarrow> r = Inl e \<and> calls s' = calls s @ [create_call o1 side ty q p]) s"
proof -
  define t where "t = clock E (ticks s)"
  define u where "u = s\<lparr>ticks := Suc (ticks s),
     orders := map (\<lambda>x. if o_id x = oid then x\<lparr>o_submitted_at := Some t\<rparr> else x) (orders s),
     order_events := order_events s @ [\<lparr>oe_order_id = oid, oe_event_type = SUBMITTED, oe_detail = None\<rparr>],
     calls := calls s @ [create_call o1 side ty q p]\<rparr>"
  have row: "lookup_row o_id (orders u) oid = Some (o1\<lparr>o_submitted_at := Some t\<rparr>)"
    using assms by (simp add: u_def lookup_map_row)
  have cs: "calls u = calls s @ [create_call o1 side ty q p]" by (simp add: u_def)
  have call: "CreateOrder (o_symbol o1) side ty (dec_str q) (map_option dec_str p) (o_binance_client_order_id o1) =
      create_call o1 side ty q p" by (simp add: create_call_def)
  have id: "o_id o1 = oid" using lookup_row_Some [OF assms] by simp
  have same: "query_call (o1\<lparr>o_submitted_at := Some t\<rparr>) = query_call o1" 
      by (simp add: query_call_def)
  have same': "resolved E h (o1\<lparr>o_submitted_at := Some t\<rparr>) = resolved E h o1" for h
    by (rule resolved_cong [OF same]) simp
  note amb = wp_ambiguous_failure [OF row, unfolded order_upd_id, OF id, unfolded same same' cs]
  show ?thesis
    by (auto simp: submit_to_binance_def wp_simps assms lookup_map_row call cs same same' simp flip: t_def u_def
        split: sum.split exn.split intro!: wp_mono [OF wp_confirm_acknowledged] wp_mono [OF amb])
qed

lemma submit_resolves_ambiguity_witness:
  "wp (submit_to_binance demo_env 1 ''BUY'' ''MARKET'' (Fin False 1 0) None ''orders.create'')
     (\<lambda>r s'. length (calls s') = 2 \<and> (\<exists>y. lookup_row o_id (orders s') 1 = Some y \<and> o_status y = OrderStatus.FAILED))
     (idle\<lparr>orders := [demo_order]\<rparr>)"
  by (rule wp_mono [OF submit_resolves_ambiguity [of _ _ demo_order]])
    (auto simp: resolved_def demo_env_def idle_def demo_order_def)

end
