(* ===== verification/SimulationProperties.thy ===== *)
theory SimulationProperties
  imports SimulationOrders OrderProperties
begin

text \<open>
  The properties of \<open>trading/simulation_order_service.py\<close>: no simulated order reaches the exchange,
  the account of the bot moves exactly by the arithmetic of the one fill that was recorded, and the
  reservation is settled with the answer.
\<close>

section \<open>What it may touch\<close>

text \<open>A part of the state that stays as it is.\<close>

definition unchanged :: "(sys \<Rightarrow> 'a) \<Rightarrow> sys \<Rightarrow> sys \<Rightarrow> bool" where
  "unchanged f s s' \<longleftrightarrow> f s' = f s"

interpretation unchanged: frame "unchanged f" for f
  by unfold_locales (auto simp: unchanged_def)

lemma the_instrument_reads: "keeps reads (the_instrument bid)"
  unfolding the_instrument_def
  by (intro reads.bnd reads.gets reads.case_opt reads.ret reads.raise)

lemma reads_now: "keeps reads (now_utc E)"
  by (auto simp: keeps_wp_iff wp_simps reads_def)

lemma sim_risk_reads: "keeps reads (simulation_evaluate_risk E u bid a side m n)"
  unfolding simulation_evaluate_risk_def
  by (intro reads.bnd reads.gets reads.let_in reads.lift reads_now the_instrument_reads)

lemma sim_prims_no_write:
  "keeps no_write (simulation_audit u bid res oid d)" "keeps no_write (add_sim_order x)"
  "keeps no_write (set_cash aid c)" "keeps no_write (reserve E u ep key p)"
  by (auto simp: keeps_wp_iff wp_simps simulation_audit_def add_sim_order_def set_cash_def no_write_def
      reserve_def wp_def Let_def bnd_def gets_def new_uuid_def insert_key_def ret_def raise_def
      add_audit_def modify_def split: option.split)

lemma sim_terminal_no_write: "keeps no_write (simulation_terminal E rid u bid a side q st reason)"
  unfolding simulation_terminal_def
  by (intro no_write.bnd no_write.seq no_write.ret no_write.let_in no_write.lift only_order_prims sim_prims_no_write
      the_instrument_reads [THEN keeps_reads(2)])

lemma sim_fill_no_write: "keeps no_write (simulation_fill E rid u bid a side q m)"
  unfolding simulation_fill_def
  by (intro no_write.bnd no_write.seq no_write.ret no_write.let_in no_write.lift only_order_prims sim_prims_no_write
      the_instrument_reads [THEN keeps_reads(2)])

lemma sim_execute_no_write: "keeps no_write (simulation_execute E rid u bid a side q m n)"
  unfolding simulation_execute_def
  by (intro no_write.cond no_write.bnd no_write.lift sim_terminal_no_write sim_fill_no_write)

lemma case_decision:
  "keeps R m \<Longrightarrow> (\<And>x. keeps R (f x)) \<Longrightarrow> keeps R (case d of Approved \<Rightarrow> m | Rejected x \<Rightarrow> f x)"
  by (simp split: RiskDecision.split)

lemmas sim_no_write = sim_terminal_no_write sim_fill_no_write sim_execute_no_write
  reads_market_price [THEN keeps_reads(2)] reads_filters [THEN keeps_reads(2)]
  sim_risk_reads [THEN keeps_reads(2)] the_instrument_reads [THEN keeps_reads(2)]

lemma sim_gates_no_write: "keeps no_write (simulation_gates E rid u bid a side q)"
  unfolding simulation_gates_def
  by (rule sim_no_write no_write.bnd no_write.case_sum no_write.lift no_write.cond no_write.try_binance case_decision)+

lemma place_bot_order_no_write: "keeps no_write (place_bot_order E u bid side q key)"
  unfolding place_bot_order_def
  by (rule no_write.bnd no_write.seq no_write.ret no_write.raise no_write.let_in no_write.gets no_write.cond no_write.case_opt
      sim_prims_no_write only_order_prims sim_gates_no_write | simp)+

section \<open>The outcome of an attempt\<close>

text \<open>
  An exception wrote no row, no cash and no response.  A normal return added one row, answers with it
  and settled the reservation; the cash of the account moved by the fill that the row records, and
  only when it is filled.
\<close>

definition fill_rule ::
  "decimal \<Rightarrow> decimal \<Rightarrow> string \<Rightarrow> decimal \<Rightarrow> decimal \<Rightarrow> decimal \<Rightarrow> decimal \<Rightarrow> decimal \<Rightarrow> decimal \<Rightarrow> decimal \<Rightarrow> bool" where
  "fill_rule slippage_pct fee_pct side q market price fee slippage cash cash' \<longleftrightarrow> (\<exists>rate factor notional distance.
     dec_div slippage_pct (dec_of_int 100) = Inr rate \<and>
     (if side = ''BUY'' then dec_add (dec_of_int 1) rate else dec_sub (dec_of_int 1) rate) = Inr factor \<and>
     dec_mul market factor = Inr price \<and> dec_mul price q = Inr notional \<and>
     rbind (dec_mul notional fee_pct) (\<lambda>x. dec_div x (dec_of_int 100)) = Inr fee \<and>
     rbind (dec_sub price market) dec_abs = Inr distance \<and> dec_mul distance q = Inr slippage \<and>
     (if side = ''BUY'' then rbind (dec_add notional fee) (dec_sub cash)
      else rbind (dec_sub notional fee) (dec_add cash)) = Inr cash')"

lemma fill_amounts_rule:
  "fill_amounts sl fe side q m cash = Inr fl \<Longrightarrow>
     fill_rule sl fe side q m (f_price fl) (f_fee fl) (f_slippage fl) cash (f_cash fl)"
  unfolding fill_amounts_def fill_rule_def by (auto simp: rbind_Inr_iff)

definition sim_filled :: "env \<Rightarrow> sys \<Rightarrow> SimulationAccount \<Rightarrow> string \<Rightarrow> decimal \<Rightarrow> SimulationOrder \<Rightarrow> sys \<Rightarrow> bool" where
  "sim_filled E s a side q y s' \<longleftrightarrow> (\<exists>slippage fee m price cash.
     simulation_slippage_rate_pct E = Inr slippage \<and> simulation_fee_rate_pct E = Inr fee \<and>
     so_fill_price y = Some price \<and> so_executed_quantity y = q \<and>
     fill_rule slippage fee side q m price (so_fee_quote y) (so_slippage_quote y) (sa_cash_balance_quote a) cash \<and>
     simulation_accounts s' = map (\<lambda>x. if sa_id x = sa_id a then x\<lparr>sa_cash_balance_quote := cash\<rparr> else x)
       (simulation_accounts s))"

definition sim_outcome ::
  "env \<Rightarrow> sys \<Rightarrow> uuid \<Rightarrow> SimulationAccount \<Rightarrow> scope \<Rightarrow> string \<Rightarrow> (scope \<Rightarrow> slot) \<Rightarrow> string \<Rightarrow> decimal
     \<Rightarrow> json result \<Rightarrow> sys \<Rightarrow> bool" where
  "sim_outcome E s bid a k h f side q r s' \<longleftrightarrow> (case r of
      Inl e \<Rightarrow> simulation_orders s' = simulation_orders s \<and> simulation_accounts s' = simulation_accounts s \<and>
        slot_of s' = f
    | Inr v \<Rightarrow> \<exists>y reason. simulation_orders s' = simulation_orders s @ [y] \<and> so_bot_id y = bid \<and>
        so_requested_quantity y = q \<and> settled_with s' k h f v \<and>
        v = envelope ''order'' (simulation_order_to_response y) (sim_status_value (so_status y)) reason \<and>
        (if so_status y = SimulationOrderStatus.FILLED then sim_filled E s a side q y s'
         else simulation_accounts s' = simulation_accounts s))"

text \<open>What an attempt starts from.\<close>

definition sim_start :: "env \<Rightarrow> sys \<Rightarrow> uuid \<Rightarrow> scope \<Rightarrow> string \<Rightarrow> (scope \<Rightarrow> slot) \<Rightarrow> bool" where
  "sim_start E s rid k h f \<longleftrightarrow> holding s rid k h f \<and> uuid4 E (uuids s) \<notin> so_id ` set (simulation_orders s)"

lemma reads_fields:
  assumes "reads s t"
  shows "simulation_orders t = simulation_orders s" "simulation_accounts t = simulation_accounts s"
    "idempotency_keys t = idempotency_keys s" "uuids t = uuids s" "bots t = bots s"
    "bot_positions t = bot_positions s" "user_settings t = user_settings s" "orders t = orders s"
  using assms unfolding reads_def by (cases s; cases t; simp)+

lemma sim_start_reads: "reads s t \<Longrightarrow> sim_start E t rid k h f = sim_start E s rid k h f"
  by (simp add: sim_start_def reads_fields [of s t] holding_cong [of t s])

lemma sim_outcome_reads: "reads s t \<Longrightarrow> sim_outcome E t bid a k h f side q r s' = sim_outcome E s bid a k h f side q r s'"
  unfolding sim_outcome_def sim_filled_def by (simp only: reads_fields(1,2) [of s t])

lemma sim_outcome_raise:
  "reads s t \<Longrightarrow> sim_start E s rid k h f \<Longrightarrow> sim_outcome E s bid a k h f side q (Inl e) t"
  by (simp add: sim_outcome_def sim_start_def holding_def reads_fields [of s t] slot_of_cong [of t s])

lemma keys_record: "t = s\<lparr>idempotency_keys := idempotency_keys t\<rparr> \<Longrightarrow>
   simulation_orders t = simulation_orders s \<and> simulation_accounts t = simulation_accounts s \<and>
   bots t = bots s \<and> bot_positions t = bot_positions s"
  by (cases t; cases s) simp

lemma wp_add_sim_order [wp_simps]:
  "wp (add_sim_order x) Q s = (if so_id x \<in> so_id ` set (simulation_orders s)
      then Q (Inl (IntegrityErr ''duplicate key value violates unique constraint'')) s
      else Q (Inr ()) (s\<lparr>simulation_orders := simulation_orders s @ [x]\<rparr>))"
  by (simp add: wp_def add_sim_order_def)

lemma wp_simulation_audit [wp_simps]:
  "wp (simulation_audit u bid res oid d) Q s =
     Q (Inr ()) (s\<lparr>audit_log := audit_log s @ [simulation_audit_entry u bid res oid d s]\<rparr>)"
  by (simp add: simulation_audit_def wp_simps)

lemma wp_set_cash [wp_simps]:
  "wp (set_cash aid cash) Q s = Q (Inr ()) (s\<lparr>simulation_accounts :=
     map (\<lambda>a. if sa_id a = aid then a\<lparr>sa_cash_balance_quote := cash\<rparr> else a) (simulation_accounts s)\<rparr>)"
  by (simp add: set_cash_def wp_simps)

lemma wp_the_instrument:
  "wp (the_instrument bid) Q s = (case position_of s bid of
      None \<Rightarrow> Q (Inl (AttributeErr (repr ''NoneType'' @ '' object has no attribute '' @ repr ''instrument''))) s
    | Some p \<Rightarrow> Q (Inr (bp_instrument p)) s)"
  by (simp add: the_instrument_def wp_simps split: option.split)

text \<open>Recording an attempt: the row, the audit entry, the response.\<close>

lemma wp_record_attempt:
  assumes "holding t rid k h f" and "so_id y \<notin> so_id ` set (simulation_orders t)" and "v \<noteq> PROCESSING_SENTINEL"
    and "\<And>w. settled_with w k h f v \<Longrightarrow> simulation_orders w = simulation_orders t @ [y] \<Longrightarrow>
       simulation_accounts w = simulation_accounts t \<Longrightarrow> Q (Inr v) w"
  shows "wp (seq (add_sim_order y) (seq (simulation_audit u bid res oid d) (seq (finalize rid v) (ret v)))) Q t"
proof -
  let ?t = "t\<lparr>simulation_orders := simulation_orders t @ [y],
    audit_log := audit_log t @ [simulation_audit_entry u bid res oid d (t\<lparr>simulation_orders := simulation_orders t @ [y]\<rparr>)]\<rparr>"
  have "wp (finalize rid v) (\<lambda>r s'. case r of Inl e \<Rightarrow> Q (Inl e) s' | Inr x \<Rightarrow> wp (ret v) Q s') ?t"
  proof (rule wp_settle)
    show "holding ?t rid k h f" using assms(1) holding_cong [of ?t t] by simp
  qed (use assms(3,4) in \<open>auto simp: wp_ret dest!: keys_record\<close>)
  then show ?thesis using assms(2) by (simp add: wp_seq wp_add_sim_order wp_simulation_audit)
qed

lemma wp_record_fill:
  assumes "holding t rid k h f" and "so_id y \<notin> so_id ` set (simulation_orders t)" and "v \<noteq> PROCESSING_SENTINEL"
    and "\<And>w. settled_with w k h f v \<Longrightarrow> simulation_orders w = simulation_orders t @ [y] \<Longrightarrow>
       simulation_accounts w = map (\<lambda>a. if sa_id a = aid then a\<lparr>sa_cash_balance_quote := cash\<rparr> else a)
         (simulation_accounts t) \<Longrightarrow> Q (Inr v) w"
  shows "wp (seq (add_sim_order y) (seq (set_cash aid cash) (seq (simulation_audit u bid res oid d)
     (seq (finalize rid v) (ret v))))) Q t"
proof -
  let ?c = "map (\<lambda>a. if sa_id a = aid then a\<lparr>sa_cash_balance_quote := cash\<rparr> else a) (simulation_accounts t)"
  let ?u = "t\<lparr>simulation_orders := simulation_orders t @ [y], simulation_accounts := ?c\<rparr>"
  let ?t = "?u\<lparr>audit_log := audit_log t @ [simulation_audit_entry u bid res oid d ?u]\<rparr>"
  have "wp (finalize rid v) (\<lambda>r s'. case r of Inl e \<Rightarrow> Q (Inl e) s' | Inr x \<Rightarrow> wp (ret v) Q s') ?t"
  proof (rule wp_settle)
    show "holding ?t rid k h f" using assms(1) holding_cong [of ?t t] by simp
  qed (use assms(3,4) in \<open>auto simp: wp_ret dest!: keys_record\<close>)
  then show ?thesis using assms(2) by (simp add: wp_seq wp_add_sim_order wp_set_cash wp_simulation_audit)
qed

text \<open>Up to the row, an attempt only draws readings and identifiers.\<close>

lemma sim_outcome_early:
  assumes "sim_start E s rid k h f"
  shows "sim_outcome E s bid a k h f side q (Inl e) s"
    and "sim_outcome E s bid a k h f side q (Inl e) (s\<lparr>ticks := n\<rparr>)"
  using sim_outcome_raise [OF _ assms] by (simp_all add: reads_def)

lemmas wp_draws = wp_bnd [of "the_instrument _"] wp_the_instrument wp_bnd [of "lift _"] wp_lift
  wp_bnd [of "now_utc _"] wp_now_utc wp_bnd [of "new_uuid _"] wp_new_uuid wp_bnd [of "gets _"] wp_gets

lemma wp_simulation_terminal:
  assumes "sim_start E s rid k h f" and "status \<noteq> SimulationOrderStatus.FILLED"
  shows "wp (simulation_terminal E rid u bid a side q status reason) (sim_outcome E s bid a k h f side q) s"
proof -
  have hold: "idempotency_keys t = idempotency_keys s \<Longrightarrow> holding t rid k h f" for t
    using assms(1) holding_cong [of t s] by (simp add: sim_start_def)
  have fresh: "uuid4 E (uuids s) \<notin> so_id ` set (simulation_orders s)" using assms(1) by (simp add: sim_start_def)
  show ?thesis
    unfolding simulation_terminal_def Let_def
    by (simp add: wp_draws sim_outcome_early [OF assms(1)] split: option.split sum.split)
      (intro conjI allI impI; rule wp_record_attempt [OF hold];
        use fresh assms(2) in \<open>auto simp: sim_outcome_def new_sim_order_def\<close>)
qed

lemma wp_simulation_fill:
  assumes "sim_start E s rid k h f"
  shows "wp (simulation_fill E rid u bid a side q m) (sim_outcome E s bid a k h f side q) s"
proof -
  have hold: "idempotency_keys t = idempotency_keys s \<Longrightarrow> holding t rid k h f" for t
    using assms(1) holding_cong [of t s] by (simp add: sim_start_def)
  have fresh: "uuid4 E (uuids s) \<notin> so_id ` set (simulation_orders s)" using assms(1) by (simp add: sim_start_def)
  show ?thesis
    unfolding simulation_fill_def Let_def
    by (simp add: wp_draws sim_outcome_early [OF assms(1)] split: option.split sum.split)
      (intro allI impI; rule wp_record_fill [OF hold];
        use fresh in \<open>auto simp: sim_outcome_def sim_filled_def new_sim_order_def dest!: fill_amounts_rule\<close>)
qed

text \<open>Reading first: the outcome is measured from where the attempt started.\<close>

lemma wp_reads_outcome:
  assumes "sim_start E s rid k h f" and "keeps reads m"
    and "\<And>x t. reads s t \<Longrightarrow> sim_start E t rid k h f \<Longrightarrow> wp (g x) (sim_outcome E t bid a k h f side q) t"
  shows "wp (bnd m g) (sim_outcome E s bid a k h f side q) s"
proof (rule wp_bndI [OF keeps_wp [OF assms(2)]])
  show "wp (g x) (sim_outcome E s bid a k h f side q) t" if "reads s t" for x t
    using assms(3) [OF that] sim_start_reads [OF that] assms(1) sim_outcome_reads [OF that]
    by (metis (no_types, lifting) wp_mono)
qed (rule sim_outcome_raise [OF _ assms(1)])

lemma wp_simulation_execute:
  assumes "sim_start E s rid k h f"
  shows "wp (simulation_execute E rid u bid a side q m n) (sim_outcome E s bid a k h f side q) s"
  unfolding simulation_execute_def
  using wp_simulation_fill [OF assms] wp_simulation_terminal [OF assms]
  by (auto simp: wp_draws sim_outcome_early [OF assms] split: sum.split)

lemma wp_simulation_gates:
  assumes "sim_start E s rid k h f"
  shows "wp (simulation_gates E rid u bid a side q) (sim_outcome E s bid a k h f side q) s"
  unfolding simulation_gates_def
proof (rule wp_reads_outcome [OF assms the_instrument_reads], goal_cases)
  case (1 symb s1)
  show ?case
  proof (rule wp_reads_outcome [OF 1(2) keeps_reads_try [OF reads_market_price]], goal_cases)
    case (1 r1 s2)
    show ?case
    proof (cases r1)
      case (Inl b)
      then show ?thesis using wp_simulation_terminal [OF 1(2)] by simp
    next
      case (Inr m)
      show ?thesis
        unfolding Inr sum.case
      proof (rule wp_reads_outcome [OF 1(2) keeps_reads_try [OF reads_filters]], goal_cases)
        case (1 r2 s3)
        show ?case
        proof (cases r2)
          case (Inl b)
          then show ?thesis using wp_simulation_terminal [OF 1(2)] by simp
        next
          case (Inr fs)
          have decide: "wp (bnd (simulation_evaluate_risk E u bid a side m n) (\<lambda>decision. case decision of
               Rejected reason \<Rightarrow> simulation_terminal E rid u bid a side q SimulationOrderStatus.REJECTED (Some reason)
             | Approved \<Rightarrow> simulation_execute E rid u bid a side q m n)) (sim_outcome E s3 bid a k h f side q) s3" for n
            by (rule wp_reads_outcome [OF 1(2) sim_risk_reads])
              (simp add: wp_simulation_terminal wp_simulation_execute split: RiskDecision.split)
          show ?thesis
            unfolding Inr sum.case
            using wp_simulation_terminal [OF 1(2)] decide
            by (auto simp: wp_bnd [of "lift _"] wp_lift sim_outcome_early [OF 1(2)] split: sum.split)
        qed
      qed
    qed
  qed
qed

section \<open>Properties\<close>

text \<open>
  Simulation is isolated from the exchange: whatever the state, the market and the failures, no
  simulated order makes a call that creates or cancels an order.
\<close>
theorem simulation_never_trades:
  "wp (place_bot_order E u bid side q key)
     (\<lambda>r s'. \<exists>cs. calls s' = calls s @ cs \<and> (\<forall>c \<in> set cs. \<not> is_write c)) s"
  using keeps_wp [OF place_bot_order_no_write] by (simp add: no_write_def)

lemma simulation_never_trades_witness:
  "wp (place_bot_order demo_env 7 5 ''BUY'' (Fin False 1 0) ''k'') (\<lambda>r s'. \<not> list_ex is_write (calls s')) idle"
  by (rule wp_mono [OF simulation_never_trades]) (auto simp: idle_def list_ex_iff)

text \<open>
  C14: The virtual ledger.  A granted simulated order of a bot with an account, with trading permitted,
  either returns, having added exactly one row, settled its reservation with the answer, and moved the
  cash of the account when the row is filled and not at all otherwise: a price of the market, raised for a BUY and
  lowered for a SELL by the slippage rate, the fee on the notional at that price, and the cash down by notional
  and fee for a BUY, up by the notional less the fee for a SELL, the price and the fee being the ones the row records;
  or raises, and then neither a row nor cash was written and the reservation is still in progress.
\<close>
theorem simulation_ledger:
  assumes "free_slot E s (u, simulation_endpoint bid, key)" and "is_trading_permitted E u s"
    and "account_of s bid = Some a" and "uuid4 E (uuids s + 1) \<notin> so_id ` set (simulation_orders s)"
  shows "wp (place_bot_order E u bid side q key) (\<lambda>r s'. case r of
      Inl e \<Rightarrow> simulation_orders s' = simulation_orders s \<and> simulation_accounts s' = simulation_accounts s \<and>
        (\<exists>h. slot_of s' = (slot_of s)((u, simulation_endpoint bid, key) := InProgress h))
    | Inr v \<Rightarrow> \<exists>y reason h. simulation_orders s' = simulation_orders s @ [y] \<and> so_bot_id y = bid \<and>
        so_requested_quantity y = q \<and>
        v = envelope ''order'' (simulation_order_to_response y) (sim_status_value (so_status y)) reason \<and>
        slot_of s' = (slot_of s)((u, simulation_endpoint bid, key) := Done h v) \<and>
        (if so_status y = SimulationOrderStatus.FILLED then sim_filled E s a side q y s'
         else simulation_accounts s' = simulation_accounts s)) s"
  unfolding place_bot_order_def Let_def
proof (rule wp_bndI [OF wp_reserve_free [OF assms(1)]], goal_cases)
  case (1 x s1)
  then have x: "ir_is_new x" and s1: "s1 = s\<lparr>uuids := uuids s + 1, idempotency_keys := idempotency_keys s1\<rparr>"
    by auto
  obtain k h where k: "k = (u, simulation_endpoint bid, key)"
    and hold: "holding s1 (ir_key_row_id x) k h ((slot_of s)(k := InProgress h))"
    using 1 by auto
  have same: "simulation_orders s1 = simulation_orders s" "simulation_accounts s1 = simulation_accounts s"
      "user_settings s1 = user_settings s" "uuids s1 = uuids s + 1"
    by (subst s1, simp)+
  have perm: "is_trading_permitted E u s1" using assms(2) permitted_cong [OF same(3)] by simp
  have start: "sim_start E s1 (ir_key_row_id x) k h ((slot_of s)(k := InProgress h))"
    using hold assms(4) same by (simp add: sim_start_def)
  have acct: "account_of s1 bid = Some a" using assms(3) same(2) by simp
  let ?Q = "\<lambda>r s'. case r of
      Inl e \<Rightarrow> simulation_orders s' = simulation_orders s \<and> simulation_accounts s' = simulation_accounts s \<and>
        (\<exists>h. slot_of s' = (slot_of s)(k := InProgress h))
    | Inr v \<Rightarrow> \<exists>y reason h. simulation_orders s' = simulation_orders s @ [y] \<and> so_bot_id y = bid \<and>
        so_requested_quantity y = q \<and>
        v = envelope ''order'' (simulation_order_to_response y) (sim_status_value (so_status y)) reason \<and>
        slot_of s' = (slot_of s)(k := Done h v) \<and>
        (if so_status y = SimulationOrderStatus.FILLED then sim_filled E s a side q y s'
         else simulation_accounts s' = simulation_accounts s)"
  have filled: "sim_filled E s1 a side q y t = sim_filled E s a side q y t" for y t
    by (simp add: sim_filled_def same(2))
  have post: "?Q r t" if out: "sim_outcome E s1 bid a k h ((slot_of s)(k := InProgress h)) side q r t" for r t
  proof (cases r)
    case (Inl e)
    then show ?thesis using out same by (auto simp: sim_outcome_def)
  next
    case (Inr v)
    then obtain y reason where "simulation_orders t = simulation_orders s1 @ [y]" "so_bot_id y = bid"
      "so_requested_quantity y = q" "settled_with t k h ((slot_of s)(k := InProgress h)) v"
      "v = envelope ''order'' (simulation_order_to_response y) (sim_status_value (so_status y)) reason"
      "if so_status y = SimulationOrderStatus.FILLED then sim_filled E s1 a side q y t
       else simulation_accounts t = simulation_accounts s1"
      using out unfolding sim_outcome_def Inr sum.case by blast
    note row = this [unfolded same filled settled_with_def]
    show ?thesis
      unfolding Inr sum.case
      by (intro exI [of _ y] exI [of _ reason] exI [of _ h] conjI; use row in \<open>simp only: fun_upd_upd\<close>)
  qed
  have "wp (simulation_gates E (ir_key_row_id x) u bid a side q) ?Q s1"
    by (rule wp_mono [OF wp_simulation_gates [OF start]]) (rule post)
  then show ?case
    unfolding if_granted [OF x] k [symmetric]
    by (simp add: wp_bnd [of "gets _"] wp_gets perm acct split del: if_split)
qed simp

definition demo_account :: SimulationAccount where
  "demo_account = \<lparr>sa_id = 3, sa_bot_id = 5, sa_quote_asset = ''USDT'',
     sa_initial_capital_quote = Fin False 120 0, sa_cash_balance_quote = Fin False 120 0\<rparr>"

lemma simulation_ledger_witness:
  "wp (place_bot_order demo_env 7 5 ''BUY'' (Fin False 1 0) ''k'') (\<lambda>r s'. case r of
      Inl e \<Rightarrow> simulation_orders s' = [] \<and> simulation_accounts s' = [demo_account]
    | Inr v \<Rightarrow> \<exists>y. simulation_orders s' = [y] \<and> so_bot_id y = 5)
    (idle\<lparr>simulation_accounts := [demo_account]\<rparr>)"
proof -
  have "is_trading_permitted demo_env 7 (idle\<lparr>simulation_accounts := [demo_account]\<rparr>)"
    using demo_trading(1) by (simp add: is_trading_permitted_def is_user_trading_enabled_def idle_def)
  then show ?thesis
    by (intro wp_mono [OF simulation_ledger [where a = demo_account]])
      (auto simp: free_slot_def idle_def demo_account_def keys_ok_def slot_of_def split: sum.splits)
qed

lemma demo_rates:
  "projected_cost (dec_of_int 10) (dec_of_int 10) (dec_of_int 100) = Inr (Fin False 1200 (-1))"
  by (simp add: projected_cost_def dec_eval)

lemma demo_fill:
  "fill_amounts (dec_of_int 10) (dec_of_int 10) ''BUY'' (dec_of_int 1) (dec_of_int 100) (dec_of_int 120) =
     Inr \<lparr>f_price = Fin False 1100 (-1), f_fee = Fin False 110 (-1), f_slippage = Fin False 100 (-1),
       f_cash = Fin True 10 (-1)\<rparr>"
  by (simp add: fill_amounts_def dec_eval)

text \<open>
  The balance a buy is checked against bounds the cost of the fill only without one of the two
  rates: the check adds the fee rate and the slippage rate, the fill multiplies them.  With both at
  ten percent an order for exactly 100 passes the check on a balance of 120 and costs 121, so the
  virtual cash ends below zero.
\<close>
theorem simulation_check_misses_cross_term:
  "\<exists>cash m cost fl. projected_cost (dec_of_int 10) (dec_of_int 10) m = Inr cost \<and>
     dec_lt cash cost = Inr False \<and>
     fill_amounts (dec_of_int 10) (dec_of_int 10) ''BUY'' (dec_of_int 1) m cash = Inr fl \<and>
     dec_lt (f_cash fl) dec_zero = Inr True"
  by (intro exI [of _ "dec_of_int 120"] exI [of _ "dec_of_int 100"] exI conjI, rule demo_rates,
      simp add: dec_eval, rule demo_fill, simp add: dec_eval)

end
