(* ===== verification/Credentials.thy ===== *)
theory Credentials
  imports World
begin

text \<open>
  \<open>trading/credentials_encryption.py\<close> and \<open>trading/binance_credentials_service.py\<close>: the keys a user
  connects are verified with the exchange before anything is written, and stored only encrypted.
\<close>

section \<open>Encryption\<close>

definition encryption_key_var :: string where
  "encryption_key_var = ''HERMES_CREDENTIALS_ENCRYPTION_KEY''"

definition previous_encryption_keys_var :: string where
  "previous_encryption_keys_var = ''HERMES_CREDENTIALS_ENCRYPTION_KEY_PREVIOUS''"

text \<open>\<open>_fernet\<close>: the current key, then the previous ones; all must be keys.\<close>

definition configured_keys :: "env \<Rightarrow> string list result" where
  "configured_keys E =
     (let current = (case getenv E encryption_key_var of None \<Rightarrow> [] | Some k \<Rightarrow> k);
          previous_raw = (case getenv E previous_encryption_keys_var of None \<Rightarrow> [] | Some v \<Rightarrow> v);
          previous = filter (\<lambda>k. k \<noteq> []) (map strip (split_on (CHR '','') previous_raw)) in
      if current = [] then
        Inl (CredentialsEncryptionErr (encryption_key_var @ '' must be configured''))
      else if list_all (fernet_key E) (current # previous) then Inr (current # previous)
      else Inl (CredentialsEncryptionErr
        (encryption_key_var @ '' (or a previous key) is not a valid Fernet key'')))"

text \<open>A token carries its time and a random vector, so every encryption draws a nonce.\<close>

definition encrypt_credential :: "env \<Rightarrow> string \<Rightarrow> string M" where
  "encrypt_credential E plaintext =
     bnd (lift (configured_keys E)) (\<lambda>ks s.
       (Inr (fernet_encrypt E (hd ks) (ticks s) plaintext), s\<lparr>ticks := ticks s + 1\<rparr>))"

definition decrypt_credential :: "env \<Rightarrow> string \<Rightarrow> string result" where
  "decrypt_credential E ciphertext =
     rbind (configured_keys E) (\<lambda>ks.
     case List.map_filter (\<lambda>k. fernet_decrypt E k ciphertext) ks of
       [] \<Rightarrow> Inl (CredentialsEncryptionErr
         ''Stored credential could not be decrypted with any configured key'')
     | plaintext # _ \<Rightarrow> Inr plaintext)"

section \<open>The store\<close>

record CredentialStatus =
  cs_configured :: bool
  cs_api_key_last4 :: "string option"
  cs_verified_at :: "int option"
  cs_updated_at :: "int option"

abbreviation credential_of :: "sys \<Rightarrow> uuid \<Rightarrow> UserBinanceCredential option" where
  "credential_of s u \<equiv> lookup_row uc_user_id (credentials s) u"

definition get_credential_status :: "uuid \<Rightarrow> sys \<Rightarrow> CredentialStatus" where
  "get_credential_status u s = (case credential_of s u of
      None \<Rightarrow> \<lparr>cs_configured = False, cs_api_key_last4 = None, cs_verified_at = None, cs_updated_at = None\<rparr>
    | Some row \<Rightarrow> \<lparr>cs_configured = True, cs_api_key_last4 = Some (uc_api_key_last4 row),
        cs_verified_at = Some (uc_verified_at row), cs_updated_at = Some (uc_updated_at row)\<rparr>)"

definition last4 :: "string \<Rightarrow> string" where
  "last4 k = drop (length k - 4) k"

text \<open>The row is written when the session is flushed: after both encryptions succeeded.\<close>

definition connect_credentials :: "env \<Rightarrow> uuid \<Rightarrow> string \<Rightarrow> string \<Rightarrow> CredentialStatus M" where
  "connect_credentials E u api_key api_secret =
     bnd (try_binance (call_binance E GetApiKeyPermissions)) (\<lambda>r. case r of
       Inl exc \<Rightarrow> raise (CredentialsVerificationFailedErr (binance_err_str exc))
     | Inr permissions \<Rightarrow>
     bnd (lift (jget_opt ''can_withdraw'' permissions)) (\<lambda>can_withdraw.
     if can_withdraw \<noteq> JBool False then
       raise (CredentialsUnsafeErr (''This API key has withdrawals enabled. Create a key with '' @
         ''withdrawals disabled and try again.''))
     else
     bnd (encrypt_credential E api_key) (\<lambda>key_text.
     bnd (encrypt_credential E api_secret) (\<lambda>secret_text.
     bnd (now_utc E) (\<lambda>verified.
     bnd (now_utc E) (\<lambda>updated.
     seq (modify (\<lambda>s. s\<lparr>credentials := save_row uc_user_id
            \<lparr>uc_user_id = u, uc_api_key_ciphertext = key_text, uc_api_secret_ciphertext = secret_text,
             uc_api_key_last4 = last4 api_key, uc_verified_at = verified, uc_updated_at = updated\<rparr>
            (credentials s)\<rparr>))
     (gets (get_credential_status u))))))))"

definition disconnect_credentials :: "uuid \<Rightarrow> unit M" where
  "disconnect_credentials u = modify (\<lambda>s. s\<lparr>credentials := delete_row uc_user_id u (credentials s)\<rparr>)"

text \<open>The client is known by the pair of keys it is built from.\<close>

definition get_decrypted_client :: "env \<Rightarrow> uuid \<Rightarrow> sys \<Rightarrow> (string \<times> string) result" where
  "get_decrypted_client E u s = (case credential_of s u of
      None \<Rightarrow> Inl (CredentialsNotConfiguredErr (''No Binance credentials for user '' @ str_uuid u))
    | Some row \<Rightarrow>
        rbind (decrypt_credential E (uc_api_key_ciphertext row)) (\<lambda>api_key.
        rbind (decrypt_credential E (uc_api_secret_ciphertext row)) (\<lambda>api_secret.
        Inr (api_key, api_secret))))"

section \<open>Facts\<close>

lemma wp_encrypt_credential [wp_simps]:
  "wp (encrypt_credential E p) Q s = (case configured_keys E of
      Inl e \<Rightarrow> Q (Inl e) s
    | Inr ks \<Rightarrow> Q (Inr (fernet_encrypt E (hd ks) (ticks s) p)) (s\<lparr>ticks := ticks s + 1\<rparr>))"
  by (simp add: wp_def encrypt_credential_def bnd_def lift_def split: sum.split)

lemma wp_disconnect [wp_simps]:
  "wp (disconnect_credentials u) Q s =
     Q (Inr ()) (s\<lparr>credentials := delete_row uc_user_id u (credentials s)\<rparr>)"
  by (simp add: disconnect_credentials_def wp_simps)

text \<open>What is written: the row of this user, with tokens of the current key.\<close>

definition credential_row :: "env \<Rightarrow> uuid \<Rightarrow> string \<Rightarrow> string \<Rightarrow> string \<Rightarrow> nat \<Rightarrow> nat \<Rightarrow> int \<Rightarrow> int \<Rightarrow> UserBinanceCredential" where
  "credential_row E u cur api_key api_secret n m verified updated =
     \<lparr>uc_user_id = u, uc_api_key_ciphertext = fernet_encrypt E cur n api_key,
      uc_api_secret_ciphertext = fernet_encrypt E cur m api_secret, uc_api_key_last4 = last4 api_key,
      uc_verified_at = verified, uc_updated_at = updated\<rparr>"

lemma credential_row_fields [simp]:
  "uc_user_id (credential_row E u cur k p n m v w) = u"
  "uc_api_key_ciphertext (credential_row E u cur k p n m v w) = fernet_encrypt E cur n k"
  "uc_api_secret_ciphertext (credential_row E u cur k p n m v w) = fernet_encrypt E cur m p"
  by (simp_all add: credential_row_def)

definition connected :: "env \<Rightarrow> sys \<Rightarrow> uuid \<Rightarrow> string \<Rightarrow> string \<Rightarrow> sys \<Rightarrow> bool" where
  "connected E s u api_key api_secret s' \<longleftrightarrow> (\<exists>ks n m v w. configured_keys E = Inr ks \<and>
     credentials s' = save_row uc_user_id (credential_row E u (hd ks) api_key api_secret n m v w) (credentials s))"

lemma wp_connect:
  "wp (connect_credentials E u k p) (\<lambda>r s'. calls s' = calls s @ [GetApiKeyPermissions] \<and> (case r of
      Inl e \<Rightarrow> credentials s' = credentials s
    | Inr st \<Rightarrow> connected E s u k p s' \<and> st = get_credential_status u s' \<and>
        (\<exists>j. client E (calls s) GetApiKeyPermissions = Inr j \<and> jget_opt ''can_withdraw'' j = Inr (JBool False)))) s"
  unfolding connect_credentials_def
  by (auto simp: wp_simps connected_def split: sum.split exn.split) (auto simp: credential_row_def)

lemma connectedE:
  assumes "connected E s u k p s'"
  obtains ks n m row where "configured_keys E = Inr ks" and "credential_of s' u = Some row"
    and "uc_api_key_ciphertext row = fernet_encrypt E (hd ks) n k"
    and "uc_api_secret_ciphertext row = fernet_encrypt E (hd ks) m p"
    and "\<And>u'. u' \<noteq> u \<Longrightarrow> credential_of s' u' = credential_of s u'"
proof -
  obtain ks n m v w where "configured_keys E = Inr ks"
    and "credentials s' = save_row uc_user_id (credential_row E u (hd ks) k p n m v w) (credentials s)"
    using assms unfolding connected_def by blast
  then show ?thesis
    by (intro that [of ks "credential_row E u (hd ks) k p n m v w" n m]) (simp_all add: rows.lookup_save)
qed

text \<open>
  The documented behaviour of Fernet: a token decrypts with the key that made it, and no key gives
  another text for it.
\<close>

definition fernet_correct :: "env \<Rightarrow> bool" where
  "fernet_correct E \<longleftrightarrow> (\<forall>k n t. fernet_key E k \<longrightarrow>
     fernet_decrypt E k (fernet_encrypt E k n t) = Some t \<and>
     (\<forall>k' p. fernet_key E k' \<longrightarrow> fernet_decrypt E k' (fernet_encrypt E k n t) = Some p \<longrightarrow> p = t))"

lemma fernet_correctD:
  assumes "fernet_correct E" and "fernet_key E k"
  shows "fernet_decrypt E k (fernet_encrypt E k n t) = Some t"
    and "fernet_key E k' \<Longrightarrow> fernet_decrypt E k' (fernet_encrypt E k n t) = Some p \<Longrightarrow> p = t"
proof -
  note c = assms(1) [unfolded fernet_correct_def, rule_format, OF assms(2), of n t]
  show "fernet_decrypt E k (fernet_encrypt E k n t) = Some t" by (rule conjunct1 [OF c])
  show "p = t" if "fernet_key E k'" "fernet_decrypt E k' (fernet_encrypt E k n t) = Some p"
    by (rule conjunct2 [OF c, rule_format, OF that])
qed

lemma configured_keys_valid: "configured_keys E = Inr ks \<Longrightarrow> ks \<noteq> [] \<and> (\<forall>k \<in> set ks. fernet_key E k)"
  by (auto simp: configured_keys_def Let_def list_all_iff split: if_splits)

lemma first_decryption:
  assumes "k \<in> set ks" and "f k = Some t" and only: "\<And>k' p. k' \<in> set ks \<Longrightarrow> f k' = Some p \<Longrightarrow> p = t"
  shows "\<exists>r. List.map_filter f ks = t # r"
proof -
  have t: "t \<in> set (List.map_filter f ks)" using assms(1,2) by (force simp: List.map_filter_def)
  have "set (List.map_filter f ks) \<subseteq> {t}" using only by (auto simp: List.map_filter_def)
  with t show ?thesis by (cases "List.map_filter f ks") auto
qed

lemma decrypt_token:
  assumes "fernet_correct E" and "configured_keys E = Inr ks" and "k \<in> set ks"
  shows "decrypt_credential E (fernet_encrypt E k n t) = Inr t"
proof -
  have keys: "fernet_key E k'" if "k' \<in> set ks" for k'
    using that configured_keys_valid [OF assms(2)] by blast
  have "\<exists>r. List.map_filter (\<lambda>k'. fernet_decrypt E k' (fernet_encrypt E k n t)) ks = t # r"
  proof (rule first_decryption [where f = "\<lambda>k'. fernet_decrypt E k' (fernet_encrypt E k n t)", OF assms(3)])
    show "fernet_decrypt E k (fernet_encrypt E k n t) = Some t"
      by (rule fernet_correctD(1) [OF assms(1) keys [OF assms(3)]])
    show "p = t" if "k' \<in> set ks" "fernet_decrypt E k' (fernet_encrypt E k n t) = Some p" for k' p
      by (rule fernet_correctD(2) [OF assms(1) keys [OF assms(3)] keys [OF that(1)] that(2)])
  qed
  then show ?thesis by (elim exE) (simp add: decrypt_credential_def assms(2))
qed

section \<open>Properties\<close>

text \<open>
  C21: Verify before persist.  Connecting an account makes exactly one call, the permission check; it
  writes the keys only when the exchange answered it and said that the key cannot withdraw, and then
  only the row of this user.  On any exception, a failed encryption included, no credential changes.
\<close>
theorem connect_stores_only_verified_keys:
  "wp (connect_credentials E u k p) (\<lambda>r s'. calls s' = calls s @ [GetApiKeyPermissions] \<and> (case r of
      Inl e \<Rightarrow> credentials s' = credentials s
    | Inr st \<Rightarrow> cs_configured st \<and> (\<forall>u'. u' \<noteq> u \<longrightarrow> credential_of s' u' = credential_of s u') \<and>
        (\<exists>j. client E (calls s) GetApiKeyPermissions = Inr j \<and> jget_opt ''can_withdraw'' j = Inr (JBool False)))) s"
proof (rule wp_mono [OF wp_connect], goal_cases)
  case (1 r s')
  then show ?case
    by (auto split: sum.splits elim!: connectedE simp: get_credential_status_def)
qed

definition demo_keys :: "json result \<Rightarrow> env" where
  "demo_keys answer = demo_env\<lparr>getenv := (\<lambda>n. if n = encryption_key_var then Some ''key1'' else None),
     client := (\<lambda>h c. answer)\<rparr>"

lemma demo_keys_configured [simp]: "configured_keys (demo_keys answer) = Inr [''key1'']"
  by (simp add: configured_keys_def demo_keys_def demo_env_def encryption_key_var_def
      previous_encryption_keys_var_def strip_def)

lemma connect_stores_only_verified_keys_witness:
  "wp (connect_credentials (demo_keys (Inr (JObj [(''can_withdraw'', JBool True)]))) 7 ''k'' ''s'')
     (\<lambda>r s'. calls s' = [GetApiKeyPermissions] \<and> credentials s' = []) idle"
  by (rule wp_mono [OF connect_stores_only_verified_keys])
    (auto simp: demo_keys_def idle_def jget_opt_def split: sum.splits)

text \<open>
  C22: What was connected is what the client gets back, across a key rotation: after a successful
  connection, a server whose configured keys include the one that encrypted (as the current or a
  previous key) decrypts exactly the submitted key and secret, provided Fernet behaves as documented.
\<close>
theorem credentials_roundtrip:
  assumes "fernet_correct E" and "configured_keys E = Inr ks"
    and "configured_keys (E\<lparr>getenv := g\<rparr>) = Inr ks'" and "hd ks \<in> set ks'"
  shows "wp (connect_credentials E u k p) (\<lambda>r s'. \<forall>st. r = Inr st \<longrightarrow>
     get_decrypted_client (E\<lparr>getenv := g\<rparr>) u s' = Inr (k, p)) s"
proof (rule wp_mono [OF wp_connect], intro allI impI)
  fix r s' st
  assume "calls s' = calls s @ [GetApiKeyPermissions] \<and> (case r of
      Inl e \<Rightarrow> credentials s' = credentials s
    | Inr st \<Rightarrow> connected E s u k p s' \<and> st = get_credential_status u s' \<and>
        (\<exists>j. client E (calls s) GetApiKeyPermissions = Inr j \<and> jget_opt ''can_withdraw'' j = Inr (JBool False)))"
    and "r = Inr st"
  then have "connected E s u k p s'" by simp
  then obtain n m row where row: "credential_of s' u = Some row"
      "uc_api_key_ciphertext row = fernet_encrypt E (hd ks) n k"
      "uc_api_secret_ciphertext row = fernet_encrypt E (hd ks) m p"
    using assms(2) by (elim connectedE) auto
  have "fernet_correct (E\<lparr>getenv := g\<rparr>)" using assms(1) by (simp add: fernet_correct_def)
  from decrypt_token [OF this assms(3,4)]
  have "decrypt_credential (E\<lparr>getenv := g\<rparr>) (fernet_encrypt E (hd ks) n t) = Inr t" for n t by simp
  then show "get_decrypted_client (E\<lparr>getenv := g\<rparr>) u s' = Inr (k, p)"
    by (simp add: get_decrypted_client_def row)
qed

lemma credentials_roundtrip_witness:
  "wp (connect_credentials (demo_keys (Inr (JObj [(''can_withdraw'', JBool False)]))) 7 ''k'' ''s'')
     (\<lambda>r s'. \<forall>st. r = Inr st \<longrightarrow> get_decrypted_client ((demo_keys (Inr (JObj [(''can_withdraw'', JBool False)])))
        \<lparr>getenv := \<lambda>n. if n = encryption_key_var then Some ''key2'' else Some ''key1''\<rparr>) 7 s' =
        Inr (''k'', ''s'')) idle"
proof (rule credentials_roundtrip)
  show "configured_keys ((demo_keys (Inr (JObj [(''can_withdraw'', JBool False)])))
      \<lparr>getenv := \<lambda>n. if n = encryption_key_var then Some ''key2'' else Some ''key1''\<rparr>) = Inr [''key2'', ''key1'']"
    by (simp add: configured_keys_def demo_keys_def demo_env_def encryption_key_var_def
        previous_encryption_keys_var_def) code_simp
  show "fernet_correct (demo_keys (Inr (JObj [(''can_withdraw'', JBool False)])))"
    by (auto simp: fernet_correct_def demo_keys_def demo_env_def)
qed (rule demo_keys_configured, simp)

text \<open>
  Disconnecting forgets: afterwards the user has no credential, the client is refused with
  NotConfigured, doing it again changes nothing, and no other user's credential is touched.
\<close>
theorem disconnect_forgets:
  "wp (disconnect_credentials u) (\<lambda>r s'. r = Inr () \<and> \<not> cs_configured (get_credential_status u s') \<and>
     (\<exists>m. get_decrypted_client E u s' = Inl (CredentialsNotConfiguredErr m)) \<and>
     disconnect_credentials u s' = (Inr (), s') \<and>
     (\<forall>u'. u' \<noteq> u \<longrightarrow> credential_of s' u' = credential_of s u')) s"
  by (simp add: wp_simps get_credential_status_def get_decrypted_client_def rows.lookup_delete
      disconnect_credentials_def modify_def) (simp add: delete_row_def)

lemma disconnect_forgets_witness:
  "wp (disconnect_credentials 7) (\<lambda>r s'. r = Inr () \<and> \<not> cs_configured (get_credential_status 7 s')) idle"
  by (rule wp_mono [OF disconnect_forgets [where E = demo_env]]) simp

end
