(* ===== verification/BotService.thy ===== *)
theory BotService
  imports SimulationOrders OrderService Credentials
begin

text \<open>
  \<open>trading/bot_service.py\<close>: the lifecycle of a bot.  Every operation reserves its key first, then
  loads the bot of this user, checks the status, changes the rows, settles the reservation and
  records an audit entry; pausing and resuming trade through the order services.
\<close>

section \<open>Rows\<close>

definition the_bot :: "uuid \<Rightarrow> Bot M" where
  "the_bot bid s = (case lookup_row b_id (bots s) bid of
      Some b \<Rightarrow> (Inr b, s)
    | None \<Rightarrow> (Inl (ObjectDeletedErr ''Instance <Bot> has been deleted''), s))"

definition put_bot :: "uuid \<Rightarrow> (Bot \<Rightarrow> Bot) \<Rightarrow> unit M" where
  "put_bot bid f = modify (\<lambda>s. s\<lparr>bots := map (\<lambda>x. if b_id x = bid then f x else x) (bots s)\<rparr>)"

text \<open>An assignment and its flush: a row that changed gets a new \<open>updated_at\<close>.\<close>

definition upd_bot :: "env \<Rightarrow> uuid \<Rightarrow> (Bot \<Rightarrow> Bot) \<Rightarrow> unit M" where
  "upd_bot E bid f =
     bnd (the_bot bid) (\<lambda>b.
     if f b = b then ret ()
     else bnd (now_utc E) (\<lambda>t. put_bot bid (\<lambda>x. (f x)\<lparr>b_updated_at := t\<rparr>)))"

definition set_status :: "env \<Rightarrow> uuid \<Rightarrow> BotStatus \<Rightarrow> unit M" where
  "set_status E bid st = upd_bot E bid (\<lambda>b. b\<lparr>b_status := st\<rparr>)"

definition add_bot :: "Bot \<Rightarrow> unit M" where
  "add_bot b s =
     (if b_id b \<in> b_id ` set (bots s)
      then (Inl (IntegrityErr ''duplicate key value violates unique constraint''), s)
      else (Inr (), s\<lparr>bots := bots s @ [b]\<rparr>))"

definition add_position :: "BotPosition \<Rightarrow> unit M" where
  "add_position p s =
     (if bp_bot_id p \<in> bp_bot_id ` set (bot_positions s)
      then (Inl (IntegrityErr ''duplicate key value violates unique constraint''), s)
      else (Inr (), s\<lparr>bot_positions := bot_positions s @ [p]\<rparr>))"

definition add_account :: "SimulationAccount \<Rightarrow> unit M" where
  "add_account a s =
     (if sa_id a \<in> sa_id ` set (simulation_accounts s) \<or> sa_bot_id a \<in> sa_bot_id ` set (simulation_accounts s)
      then (Inl (IntegrityErr ''duplicate key value violates unique constraint''), s)
      else (Inr (), s\<lparr>simulation_accounts := simulation_accounts s @ [a]\<rparr>))"

definition the_position :: "uuid \<Rightarrow> string \<Rightarrow> BotPosition M" where
  "the_position bid attribute = bnd (gets (\<lambda>s. position_of s bid)) (\<lambda>p. case p of
      None \<Rightarrow> raise (AttributeErr (repr ''NoneType'' @ '' object has no attribute '' @ repr attribute))
    | Some q \<Rightarrow> ret q)"

definition upd_position :: "uuid \<Rightarrow> (BotPosition \<Rightarrow> BotPosition) \<Rightarrow> unit M" where
  "upd_position bid f = modify (\<lambda>s. s\<lparr>bot_positions :=
     map (\<lambda>p. if bp_bot_id p = bid then f p else p) (bot_positions s)\<rparr>)"

text \<open>
  Deleting a bot: the position goes with it, and by the foreign keys its virtual account, its
  simulated orders and its snapshots; its real orders stay, no longer attributed to it.
\<close>

definition remove_bot :: "uuid \<Rightarrow> sys \<Rightarrow> sys" where
  "remove_bot bid s =
     (let accounts = sa_id ` {a \<in> set (simulation_accounts s). sa_bot_id a = bid} in
      s\<lparr>bots := filter (\<lambda>b. b_id b \<noteq> bid) (bots s),
        bot_positions := filter (\<lambda>p. bp_bot_id p \<noteq> bid) (bot_positions s),
        simulation_accounts := filter (\<lambda>a. sa_bot_id a \<noteq> bid) (simulation_accounts s),
        simulation_orders := filter (\<lambda>x. so_bot_id x \<noteq> bid \<and> so_simulation_account_id x \<notin> accounts)
          (simulation_orders s),
        simulation_snapshots := filter (\<lambda>x. ss_bot_id x \<noteq> bid) (simulation_snapshots s),
        orders := map (\<lambda>x. if o_bot_id x = Some bid then x\<lparr>o_bot_id := None\<rparr> else x) (orders s)\<rparr>)"

text \<open>\<open>_load_bot_for_update\<close>: the bot with this id, if it is this user's.\<close>

definition load_bot_for_update :: "uuid \<Rightarrow> uuid \<Rightarrow> sys \<Rightarrow> Bot option" where
  "load_bot_for_update user_id bid s = find (\<lambda>b. b_id b = bid \<and> b_user_id b = user_id) (bots s)"

definition bot_json :: "uuid \<Rightarrow> json M" where
  "bot_json bid = bnd (the_bot bid) (\<lambda>b. gets (\<lambda>s. bot_to_response b (position_of s bid)))"

section \<open>Answers\<close>

definition bot_audit_entry ::
  "uuid \<Rightarrow> string \<Rightarrow> AuditResult \<Rightarrow> string option \<Rightarrow> uuid \<Rightarrow> string option \<Rightarrow> AuditLogEntry" where
  "bot_audit_entry user_id action res detail bid symb =
     (let full_detail = (case detail of
          Some (c # cs) \<Rightarrow> ''bot_id='' @ str_uuid bid @ '': '' @ c # cs
        | _ \<Rightarrow> ''bot_id='' @ str_uuid bid) in
      \<lparr>ae_user_id = user_id, ae_action = action, ae_symbol = symb, ae_quantity = None, ae_result = res,
       ae_hermes_order_id = None, ae_binance_order_id = None, ae_detail = Some (take 1000 full_detail)\<rparr>)"

definition bot_audit :: "uuid \<Rightarrow> string \<Rightarrow> AuditResult \<Rightarrow> string option \<Rightarrow> uuid \<Rightarrow> unit M" where
  "bot_audit user_id action res detail bid =
     bnd (gets (\<lambda>s. map_option bp_instrument (position_of s bid))) (\<lambda>symb.
     add_audit (bot_audit_entry user_id action res detail bid symb))"

text \<open>The envelope of an answer whose reason is a value of another answer.\<close>

definition bot_envelope :: "json \<Rightarrow> string \<Rightarrow> json \<Rightarrow> json" where
  "bot_envelope b status reason = JObj [(''bot'', b), (''status'', JStr status), (''reason'', reason)]"

definition reason_text :: "json \<Rightarrow> string option" where
  "reason_text j = (if truthy j then Some (py_str j) else None)"

definition bot_missing :: "uuid \<Rightarrow> uuid \<Rightarrow> string \<Rightarrow> uuid \<Rightarrow> json M" where
  "bot_missing rid user_id action bid =
     seq (finalize rid (bot_envelope JNull ''REJECTED'' (JStr ''Bot not found.'')))
     (seq (add_audit (bot_audit_entry user_id action AuditResult.REJECTED (Some ''Bot not found'') bid None))
     (raise (BotNotFoundErr (''No bot '' @ str_uuid bid @ '' for this user.''))))"

definition bot_refused :: "uuid \<Rightarrow> uuid \<Rightarrow> string \<Rightarrow> uuid \<Rightarrow> string \<Rightarrow> json M" where
  "bot_refused rid user_id action bid reason =
     bnd (bot_json bid) (\<lambda>b.
     seq (finalize rid (bot_envelope b ''REJECTED'' (JStr reason)))
     (seq (bot_audit user_id action AuditResult.REJECTED (Some reason) bid)
     (raise (InvalidBotTransitionErr reason))))"

text \<open>
  What every operation on a bot begins with: the reservation, the replay, the bot of this user or
  the refusal.
\<close>

definition with_bot ::
  "env \<Rightarrow> uuid \<Rightarrow> uuid \<Rightarrow> string \<Rightarrow> string \<Rightarrow> json \<Rightarrow> string \<Rightarrow> (uuid \<Rightarrow> Bot \<Rightarrow> json M) \<Rightarrow> json M" where
  "with_bot E user_id bid endpoint key payload action act =
     bnd (reserve E user_id endpoint key payload) (\<lambda>reservation.
     if \<not> ir_is_new reservation then ret (ir_stored_response reservation)
     else bnd (gets (load_bot_for_update user_id bid)) (\<lambda>found. case found of
       None \<Rightarrow> bot_missing (ir_key_row_id reservation) user_id action bid
     | Some b \<Rightarrow> act (ir_key_row_id reservation) b))"

section \<open>Reading\<close>

definition list_bots :: "uuid \<Rightarrow> sys \<Rightarrow> json" where
  "list_bots user_id s =
     JList (map (\<lambda>b. bot_to_response b (position_of s (b_id b)))
       (sort_key (\<lambda>b. - b_created_at b) (filter (\<lambda>b. b_user_id b = user_id) (bots s))))"

definition get_bot :: "uuid \<Rightarrow> uuid \<Rightarrow> sys \<Rightarrow> json result" where
  "get_bot user_id bid s =
     (case lookup_row b_id (bots s) bid of
        Some b \<Rightarrow> if b_user_id b = user_id then Inr (bot_to_response b (position_of s bid))
                  else Inl (BotNotFoundErr (''No bot '' @ str_uuid bid @ '' for this user.''))
      | None \<Rightarrow> Inl (BotNotFoundErr (''No bot '' @ str_uuid bid @ '' for this user.'')))"

section \<open>Creating and updating\<close>

definition create_bot ::
  "env \<Rightarrow> uuid \<Rightarrow> string \<Rightarrow> string \<Rightarrow> string \<Rightarrow> string \<Rightarrow> string \<Rightarrow> decimal \<Rightarrow> string \<Rightarrow> string option \<Rightarrow> json option
     \<Rightarrow> json M" where
  "create_bot E user_id name risk_profile asset_class execution_venue instrument target_quantity key
     strategy_model strategy_config =
     bnd (lift (RiskProfile_of risk_profile)) (\<lambda>risk_e.
     bnd (lift (AssetClass_of asset_class)) (\<lambda>asset_e.
     bnd (lift (ExecutionVenue_of execution_venue)) (\<lambda>venue_e.
     (let instrument = upper instrument;
          payload = JObj [(''name'', JStr name), (''risk_profile'', JStr risk_profile),
            (''asset_class'', JStr asset_class), (''execution_venue'', JStr execution_venue),
            (''instrument'', JStr instrument), (''target_quantity'', jdec target_quantity),
            (''strategy_model'', jopt JStr strategy_model), (''strategy_config'', jopt (\<lambda>j. j) strategy_config)] in
     bnd (reserve E user_id ''POST /bots'' key payload) (\<lambda>reservation.
     if \<not> ir_is_new reservation then ret (ir_stored_response reservation)
     else
     bnd (new_uuid E) (\<lambda>bid.
     bnd (now_utc E) (\<lambda>t.
     seq (add_bot \<lparr>b_id = bid, b_user_id = user_id, b_name = name, b_risk_profile = risk_e,
            b_asset_class = asset_e, b_execution_venue = venue_e, b_execution_mode = SIMULATION,
            b_instrument = instrument, b_strategy_model = strategy_model, b_strategy_config = strategy_config,
            b_status = PAUSED, b_created_at = t, b_updated_at = t\<rparr>)
     (seq (add_position \<lparr>bp_bot_id = bid, bp_instrument = instrument, bp_current_quantity = dec_zero,
            bp_target_quantity = target_quantity, bp_last_close_order_id = None, bp_last_open_order_id = None,
            bp_paused_at = None\<rparr>)
     (bnd (lift (default_simulation_initial_capital E)) (\<lambda>capital.
     bnd (new_uuid E) (\<lambda>aid.
     seq (add_account \<lparr>sa_id = aid, sa_bot_id = bid, sa_quote_asset = default_simulation_quote_asset,
            sa_initial_capital_quote = capital, sa_cash_balance_quote = capital\<rparr>)
     (seq (bot_audit user_id ''bot.create'' AuditResult.SUCCESS
            (Some (''Created bot '' @ repr name @ '' ('' @ instrument @ ''), SIMULATION, initial capital '' @
               dec_str capital @ '' '' @ default_simulation_quote_asset @ ''.'')) bid)
     (bnd (bot_json bid) (\<lambda>b.
     (let response = bot_envelope b ''PAUSED'' JNull in
      seq (finalize (ir_key_row_id reservation) response) (ret response))))))))))))))))"

definition given :: "('a \<Rightarrow> 'b \<Rightarrow> 'b) \<Rightarrow> 'a option \<Rightarrow> 'b \<Rightarrow> 'b" where
  "given f x r = (case x of None \<Rightarrow> r | Some v \<Rightarrow> f v r)"

definition update_bot ::
  "env \<Rightarrow> uuid \<Rightarrow> uuid \<Rightarrow> string \<Rightarrow> string option \<Rightarrow> decimal option \<Rightarrow> string option \<Rightarrow> json option \<Rightarrow> json M" where
  "update_bot E user_id bid key name target_quantity strategy_model strategy_config =
     with_bot E user_id bid (''PATCH /bots/'' @ str_uuid bid) key
       (JObj [(''bot_id'', juuid bid), (''name'', jopt JStr name), (''target_quantity'', jopt jdec target_quantity),
          (''strategy_model'', jopt JStr strategy_model), (''strategy_config'', jopt (\<lambda>j. j) strategy_config)])
       ''bot.update'' (\<lambda>rid b.
     if b_status b \<noteq> PAUSED then
       bot_refused rid user_id ''bot.update'' bid
         (''Bot is '' @ bot_status_value (b_status b) @ ''; can only update while PAUSED.'')
     else
     seq (upd_bot E bid (\<lambda>b. given (\<lambda>v b. b\<lparr>b_strategy_config := Some v\<rparr>) strategy_config
            (given (\<lambda>v b. b\<lparr>b_strategy_model := Some v\<rparr>) strategy_model
            (given (\<lambda>v b. b\<lparr>b_name := v\<rparr>) name b))))
     (seq (case target_quantity of None \<Rightarrow> ret ()
           | Some q \<Rightarrow> bnd (the_position bid ''target_quantity'') (\<lambda>_.
               upd_position bid (\<lambda>p. p\<lparr>bp_target_quantity := q\<rparr>)))
     (seq (bot_audit user_id ''bot.update'' AuditResult.SUCCESS (Some ''Updated bot configuration.'') bid)
     (bnd (the_bot bid) (\<lambda>b'.
     bnd (bot_json bid) (\<lambda>j.
     (let response = bot_envelope j (bot_status_value (b_status b')) JNull in
      seq (finalize rid response) (ret response))))))))"

section \<open>Stopping, deleting, going live\<close>

definition stoppable_statuses :: "BotStatus list" where "stoppable_statuses = [ACTIVE, PAUSED, ERROR]"
definition deletable_statuses :: "BotStatus list" where "deletable_statuses = [PAUSED, STOPPED]"

definition stop :: "env \<Rightarrow> uuid \<Rightarrow> uuid \<Rightarrow> string \<Rightarrow> json M" where
  "stop E user_id bid key =
     with_bot E user_id bid (''POST /bots/'' @ str_uuid bid @ ''/stop'') key (JObj [(''bot_id'', juuid bid)])
       ''bot.stop'' (\<lambda>rid b.
     if b_status b \<notin> set stoppable_statuses then
       bot_refused rid user_id ''bot.stop'' bid
         (''Bot is '' @ bot_status_value (b_status b) @ ''; cannot stop from this state.'')
     else
     seq (set_status E bid STOPPED)
     (bnd (bot_json bid) (\<lambda>j.
     (let response = bot_envelope j ''STOPPED'' JNull in
      seq (finalize rid response)
      (seq (bot_audit user_id ''bot.stop'' AuditResult.SUCCESS (Some ''Bot stopped.'') bid)
      (ret response))))))"

definition delete_bot :: "env \<Rightarrow> uuid \<Rightarrow> uuid \<Rightarrow> string \<Rightarrow> json M" where
  "delete_bot E user_id bid key =
     with_bot E user_id bid (''DELETE /bots/'' @ str_uuid bid) key (JObj [(''bot_id'', juuid bid)])
       ''bot.delete'' (\<lambda>rid b.
     if b_status b \<notin> set deletable_statuses then
       bot_refused rid user_id ''bot.delete'' bid
         (''Bot is '' @ bot_status_value (b_status b) @ ''; can only delete a PAUSED or STOPPED bot.'')
     else
     seq (modify (remove_bot bid))
     (let response = bot_envelope JNull ''DELETED'' JNull in
      seq (finalize rid response)
      (seq (add_audit \<lparr>ae_user_id = user_id, ae_action = ''bot.delete'', ae_symbol = None, ae_quantity = None,
             ae_result = AuditResult.SUCCESS, ae_hermes_order_id = None, ae_binance_order_id = None,
             ae_detail = Some (take 1000 (''bot_id='' @ str_uuid bid @ '': Deleted bot '' @ repr (b_name b) @ ''.''))\<rparr>)
      (ret response))))"

definition activate_live :: "env \<Rightarrow> uuid \<Rightarrow> uuid \<Rightarrow> string \<Rightarrow> json M" where
  "activate_live E user_id bid key =
     with_bot E user_id bid (''POST /bots/'' @ str_uuid bid @ ''/activate-live'') key (JObj [(''bot_id'', juuid bid)])
       ''bot.activate_live'' (\<lambda>rid b.
     if b_execution_mode b \<noteq> SIMULATION then
       bot_refused rid user_id ''bot.activate_live'' bid
         ''Bot is already LIVE; activation is one-way and cannot be repeated.''
     else if b_status b \<noteq> PAUSED then
       bot_refused rid user_id ''bot.activate_live'' bid
         (''Bot is '' @ bot_status_value (b_status b) @ ''; can only activate LIVE while PAUSED.'')
     else
     bnd (gets (get_credential_status user_id)) (\<lambda>credential_status.
     if \<not> cs_configured credential_status then
       bot_refused rid user_id ''bot.activate_live'' bid
         ''Connect a verified Binance account in Settings before activating LIVE.''
     else
     seq (upd_bot E bid (\<lambda>x. x\<lparr>b_execution_mode := LIVE\<rparr>))
     (bnd (the_bot bid) (\<lambda>b'.
     bnd (bot_json bid) (\<lambda>j.
     (let response = bot_envelope j (bot_status_value (b_status b')) JNull in
      seq (finalize rid response)
      (seq (bot_audit user_id ''bot.activate_live'' AuditResult.SUCCESS
             (Some ''Bot promoted SIMULATION -> LIVE.'') bid)
      (ret response))))))))"

section \<open>Pausing and resuming\<close>

record TransitionConfig =
  tc_op :: string
  tc_title :: string
  tc_from_status :: BotStatus
  tc_in_progress_status :: BotStatus
  tc_side :: string
  tc_audit_action :: string

definition pause_config :: TransitionConfig where
  "pause_config = \<lparr>tc_op = ''pause'', tc_title = ''Pause'', tc_from_status = ACTIVE,
     tc_in_progress_status = PAUSING, tc_side = ''SELL'', tc_audit_action = ''bot.pause''\<rparr>"

definition resume_config :: TransitionConfig where
  "resume_config = \<lparr>tc_op = ''resume'', tc_title = ''Resume'', tc_from_status = PAUSED,
     tc_in_progress_status = RESUMING, tc_side = ''BUY'', tc_audit_action = ''bot.resume''\<rparr>"

text \<open>\<open>format(x, ".2f")\<close> of a Decimal: half-even to two places, in plain notation.\<close>

definition dec_fmt2 :: "decimal \<Rightarrow> string" where
  "dec_fmt2 d = (case d of
      Fin sg c e \<Rightarrow>
        (let q = (if -2 \<le> e then c * 10 ^ nat (e + 2) else half_even c (10 ^ nat (- 2 - e))) in
         (if sg then ''-'' else []) @ show_nat (q div 100) @ ''.'' @ pad 2 (int (q mod 100)))
    | _ \<Rightarrow> dec_str d)"

definition insufficient_text :: "string \<Rightarrow> decimal \<Rightarrow> string \<Rightarrow> decimal \<Rightarrow> decimal \<Rightarrow> string" where
  "insufficient_text quote quantity instrument required available =
     ''Insufficient real balance: this bot's target quantity ('' @ dec_str quantity @ '' '' @ instrument @
     '') needs about '' @ dec_fmt2 required @ '' '' @ quote @ '', but only '' @ dec_fmt2 available @ '' '' @
     quote @ '' is available in your connected Binance account. Adjust the bot's target exposure before resuming.''"

definition check_sufficient_real_balance :: "env \<Rightarrow> string \<Rightarrow> string \<Rightarrow> decimal \<Rightarrow> string option M" where
  "check_sufficient_real_balance E quote instrument quantity =
     bnd (try_binance
       (bnd (get_balances_call E) (\<lambda>bs.
        bnd (lift (balance_map bs)) (\<lambda>balances.
        bnd (call_binance E (GetMarketData instrument)) (\<lambda>m.
        bnd (lift (rbind (jget ''last_price'' m) dec_of_json_str)) (\<lambda>price.
        ret (balances, price))))))) (\<lambda>r. case r of
       Inl exc \<Rightarrow> ret (Some (''Could not verify your real Binance balance: '' @ binance_err_str exc))
     | Inr (balances, market_price) \<Rightarrow>
     bnd (lift (case map_of balances quote of
         None \<Rightarrow> Inr dec_zero
       | Some b \<Rightarrow> if truthy b then rbind (jget ''free'' b) dec_of_json_str else Inr dec_zero)) (\<lambda>available.
     bnd (lift (dec_mul quantity market_price)) (\<lambda>required.
     bnd (lift (dec_lt available required)) (\<lambda>short.
     ret (if short then Some (insufficient_text quote quantity instrument required available) else None)))))"

definition link_order :: "env \<Rightarrow> uuid \<Rightarrow> string \<Rightarrow> uuid \<Rightarrow> Order option M" where
  "link_order E user_id inner_key bid =
     bnd (gets (\<lambda>s. lookup_row o_binance_client_order_id (orders s)
            (derive_binance_client_order_id E user_id ''POST /orders'' inner_key))) (\<lambda>found. case found of
       None \<Rightarrow> ret None
     | Some o1 \<Rightarrow> seq (upd_order (o_id o1) (\<lambda>x. x\<lparr>o_bot_id := Some bid\<rparr>)) (ret (Some o1)))"

definition reconcile_once :: "env \<Rightarrow> uuid \<Rightarrow> string M" where
  "reconcile_once E oid =
     bnd (the_order oid) (\<lambda>o1.
     bnd (try_binance (bnd (lift (order_reference o1)) (\<lambda>(i, c). call_binance E (GetOrder (o_symbol o1) i c)))) (\<lambda>r.
     case r of
       Inl exc \<Rightarrow> ret (status_value (o_status o1))
     | Inr binance_order \<Rightarrow>
         bnd (reconcile_row oid binance_order) (\<lambda>_.
         bnd (the_order oid) (\<lambda>o2.
         seq (if is_terminal_status (o_status o2)
              then bnd (now_utc E) (\<lambda>t. upd_order oid (\<lambda>x. x\<lparr>o_terminal_at := Some t\<rparr>))
              else ret ())
         (seq (add_event oid RECONCILED (Some ''bot-service reconcile-on-transition''))
         (ret (status_value (o_status o2))))))))"

text \<open>Nothing was traded: the bot returns to the status it had.\<close>

definition transition_refused ::
  "env \<Rightarrow> uuid \<Rightarrow> uuid \<Rightarrow> uuid \<Rightarrow> TransitionConfig \<Rightarrow> json \<Rightarrow> string option \<Rightarrow> json M" where
  "transition_refused E rid user_id bid cfg reason detail =
     seq (set_status E bid (tc_from_status cfg))
     (bnd (bot_json bid) (\<lambda>j.
     (let response = bot_envelope j ''REJECTED'' reason in
      seq (finalize rid response)
      (seq (bot_audit user_id (tc_audit_action cfg) AuditResult.REJECTED detail bid)
      (ret response)))))"

text \<open>The order of a transition, through the service of the bot's mode.\<close>

definition bot_order ::
  "env \<Rightarrow> string \<Rightarrow> uuid \<Rightarrow> uuid \<Rightarrow> bool \<Rightarrow> string \<Rightarrow> string \<Rightarrow> decimal \<Rightarrow> string \<Rightarrow> json M" where
  "bot_order E quote user_id bid is_simulation side instrument quantity inner_key =
     (if is_simulation then place_bot_order E user_id bid side quantity inner_key
      else bnd (make_order_service E quote) (\<lambda>svc.
        create_order E svc user_id instrument side ''MARKET'' quantity None inner_key))"

text \<open>An exception of the order: the bot needs manual review.\<close>

definition transition_failed ::
  "env \<Rightarrow> uuid \<Rightarrow> uuid \<Rightarrow> uuid \<Rightarrow> TransitionConfig \<Rightarrow> bool \<Rightarrow> string \<Rightarrow> exn \<Rightarrow> json M" where
  "transition_failed E rid user_id bid cfg is_simulation inner_key exc =
     seq (if is_simulation then ret () else bnd (link_order E user_id inner_key bid) (\<lambda>_. ret ()))
     (seq (set_status E bid ERROR)
     (bnd (bot_json bid) (\<lambda>j.
     seq (finalize rid (bot_envelope j ''ERROR''
            (JStr ''An unexpected error occurred; this bot requires manual review.'')))
     (seq (bot_audit user_id (tc_audit_action cfg) AuditResult.FAILED (Some (take 1000 (str_exn exc))) bid)
     (raise exc)))))"

text \<open>What the order's answer means: its outcome, the order row and the id shown.\<close>

definition transition_outcome ::
  "env \<Rightarrow> uuid \<Rightarrow> uuid \<Rightarrow> bool \<Rightarrow> string \<Rightarrow> json \<Rightarrow> (json \<times> uuid option \<times> json) M" where
  "transition_outcome E user_id bid is_simulation inner_key res =
     bnd (lift (jget ''status'' res)) (\<lambda>outcome.
     if is_simulation then
       bnd (lift (jget_opt ''order'' res)) (\<lambda>order.
       bnd (lift (if truthy order then jget ''id'' order else Inr JNull)) (\<lambda>shown.
       ret (outcome, None, shown)))
     else
       bnd (link_order E user_id inner_key bid) (\<lambda>order. case order of
         None \<Rightarrow> ret (outcome, None, JNull)
       | Some o1 \<Rightarrow>
           if outcome = JStr ''NEW'' \<or> outcome = JStr ''PARTIALLY_FILLED'' then
             bnd (reconcile_once E (o_id o1)) (\<lambda>st. ret (JStr st, Some (o_id o1), juuid (o_id o1)))
           else ret (outcome, Some (o_id o1), juuid (o_id o1))))"

definition transition_filled ::
  "env \<Rightarrow> uuid \<Rightarrow> uuid \<Rightarrow> uuid \<Rightarrow> TransitionConfig \<Rightarrow> bool \<Rightarrow> uuid option \<Rightarrow> json \<Rightarrow> json M" where
  "transition_filled E rid user_id bid cfg is_simulation order shown =
     seq (if tc_op cfg = ''pause'' then
            bnd (now_utc E) (\<lambda>t.
            seq (upd_position bid (\<lambda>p. (if is_simulation then p else p\<lparr>bp_last_close_order_id := order\<rparr>)
                   \<lparr>bp_current_quantity := dec_zero, bp_paused_at := Some t\<rparr>))
            (set_status E bid PAUSED))
          else
            seq (upd_position bid (\<lambda>p. (if is_simulation then p else p\<lparr>bp_last_open_order_id := order\<rparr>)
                   \<lparr>bp_current_quantity := bp_target_quantity p, bp_paused_at := None\<rparr>))
            (set_status E bid ACTIVE))
     (bnd (the_bot bid) (\<lambda>b.
     bnd (bot_json bid) (\<lambda>j.
     (let response = bot_envelope j (bot_status_value (b_status b)) JNull in
      seq (finalize rid response)
      (seq (bot_audit user_id (tc_audit_action cfg) AuditResult.SUCCESS
             (Some (tc_title cfg @ '' confirmed via order '' @
                (if truthy shown then py_str shown else ''?'') @ ''.'')) bid)
      (ret response))))))"

text \<open>An outcome that is neither: never assumed safe.\<close>

definition transition_unresolved :: "env \<Rightarrow> uuid \<Rightarrow> uuid \<Rightarrow> uuid \<Rightarrow> TransitionConfig \<Rightarrow> json \<Rightarrow> json M" where
  "transition_unresolved E rid user_id bid cfg res =
     seq (set_status E bid ERROR)
     (bnd (lift (jget_opt ''reason'' res)) (\<lambda>given_reason.
     (let reason = (if truthy given_reason then given_reason
            else JStr ''Order outcome could not be confirmed; manual review required.'') in
     bnd (bot_json bid) (\<lambda>j.
     (let response = bot_envelope j ''ERROR'' reason in
      seq (finalize rid response)
      (seq (bot_audit user_id (tc_audit_action cfg) AuditResult.FAILED (reason_text reason) bid)
      (ret response)))))))"

definition transition_execute ::
  "env \<Rightarrow> string \<Rightarrow> uuid \<Rightarrow> uuid \<Rightarrow> uuid \<Rightarrow> TransitionConfig \<Rightarrow> bool \<Rightarrow> BotPosition \<Rightarrow> decimal \<Rightarrow> string \<Rightarrow> json M" where
  "transition_execute E quote rid user_id bid cfg is_simulation position quantity inner_key =
     bnd (try_any (bot_order E quote user_id bid is_simulation (tc_side cfg) (bp_instrument position) quantity
            inner_key)) (\<lambda>r. case r of
       Inl (TradingDisabledErr m) \<Rightarrow>
         transition_refused E rid user_id bid cfg (JStr ''Trading is disabled.'') (Some disabled_detail)
     | Inl exc \<Rightarrow> transition_failed E rid user_id bid cfg is_simulation inner_key exc
     | Inr res \<Rightarrow>
         bnd (transition_outcome E user_id bid is_simulation inner_key res) (\<lambda>(outcome, order, shown).
         if outcome = JStr ''REJECTED'' then
           bnd (lift (jget ''reason'' res)) (\<lambda>reason.
           transition_refused E rid user_id bid cfg reason (reason_text reason))
         else if outcome = JStr ''FILLED'' then
           transition_filled E rid user_id bid cfg is_simulation order shown
         else transition_unresolved E rid user_id bid cfg res))"

text \<open>
  The bot is in the status the transition starts from: it takes the intermediate status, the balance
  is checked for a live buy, and the order runs.  The service object keeps the quote asset in upper case.
\<close>

definition transition_body ::
  "env \<Rightarrow> string \<Rightarrow> uuid \<Rightarrow> uuid \<Rightarrow> uuid \<Rightarrow> string \<Rightarrow> TransitionConfig \<Rightarrow> Bot \<Rightarrow> json M" where
  "transition_body E quote rid user_id bid key cfg b =
     seq (set_status E bid (tc_in_progress_status cfg))
     (bnd (the_position bid (if tc_op cfg = ''pause'' then ''current_quantity'' else ''target_quantity'')) (\<lambda>position.
     (let quantity = (if tc_op cfg = ''pause'' then bp_current_quantity position else bp_target_quantity position);
          inner_key = ''bot-'' @ tc_op cfg @ '':'' @ str_uuid bid @ '':'' @ key;
          is_simulation = (b_execution_mode b = SIMULATION) in
     bnd (if tc_side cfg = ''BUY'' \<and> \<not> is_simulation
          then check_sufficient_real_balance E (upper quote) (bp_instrument position) quantity else ret None) (\<lambda>insufficient.
     case insufficient of
       Some reason \<Rightarrow> transition_refused E rid user_id bid cfg (JStr reason) (Some reason)
     | None \<Rightarrow> transition_execute E quote rid user_id bid cfg is_simulation position quantity inner_key))))"

definition transition :: "env \<Rightarrow> string \<Rightarrow> uuid \<Rightarrow> uuid \<Rightarrow> string \<Rightarrow> TransitionConfig \<Rightarrow> json M" where
  "transition E quote user_id bid key cfg =
     with_bot E user_id bid (''POST /bots/'' @ str_uuid bid @ ''/'' @ tc_op cfg) key (JObj [(''bot_id'', juuid bid)])
       (tc_audit_action cfg) (\<lambda>rid b.
     if b_status b \<noteq> tc_from_status cfg then
       bot_refused rid user_id (tc_audit_action cfg) bid
         (''Bot is '' @ bot_status_value (b_status b) @ ''; cannot '' @ tc_op cfg @ '' from this state.'')
     else transition_body E quote rid user_id bid key cfg b)"

definition pause :: "env \<Rightarrow> string \<Rightarrow> uuid \<Rightarrow> uuid \<Rightarrow> string \<Rightarrow> json M" where
  "pause E quote user_id bid key = transition E quote user_id bid key pause_config"

definition resume :: "env \<Rightarrow> string \<Rightarrow> uuid \<Rightarrow> uuid \<Rightarrow> string \<Rightarrow> json M" where
  "resume E quote user_id bid key = transition E quote user_id bid key resume_config"

end
