(* ===== verification/BotFacts.thy ===== *)
theory BotFacts
  imports BotService SimulationProperties
begin

text \<open>
  What the operations on bots leave alone, and how they move the bot: everything but the few writes
  of a status or a position is calm, and a rule for each write moves the life of one bot.
\<close>

section \<open>Calm operations\<close>

text \<open>\<open>calm\<close>: no bot, no position, no setting and no credential changed.\<close>

definition calm :: "sys \<Rightarrow> sys \<Rightarrow> bool" where
  "calm s s' \<longleftrightarrow> bots s' = bots s \<and> bot_positions s' = bot_positions s \<and>
     user_settings s' = user_settings s \<and> credentials s' = credentials s"

interpretation calm: frame calm
  by unfold_locales (auto simp: calm_def)

lemma only_order_calm: "only_order oid s s' \<Longrightarrow> calm s s'"
  using only_order_same [of oid s s'] by (simp add: calm_def)

lemma keeps_only_order_calm: "keeps (only_order oid) m \<Longrightarrow> keeps calm m"
  using keeps_weaken only_order_calm by blast

lemmas keeps_reads_calm = keeps_reads(1) [THEN keeps_only_order_calm]

lemma calm_prims:
  "keeps calm (now_utc E)" "keeps calm (new_uuid E)" "keeps calm (add_order o1)" "keeps calm (upd_order oid f)"
  "keeps calm (finalize rid v)" "keeps calm (add_audit e)" "keeps calm (add_sim_order x)" "keeps calm (set_cash aid c)"
  "keeps calm (simulation_audit u bid res soid d)" "keeps calm (audit u a sy q res h b d)"
  "keeps calm (audit_order o1 a res b d)" "keeps calm (add_event oid ty d)" "keeps calm (the_order oid)"
  "keeps calm (call_binance E cl)" "keeps calm (add_account acc)"
  by (auto simp: keeps_wp_iff wp_simps calm_def audit_def audit_order_def upd_order_def add_account_def
      wp_def [of "add_account acc"] split: option.split)

lemma calm_reserve: "keeps calm (reserve E u ep key p)"
  by (auto simp: keeps_wp_iff reserve_def wp_simps Let_def calm_def split: option.split)

lemma calm_reconcile: "keeps calm (reconcile_row oid p)"
  by (rule keeps_only_order_calm [OF only_order_reconcile])

lemma calm_internal_failure: "keeps calm (internal_failure E rid oid exc action)"
  unfolding internal_failure_def by (intro calm.bnd calm.seq calm.raise calm_prims)

lemma calm_create_order: "keeps calm (create_order E svc u symb side ty q p key)"
  unfolding create_order_def create_and_execute_def refuse_disabled_def
  by (rule calm.bnd calm.seq calm.ret calm.raise calm.lift calm.gets calm.cond calm.let_in calm.case_sum calm.try_any
      calm_prims calm_reserve calm_internal_failure keeps_only_order_calm [OF validate_and_execute_frame] | simp)+

lemma calm_sim_terminal: "keeps calm (simulation_terminal E rid u bid a side q st reason)"
  unfolding simulation_terminal_def
  by (intro calm.bnd calm.seq calm.ret calm.let_in calm.lift calm_prims the_instrument_reads [THEN keeps_reads_calm])

lemma calm_sim_fill: "keeps calm (simulation_fill E rid u bid a side q m)"
  unfolding simulation_fill_def
  by (intro calm.bnd calm.seq calm.ret calm.let_in calm.lift calm_prims the_instrument_reads [THEN keeps_reads_calm])

lemma calm_sim_execute: "keeps calm (simulation_execute E rid u bid a side q m n)"
  unfolding simulation_execute_def
  by (intro calm.cond calm.bnd calm.lift calm_sim_terminal calm_sim_fill)

lemma calm_sim_gates: "keeps calm (simulation_gates E rid u bid a side q)"
  unfolding simulation_gates_def
  by (rule calm_sim_terminal calm_sim_execute reads_market_price [THEN keeps_reads_calm]
      reads_filters [THEN keeps_reads_calm] sim_risk_reads [THEN keeps_reads_calm]
      the_instrument_reads [THEN keeps_reads_calm]
      calm.bnd calm.case_sum calm.lift calm.cond calm.try_binance case_decision)+

lemma calm_place_bot_order: "keeps calm (place_bot_order E u bid side q key)"
  unfolding place_bot_order_def
  by (rule calm.bnd calm.seq calm.ret calm.raise calm.let_in calm.gets calm.cond calm.case_opt
      calm_prims calm_reserve calm_sim_gates | simp)+

lemma calm_bot_order: "keeps calm (bot_order E quote u bid is_sim side inst q key)"
  unfolding bot_order_def make_order_service_def
  by (intro calm.cond calm.bnd calm.ret calm_prims calm_place_bot_order calm_create_order)

lemma calm_the_bot: "keeps calm (the_bot bid)"
  by (auto simp: keeps_def the_bot_def calm_def split: option.split)

lemma calm_bot_json: "keeps calm (bot_json bid)"
  unfolding bot_json_def by (intro calm.bnd calm.gets calm_the_bot)

lemma calm_bot_audit: "keeps calm (bot_audit u action res d bid)"
  unfolding bot_audit_def by (intro calm.bnd calm.gets calm_prims)

lemma calm_the_position: "keeps calm (the_position bid a)"
  unfolding the_position_def by (intro calm.bnd calm.gets calm.case_opt calm.raise calm.ret)

lemma calm_link_order: "keeps calm (link_order E u key bid)"
  unfolding link_order_def by (intro calm.bnd calm.gets calm.case_opt calm.seq calm.ret calm_prims)

lemma calm_reconcile_once: "keeps calm (reconcile_once E oid)"
  unfolding reconcile_once_def
  by (intro calm.bnd calm.case_sum calm.seq calm.cond calm.ret calm.try_binance calm.lift calm.case_pair
      calm_prims calm_reconcile)

lemma calm_check_balance: "keeps calm (check_sufficient_real_balance E quote inst q)"
  unfolding check_sufficient_real_balance_def
  by (intro calm.bnd calm.case_sum calm.case_pair calm.ret calm.lift calm.try_binance calm_prims
      reads_balances [THEN keeps_reads_calm])

lemma calm_outcome: "keeps calm (transition_outcome E u bid is_sim key res)"
  unfolding transition_outcome_def
  by (intro calm.bnd calm.cond calm.lift calm.ret calm.case_opt calm_link_order calm_reconcile_once)

lemma calm_missing: "keeps calm (bot_missing rid u action bid)"
  unfolding bot_missing_def by (intro calm.seq calm.raise calm_prims)

lemma calm_refused: "keeps calm (bot_refused rid u action bid reason)"
  unfolding bot_refused_def by (intro calm.bnd calm.seq calm.raise calm_prims calm_bot_json calm_bot_audit)

lemmas calm_intros = calm.ret calm.raise calm.lift calm.gets calm.try_any calm_prims calm_reserve calm_bot_order
  calm_the_bot calm_bot_json calm_bot_audit calm_the_position calm_link_order calm_check_balance calm_outcome
  calm_missing calm_refused

end
