(* ===== verification/BotLife.thy ===== *)
theory BotLife
  imports BotFacts
begin

text \<open>
  The lifecycle of a bot, abstractly: who owns it, its mode and status, what it holds and what it
  aims for.  The operations of the service refine a step relation on that; the relation's invariants
  are the promises of the bot domain.
\<close>

section \<open>The life of a bot\<close>

record BotLife =
  l_owner :: uuid
  l_mode :: BotExecutionMode
  l_status :: BotStatus
  l_held :: decimal
  l_target :: decimal

definition life_of :: "Bot \<Rightarrow> BotPosition \<Rightarrow> BotLife" where
  "life_of b p = \<lparr>l_owner = b_user_id b, l_mode = b_execution_mode b, l_status = b_status b,
     l_held = bp_current_quantity p, l_target = bp_target_quantity p\<rparr>"

lemma life_of_fields [simp]:
  "l_owner (life_of b p) = b_user_id b" "l_mode (life_of b p) = b_execution_mode b"
  "l_status (life_of b p) = b_status b" "l_held (life_of b p) = bp_current_quantity p"
  "l_target (life_of b p) = bp_target_quantity p"
  by (simp_all add: life_of_def)

abbreviation bot_of :: "sys \<Rightarrow> uuid \<Rightarrow> Bot option" where
  "bot_of s bid \<equiv> lookup_row b_id (bots s) bid"

definition life_at :: "Bot option \<Rightarrow> BotPosition option \<Rightarrow> BotLife option" where
  "life_at b p = (case (b, p) of (Some x, Some y) \<Rightarrow> Some (life_of x y) | _ \<Rightarrow> None)"

lemma life_at_simps [simp]:
  "life_at None p = None" "life_at b None = None" "life_at (Some x) (Some y) = Some (life_of x y)"
  by (simp_all add: life_at_def split: option.split)

definition life :: "sys \<Rightarrow> uuid \<Rightarrow> BotLife option" where
  "life s bid = life_at (bot_of s bid) (position_of s bid)"

text \<open>Well-formed tables: bot ids are unique, and exactly the bots have a position.\<close>

definition bots_ok :: "sys \<Rightarrow> bool" where
  "bots_ok s \<longleftrightarrow> unique_key b_id (bots s) \<and> bp_bot_id ` set (bot_positions s) = b_id ` set (bots s)"

lemma life_Some_iff: "life s bid = Some l \<longleftrightarrow>
    (\<exists>b p. bot_of s bid = Some b \<and> position_of s bid = Some p \<and> l = life_of b p)"
  by (cases "bot_of s bid"; cases "position_of s bid") (auto simp: life_def)

lemma life_None_iff: "bots_ok s \<Longrightarrow> life s bid = None \<longleftrightarrow> bid \<notin> b_id ` set (bots s)"
  using lookup_row_None [of bp_bot_id "bot_positions s" bid] lookup_row_None [of b_id "bots s" bid]
  by (cases "bot_of s bid"; cases "position_of s bid") (auto simp: life_def bots_ok_def)

text \<open>\<open>lives s0 bid l s\<close>: since \<open>s0\<close> only the life of \<open>bid\<close> changed, and it is \<open>l\<close> now.\<close>

definition lives :: "sys \<Rightarrow> uuid \<Rightarrow> BotLife option \<Rightarrow> sys \<Rightarrow> bool" where
  "lives s0 bid l s \<longleftrightarrow> bots_ok s \<and> credentials s = credentials s0 \<and> life s = (life s0)(bid := l)"

lemma calm_same:
  assumes "calm s t"
  shows "bots t = bots s" "bot_positions t = bot_positions s" "credentials t = credentials s"
    "user_settings t = user_settings s" "life t = life s" "bots_ok t = bots_ok s"
  using assms by (auto simp: calm_def life_def bots_ok_def fun_eq_iff)

lemma lives_calm: "calm s t \<Longrightarrow> lives s0 bid l t = lives s0 bid l s"
  by (simp add: lives_def calm_same [of s t])

lemma lives_start: "bots_ok s \<Longrightarrow> life s bid = l \<Longrightarrow> lives s bid l s"
  by (auto simp: lives_def)

lemma lives_obtain:
  assumes "lives s0 bid (Some l) s"
  obtains b p where "bot_of s bid = Some b" and "position_of s bid = Some p" and "l = life_of b p"
proof -
  have "life s bid = Some l" using assms by (simp add: lives_def)
  then show ?thesis using that by (auto simp: life_Some_iff)
qed

section \<open>Rules for the writes\<close>

lemma wp_calm:
  assumes "keeps calm m" and "lives s0 bid l s" and "\<And>r t. lives s0 bid l t \<Longrightarrow> Q r t"
  shows "wp m Q s"
  by (rule wp_mono [OF keeps_wp [OF assms(1)]]) (use assms(2,3) lives_calm in blast)

lemma wp_calm_bnd:
  assumes "keeps calm m" and "lives s0 bid l s"
    and "\<And>x t. lives s0 bid l t \<Longrightarrow> wp (f x) Q t" and "\<And>e t. lives s0 bid l t \<Longrightarrow> Q (Inl e) t"
  shows "wp (bnd m f) Q s"
  by (rule wp_bndI [OF wp_calm [OF assms(1,2), where Q = "\<lambda>r t. lives s0 bid l t"]]) (use assms(3,4) in blast)+

lemma wp_calm_seq:
  assumes "keeps calm m" and "lives s0 bid l s"
    and "\<And>t. lives s0 bid l t \<Longrightarrow> wp n Q t" and "\<And>e t. lives s0 bid l t \<Longrightarrow> Q (Inl e) t"
  shows "wp (seq m n) Q s"
  unfolding seq_def by (rule wp_calm_bnd [OF assms(1,2)]) (use assms(3,4) in blast)+

lemma map_bots_ok:
  assumes "\<And>x. b_id (f x) = b_id x"
  shows "bots_ok (s\<lparr>bots := map f (bots s)\<rparr>) = bots_ok s"
proof -
  have "b_id \<circ> f = b_id" using assms by auto
  then show ?thesis by (simp add: bots_ok_def unique_key_def image_image assms)
qed

lemma map_positions_ok:
  assumes "\<And>x. bp_bot_id (f x) = bp_bot_id x"
  shows "bots_ok (s\<lparr>bot_positions := map f (bot_positions s)\<rparr>) = bots_ok s"
  by (simp add: bots_ok_def assms image_image)

lemma lives_put_bot:
  assumes "lives s0 bid (Some l) s" and "\<And>x. b_id (f x) = b_id x"
    and "\<And>b p. bot_of s bid = Some b \<Longrightarrow> l = life_of b p \<Longrightarrow> life_of (f b) p = l'"
  shows "lives s0 bid (Some l') (s\<lparr>bots := map (\<lambda>x. if b_id x = bid then f x else x) (bots s)\<rparr>)"
proof -
  obtain b p where b: "bot_of s bid = Some b" "position_of s bid = Some p" "l = life_of b p"
    using assms(1) by (rule lives_obtain)
  let ?t = "s\<lparr>bots := map (\<lambda>x. if b_id x = bid then f x else x) (bots s)\<rparr>"
  have "bots_ok ?t" using assms(1) map_bots_ok [of "\<lambda>x. if b_id x = bid then f x else x" s] assms(2)
    by (simp add: lives_def)
  moreover have "bot_of ?t = (bot_of s)(bid := Some (f b))"
    using b(1) assms(2) by (auto simp: lookup_map_row fun_eq_iff)
  then have "life ?t = (life s)(bid := Some l')"
    using b(2) assms(3) [OF b(1,3)] by (simp add: life_def fun_eq_iff)
  ultimately show ?thesis using assms(1) by (simp add: lives_def)
qed

lemma wp_the_bot: "wp (the_bot bid) Q s = (case bot_of s bid of Some b \<Rightarrow> Q (Inr b) s
    | None \<Rightarrow> Q (Inl (ObjectDeletedErr ''Instance <Bot> has been deleted'')) s)"
  by (simp add: wp_def the_bot_def split: option.split)

lemma wp_upd_bot:
  assumes "lives s0 bid (Some l) s" and "\<And>x. b_id (f x) = b_id x"
    and "\<And>b p. l = life_of b p \<Longrightarrow> life_of (f b) p = l'"
  shows "wp (upd_bot E bid f) (\<lambda>r t. r = Inr () \<and> lives s0 bid (Some l') t) s"
proof -
  obtain b p where b: "bot_of s bid = Some b" "position_of s bid = Some p" "l = life_of b p"
    using assms(1) by (rule lives_obtain)
  have same: "f b = b \<Longrightarrow> l' = l" using assms(3) [OF b(3)] b(3) by simp
  have "lives s0 bid (Some l') (s\<lparr>ticks := n, bots := map (\<lambda>x. if b_id x = bid then (f x)\<lparr>b_updated_at := tm\<rparr> else x)
       (bots s)\<rparr>)" for tm n
  proof -
    have "lives s0 bid (Some l) (s\<lparr>ticks := n\<rparr>)"
      using lives_calm [of s "s\<lparr>ticks := n\<rparr>"] assms(1) by (simp add: calm_def)
    from lives_put_bot [OF this, of "\<lambda>x. (f x)\<lparr>b_updated_at := tm\<rparr>" l'] assms(2,3)
    show ?thesis by (simp add: life_of_def)
  qed
  then show ?thesis
    using assms(1) same
    by (simp add: upd_bot_def put_bot_def wp_simps wp_the_bot b(1))
qed

lemma wp_set_status:
  assumes "lives s0 bid (Some l) s"
    and "\<And>t. lives s0 bid (Some (l\<lparr>l_status := st\<rparr>)) t \<Longrightarrow> wp m Q t"
  shows "wp (seq (set_status E bid st) m) Q s"
  unfolding seq_def set_status_def
  by (rule wp_bndI [OF wp_upd_bot [OF assms(1)]])
    (use assms(2) in \<open>auto simp: life_of_def\<close>)

lemma lives_upd_position:
  assumes "lives s0 bid (Some l) s" and "\<And>x. bp_bot_id (f x) = bp_bot_id x"
    and "\<And>b p. l = life_of b p \<Longrightarrow> life_of b (f p) = l'"
  shows "lives s0 bid (Some l') (s\<lparr>bot_positions := map (\<lambda>x. if bp_bot_id x = bid then f x else x) (bot_positions s)\<rparr>)"
proof -
  obtain b p where b: "bot_of s bid = Some b" "position_of s bid = Some p" "l = life_of b p"
    using assms(1) by (rule lives_obtain)
  let ?t = "s\<lparr>bot_positions := map (\<lambda>x. if bp_bot_id x = bid then f x else x) (bot_positions s)\<rparr>"
  have "bots_ok ?t" using assms(1) map_positions_ok [of "\<lambda>x. if bp_bot_id x = bid then f x else x" s] assms(2)
    by (simp add: lives_def)
  moreover have "position_of ?t = (position_of s)(bid := Some (f p))"
    using b(2) assms(2) by (auto simp: lookup_map_row fun_eq_iff)
  then have "life ?t = (life s)(bid := Some l')"
    using b(1) assms(3) [OF b(3)] by (simp add: life_def fun_eq_iff)
  ultimately show ?thesis using assms(1) by (simp add: lives_def)
qed

lemma wp_upd_position:
  assumes "lives s0 bid (Some l) s" and "\<And>x. bp_bot_id (f x) = bp_bot_id x"
    and "\<And>b p. l = life_of b p \<Longrightarrow> life_of b (f p) = l'"
    and "\<And>t. lives s0 bid (Some l') t \<Longrightarrow> wp m Q t"
  shows "wp (seq (upd_position bid f) m) Q s"
  using assms(4) [OF lives_upd_position [OF assms(1-3)]] by (simp add: upd_position_def wp_seq wp_modify)

section \<open>The operations, one by one\<close>

lemma load_bot_Some:
  assumes "bots_ok s" and "load_bot_for_update u bid s = Some b"
  shows "bot_of s bid = Some b \<and> b_user_id b = u"
proof -
  have b: "b \<in> set (bots s)" "b_id b = bid" "b_user_id b = u"
    using assms(2) by (auto simp: load_bot_for_update_def find_Some_iff)
  then show ?thesis using assms(1) lookup_row_unique [of b_id "bots s" b] by (auto simp: bots_ok_def)
qed

lemma wp_with_bot:
  assumes "bots_ok s"
    and "\<And>rid b p t. life s bid = Some (life_of b p) \<Longrightarrow> b_user_id b = u \<Longrightarrow> bot_of t bid = Some b \<Longrightarrow>
       lives s bid (Some (life_of b p)) t \<Longrightarrow> wp (act rid b) Q t"
    and "\<And>r t. lives s bid (life s bid) t \<Longrightarrow> Q r t"
  shows "wp (with_bot E u bid ep key payload action act) Q s"
  unfolding with_bot_def
proof (rule wp_calm_bnd [OF calm_reserve lives_start [OF assms(1) refl [of "life s bid"]]], goal_cases)
  case (1 x t)
  show ?case
  proof (cases "ir_is_new x")
    case True
    have miss: "wp (bot_missing rid u action bid) Q t" for rid
      by (rule wp_calm [OF calm_missing 1]) (rule assms(3))
    have act: "wp (act rid b) Q t" if found: "load_bot_for_update u bid t = Some b" for b rid
    proof -
      have ok: "bots_ok t" and l: "life t bid = life s bid" using 1 by (simp_all add: lives_def)
      have b: "bot_of t bid = Some b" "b_user_id b = u" using load_bot_Some [OF ok found] by auto
      have "life t bid \<noteq> None" using b(1) life_None_iff [OF ok, of bid] lookup_row_Some by fastforce
      then obtain p where "life t bid = Some (life_of b p)" using b(1) by (auto simp: life_Some_iff)
      then show ?thesis using assms(2) [of b p t rid] b l 1 by simp
    qed
    show ?thesis
      using True miss act by (simp add: wp_bnd [of "gets _"] wp_gets split: option.split)
  next
    case False
    then show ?thesis using assms(3) [OF 1] by (simp add: wp_ret)
  qed
qed (rule assms(3))

text \<open>An answer that tells the truth: it shows the rows of the bot as they are.\<close>

definition shows_bot :: "uuid \<Rightarrow> string \<Rightarrow> json \<Rightarrow> sys \<Rightarrow> bool" where
  "shows_bot bid st v t \<longleftrightarrow> (\<exists>b reason. bot_of t bid = Some b \<and>
     v = bot_envelope (bot_to_response b (position_of t bid)) st reason)"

lemma shows_bot_calm: "calm s t \<Longrightarrow> shows_bot bid st v t = shows_bot bid st v s"
  by (simp add: shows_bot_def calm_same [of s t])

lemma wp_bot_json:
  "wp (bot_json bid) Q s = (case bot_of s bid of Some b \<Rightarrow> Q (Inr (bot_to_response b (position_of s bid))) s
    | None \<Rightarrow> Q (Inl (ObjectDeletedErr ''Instance <Bot> has been deleted'')) s)"
  by (simp add: bot_json_def wp_simps wp_the_bot split: option.split)

text \<open>The end of an operation: the answer, the settled reservation, the audit entry.\<close>

lemma wp_settled_answer:
  assumes "lives s0 bid l s" and "shows_bot bid st v s" and "keeps calm m" and "keeps calm n"
  shows "wp (seq m (seq n (ret v)))
     (\<lambda>r t. lives s0 bid l t \<and> (\<forall>w. r = Inr w \<longrightarrow> shows_bot bid st w t)) s"
proof -
  have both: "lives s0 bid l t \<and> shows_bot bid st v t" if "calm s t" for t
    using assms(1,2) that by (simp add: lives_calm shows_bot_calm)
  have second: "wp n (\<lambda>r t. calm s t) u" if "calm s u" for u
    by (rule wp_mono [OF keeps_wp [OF assms(4)]]) (rule calm.trans [OF that])
  show ?thesis
    unfolding wp_seq wp_ret
    by (rule wp_mono [OF keeps_wp [OF assms(3)]])
      (auto split: sum.split simp: both intro!: wp_mono [OF second])
qed

lemma wp_bot_answer:
  assumes "lives s0 bid (Some l) s"
  shows "wp (bnd (bot_json bid) (\<lambda>j. seq (finalize rid (bot_envelope j st reason))
       (seq (bot_audit u action res d bid) (ret (bot_envelope j st reason)))))
     (\<lambda>r t. lives s0 bid (Some l) t \<and> (\<forall>w. r = Inr w \<longrightarrow> shows_bot bid st w t)) s"
proof -
  obtain b p where b: "bot_of s bid = Some b" using assms by (rule lives_obtain)
  have "shows_bot bid st (bot_envelope (bot_to_response b (position_of s bid)) st reason) s"
    using b by (auto simp: shows_bot_def)
  from wp_settled_answer [OF assms this calm_prims(5) calm_bot_audit]
  show ?thesis by (simp add: wp_bnd [of "bot_json _"] wp_bot_json b)
qed

text \<open>What a transition makes of the bot, and what its answer says.\<close>

definition completed :: "TransitionConfig \<Rightarrow> BotLife \<Rightarrow> BotLife" where
  "completed cfg l = (if tc_op cfg = ''pause'' then l\<lparr>l_held := dec_zero, l_status := PAUSED\<rparr>
     else l\<lparr>l_held := l_target l, l_status := ACTIVE\<rparr>)"

definition transition_post ::
  "TransitionConfig \<Rightarrow> sys \<Rightarrow> uuid \<Rightarrow> BotLife \<Rightarrow> json result \<Rightarrow> sys \<Rightarrow> bool" where
  "transition_post cfg s0 bid l r t \<longleftrightarrow> (\<exists>l'. lives s0 bid (Some l') t \<and>
     (case r of
        Inl e \<Rightarrow> l' \<in> {l, l\<lparr>l_status := tc_in_progress_status cfg\<rparr>, l\<lparr>l_status := ERROR\<rparr>, completed cfg l}
      | Inr v \<Rightarrow> l' = l \<and> shows_bot bid ''REJECTED'' v t \<or>
          l' = l\<lparr>l_status := ERROR\<rparr> \<and> shows_bot bid ''ERROR'' v t \<or>
          l' = completed cfg l \<and> shows_bot bid (bot_status_value (l_status (completed cfg l))) v t))"

definition configs :: "TransitionConfig set" where
  "configs = {pause_config, resume_config}"

lemma transition_postI:
  assumes "lives s0 bid (Some l') t \<and> (\<forall>w. r = Inr w \<longrightarrow> shows_bot bid st w t)"
    and "(l', st) \<in> {(l, ''REJECTED''), (l\<lparr>l_status := ERROR\<rparr>, ''ERROR''),
       (completed cfg l, bot_status_value (l_status (completed cfg l)))}"
  shows "transition_post cfg s0 bid l r t"
  using assms by (auto simp: transition_post_def split: sum.split)

lemma transition_post_raise:
  assumes "lives s0 bid (Some l') t"
    and "l' \<in> {l, l\<lparr>l_status := tc_in_progress_status cfg\<rparr>, l\<lparr>l_status := ERROR\<rparr>, completed cfg l}"
  shows "transition_post cfg s0 bid l (Inl e) t"
  using assms by (auto simp: transition_post_def)

lemma wp_transition_refused:
  assumes "lives s0 bid (Some (l\<lparr>l_status := st\<rparr>)) s" and "l_status l = tc_from_status cfg"
  shows "wp (transition_refused E rid u bid cfg reason d) (transition_post cfg s0 bid l) s"
  unfolding transition_refused_def Let_def
proof (rule wp_set_status [OF assms(1)])
  fix t assume "lives s0 bid (Some (l\<lparr>l_status := st\<rparr>\<lparr>l_status := tc_from_status cfg\<rparr>)) t"
  then have "lives s0 bid (Some l) t" using assms(2) by (cases l) simp
  then show "wp (bnd (bot_json bid) (\<lambda>j. seq (finalize rid (bot_envelope j ''REJECTED'' reason))
       (seq (bot_audit u (tc_audit_action cfg) AuditResult.REJECTED d bid)
       (ret (bot_envelope j ''REJECTED'' reason))))) (transition_post cfg s0 bid l) t"
    by (rule wp_mono [OF wp_bot_answer]) (rule transition_postI, auto)
qed

lemma wp_transition_failed:
  assumes "lives s0 bid (Some (l\<lparr>l_status := tc_in_progress_status cfg\<rparr>)) s"
  shows "wp (transition_failed E rid u bid cfg is_sim key exc) (transition_post cfg s0 bid l) s"
  unfolding transition_failed_def
proof (rule wp_calm_seq [OF _ assms], goal_cases)
  case 1
  show ?case by (intro calm.cond calm.ret calm.bnd calm_link_order)
next
  case (2 t)
  show ?case
  proof (rule wp_set_status [OF 2])
    fix w assume w: "lives s0 bid (Some (l\<lparr>l_status := tc_in_progress_status cfg\<rparr>\<lparr>l_status := ERROR\<rparr>)) w"
    then have w': "lives s0 bid (Some (l\<lparr>l_status := ERROR\<rparr>)) w" by simp
    have raised: "transition_post cfg s0 bid l (Inl e) x" if "lives s0 bid (Some (l\<lparr>l_status := ERROR\<rparr>)) x" for e x
      by (rule transition_post_raise [OF that]) simp
    show "wp (bnd (bot_json bid) (\<lambda>j.
       seq (finalize rid (bot_envelope j ''ERROR''
              (JStr ''An unexpected error occurred; this bot requires manual review.'')))
       (seq (bot_audit u (tc_audit_action cfg) AuditResult.FAILED (Some (take 1000 (str_exn exc))) bid)
       (raise exc)))) (transition_post cfg s0 bid l) w"
      by (rule wp_calm_bnd [OF calm_bot_json w'], rule wp_calm_seq [OF calm_prims(5)], assumption,
          rule wp_calm_seq [OF calm_bot_audit], assumption, simp_all add: wp_raise raised)
  qed
qed (rule transition_post_raise, assumption, simp)

lemma wp_transition_filled:
  assumes "lives s0 bid (Some (l\<lparr>l_status := tc_in_progress_status cfg\<rparr>)) s"
  shows "wp (transition_filled E rid u bid cfg is_sim order shown) (transition_post cfg s0 bid l) s"
proof -
  define d where "d = Some (tc_title cfg @ '' confirmed via order '' @
     (if truthy shown then py_str shown else ''?'') @ ''.'')"
  let ?rest = "bnd (the_bot bid) (\<lambda>b. bnd (bot_json bid) (\<lambda>j.
      seq (finalize rid (bot_envelope j (bot_status_value (b_status b)) JNull))
      (seq (bot_audit u (tc_audit_action cfg) AuditResult.SUCCESS d bid)
      (ret (bot_envelope j (bot_status_value (b_status b)) JNull)))))"
  have rest: "wp ?rest (transition_post cfg s0 bid l) t" if t: "lives s0 bid (Some (completed cfg l)) t" for t
  proof -
    obtain b p where b: "bot_of t bid = Some b" "completed cfg l = life_of b p"
      using t by (rule lives_obtain)
    then have st: "b_status b = l_status (completed cfg l)" by simp
    show ?thesis
      by (simp add: wp_bnd [of "the_bot _"] wp_the_bot b(1) st)
        (rule wp_mono [OF wp_bot_answer [OF t]], rule transition_postI, auto)
  qed
  have paused: "wp (seq (upd_position bid (\<lambda>p. (if is_sim then p else p\<lparr>bp_last_close_order_id := order\<rparr>)
        \<lparr>bp_current_quantity := dec_zero, bp_paused_at := Some tm\<rparr>)) (seq (set_status E bid PAUSED) ?rest))
      (transition_post cfg s0 bid l) t"
    if "tc_op cfg = ''pause''" and t: "lives s0 bid (Some (l\<lparr>l_status := tc_in_progress_status cfg\<rparr>)) t" for tm t
    by (rule wp_upd_position [OF t, where l' = "l\<lparr>l_status := tc_in_progress_status cfg, l_held := dec_zero\<rparr>"];
        (rule wp_set_status, assumption)?)
      (use that rest in \<open>auto simp: completed_def life_of_def\<close>)
  have resumed: "wp (seq (upd_position bid (\<lambda>p. (if is_sim then p else p\<lparr>bp_last_open_order_id := order\<rparr>)
        \<lparr>bp_current_quantity := bp_target_quantity p, bp_paused_at := None\<rparr>)) (seq (set_status E bid ACTIVE) ?rest))
      (transition_post cfg s0 bid l) s"
    if "tc_op cfg \<noteq> ''pause''"
    by (rule wp_upd_position [OF assms, where l' = "l\<lparr>l_status := tc_in_progress_status cfg, l_held := l_target l\<rparr>"];
        (rule wp_set_status, assumption)?)
      (use that rest in \<open>auto simp: completed_def life_of_def, (cases l, simp)?\<close>)
  show ?thesis
  proof (cases "tc_op cfg = ''pause''")
    case True
    have "lives s0 bid (Some (l\<lparr>l_status := tc_in_progress_status cfg\<rparr>)) (s\<lparr>ticks := n\<rparr>)" for n
      using assms lives_calm [of s "s\<lparr>ticks := n\<rparr>"] by (simp add: calm_def)
    from paused [OF True this] show ?thesis
      unfolding transition_filled_def Let_def d_def [symmetric]
      by (simp add: True seq_bnd seq_assoc wp_bnd [of "now_utc _"] wp_now_utc)
  next
    case False
    from resumed [OF this] show ?thesis
      unfolding transition_filled_def Let_def d_def [symmetric] by (simp add: False seq_assoc)
  qed
qed

lemma wp_transition_unresolved:
  assumes "lives s0 bid (Some (l\<lparr>l_status := tc_in_progress_status cfg\<rparr>)) s"
  shows "wp (transition_unresolved E rid u bid cfg res) (transition_post cfg s0 bid l) s"
  unfolding transition_unresolved_def Let_def
proof (rule wp_set_status [OF assms], rule wp_calm_bnd [OF calm.lift], assumption, goal_cases)
  case (1 t given_reason w)
  then have "lives s0 bid (Some (l\<lparr>l_status := ERROR\<rparr>)) w" by simp
  then show ?case by (rule wp_mono [OF wp_bot_answer]) (rule transition_postI, auto)
next
  case (2 t e w)
  then show ?case by (simp add: transition_post_raise)
qed

lemma wp_transition_execute:
  assumes "lives s0 bid (Some (l\<lparr>l_status := tc_in_progress_status cfg\<rparr>)) s"
    and "l_status l = tc_from_status cfg"
  shows "wp (transition_execute E quote rid u bid cfg is_sim position q key) (transition_post cfg s0 bid l) s"
  unfolding transition_execute_def
proof (rule wp_calm_bnd [OF calm.try_any [OF calm_bot_order] assms(1)], goal_cases)
  case (1 r t)
  show ?case
  proof (cases r)
    case (Inl e)
    show ?thesis
      unfolding Inl sum.case
      by (cases e) (simp_all add: wp_transition_failed [OF 1] wp_transition_refused [OF 1 assms(2)])
  next
    case (Inr res)
    show ?thesis
      unfolding Inr sum.case
    proof (rule wp_calm_bnd [OF calm_outcome 1], goal_cases)
      case (1 x w)
      have refuse: "wp (bnd (lift (jget ''reason'' res)) (\<lambda>reason.
           transition_refused E rid u bid cfg reason (reason_text reason))) (transition_post cfg s0 bid l) w"
        by (rule wp_calm_bnd [OF calm.lift 1]) (simp_all add: wp_transition_refused assms(2) transition_post_raise)
      show ?case
        using refuse wp_transition_filled [OF 1] wp_transition_unresolved [OF 1]
        by (cases x) (simp split: if_split)
    qed (simp add: transition_post_raise)
  qed
qed (simp add: transition_post_raise)

lemma wp_transition_body:
  assumes "lives s0 bid (Some l) s" and "l_status l = tc_from_status cfg"
  shows "wp (transition_body E quote rid u bid key cfg b) (transition_post cfg s0 bid l) s"
proof -
  have raised: "transition_post cfg s0 bid l (Inl e) w"
    if "lives s0 bid (Some (l\<lparr>l_status := tc_in_progress_status cfg\<rparr>)) w" for e w
    by (simp add: transition_post_raise [OF that])
  show ?thesis
    unfolding transition_body_def Let_def
  proof (intro wp_set_status [OF assms(1)] wp_calm_bnd [OF calm_the_position], assumption, goal_cases)
    case (1 x pos w)
    show ?case
    proof (rule wp_calm_bnd [OF calm.cond [OF calm_check_balance calm.ret] 1(2)], goal_cases)
      case (1 y v)
      then show ?case
        by (cases y) (simp_all add: wp_transition_execute wp_transition_refused assms(2))
    qed (rule raised)
  qed (rule raised)
qed

lemma wp_transition:
  assumes "bots_ok s"
    and "\<And>r t. lives s bid (life s bid) t \<Longrightarrow> Q r t"
    and "\<And>l r t. life s bid = Some l \<Longrightarrow> l_owner l = u \<Longrightarrow> l_status l = tc_from_status cfg \<Longrightarrow>
       transition_post cfg s bid l r t \<Longrightarrow> Q r t"
  shows "wp (transition E quote u bid key cfg) Q s"
  unfolding transition_def
proof (rule wp_with_bot [OF assms(1) _ assms(2)], goal_cases)
  case (1 rid b p t)
  show ?case
  proof (cases "b_status b = tc_from_status cfg")
    case True
    have "wp (transition_body E quote rid u bid key cfg b) Q t"
      by (rule wp_mono [OF wp_transition_body [OF 1(4)]], simp add: True)
        (rule assms(3) [OF 1(1)], use 1(2) True in simp_all)
    then show ?thesis using True by simp
  next
    case False
    then show ?thesis using 1(1) by (simp add: wp_calm [OF calm_refused 1(4)] assms(2))
  qed
qed

text \<open>A granted operation on a bot of this user.\<close>

lemma wp_granted_with_bot:
  assumes "bots_ok s" and "free_slot E s (u, ep, key)" and "life s bid = Some l" and "l_owner l = u"
    and "\<And>rid b p t. l = life_of b p \<Longrightarrow> bot_of t bid = Some b \<Longrightarrow> lives s bid (Some l) t \<Longrightarrow> wp (act rid b) Q t"
  shows "wp (with_bot E u bid ep key payload action act) Q s"
  unfolding with_bot_def
proof (rule wp_bndI [OF wp_conj [OF wp_reserve_free [OF assms(2)] keeps_wp [OF calm_reserve]]], goal_cases)
  case (1 x t)
  then have x: "ir_is_new x" and t: "lives s bid (Some l) t"
    using lives_start [OF assms(1,3)] by (auto simp: lives_calm)
  obtain b p where b: "bot_of t bid = Some b" "l = life_of b p" using t by (rule lives_obtain)
  have "b \<in> set (bots t)" "b_id b = bid" using lookup_row_Some [OF b(1)] by auto
  moreover have "inj_on b_id (set (bots t))" using t by (simp add: lives_def bots_ok_def unique_key_def distinct_map)
  ultimately have only: "b' = b" if "b' \<in> set (bots t)" "b_id b' = bid" for b'
    using that inj_onD by metis
  obtain b' where found: "load_bot_for_update u bid t = Some b'"
    using \<open>b \<in> set (bots t)\<close> \<open>b_id b = bid\<close> b(2) assms(4)
    by (cases "load_bot_for_update u bid t") (auto simp: load_bot_for_update_def find_None_iff)
  then have "b' = b" using only by (auto simp: load_bot_for_update_def find_Some_iff)
  then show ?case
    unfolding if_granted [OF x] wp_bnd [of "gets _"] wp_gets sum.case found option.case
    using assms(5) [OF b(2,1) t] by simp
qed auto

lemma wp_granted_transition:
  assumes "bots_ok s" and "free_slot E s (u, ''POST /bots/'' @ str_uuid bid @ ''/'' @ tc_op cfg, key)"
    and "life s bid = Some l" and "l_owner l = u" and "l_status l = tc_from_status cfg"
  shows "wp (transition E quote u bid key cfg) (transition_post cfg s bid l) s"
  unfolding transition_def
  by (rule wp_granted_with_bot [OF assms(1-4)]) (use assms(5) wp_transition_body in simp)

end
