(* ===== verification/BotProperties.thy ===== *)
theory BotProperties
  imports BotLife
begin

text \<open>
  The properties of \<open>trading/bot_service.py\<close>: its operations refine the step relation on the lives of
  bots, the relation's invariants, isolation between modes and between users, and the truth of answers.
\<close>

section \<open>Operations as data\<close>

datatype bot_op =
    CreateBot string string string string string decimal string "string option" "json option"
  | UpdateBot uuid string "string option" "decimal option" "string option" "json option"
  | Pause uuid string
  | Resume uuid string
  | Stop uuid string
  | Delete uuid string
  | ActivateLive uuid string

fun run_bot_op :: "env \<Rightarrow> string \<Rightarrow> uuid \<Rightarrow> bot_op \<Rightarrow> json M" where
  "run_bot_op E quote u (CreateBot name rp ac ev inst q key sm sc) = create_bot E u name rp ac ev inst q key sm sc"
| "run_bot_op E quote u (UpdateBot bid key name q sm sc) = update_bot E u bid key name q sm sc"
| "run_bot_op E quote u (Pause bid key) = pause E quote u bid key"
| "run_bot_op E quote u (Resume bid key) = resume E quote u bid key"
| "run_bot_op E quote u (Stop bid key) = stop E u bid key"
| "run_bot_op E quote u (Delete bid key) = delete_bot E u bid key"
| "run_bot_op E quote u (ActivateLive bid key) = activate_live E u bid key"

text \<open>
  The specification.  \<open>life_step u c op bid l l'\<close>: the operation \<open>op\<close> of user \<open>u\<close> (who has connected
  credentials iff \<open>c\<close>) may move the life of bot \<open>bid\<close> from \<open>l\<close> to \<open>l'\<close>, \<open>None\<close> being no bot.
\<close>

inductive life_step :: "uuid \<Rightarrow> bool \<Rightarrow> bot_op \<Rightarrow> uuid \<Rightarrow> BotLife option \<Rightarrow> BotLife option \<Rightarrow> bool" where
  created: "life_step u c (CreateBot name rp ac ev inst q key sm sc) bid None
     (Some \<lparr>l_owner = u, l_mode = SIMULATION, l_status = PAUSED, l_held = dec_zero, l_target = q\<rparr>)"
| retargeted: "l_owner l = u \<Longrightarrow> l_status l = PAUSED \<Longrightarrow>
     life_step u c (UpdateBot bid key name (Some q) sm sc) bid (Some l) (Some (l\<lparr>l_target := q\<rparr>))"
| paused: "l_owner l = u \<Longrightarrow> l_status l = ACTIVE \<Longrightarrow> l' \<in> {l\<lparr>l_held := dec_zero, l_status := PAUSED\<rparr>,
       l\<lparr>l_status := ERROR\<rparr>, l\<lparr>l_status := PAUSING\<rparr>} \<Longrightarrow>
     life_step u c (Pause bid key) bid (Some l) (Some l')"
| resumed: "l_owner l = u \<Longrightarrow> l_status l = PAUSED \<Longrightarrow> l' \<in> {l\<lparr>l_held := l_target l, l_status := ACTIVE\<rparr>,
       l\<lparr>l_status := ERROR\<rparr>, l\<lparr>l_status := RESUMING\<rparr>} \<Longrightarrow>
     life_step u c (Resume bid key) bid (Some l) (Some l')"
| stopped: "l_owner l = u \<Longrightarrow> l_status l \<in> {ACTIVE, PAUSED, ERROR} \<Longrightarrow>
     life_step u c (Stop bid key) bid (Some l) (Some (l\<lparr>l_status := STOPPED\<rparr>))"
| deleted: "l_owner l = u \<Longrightarrow> l_status l \<in> {PAUSED, STOPPED} \<Longrightarrow>
     life_step u c (Delete bid key) bid (Some l) None"
| went_live: "l_owner l = u \<Longrightarrow> l_mode l = SIMULATION \<Longrightarrow> l_status l = PAUSED \<Longrightarrow> c \<Longrightarrow>
     life_step u c (ActivateLive bid key) bid (Some l) (Some (l\<lparr>l_mode := LIVE\<rparr>))"

inductive_cases life_stepE: "life_step u c op bid l l'"

definition has_credentials :: "uuid \<Rightarrow> sys \<Rightarrow> bool" where
  "has_credentials u s \<longleftrightarrow> cs_configured (get_credential_status u s)"

definition refines_life :: "uuid \<Rightarrow> bot_op \<Rightarrow> sys \<Rightarrow> sys \<Rightarrow> bool" where
  "refines_life u op s t \<longleftrightarrow> bots_ok t \<and> (\<forall>bid. life t bid = life s bid \<or>
     life_step u (has_credentials u s) op bid (life s bid) (life t bid))"

lemma refines_lives:
  assumes "lives s bid l t" and "l = life s bid \<or> life_step u (has_credentials u s) op bid (life s bid) l"
  shows "refines_life u op s t"
  using assms by (auto simp: refines_life_def lives_def)

lemma refines_step:
  "lives s bid l t \<Longrightarrow> life_step u (has_credentials u s) op bid (life s bid) l \<Longrightarrow> refines_life u op s t"
  by (simp add: refines_lives)

lemma lives_credentials: "lives s bid l t \<Longrightarrow> has_credentials u t = has_credentials u s"
  by (simp add: lives_def has_credentials_def get_credential_status_def)

section \<open>Each operation refines the specification\<close>

lemma completed_simps [simp]:
  "completed pause_config l = l\<lparr>l_held := dec_zero, l_status := PAUSED\<rparr>"
  "completed resume_config l = l\<lparr>l_held := l_target l, l_status := ACTIVE\<rparr>"
  "tc_from_status pause_config = ACTIVE" "tc_in_progress_status pause_config = PAUSING"
  "tc_from_status resume_config = PAUSED" "tc_in_progress_status resume_config = RESUMING"
  by (simp_all add: completed_def pause_config_def resume_config_def)

lemma transition_postE:
  assumes "transition_post cfg s bid l r t"
  obtains l' where "lives s bid (Some l') t"
    and "l' \<in> {l, l\<lparr>l_status := tc_in_progress_status cfg\<rparr>, l\<lparr>l_status := ERROR\<rparr>, completed cfg l}"
  using assms by (cases r) (auto simp: transition_post_def)

lemma wp_transition_refines:
  assumes "bots_ok s"
    and "\<And>l l'. l_owner l = u \<Longrightarrow> l_status l = tc_from_status cfg \<Longrightarrow>
       l' \<in> {completed cfg l, l\<lparr>l_status := ERROR\<rparr>, l\<lparr>l_status := tc_in_progress_status cfg\<rparr>} \<Longrightarrow>
       life_step u (has_credentials u s) op bid (Some l) (Some l')"
  shows "wp (transition E quote u bid key cfg) (\<lambda>r t. refines_life u op s t) s"
proof (rule wp_transition [OF assms(1)], goal_cases)
  case (1 r t)
  then show ?case by (simp add: refines_lives)
next
  case (2 l r t)
  from 2(4) obtain l' where l': "lives s bid (Some l') t"
      "l' \<in> {l, l\<lparr>l_status := tc_in_progress_status cfg\<rparr>, l\<lparr>l_status := ERROR\<rparr>, completed cfg l}"
    by (rule transition_postE)
  show ?case
    by (rule refines_lives [OF l'(1)]) (use assms(2) [OF 2(2,3), of l'] l'(2) 2(1) in auto)
qed

lemma wp_pause_refines:
  assumes "bots_ok s"
  shows "wp (pause E quote u bid key) (\<lambda>r t. refines_life u (Pause bid key) s t) s"
  unfolding pause_def by (rule wp_transition_refines [OF assms]) (simp add: life_step.paused)

lemma wp_resume_refines:
  assumes "bots_ok s"
  shows "wp (resume E quote u bid key) (\<lambda>r t. refines_life u (Resume bid key) s t) s"
  unfolding resume_def by (rule wp_transition_refines [OF assms]) (simp add: life_step.resumed)

lemma refused_refines:
  assumes "lives s bid (life s bid) t"
  shows "wp (bot_refused rid u action bid reason) (\<lambda>r t. refines_life u op s t) t"
  by (rule wp_calm [OF calm_refused assms]) (simp add: refines_lives)

lemma wp_stop_refines:
  assumes "bots_ok s"
  shows "wp (stop E u bid key) (\<lambda>r t. refines_life u (Stop bid key) s t) s"
  unfolding stop_def
proof (rule wp_with_bot [OF assms], goal_cases)
  case (1 rid b p t)
  let ?l = "life_of b p"
  have moved: "refines_life u (Stop bid key) s w"
    if "lives s bid (Some (?l\<lparr>l_status := STOPPED\<rparr>)) w" "b_status b \<in> set stoppable_statuses" for w
    by (rule refines_lives [OF that(1)])
      (use 1(1,2) that(2) in \<open>auto simp: stoppable_statuses_def intro: life_step.stopped\<close>)
  have ended: "wp (seq (set_status E bid STOPPED) (bnd (bot_json bid) (\<lambda>j.
      seq (finalize rid (bot_envelope j ''STOPPED'' JNull))
      (seq (bot_audit u ''bot.stop'' AuditResult.SUCCESS (Some ''Bot stopped.'') bid)
      (ret (bot_envelope j ''STOPPED'' JNull)))))) (\<lambda>r t. refines_life u (Stop bid key) s t) t"
    if "b_status b \<in> set stoppable_statuses"
    by (rule wp_set_status [OF 1(4)], rule wp_mono [OF wp_bot_answer], assumption) (use moved that in blast)
  show ?case
    using ended refused_refines [of s bid t rid u] 1 by (simp add: Let_def)
qed (simp add: refines_lives)

lemma wp_activate_refines:
  assumes "bots_ok s"
  shows "wp (activate_live E u bid key) (\<lambda>r t. refines_life u (ActivateLive bid key) s t) s"
  unfolding activate_live_def
proof (rule wp_with_bot [OF assms], goal_cases)
  case (1 rid b p t)
  let ?l = "life_of b p"
  have moved: "refines_life u (ActivateLive bid key) s w"
    if "lives s bid (Some (?l\<lparr>l_mode := LIVE\<rparr>)) w" "b_execution_mode b = SIMULATION" "b_status b = PAUSED"
      "has_credentials u s" for w
    by (rule refines_lives [OF that(1)]) (use 1(1,2) that(2-4) in \<open>auto intro: life_step.went_live\<close>)
  have ended: "wp (seq (upd_bot E bid (\<lambda>x. x\<lparr>b_execution_mode := LIVE\<rparr>)) (bnd (the_bot bid) (\<lambda>b'.
      bnd (bot_json bid) (\<lambda>j. seq (finalize rid (bot_envelope j (bot_status_value (b_status b')) JNull))
      (seq (bot_audit u ''bot.activate_live'' AuditResult.SUCCESS (Some ''Bot promoted SIMULATION -> LIVE.'') bid)
      (ret (bot_envelope j (bot_status_value (b_status b')) JNull))))))) (\<lambda>r t. refines_life u (ActivateLive bid key) s t) t"
    if "b_execution_mode b = SIMULATION" "b_status b = PAUSED" "has_credentials u s"
    unfolding seq_def [of "upd_bot _ _ _"]
  proof (rule wp_bndI [OF wp_upd_bot [OF 1(4), where l' = "?l\<lparr>l_mode := LIVE\<rparr>"]], goal_cases)
    case (3 x w)
    then have w: "lives s bid (Some (?l\<lparr>l_mode := LIVE\<rparr>)) w" by simp
    show ?case
      by (rule wp_calm_bnd [OF calm_the_bot w], rule wp_mono [OF wp_bot_answer], assumption)
        (use moved that in blast)+
  qed (auto simp: life_of_def)
  show ?case
    using ended refused_refines [of s bid t rid u] 1 lives_credentials [OF 1(4), of u]
    by (simp add: Let_def wp_bnd [of "gets _"] wp_gets has_credentials_def)
qed (simp add: refines_lives)

lemma given_life:
  "life_of (given (\<lambda>v b. b\<lparr>b_strategy_config := Some v\<rparr>) sc (given (\<lambda>v b. b\<lparr>b_strategy_model := Some v\<rparr>) sm
     (given (\<lambda>v b. b\<lparr>b_name := v\<rparr>) name b))) p = life_of b p"
  "b_id (given (\<lambda>v b. b\<lparr>b_strategy_config := Some v\<rparr>) sc (given (\<lambda>v b. b\<lparr>b_strategy_model := Some v\<rparr>) sm
     (given (\<lambda>v b. b\<lparr>b_name := v\<rparr>) name b))) = b_id b"
  by (simp_all add: given_def life_of_def split: option.split)

lemma wp_update_refines:
  assumes "bots_ok s"
  shows "wp (update_bot E u bid key name q sm sc) (\<lambda>r t. refines_life u (UpdateBot bid key name q sm sc) s t) s"
  unfolding update_bot_def
proof (rule wp_with_bot [OF assms], goal_cases)
  case (1 rid b p t)
  let ?l = "life_of b p"
  let ?Q = "\<lambda>r t. refines_life u (UpdateBot bid key name q sm sc) s t"
  let ?rest = "seq (bot_audit u ''bot.update'' AuditResult.SUCCESS (Some ''Updated bot configuration.'') bid)
     (bnd (the_bot bid) (\<lambda>b'. bnd (bot_json bid) (\<lambda>j.
     seq (finalize rid (bot_envelope j (bot_status_value (b_status b')) JNull))
     (ret (bot_envelope j (bot_status_value (b_status b')) JNull)))))"
  have calm_rest: "keeps calm ?rest"
    by (intro calm.seq calm.bnd calm.ret calm_bot_audit calm_the_bot calm_bot_json calm_prims)
  have same: "?Q r w" if "lives s bid (Some ?l) w" for r w
    by (rule refines_lives [OF that]) (use 1(1) in simp)
  have retarget: "?Q r w" if "q = Some v" "b_status b = PAUSED" "lives s bid (Some (?l\<lparr>l_target := v\<rparr>)) w" for v r w
    by (rule refines_step [OF that(3)]) (use 1(1,2) that in \<open>auto intro: life_step.retargeted\<close>)
  have targeted: "wp (seq (case q of None \<Rightarrow> ret () | Some v \<Rightarrow> bnd (the_position bid ''target_quantity'') (\<lambda>_.
       upd_position bid (\<lambda>p. p\<lparr>bp_target_quantity := v\<rparr>))) ?rest) ?Q w"
    if "b_status b = PAUSED" and w: "lives s bid (Some ?l) w" for w
  proof (cases q)
    case None
    have "wp ?rest ?Q w" by (rule wp_calm [OF calm_rest w same])
    then show ?thesis by (simp add: None wp_seq [of "ret ()"] wp_ret)
  next
    case (Some v)
    have "wp (bnd (the_position bid ''target_quantity'') (\<lambda>_.
       seq (upd_position bid (\<lambda>p. p\<lparr>bp_target_quantity := v\<rparr>)) ?rest)) ?Q w"
    proof (rule wp_calm_bnd [OF calm_the_position w], goal_cases)
      case (1 x y)
      show ?case
        by (rule wp_upd_position [OF 1, where l' = "?l\<lparr>l_target := v\<rparr>"])
          (auto simp: life_of_def intro!: wp_calm [OF calm_rest] retarget [OF Some that(1)])
    qed (rule same)
    then show ?thesis by (simp add: Some seq_bnd)
  qed
  show ?case
  proof (cases "b_status b = PAUSED")
    case True
    show ?thesis
      unfolding if_not_P [of "b_status b \<noteq> PAUSED", unfolded not_not, OF True] Let_def seq_def [of "upd_bot _ _ _"]
      by (rule wp_bndI [OF wp_upd_bot [OF 1(4), where l' = ?l]]) (auto simp: given_life targeted True)
  next
    case False
    then show ?thesis using 1 by (simp add: refused_refines)
  qed
qed (simp add: refines_lives)

lemma wp_delete_refines:
  assumes "bots_ok s"
  shows "wp (delete_bot E u bid key) (\<lambda>r t. refines_life u (Delete bid key) s t) s"
  unfolding delete_bot_def
proof (rule wp_with_bot [OF assms], goal_cases)
  case (1 rid b p t)
  have gone: "lives s bid None (remove_bot bid t)"
  proof -
    have "bot_of (remove_bot bid t) x = (if x = bid then None else bot_of t x)"
        "position_of (remove_bot bid t) x = (if x = bid then None else position_of t x)" for x
      using lookup_delete_row [of b_id bid "bots t" x] lookup_delete_row [of bp_bot_id bid "bot_positions t" x]
      by (simp_all add: remove_bot_def Let_def delete_row_def)
    then have "life (remove_bot bid t) = (life t)(bid := None)" by (auto simp: life_def fun_eq_iff)
    moreover have "bots_ok (remove_bot bid t)"
      using 1(4) unique_key_delete_row [of b_id "bots t" bid]
      by (auto simp: lives_def bots_ok_def remove_bot_def Let_def delete_row_def)
    moreover have "credentials (remove_bot bid t) = credentials t" by (simp add: remove_bot_def Let_def)
    ultimately show ?thesis using 1(4) by (simp add: lives_def)
  qed
  have deleted: "refines_life u (Delete bid key) s w" if "lives s bid None w" "b_status b \<in> set deletable_statuses" for w
    by (rule refines_step [OF that(1)])
      (use 1(1,2) that(2) in \<open>auto simp: deletable_statuses_def intro: life_step.deleted\<close>)
  have ended: "wp (seq (finalize rid v) (seq (add_audit e) (ret v))) (\<lambda>r t. refines_life u (Delete bid key) s t) (remove_bot bid t)"
    if "b_status b \<in> set deletable_statuses" for v e
    by (rule wp_calm [OF _ gone]) (use deleted that in \<open>auto intro!: calm.seq calm.ret calm_prims\<close>)
  show ?case
    using ended refused_refines [of s bid t rid u] 1 by (simp add: Let_def wp_seq [of "modify _"] wp_modify)
qed (simp add: refines_lives)

lemma wp_add_bot: "wp (add_bot b) Q s = (if b_id b \<in> b_id ` set (bots s)
    then Q (Inl (IntegrityErr ''duplicate key value violates unique constraint'')) s
    else Q (Inr ()) (s\<lparr>bots := bots s @ [b]\<rparr>))"
  by (simp add: wp_def add_bot_def)

lemma wp_add_position: "wp (add_position p) Q s = (if bp_bot_id p \<in> bp_bot_id ` set (bot_positions s)
    then Q (Inl (IntegrityErr ''duplicate key value violates unique constraint'')) s
    else Q (Inr ()) (s\<lparr>bot_positions := bot_positions s @ [p]\<rparr>))"
  by (simp add: wp_def add_position_def)

lemma lives_fresh:
  assumes "bots_ok t" and "lives s bid (life s bid) t" and "b_id b \<notin> b_id ` set (bots t)" and "bp_bot_id p = b_id b"
  shows "lives s (b_id b) (Some (life_of b p)) (t\<lparr>bots := bots t @ [b], bot_positions := bot_positions t @ [p]\<rparr>)"
    and "life s (b_id b) = None"
proof -
  let ?u = "t\<lparr>bots := bots t @ [b], bot_positions := bot_positions t @ [p]\<rparr>"
  have pos: "b_id b \<notin> bp_bot_id ` set (bot_positions t)" using assms(1,3) by (simp add: bots_ok_def)
  have t: "life t = life s" "credentials t = credentials s" using assms(2) by (auto simp: lives_def)
  show none: "life s (b_id b) = None" using life_None_iff [OF assms(1)] assms(3) t by simp
  have "bot_of t (b_id b) = None" "position_of t (b_id b) = None" using assms(3) pos by (simp_all add: lookup_row_None)
  then have "life ?u = (life t)(b_id b := Some (life_of b p))"
    using assms(4) by (auto simp: life_def fun_eq_iff lookup_row_append split: option.split)
  moreover have "bots_ok ?u" using assms(1,3,4) by (auto simp: bots_ok_def unique_key_def)
  ultimately show "lives s (b_id b) (Some (life_of b p)) ?u" using t by (simp add: lives_def)
qed

lemma wp_create_refines:
  assumes "bots_ok s"
  shows "wp (create_bot E u name rp ac ev inst q key sm sc)
     (\<lambda>r t. refines_life u (CreateBot name rp ac ev inst q key sm sc) s t) s"
proof -
  let ?Q = "\<lambda>r t. refines_life u (CreateBot name rp ac ev inst q key sm sc) s t"
  have same: "?Q r t" if "lives s x (life s x) t" for x r t by (rule refines_lives [OF that]) simp
  have start: "lives s 0 (life s 0) s" using assms by (simp add: lives_def)
  have rest: "wp (bnd (lift (default_simulation_initial_capital E)) (\<lambda>capital.
      bnd (new_uuid E) (\<lambda>aid.
      seq (add_account (account capital aid))
      (seq (bot_audit u ''bot.create'' AuditResult.SUCCESS (Some (detail capital)) bid)
      (bnd (bot_json bid) (\<lambda>j. seq (finalize rid (bot_envelope j ''PAUSED'' JNull))
        (ret (bot_envelope j ''PAUSED'' JNull)))))))) ?Q w"
    if "\<And>r v. lives s bid l v \<Longrightarrow> ?Q r v" and "lives s bid l w" for account detail bid rid l w
    by (rule wp_calm [OF _ that(2,1)]) (intro calm.bnd calm.seq calm.lift calm.ret calm_intros)
  have insert: "wp (seq (add_bot b) (seq (add_position pos) m)) ?Q t"
    if t: "lives s 0 (life s 0) t" and b: "bp_bot_id pos = b_id b"
      "life_of b pos = \<lparr>l_owner = u, l_mode = SIMULATION, l_status = PAUSED, l_held = dec_zero, l_target = q\<rparr>"
      and m: "\<And>w. lives s (b_id b) (Some (life_of b pos)) w \<Longrightarrow> (\<And>r v. lives s (b_id b) (Some (life_of b pos)) v \<Longrightarrow> ?Q r v) \<Longrightarrow> wp m ?Q w"
    for b pos m t
  proof (cases "b_id b \<in> b_id ` set (bots t)")
    case True
    then show ?thesis using same [OF t] by (simp add: wp_seq wp_add_bot)
  next
    case False
    have ok: "bots_ok t" and t': "lives s (b_id b) (life s (b_id b)) t" using t by (auto simp: lives_def)
    then have "bp_bot_id pos \<notin> bp_bot_id ` set (bot_positions t)" using False b(1) by (simp add: bots_ok_def)
    then show ?thesis
      using False m [OF lives_fresh(1) [OF ok t' False b(1)]] refines_step [of s "b_id b"]
        lives_fresh(2) [OF ok t' False b(1)] b(2)
      by (simp add: wp_seq wp_add_bot wp_add_position life_step.created)
  qed
  have body: "wp (bnd (new_uuid E) (\<lambda>bid. bnd (now_utc E) (\<lambda>tm. seq (add_bot (bot bid tm)) (seq (add_position (pos bid)) (m bid))))) ?Q t"
    if t: "lives s 0 (life s 0) t" and "\<And>bid tm. bp_bot_id (pos bid) = b_id (bot bid tm)"
      "\<And>bid tm. life_of (bot bid tm) (pos bid) =
         \<lparr>l_owner = u, l_mode = SIMULATION, l_status = PAUSED, l_held = dec_zero, l_target = q\<rparr>"
      "\<And>bid tm w. (\<And>r v. lives s bid (Some (life_of (bot bid tm) (pos bid))) v \<Longrightarrow> ?Q r v) \<Longrightarrow>
         lives s bid (Some (life_of (bot bid tm) (pos bid))) w \<Longrightarrow> wp (m bid) ?Q w"
      "\<And>bid tm. b_id (bot bid tm) = bid" for bot pos m t
    by (rule wp_calm_bnd [OF calm_prims(2) t], rule wp_calm_bnd [OF calm_prims(1)], assumption,
        rule insert, assumption) (use that same in auto)
  show ?thesis
    unfolding create_bot_def Let_def wp_bnd [of "lift _"] wp_lift
  proof (simp only: split: sum.split, intro conjI allI impI, goal_cases)
    case (4 re ae ve)
    show ?case
    proof (rule wp_calm_bnd [OF calm_reserve start], goal_cases)
      case (1 reservation t)
      show ?case
      proof (cases "ir_is_new reservation")
        case True
        show ?thesis
          unfolding if_granted [OF True]
          by (rule body [OF 1]) (simp, simp add: life_of_def, rule rest, assumption+, simp)
      qed (simp add: wp_ret same [OF 1])
    qed (rule same)
  qed (rule same [OF start])+
qed

lemma wp_run_refines: "bots_ok s \<Longrightarrow> wp (run_bot_op E quote u op) (\<lambda>r t. refines_life u op s t) s"
  by (cases op) (simp_all add: wp_create_refines wp_update_refines wp_pause_refines wp_resume_refines
      wp_stop_refines wp_delete_refines wp_activate_refines)

section \<open>Histories\<close>

text \<open>
  The states a system can reach from one without bots, by operations on bots of any users in any
  order; whatever else the program does between them leaves the two tables of bots alone.
\<close>

inductive reach :: "env \<Rightarrow> string \<Rightarrow> sys \<Rightarrow> bool" for E quote where
  start: "bots s = [] \<Longrightarrow> bot_positions s = [] \<Longrightarrow> reach E quote s"
| operate: "reach E quote s \<Longrightarrow> run_bot_op E quote u op s = (r, s') \<Longrightarrow> reach E quote s'"
| elsewhere: "reach E quote s \<Longrightarrow> bots s' = bots s \<Longrightarrow> bot_positions s' = bot_positions s \<Longrightarrow> reach E quote s'"

text \<open>A bot holds nothing while it is paused, and exactly its target while it is active.\<close>

definition life_ok :: "BotLife \<Rightarrow> bool" where
  "life_ok l \<longleftrightarrow> (l_status l \<in> {PAUSED, RESUMING} \<longrightarrow> l_held l = dec_zero) \<and>
     (l_status l \<in> {ACTIVE, PAUSING} \<longrightarrow> l_held l = l_target l)"

lemma life_step_ok:
  "life_step u c op bid l l' \<Longrightarrow> (\<And>x. l = Some x \<Longrightarrow> life_ok x) \<Longrightarrow> l' = Some y \<Longrightarrow> life_ok y"
  by (induction rule: life_step.induct) (auto simp: life_ok_def)

lemma life_step_live:
  "life_step u c op bid l l' \<Longrightarrow> l' = Some y \<Longrightarrow> l_mode y = LIVE \<Longrightarrow> \<exists>x. l = Some x \<and> l_owner x = l_owner y \<and>
     (l_mode x = LIVE \<or> (\<exists>key. op = ActivateLive bid key) \<and> l_owner x = u \<and> l_status x = PAUSED \<and> c)"
  by (induction rule: life_step.induct) auto

lemma reach_inv: "reach E quote s \<Longrightarrow> bots_ok s \<and> (\<forall>bid l. life s bid = Some l \<longrightarrow> life_ok l)"
proof (induction rule: reach.induct)
  case (start s)
  then show ?case by (simp add: bots_ok_def life_def)
next
  case (operate s u op r s')
  then have "refines_life u op s s'" using wpD [OF wp_run_refines] by blast
  then show ?case using operate.IH life_step_ok unfolding refines_life_def by metis
next
  case (elsewhere s s')
  then show ?case by (simp add: bots_ok_def life_def)
qed

section \<open>What is sent\<close>

text \<open>The write calls made since.\<close>

definition sent :: "sys \<Rightarrow> binance_call list \<Rightarrow> sys \<Rightarrow> bool" where
  "sent s ws t \<longleftrightarrow> (\<exists>cs. calls t = calls s @ cs \<and> filter is_write cs = ws)"

lemma sent_trans: "sent s a t \<Longrightarrow> sent t b u \<Longrightarrow> sent s (a @ b) u"
  by (auto simp: sent_def)

lemma no_write_sent: "no_write s t = sent s [] t"
  by (auto simp: no_write_def sent_def filter_empty_conv)

text \<open>\<open>prep\<close>: before the order, nothing is written to the exchange, and the reservations and the
  positions stay.\<close>

definition prep :: "sys \<Rightarrow> sys \<Rightarrow> bool" where
  "prep s t \<longleftrightarrow> no_write s t \<and> idempotency_keys t = idempotency_keys s \<and> bot_positions t = bot_positions s"

interpretation prep: frame prep
  by unfold_locales (auto simp: prep_def intro: no_write.refl no_write.trans)

lemma reads_prep: "keeps reads m \<Longrightarrow> keeps prep m"
  by (rule keeps_weaken [of reads]) (auto simp: prep_def reads_no_write reads_fields)

lemma prep_set_status: "keeps prep (set_status E bid st)"
  by (auto simp: keeps_wp_iff set_status_def upd_bot_def put_bot_def wp_simps wp_the_bot prep_def no_write_def
      split: option.split)

lemma prep_the_position: "keeps prep (the_position bid a)"
  unfolding the_position_def by (intro prep.bnd prep.gets prep.case_opt prep.raise prep.ret)

lemma prep_check: "keeps prep (check_sufficient_real_balance E quote inst q)"
proof -
  have data: "keeps prep (call_binance E (GetMarketData inst))" by (intro reads_prep reads_call) simp
  show ?thesis
    unfolding check_sufficient_real_balance_def
    by (intro prep.bnd prep.case_sum prep.case_pair prep.ret prep.lift prep.try_binance data reads_prep [OF reads_balances])
qed

lemma prep_no_write: "keeps prep m \<Longrightarrow> keeps no_write m"
  by (rule keeps_weaken [of prep]) (auto simp: prep_def)

lemma no_write_bot_prims:
  "keeps no_write (the_bot bid)" "keeps no_write (bot_json bid)" "keeps no_write (bot_audit u a res d bid)"
  "keeps no_write (add_audit e)" "keeps no_write (upd_position bid f)" "keeps no_write (upd_bot E bid g)"
  "keeps no_write (add_bot b)" "keeps no_write (add_position pos)" "keeps no_write (add_account acc)"
  "keeps no_write (modify (remove_bot bid))"
  by (auto simp: keeps_wp_iff bot_json_def bot_audit_def upd_bot_def put_bot_def upd_position_def wp_simps wp_the_bot
      wp_add_bot wp_add_position add_account_def wp_def [of "add_account acc"] remove_bot_def Let_def no_write_def
      split: option.split)

lemma no_write_link: "keeps no_write (link_order E u key bid)"
  unfolding link_order_def
  by (intro no_write.bnd no_write.gets no_write.case_opt no_write.seq no_write.ret only_order_prims)

lemma no_write_reconcile_once: "keeps no_write (reconcile_once E oid)"
  unfolding reconcile_once_def
  by (intro no_write.bnd no_write.case_sum no_write.seq no_write.cond no_write.ret no_write.try_binance no_write.lift
      no_write.case_pair only_order_prims no_write_reconcile no_write_call) simp

lemmas no_write_intros = no_write.bnd no_write.seq no_write.ret no_write.raise no_write.lift no_write.gets no_write.cond
  no_write.case_opt no_write.case_sum no_write.case_pair no_write.let_in no_write_bot_prims only_order_prims
  sim_prims_no_write no_write_link no_write_reconcile_once prep_set_status [THEN prep_no_write]
  prep_the_position [THEN prep_no_write]

lemma no_write_missing: "keeps no_write (bot_missing rid u a bid)"
  unfolding bot_missing_def by (intro no_write_intros)

lemma no_write_refused: "keeps no_write (bot_refused rid u a bid reason)"
  unfolding bot_refused_def by (intro no_write_intros)

lemma no_write_after:
  "keeps no_write (transition_refused E rid u bid cfg reason d)"
  "keeps no_write (transition_failed E rid u bid cfg is_sim key exc)"
  "keeps no_write (transition_outcome E u bid is_sim key res)"
  "keeps no_write (transition_filled E rid u bid cfg is_sim ord shown)"
  "keeps no_write (transition_unresolved E rid u bid cfg res)"
  unfolding transition_refused_def transition_failed_def transition_outcome_def transition_filled_def transition_unresolved_def
  by (intro no_write_intros)+

lemma no_write_with_bot:
  "(\<And>rid b. keeps no_write (act rid b)) \<Longrightarrow> keeps no_write (with_bot E u bid ep key payload action act)"
  unfolding with_bot_def by (intro no_write_intros no_write_missing)

lemma no_write_ops:
  "keeps no_write (create_bot E u name rp ac ev inst q key sm sc)"
  "keeps no_write (update_bot E u bid key nm qq sm sc)"
  "keeps no_write (stop E u bid key)" "keeps no_write (delete_bot E u bid key)" "keeps no_write (activate_live E u bid key)"
  unfolding create_bot_def update_bot_def stop_def delete_bot_def activate_live_def set_status_def
  by (intro no_write_with_bot no_write_intros no_write_refused)+

text \<open>The one order a transition of a live bot may send.\<close>

definition bot_order_call :: "env \<Rightarrow> uuid \<Rightarrow> TransitionConfig \<Rightarrow> uuid \<Rightarrow> string \<Rightarrow> BotPosition \<Rightarrow> binance_call" where
  "bot_order_call E u cfg bid key p = CreateOrder (upper (bp_instrument p)) (tc_side cfg) ''MARKET''
     (dec_str (if tc_op cfg = ''pause'' then bp_current_quantity p else bp_target_quantity p)) None
     (derive_binance_client_order_id E u create_endpoint (''bot-'' @ tc_op cfg @ '':'' @ str_uuid bid @ '':'' @ key))"

definition at_most_order :: "bool \<Rightarrow> binance_call \<Rightarrow> sys \<Rightarrow> sys \<Rightarrow> bool" where
  "at_most_order b c s t \<longleftrightarrow> sent s [] t \<or> b \<and> sent s [c] t"

lemma at_most_after: "at_most_order b c s t \<Longrightarrow> no_write t v \<Longrightarrow> at_most_order b c s v"
  using sent_trans [of s _ t "[]" v] by (auto simp: at_most_order_def no_write_sent)

lemma at_most_before: "no_write s t \<Longrightarrow> at_most_order b c t v \<Longrightarrow> at_most_order b c s v"
  using sent_trans [of s "[]" t _ v] by (auto simp: at_most_order_def no_write_sent)

lemma wp_at_most_rest:
  "at_most_order b c s t \<Longrightarrow> keeps no_write m \<Longrightarrow> wp m (\<lambda>r v. at_most_order b c s v) t"
  by (rule wp_mono [OF keeps_wp [of no_write]]) (auto intro: at_most_after)

lemma wp_bot_order:
  assumes "keys_ok s"
  shows "wp (bot_order E quote u bid is_sim side inst q key) (\<lambda>r t. at_most_order (\<not> is_sim)
     (CreateOrder (upper inst) side ''MARKET'' (dec_str q) None (derive_binance_client_order_id E u create_endpoint key)) s t) s"
proof (cases is_sim)
  case True
  then show ?thesis
    using wp_mono [OF keeps_wp [OF place_bot_order_no_write]]
    by (simp add: bot_order_def at_most_order_def no_write_sent)
next
  case False
  have "keys_ok (s\<lparr>ticks := n\<rparr>)" for n using assms by (simp add: keys_ok_def)
  from wp_create_order_sends [OF this] show ?thesis
    by (simp add: bot_order_def False make_order_service_def wp_simps at_most_order_def sent_def)
      (rule wp_mono, assumption, auto simp: order_sent_def)
qed

lemma wp_execute_sends:
  assumes "keys_ok s"
  shows "wp (transition_execute E quote rid u bid cfg is_sim pos q key) (\<lambda>r t. at_most_order (\<not> is_sim)
     (CreateOrder (upper (bp_instrument pos)) (tc_side cfg) ''MARKET'' (dec_str q) None
       (derive_binance_client_order_id E u create_endpoint key)) s t) s"
proof -
  have rest: "keeps no_write (case r of Inl (TradingDisabledErr m) \<Rightarrow>
         transition_refused E rid u bid cfg (JStr ''Trading is disabled.'') (Some disabled_detail)
     | Inl exc \<Rightarrow> transition_failed E rid u bid cfg is_sim key exc
     | Inr res \<Rightarrow>
         bnd (transition_outcome E u bid is_sim key res) (\<lambda>(outcome, order, shown).
         if outcome = JStr ''REJECTED'' then
           bnd (lift (jget ''reason'' res)) (\<lambda>reason.
           transition_refused E rid u bid cfg reason (reason_text reason))
         else if outcome = JStr ''FILLED'' then
           transition_filled E rid u bid cfg is_sim order shown
         else transition_unresolved E rid u bid cfg res))" for r
    by (cases r) (auto split: exn.split intro!: no_write_after no_write.bnd no_write.lift no_write.case_pair)
  show ?thesis
    unfolding transition_execute_def
  proof (rule wp_bndI [where P = "\<lambda>r t. at_most_order (\<not> is_sim)
     (CreateOrder (upper (bp_instrument pos)) (tc_side cfg) ''MARKET'' (dec_str q) None
       (derive_binance_client_order_id E u create_endpoint key)) s t"], goal_cases)
    case 1
    show ?case using wp_bot_order [OF assms] by (simp add: wp_try_any)
  next
    case (2 x t)
    show ?case by (rule wp_at_most_rest [OF 2 rest])
  qed
qed

lemma wp_the_position:
  "wp (the_position bid a) (\<lambda>r t. t = s \<and> (\<forall>p. r = Inr p \<longrightarrow> position_of s bid = Some p)) s"
  by (simp add: the_position_def wp_simps split: option.split)

text \<open>The bot whose transition may trade.\<close>

definition may_trade :: "sys \<Rightarrow> uuid \<Rightarrow> TransitionConfig \<Rightarrow> uuid \<Rightarrow> BotPosition \<Rightarrow> bool" where
  "may_trade s u cfg bid p \<longleftrightarrow> position_of s bid = Some p \<and> (\<exists>b \<in> set (bots s). b_id b = bid \<and> b_user_id b = u \<and>
     b_execution_mode b = LIVE \<and> b_status b = tc_from_status cfg)"

definition trades :: "env \<Rightarrow> uuid \<Rightarrow> TransitionConfig \<Rightarrow> uuid \<Rightarrow> string \<Rightarrow> sys \<Rightarrow> sys \<Rightarrow> bool" where
  "trades E u cfg bid key s t \<longleftrightarrow> sent s [] t \<or>
     (\<exists>p. may_trade s u cfg bid p \<and> sent s [bot_order_call E u cfg bid key p] t)"

lemma wp_transition_sends:
  assumes "keys_ok s"
  shows "wp (transition E quote u bid key cfg) (\<lambda>r t. trades E u cfg bid key s t) s"
proof -
  have quiet: "wp m (\<lambda>r t. trades E u cfg bid key s t) t" if "no_write s t" "keeps no_write m" for m :: "json M" and t
    by (rule wp_mono [OF keeps_wp [OF that(2)]])
      (use no_write.trans [OF that(1)] in \<open>auto simp: trades_def no_write_sent\<close>)
  have stop: "trades E u cfg bid key s t" if "no_write s t" for t
    using that by (simp add: trades_def no_write_sent)
  show ?thesis
    unfolding transition_def with_bot_def
  proof (rule wp_bndI [OF wp_conj [OF wp_reserve [OF assms] keeps_wp [OF calm_reserve]]], goal_cases)
    case (1 x s1)
    have eq: "s1 = s\<lparr>uuids := uuids s1, idempotency_keys := idempotency_keys s1\<rparr>" using 1 by auto
    have "calls s1 = calls s" by (subst eq) simp
    then have s1: "keys_ok s1" "no_write s s1" "bots s1 = bots s" "bot_positions s1 = bot_positions s"
      using 1 by (auto simp: calm_def no_write_def)
    have act: "wp (seq (set_status E bid (tc_in_progress_status cfg)) (bnd (the_position bid a) (\<lambda>position.
        bnd (if c then check_sufficient_real_balance E (upper quote) (bp_instrument position) (qty position) else ret None)
          (\<lambda>insufficient. case insufficient of
             Some reason \<Rightarrow> transition_refused E rid u bid cfg (JStr reason) (Some reason)
           | None \<Rightarrow> transition_execute E quote rid u bid cfg (b_execution_mode b = SIMULATION) position (qty position)
               (''bot-'' @ tc_op cfg @ '':'' @ str_uuid bid @ '':'' @ key))))) (\<lambda>r t. trades E u cfg bid key s t) s1"
      if b: "load_bot_for_update u bid s1 = Some b" "b_status b = tc_from_status cfg"
        and qty: "qty = (\<lambda>p. if tc_op cfg = ''pause'' then bp_current_quantity p else bp_target_quantity p)"
      for a c qty rid b
      unfolding seq_def [of "set_status _ _ _"]
    proof (rule wp_bndI [OF keeps_wp [OF prep_set_status]], goal_cases)
      case (1 y s2)
      show ?case
      proof (rule wp_bndI [OF wp_the_position], goal_cases)
        case (1 pos s3)
        then have pos: "position_of s bid = Some pos" "s3 = s2" using \<open>prep s1 s2\<close> s1 by (auto simp: prep_def)
        show ?case
        proof (rule wp_bndI [OF keeps_wp [OF prep.cond [OF prep_check prep.ret]]], goal_cases)
          case (1 insufficient s4)
          then have s4: "prep s1 s4" using \<open>prep s1 s2\<close> pos(2) prep.trans by blast
          then have ready: "keys_ok s4" "no_write s s4"
            using s1 no_write.trans by (auto simp: prep_def keys_ok_def)
          show ?case
          proof (cases insufficient)
            case (Some reason)
            then show ?thesis using quiet [OF ready(2) no_write_after(1)] by simp
          next
            case None
            have tr: "trades E u cfg bid key s t"
              if "at_most_order (\<not> b_execution_mode b = SIMULATION) (bot_order_call E u cfg bid key pos) s4 t" for t
            proof -
              have "b \<in> set (bots s)" "b_id b = bid" "b_user_id b = u"
                using b(1) s1(3) by (auto simp: load_bot_for_update_def find_Some_iff)
              then show ?thesis
                using at_most_before [OF ready(2) that] b(2) pos(1)
                by (cases "b_execution_mode b") (auto simp: at_most_order_def trades_def may_trade_def)
            qed
            show ?thesis
              unfolding None option.case
              by (rule wp_mono [OF wp_execute_sends [OF ready(1)]], rule tr) (simp add: bot_order_call_def qty)
          qed
        qed (use \<open>prep s1 s2\<close> pos(2) s1(2) in \<open>auto simp: prep_def intro!: stop intro: no_write.trans\<close>)
      qed (use 1 s1(2) in \<open>auto simp: prep_def intro!: stop intro: no_write.trans\<close>)
    qed (use s1(2) in \<open>auto simp: prep_def intro!: stop intro: no_write.trans\<close>)
    show ?case
    proof (cases "ir_is_new x")
      case True
      show ?thesis
        unfolding if_granted [OF True] wp_bnd [of "gets _"] wp_gets sum.case
      proof (cases "load_bot_for_update u bid s1", goal_cases)
        case 1
        then show ?case using quiet [OF s1(2) no_write_missing] by simp
      next
        case (2 b)
        show ?case
          unfolding 2 option.case transition_body_def Let_def
        proof (cases "b_status b \<noteq> tc_from_status cfg", goal_cases)
          case 1
          then show ?case using quiet [OF s1(2) no_write_refused] by simp
        next
          case no: 2
          show ?case
            unfolding if_not_P [OF no] by (rule act [OF 2 _ refl]) (use no in simp)
        qed
      qed
    qed (simp add: wp_ret stop [OF s1(2)])
  next
    case (2 e s1)
    then have "s1 = s\<lparr>uuids := uuids s1, idempotency_keys := idempotency_keys s1\<rparr>" by auto
    then have "calls s1 = calls s" by (rule ssubst) simp
    then show ?case by (simp add: stop no_write_def)
  qed
qed

section \<open>A bot that is stranded\<close>

lemma life_step_transient:
  "life_step u c op bid l l' \<Longrightarrow> l = Some x \<Longrightarrow> l_status x \<in> {PAUSING, RESUMING} \<Longrightarrow> False"
  by (induction rule: life_step.induct) auto

lemma wp_check_malformed:
  assumes "\<And>h. client E h GetBalances = Inr (JList [])" and "\<And>h. client E h (GetMarketData inst) = Inr (JObj [])"
  shows "wp (check_sufficient_real_balance E quote inst q) (\<lambda>r t. (\<exists>e. r = Inl e) \<and> calm s t) s"
  using assms
  by (simp add: check_sufficient_real_balance_def get_balances_call_def wp_simps jlist_def balance_map_def jget_def calm_def)

section \<open>Properties\<close>

definition demo_bots :: sys where
  "demo_bots = idle\<lparr>
     bots := [\<lparr>b_id = 5, b_user_id = 7, b_name = ''b'', b_risk_profile = SENTINEL, b_asset_class = CRYPTO,
       b_execution_venue = BINANCE, b_execution_mode = LIVE, b_instrument = ''BTCUSDT'', b_strategy_model = None,
       b_strategy_config = None, b_status = PAUSED, b_created_at = 0, b_updated_at = 0\<rparr>],
     bot_positions := [\<lparr>bp_bot_id = 5, bp_instrument = ''BTCUSDT'', bp_current_quantity = dec_zero,
       bp_target_quantity = Fin False 2 0, bp_last_close_order_id = None, bp_last_open_order_id = None,
       bp_paused_at = None\<rparr>]\<rparr>"

definition demo_life :: BotLife where
  "demo_life = \<lparr>l_owner = 7, l_mode = LIVE, l_status = PAUSED, l_held = dec_zero, l_target = Fin False 2 0\<rparr>"

lemma demo_bots_simps [simp]:
  "bots_ok demo_bots" "life demo_bots 5 = Some demo_life" "keys_ok demo_bots" "free_slot demo_env demo_bots k"
  "calls demo_bots = []" "l_status demo_life = PAUSED" "l_owner demo_life = 7" "l_mode demo_life = LIVE"
  by (simp_all add: demo_bots_def bots_ok_def unique_key_def idle_def life_def life_of_def demo_life_def keys_ok_def free_slot_def
      slot_of_Free)

lemma demo_slot: "free_slot (demo_env\<lparr>client := cl\<rparr>) demo_bots k"
  using demo_bots_simps(4) [of k] by (simp add: free_slot_def)

text \<open>
  C7: The service refines the lifecycle.  Whatever operation a user makes, and however it ends, every
  bot's life (owner, mode, status, quantities) is as before or took one step the specification
  \<open>life_step\<close> allows this user and this operation on this bot; the tables stay well-formed.
\<close>
theorem bot_lifecycle:
  assumes "bots_ok s"
  shows "wp (run_bot_op E quote u op) (\<lambda>r t. bots_ok t \<and> (\<forall>bid. life t bid = life s bid \<or>
     life_step u (has_credentials u s) op bid (life s bid) (life t bid))) s"
  using wp_run_refines [OF assms, of E quote u op] by (simp add: refines_life_def)

lemma bot_lifecycle_witness:
  "wp (run_bot_op demo_env ''usdt'' 7 (Resume 5 ''k'')) (\<lambda>r t. bots_ok t) demo_bots"
  by (rule wp_mono [OF bot_lifecycle]) simp_all

text \<open>
  C8: The book of record is consistent in every reachable state: a bot that is paused or resuming holds
  nothing, one that is active or pausing holds exactly its target.
\<close>
theorem bot_book_consistent:
  assumes "reach E quote s" and "life s bid = Some l"
  shows "(l_status l \<in> {PAUSED, RESUMING} \<longrightarrow> l_held l = dec_zero) \<and>
     (l_status l \<in> {ACTIVE, PAUSING} \<longrightarrow> l_held l = l_target l)"
  using reach_inv [OF assms(1)] assms(2) by (auto simp: life_ok_def)

lemma bot_book_consistent_witness:
  "pred_option (\<lambda>l. l_status l = PAUSED \<longrightarrow> l_held l = dec_zero)
     (life (snd (run_bot_op demo_env ''usdt'' 7 (CreateBot ''b'' ''SENTINEL'' ''CRYPTO'' ''BINANCE''
       ''btcusdt'' (Fin False 2 0) ''k'' None None) idle)) 2)" (is "pred_option ?P (life ?t 2)")
proof -
  have "reach demo_env ''usdt'' idle" by (rule reach.start) (simp_all add: idle_def)
  then have "reach demo_env ''usdt'' ?t" by (rule reach.operate) (rule prod.collapse [symmetric])
  note consistent = bot_book_consistent [OF this]
  show ?thesis by (cases "life ?t 2") (auto simp del: run_bot_op.simps dest: consistent)
qed





text \<open>
  C12: What a bot trades.  An operation on bots makes at most one write call, and only a pause or a resume
  of a LIVE bot of this user in the status it starts from does: a MARKET order for the bot's own
  instrument, selling all it holds or buying its target, under the id derived from the request's key.
  A SIMULATION bot never reaches the exchange.
\<close>
theorem bot_trades_only_its_own:
  assumes "keys_ok s"
  shows "wp (run_bot_op E quote u op) (\<lambda>r t. \<exists>cs. calls t = calls s @ cs \<and> (filter is_write cs = [] \<or>
     (\<exists>bid key cfg p b. (op, cfg) \<in> {(Pause bid key, pause_config), (Resume bid key, resume_config)} \<and>
        b \<in> set (bots s) \<and> b_id b = bid \<and> b_user_id b = u \<and> b_execution_mode b = LIVE \<and>
        b_status b = tc_from_status cfg \<and> position_of s bid = Some p \<and>
        filter is_write cs = [CreateOrder (upper (bp_instrument p)) (tc_side cfg) ''MARKET''
          (dec_str (if tc_op cfg = ''pause'' then bp_current_quantity p else bp_target_quantity p)) None
          (derive_binance_client_order_id E u create_endpoint
             (''bot-'' @ tc_op cfg @ '':'' @ str_uuid bid @ '':'' @ key))]))) s"
    (is "wp _ ?Q s")
proof -
  have quiet: ?thesis if "keeps no_write (run_bot_op E quote u op)"
    by (rule wp_mono [OF keeps_wp [OF that]]) (auto simp: no_write_sent sent_def)
  have moved: "wp (transition E quote u bid key cfg) ?Q s"
    if "(op, cfg) \<in> {(Pause bid key, pause_config), (Resume bid key, resume_config)}" for bid key cfg
    by (rule wp_mono [OF wp_transition_sends [OF assms]])
      (use that in \<open>simp only: trades_def may_trade_def sent_def bot_order_call_def, blast\<close>)
  show ?thesis
  proof (cases op)
    case op: (Pause bid key)
    show ?thesis unfolding op run_bot_op.simps pause_def by (rule moved [unfolded op]) simp
  next
    case op: (Resume bid key)
    show ?thesis unfolding op run_bot_op.simps resume_def by (rule moved [unfolded op]) simp
  qed (rule quiet, simp add: no_write_ops)+
qed

lemma bot_trades_only_its_own_witness:
  "wp (run_bot_op demo_env ''usdt'' 7 (Stop 5 ''k'')) (\<lambda>r t. filter is_write (calls t) = []) demo_bots"
  by (rule wp_mono [OF bot_trades_only_its_own]) auto

text \<open>
  No operation leads out of an intermediate status: a bot that is PAUSING or RESUMING stays exactly
  as it is, whoever does what.
\<close>
theorem intermediate_status_is_final:
  assumes "bots_ok s" and "life s bid = Some l" and "l_status l \<in> {PAUSING, RESUMING}"
  shows "wp (run_bot_op E quote u op) (\<lambda>r t. life t bid = Some l) s"
proof (rule wp_mono [OF wp_run_refines [OF assms(1)]])
  fix r t assume "refines_life u op s t"
  then have "life t bid = life s bid \<or> life_step u (has_credentials u s) op bid (life s bid) (life t bid)"
    unfolding refines_life_def by blast
  then show "life t bid = Some l" using life_step_transient [OF _ assms(2,3)] unfolding assms(2) by blast
qed

lemma intermediate_status_is_final_witness:
  "wp (run_bot_op demo_env ''usdt'' 7 (Stop 5 ''k''))
     (\<lambda>r t. life t 5 = Some (demo_life\<lparr>l_status := PAUSING\<rparr>))
     (demo_bots\<lparr>bots := map (\<lambda>b. b\<lparr>b_status := PAUSING\<rparr>) (bots demo_bots)\<rparr>)"
  by (rule intermediate_status_is_final)
    (simp_all add: demo_bots_def bots_ok_def unique_key_def life_def life_of_def demo_life_def)

text \<open>
  And a bot can be left there: when the exchange answers the balance check of a live resume with a
  ticker without a price, the exception leaves the bot RESUMING.
\<close>
theorem resume_can_strand:
  assumes "bots_ok s" and "free_slot E s (u, ''POST /bots/'' @ str_uuid bid @ ''/resume'', key)"
    and "life s bid = Some l" and "l_owner l = u" and "l_status l = PAUSED" and "l_mode l = LIVE"
    and "\<And>h. client E h GetBalances = Inr (JList [])" and "\<And>h inst. client E h (GetMarketData inst) = Inr (JObj [])"
  shows "wp (resume E quote u bid key) (\<lambda>r t. (\<exists>e. r = Inl e) \<and> life t bid = Some (l\<lparr>l_status := RESUMING\<rparr>)) s"
proof -
  have slot: "free_slot E s (u, ''POST /bots/'' @ str_uuid bid @ ''/'' @ tc_op resume_config, key)"
    using assms(2) by (simp add: resume_config_def)
  have cfg: "tc_side resume_config = ''BUY''" "tc_op resume_config \<noteq> ''pause''" by (simp_all add: resume_config_def)
  show ?thesis
    unfolding resume_def transition_def
  proof (rule wp_granted_with_bot [OF assms(1) slot assms(3,4)], goal_cases)
    case (1 rid b p t)
    have status: "\<not> b_status b \<noteq> tc_from_status resume_config" and live: "b_execution_mode b = LIVE"
      using 1(1) assms(5,6) by simp_all
    show ?case
      unfolding if_not_P [OF status] transition_body_def Let_def
    proof (rule wp_set_status [OF 1(3)])
      fix w assume w: "lives s bid (Some (l\<lparr>l_status := tc_in_progress_status resume_config\<rparr>)) w"
      obtain p' where pos: "position_of w bid = Some p'" using w by (rule lives_obtain)
      have stuck: "life v bid = Some (l\<lparr>l_status := RESUMING\<rparr>)" if "calm w v" for v
        using w calm_same(5) [OF that] by (simp add: lives_def)
      show "wp (bnd (the_position bid (if tc_op resume_config = ''pause'' then ''current_quantity'' else ''target_quantity''))
         (\<lambda>position. bnd (if tc_side resume_config = ''BUY'' \<and> b_execution_mode b \<noteq> SIMULATION
            then check_sufficient_real_balance E (upper quote) (bp_instrument position)
              (if tc_op resume_config = ''pause'' then bp_current_quantity position else bp_target_quantity position)
            else ret None) (\<lambda>insufficient. f insufficient position)))
         (\<lambda>r t. (\<exists>e. r = Inl e) \<and> life t bid = Some (l\<lparr>l_status := RESUMING\<rparr>)) w" for f
        by (simp add: wp_bnd the_position_def wp_ret wp_gets pos cfg live)
          (rule wp_mono [OF wp_check_malformed [OF assms(7,8)]], auto simp: stuck)
    qed
  qed
qed

lemma resume_can_strand_witness:
  "wp (resume (demo_env\<lparr>client := \<lambda>h c. case c of GetBalances \<Rightarrow> Inr (JList []) | _ \<Rightarrow> Inr (JObj [])\<rparr>) ''usdt'' 7 5 ''k'')
     (\<lambda>r t. life t 5 = Some (demo_life\<lparr>l_status := RESUMING\<rparr>)) demo_bots"
  by (rule wp_mono [OF resume_can_strand [where l = demo_life]]) (simp_all add: demo_slot)

end
