(* ===== verification/Http.thy ===== *)
theory Http
  imports World
begin

text \<open>
  The HTTP side of the program: requests, the exception FastAPI turns into an error response, and the
  two guards that look at the request only, the rate limit of an endpoint (\<open>auth/rate_limiting.py\<close>)
  and the trusted origin (\<open>trading/origin_check.py\<close>, \<open>config.py\<close>).
\<close>

section \<open>Requests and errors\<close>

text \<open>Header names are looked up in lower case; the client is the direct peer of the connection.\<close>

record Request =
  rq_headers :: "string \<Rightarrow> string option"
  rq_cookies :: "string \<Rightarrow> string option"
  rq_query :: "string \<Rightarrow> string option"
  rq_client_host :: "string option"

text \<open>An \<open>HTTPException\<close> (status, detail and headers), or an exception no handler maps, a plain 500.\<close>

datatype http_exn =
    HTTPException int json "(string \<times> string) list"
  | Unhandled exn

type_synonym 'a H = "(http_exn, 'a) EM"

definition http_error :: "int \<Rightarrow> string \<Rightarrow> http_exn" where
  "http_error status detail = HTTPException status (JStr detail) []"

fun http_status :: "http_exn \<Rightarrow> int" where
  "http_status (HTTPException status detail headers) = status"
| "http_status (Unhandled e) = 500"

text \<open>A service operation inside a handler: its exceptions pass through, or go to a handler of their own.\<close>

definition run_service :: "(exn \<Rightarrow> http_exn) \<Rightarrow> 'a M \<Rightarrow> 'a H" where
  "run_service f m s = (case m s of (Inl e, t) \<Rightarrow> (Inl (f e), t) | (Inr x, t) \<Rightarrow> (Inr x, t))"

lemma wp_run_service [wp_simps]:
  "wp (run_service f m) Q s = wp m (\<lambda>r t. case r of Inl e \<Rightarrow> Q (Inl (f e)) t | Inr x \<Rightarrow> Q (Inr x) t) s"
  by (simp add: wp_def run_service_def split: prod.split sum.split)

text \<open>A service operation whose exception the handler looks at.\<close>

definition attempt :: "'a M \<Rightarrow> 'a result H" where
  "attempt m s = (case m s of (r, t) \<Rightarrow> (Inr r, t))"

lemma wp_attempt [wp_simps]: "wp (attempt m) Q s = wp m (\<lambda>r. Q (Inr r)) s"
  by (simp add: wp_def attempt_def split: prod.split)

text \<open>\<open>urllib.parse.urlencode\<close> of ASCII text.\<close>

definition hex_upper :: "nat \<Rightarrow> char" where
  "hex_upper d = upper_char (hex_char d)"

definition quote_plus_char :: "char \<Rightarrow> string" where
  "quote_plus_char c = (let n = (of_char c :: nat) in
     if 48 \<le> n \<and> n \<le> 57 \<or> 65 \<le> n \<and> n \<le> 90 \<or> 97 \<le> n \<and> n \<le> 122 \<or> c \<in> set ''_.-~'' then [c]
     else if c = CHR '' '' then ''+''
     else [CHR ''%'', hex_upper (n div 16), hex_upper (n mod 16)])"

definition quote_plus :: "string \<Rightarrow> string" where
  "quote_plus t = concat (map quote_plus_char t)"

definition urlencode :: "(string \<times> string) list \<Rightarrow> string" where
  "urlencode params = join ''&'' (map (\<lambda>(k, v). quote_plus k @ ''='' @ quote_plus v) params)"

section \<open>Transactions\<close>

text \<open>
  \<open>session.rollback()\<close> restores the tables; what the process keeps in memory, the calls already made and the
  clocks are not undone.  A \<open>transaction\<close> is \<open>with session.begin()\<close>.
\<close>

definition rolled_back :: "sys \<Rightarrow> sys \<Rightarrow> sys" where
  "rolled_back s t = s\<lparr>info_cache := info_cache t, calls := calls t, ticks := ticks t, uuids := uuids t,
     oauth_states := oauth_states t, limiters := limiters t\<rparr>"

lemma rolled_back_twice [simp]: "rolled_back s (rolled_back s' t) = rolled_back s t"
  by (simp add: rolled_back_def)

definition transaction :: "('e, 'a) EM \<Rightarrow> ('e, 'a) EM" where
  "transaction m s = (case m s of (Inl e, t) \<Rightarrow> (Inl e, rolled_back s t) | (Inr x, t) \<Rightarrow> (Inr x, t))"

lemma wp_transaction [wp_simps]:
  "wp (transaction m) Q s = wp m (\<lambda>r t. case r of Inl e \<Rightarrow> Q (Inl e) (rolled_back s t) | Inr x \<Rightarrow> Q (Inr x) t) s"
  by (simp add: wp_def transaction_def split: prod.split sum.split)

section \<open>Configuration lists\<close>

text \<open>\<open>[entry.strip() for entry in raw.split(",") if entry.strip()]\<close>.\<close>

definition comma_list :: "string \<Rightarrow> string list" where
  "comma_list raw = filter (\<lambda>e. e \<noteq> []) (map strip (split_on (CHR '','') raw))"

definition env_or :: "env \<Rightarrow> string \<Rightarrow> string \<Rightarrow> string" where
  "env_or E name dflt = (case getenv E name of None \<Rightarrow> dflt | Some v \<Rightarrow> v)"

definition configured_allowed_origins :: "env \<Rightarrow> string list" where
  "configured_allowed_origins E = comma_list (env_or E ''HERMES_ALLOWED_ORIGINS'' '''')"

section \<open>The guards\<close>

definition require_trusted_origin :: "env \<Rightarrow> Request \<Rightarrow> unit H" where
  "require_trusted_origin E rq = (case rq_headers rq ''origin'' of
      None \<Rightarrow> raise (http_error 403 ''Untrusted request origin.'')
    | Some origin \<Rightarrow>
        if origin = [] \<or> origin \<notin> set (configured_allowed_origins E)
        then raise (http_error 403 ''Untrusted request origin.'') else ret ())"

definition trust_proxy_headers :: "env \<Rightarrow> bool" where
  "trust_proxy_headers E \<longleftrightarrow>
     lower (strip (env_or E ''HERMES_TRUST_PROXY_HEADERS'' ''false'')) \<in> set [''1'', ''true'', ''yes'', ''on'']"

definition first_hop :: "Request \<Rightarrow> string" where
  "first_hop rq = (case rq_headers rq ''x-forwarded-for'' of
      None \<Rightarrow> []
    | Some forwarded_for \<Rightarrow> strip (hd (split_on (CHR '','') forwarded_for)))"

definition client_identifier :: "env \<Rightarrow> Request \<Rightarrow> string" where
  "client_identifier E rq =
     (if trust_proxy_headers E \<and> first_hop rq \<noteq> [] then first_hop rq
      else (case rq_client_host rq of None \<Rightarrow> ''unknown'' | Some host \<Rightarrow> host))"

definition rate_limit_key :: "env \<Rightarrow> string \<Rightarrow> Request \<Rightarrow> string" where
  "rate_limit_key E scope rq = scope @ '':'' @ client_identifier E rq"

definition rate_limit :: "env \<Rightarrow> limiter_name \<Rightarrow> string \<Rightarrow> Request \<Rightarrow> unit H" where
  "rate_limit E name scope rq =
     bnd (now_monotonic E) (\<lambda>now s.
       case check_hit (limiters s name) (rate_limit_key E scope rq) now of
         ((allowed, retry_after), L) \<Rightarrow>
           (if allowed then Inr ()
            else Inl (HTTPException 429 (JStr ''Too many requests. Please try again later.'')
              [(''Retry-After'', show_int (retry_after_seconds retry_after))]),
            s\<lparr>limiters := (limiters s)(name := L)\<rparr>))"

lemma wp_require_trusted_origin:
  "wp (require_trusted_origin E rq) Q s =
     (if \<exists>origin. rq_headers rq ''origin'' = Some origin \<and> origin \<noteq> [] \<and> origin \<in> set (configured_allowed_origins E)
      then Q (Inr ()) s else Q (Inl (http_error 403 ''Untrusted request origin.'')) s)"
  by (auto simp: require_trusted_origin_def wp_simps split: option.split)

text \<open>The header cannot move a client out of its bucket unless the deployment trusts its proxy.\<close>

lemma client_identifier_untrusted:
  "\<not> trust_proxy_headers E \<Longrightarrow> client_identifier E rq = client_identifier E (rq\<lparr>rq_headers := h\<rparr>)"
  by (simp add: client_identifier_def)

end
