(* ===== verification/AuthSessions.thy ===== *)
theory AuthSessions
  imports Http Json
begin

text \<open>
  Who the caller is and what they may do: the sessions of \<open>auth/session.py\<close>, the permission guard of
  \<open>auth/authorization.py\<close>, the resolution of Google identities of \<open>auth/service.py\<close>, and the seed and
  bootstrap of the administrator (\<open>auth/seed.py\<close>, \<open>auth/bootstrap.py\<close>).
\<close>

section \<open>Configuration of the session cookie\<close>

definition session_cookie_name :: string where
  "session_cookie_name = ''hermes_session''"

definition is_cookie_secure :: "env \<Rightarrow> bool" where
  "is_cookie_secure E \<longleftrightarrow> lower (strip (env_or E ''HERMES_COOKIE_SECURE'' ''false'')) \<notin>
     set ['''', ''0'', ''false'', ''no'', ''off'']"

definition cookie_samesite :: "env \<Rightarrow> string result" where
  "cookie_samesite E =
     (let v = lower (strip (env_or E ''HERMES_COOKIE_SAMESITE'' ''lax'')) in
      if v \<in> set [''lax'', ''strict'', ''none''] then Inr v
      else Inl (ValueErr ''HERMES_COOKIE_SAMESITE must be one of: lax, none, strict''))"

text \<open>In microseconds; the variable is a number of seconds that a \<open>timedelta\<close> can hold.\<close>

definition session_ttl :: "env \<Rightarrow> int result" where
  "session_ttl E = (case int_of_str (env_or E ''HERMES_SESSION_TTL_SECONDS'' ''86400'') of
      Inl e \<Rightarrow> Inl (ValueErr ''HERMES_SESSION_TTL_SECONDS must be an integer'')
    | Inr seconds \<Rightarrow> Inr (max 1 seconds * us_per_second))"

section \<open>Users, roles and permissions\<close>

text \<open>An insertion fails on a primary key that is taken.\<close>

definition duplicate_key :: exn where
  "duplicate_key = IntegrityErr ''duplicate key value violates unique constraint''"

definition add_session :: "SessionRow \<Rightarrow> unit M" where
  "add_session row s = (if se_id row \<in> se_id ` set (sessions s) then (Inl duplicate_key, s)
     else (Inr (), s\<lparr>sessions := sessions s @ [row]\<rparr>))"

definition add_identity :: "Identity \<Rightarrow> unit M" where
  "add_identity row s = (if iy_id row \<in> iy_id ` set (identities s) then (Inl duplicate_key, s)
     else (Inr (), s\<lparr>identities := identities s @ [row]\<rparr>))"

definition add_permission :: "Permission \<Rightarrow> unit M" where
  "add_permission row s = (if pm_id row \<in> pm_id ` set (permission_rows s) then (Inl duplicate_key, s)
     else (Inr (), s\<lparr>permission_rows := permission_rows s @ [row]\<rparr>))"

definition add_role :: "Role \<Rightarrow> unit M" where
  "add_role row s = (if ro_id row \<in> ro_id ` set (roles s) then (Inl duplicate_key, s)
     else (Inr (), s\<lparr>roles := roles s @ [row]\<rparr>))"

definition add_user :: "User \<Rightarrow> unit M" where
  "add_user row s = (if usr_id row \<in> usr_id ` set (users s) then (Inl duplicate_key, s)
     else (Inr (), s\<lparr>users := users s @ [row]\<rparr>))"

abbreviation user_of :: "sys \<Rightarrow> uuid \<Rightarrow> User option" where
  "user_of s \<equiv> lookup_row usr_id (users s)"

text \<open>\<open>user.roles\<close> and \<open>role.permissions\<close>, through their link tables.\<close>

definition roles_of :: "sys \<Rightarrow> uuid \<Rightarrow> Role list" where
  "roles_of s uid = List.map_filter (\<lambda>l. if fst l = uid then lookup_row ro_id (roles s) (snd l) else None)
     (user_roles s)"

definition permissions_of :: "sys \<Rightarrow> uuid \<Rightarrow> Permission list" where
  "permissions_of s rid = List.map_filter
     (\<lambda>l. if fst l = rid then lookup_row pm_id (permission_rows s) (snd l) else None) (role_permissions s)"

definition user_has_permission :: "sys \<Rightarrow> uuid \<Rightarrow> string \<Rightarrow> bool" where
  "user_has_permission s uid name \<longleftrightarrow>
     list_ex (\<lambda>role. list_ex (\<lambda>p. pm_name p = name) (permissions_of s (ro_id role))) (roles_of s uid)"

definition serialize_authenticated_user :: "sys \<Rightarrow> User \<Rightarrow> json" where
  "serialize_authenticated_user s user = JObj
     [(''id'', juuid (usr_id user)), (''email'', JStr (usr_email user)),
      (''display_name'', JStr (case usr_display_name user of
          Some (c # cs) \<Rightarrow> c # cs | _ \<Rightarrow> usr_email user)),
      (''roles'', JList (map (\<lambda>role. JStr (ro_name role)) (roles_of s (usr_id user))))]"

section \<open>Sessions\<close>

definition hash_token :: "env \<Rightarrow> string \<Rightarrow> string result" where
  "hash_token E raw_token =
     (if raw_token = [] then Inl (ValueErr ''raw_token must be a non-empty string'')
      else Inr (sha256 E raw_token))"

text \<open>A random token draws from the same source as the generated identifiers.\<close>

definition new_token :: "env \<Rightarrow> ('e, string) EM" where
  "new_token E s = (Inr (token_urlsafe E (uuids s)), s\<lparr>uuids := uuids s + 1\<rparr>)"

definition create_session :: "env \<Rightarrow> User \<Rightarrow> int \<Rightarrow> (SessionRow \<times> string) M" where
  "create_session E user ttl =
     bnd (new_token E) (\<lambda>raw_token.
     bnd (now_utc E) (\<lambda>created_at.
     bnd (lift (hash_token E raw_token)) (\<lambda>token_hash.
     bnd (new_uuid E) (\<lambda>sid.
     let row = \<lparr>se_id = sid, se_user_id = usr_id user, se_token_hash = token_hash,
       se_created_at = created_at, se_expires_at = created_at + ttl, se_revoked_at = None\<rparr> in
     seq (add_session row) (ret (row, raw_token))))))"

text \<open>The first session with the hash of the token.\<close>

abbreviation session_of :: "sys \<Rightarrow> string \<Rightarrow> SessionRow option" where
  "session_of s \<equiv> lookup_row se_token_hash (sessions s)"

definition get_user_from_session :: "env \<Rightarrow> string \<Rightarrow> User option M" where
  "get_user_from_session E raw_token =
     (if raw_token = [] then ret None
      else bnd (lift (hash_token E raw_token)) (\<lambda>token_hash.
       bnd (gets (\<lambda>s. session_of s token_hash)) (\<lambda>session_record. case session_record of
         None \<Rightarrow> ret None
       | Some row \<Rightarrow>
           if se_token_hash row \<noteq> token_hash then ret None
           else if se_revoked_at row \<noteq> None then ret None
           else bnd (now_utc E) (\<lambda>now.
             if se_expires_at row \<le> now then ret None
             else bnd (gets (\<lambda>s. user_of s (se_user_id row))) (\<lambda>user. case user of
               None \<Rightarrow> ret None
             | Some u \<Rightarrow> if usr_status u \<noteq> UserStatus.ACTIVE then ret None else ret (Some u))))))"

definition revoke_session :: "env \<Rightarrow> string \<Rightarrow> bool M" where
  "revoke_session E raw_token =
     (if raw_token = [] then ret False
      else bnd (lift (hash_token E raw_token)) (\<lambda>token_hash.
       bnd (gets (\<lambda>s. session_of s token_hash)) (\<lambda>session_record. case session_record of
         None \<Rightarrow> ret False
       | Some row \<Rightarrow>
           if se_token_hash row \<noteq> token_hash then ret False
           else if se_revoked_at row \<noteq> None then ret False
           else bnd (now_utc E) (\<lambda>now.
             seq (modify (\<lambda>s. s\<lparr>sessions := map (\<lambda>x. if se_id x = se_id row
                    then x\<lparr>se_revoked_at := Some now\<rparr> else x) (sessions s)\<rparr>))
             (ret True)))))"

section \<open>The permission guard\<close>

definition permission_catalog :: "(string \<times> string) list" where
  "permission_catalog =
     [(''system.status'', ''Read system status.''),
      (''dashboard.read'', ''Read dashboard data.''),
      (''users.read'', ''Read users.''),
      (''users.manage'', ''Manage users.''),
      (''roles.read'', ''Read roles.''),
      (''roles.manage'', ''Manage roles.''),
      (''permissions.read'', ''Read permissions.''),
      (''portfolio.read'', ''Read portfolio data.''),
      (''trades.read'', ''Read trades.''),
      (''strategies.read'', ''Read strategies.''),
      (''strategies.manage'', ''Manage strategies.''),
      (''orders.read'', ''Read orders.''),
      (''orders.create'', ''Create orders.''),
      (''orders.cancel'', ''Cancel orders.''),
      (''positions.read'', ''Read derived Binance Spot positions.''),
      (''positions.close'', ''Close a position (submits a market sell order).''),
      (''bots.read'', ''Read bots.''),
      (''bots.create'', ''Create a bot.''),
      (''bots.update'', ''Update a bot'' @ [CHR 0x27] @ ''s configuration.''),
      (''bots.pause'', ''Pause a bot (closes its position).''),
      (''bots.resume'', ''Resume a bot (reopens its position).''),
      (''bots.stop'', ''Permanently stop a bot.''),
      (''bots.delete'', ''Permanently delete a bot (only while PAUSED or STOPPED).''),
      (''bots.activate_live'', ''Promote a bot from SIMULATION to LIVE (real money, irreversible).''),
      (''risk.read'', ''Read risk data.''),
      (''risk.manage'', ''Manage risk settings.''),
      (''secrets.read'', ''Read managed secret metadata and values.''),
      (''secrets.manage'', ''Manage secrets.''),
      (''deployments.read'', ''Read deployment state.''),
      (''deployments.execute'', ''Execute deployments.''),
      (''audit.read'', ''Read audit records.'')]"

text \<open>Building the guard of a permission outside the catalog fails when the module is imported.\<close>

definition known_permission :: "string \<Rightarrow> bool" where
  "known_permission name \<longleftrightarrow> name \<in> set (map fst permission_catalog)"

text \<open>
  The guard returns the user; the routes read the id from the payload
  \<open>serialize_authenticated_user\<close> makes of it.
\<close>

definition require_permission :: "env \<Rightarrow> string \<Rightarrow> Request \<Rightarrow> User H" where
  "require_permission E name rq = (case rq_cookies rq session_cookie_name of
      None \<Rightarrow> raise (http_error 401 ''Authentication required.'')
    | Some raw_token \<Rightarrow>
        if raw_token = [] then raise (http_error 401 ''Authentication required.'')
        else bnd (run_service Unhandled (get_user_from_session E raw_token)) (\<lambda>user. case user of
            None \<Rightarrow> raise (http_error 401 ''Authentication required.'')
          | Some u \<Rightarrow> bnd (gets (\<lambda>s. user_has_permission s (usr_id u) name)) (\<lambda>granted.
              if \<not> granted then raise (http_error 403 ''Insufficient permissions.'') else ret u)))"

section \<open>Google identities\<close>

definition google_sub_from_claims :: "json \<Rightarrow> string result" where
  "google_sub_from_claims claims = rbind (jget_opt ''sub'' claims) (\<lambda>sub. case sub of
      JStr t \<Rightarrow> if strip t = [] then Inl (GoogleIdentityErr (''Google claims do not contain a valid '' @ repr ''sub'' @ ''.''))
                else Inr (strip t)
    | _ \<Rightarrow> Inl (GoogleIdentityErr (''Google claims do not contain a valid '' @ repr ''sub'' @ ''.'')))"

definition normalized_email_from_claims :: "json \<Rightarrow> string result" where
  "normalized_email_from_claims claims = rbind (jget_opt ''email'' claims) (\<lambda>email. case email of
      JStr t \<Rightarrow> if lower (strip t) = []
        then Inl (GoogleIdentityErr (''Google claims do not contain a valid '' @ repr ''email'' @ ''.''))
        else Inr (lower (strip t))
    | _ \<Rightarrow> Inl (GoogleIdentityErr (''Google claims do not contain a valid '' @ repr ''email'' @ ''.'')))"

definition require_verified_email_for_linking :: "json \<Rightarrow> string result" where
  "require_verified_email_for_linking claims =
     rbind (normalized_email_from_claims claims) (\<lambda>email.
     rbind (jget_opt ''email_verified'' claims) (\<lambda>email_verified.
     if email_verified \<noteq> JBool True
     then Inl (GoogleIdentityErr ''Google claims must include email_verified=True to link a user by email.'')
     else Inr email))"

abbreviation identity_of :: "sys \<Rightarrow> string \<times> string \<Rightarrow> Identity option" where
  "identity_of s \<equiv> lookup_row (\<lambda>i. (iy_provider i, iy_provider_subject i)) (identities s)"

abbreviation user_by_email :: "sys \<Rightarrow> string \<Rightarrow> User option" where
  "user_by_email s \<equiv> lookup_row usr_email (users s)"

definition upd_user :: "uuid \<Rightarrow> (User \<Rightarrow> User) \<Rightarrow> ('e, unit) EM" where
  "upd_user uid f = modify (\<lambda>s. s\<lparr>users := map (\<lambda>x. if usr_id x = uid then f x else x) (users s)\<rparr>)"

text \<open>\<open>user.last_login_at = now\<close>, flushed: the database sets \<open>updated_at\<close> as well.\<close>

definition record_login :: "env \<Rightarrow> User \<Rightarrow> User M" where
  "record_login E user =
     bnd (now_utc E) (\<lambda>now.
     bnd (now_utc E) (\<lambda>updated.
     let user' = user\<lparr>usr_last_login_at := Some now, usr_updated_at := updated\<rparr> in
     seq (upd_user (usr_id user) (\<lambda>x. user')) (ret user')))"

definition disabled_message :: string where
  "disabled_message = ''This Hermes user is disabled and cannot authenticate.''"

text \<open>Every exception leaves before the first write, so the transaction's rollback has nothing to undo.\<close>

definition resolve_google_user :: "env \<Rightarrow> json \<Rightarrow> User M" where
  "resolve_google_user E claims =
     bnd (lift (google_sub_from_claims claims)) (\<lambda>google_sub.
     bnd (gets (\<lambda>s. identity_of s (''google'', google_sub))) (\<lambda>identity. case identity of
       Some i \<Rightarrow> bnd (gets (\<lambda>s. user_of s (iy_user_id i))) (\<lambda>user. case user of
           None \<Rightarrow> raise (GoogleIdentityErr ''Google identity is missing its linked user.'')
         | Some u \<Rightarrow>
             if usr_status u = DISABLED then raise (GoogleUserDisabledErr disabled_message)
             else record_login E u)
     | None \<Rightarrow>
       bnd (lift (require_verified_email_for_linking claims)) (\<lambda>email.
       bnd (gets (\<lambda>s. user_by_email s email)) (\<lambda>user. case user of
           None \<Rightarrow> raise (GoogleUserNotFoundErr ''This Google user is not authorized to access Hermes.'')
         | Some u \<Rightarrow>
             if usr_status u = DISABLED then raise (GoogleUserDisabledErr disabled_message)
             else bnd (new_uuid E) (\<lambda>iid.
               bnd (now_utc E) (\<lambda>created.
               seq (add_identity \<lparr>iy_id = iid, iy_user_id = usr_id u, iy_provider = ''google'',
                   iy_provider_subject = google_sub, iy_created_at = created\<rparr>)
               (record_login E u)))))))"

section \<open>Seed and bootstrap of the administrator\<close>

definition super_admin_role_name :: string where
  "super_admin_role_name = ''SUPER_ADMIN''"

abbreviation role_by_name :: "sys \<Rightarrow> string \<Rightarrow> Role option" where
  "role_by_name s \<equiv> lookup_row ro_name (roles s)"

definition seed_permission :: "env \<Rightarrow> string \<times> string \<Rightarrow> unit M" where
  "seed_permission E entry =
     bnd (gets (\<lambda>s. lookup_row pm_name (permission_rows s) (fst entry))) (\<lambda>row.
     if row \<noteq> None then ret ()
     else bnd (new_uuid E) (\<lambda>pid.
       add_permission \<lparr>pm_id = pid, pm_name = fst entry, pm_description = Some (snd entry)\<rparr>))"

fun seed_permissions :: "env \<Rightarrow> (string \<times> string) list \<Rightarrow> unit M" where
  "seed_permissions E [] = ret ()"
| "seed_permissions E (entry # rest) = seq (seed_permission E entry) (seed_permissions E rest)"

text \<open>\<open>super_admin.permissions = list(...)\<close>: the links of the role become exactly all permissions.\<close>

definition seed_authorization_data :: "env \<Rightarrow> unit M" where
  "seed_authorization_data E =
     seq (seed_permissions E permission_catalog)
     (bnd (gets (\<lambda>s. role_by_name s super_admin_role_name)) (\<lambda>role.
      bnd (case role of
          Some r \<Rightarrow> ret r
        | None \<Rightarrow> bnd (new_uuid E) (\<lambda>rid.
            let r = \<lparr>ro_id = rid, ro_name = super_admin_role_name,
              ro_description = Some ''Protected system administrator role.'', ro_system_role = True\<rparr> in
            seq (add_role r) (ret r))) (\<lambda>super_admin.
      modify (\<lambda>s. s\<lparr>role_permissions := filter (\<lambda>l. fst l \<noteq> ro_id super_admin) (role_permissions s) @
        map (\<lambda>p. (ro_id super_admin, pm_id p)) (permission_rows s)\<rparr>))))"

text \<open>The pattern \<open>^[^@\s]+@[^@\s]+\.[^@\s]+$\<close>.\<close>

definition valid_email :: "string \<Rightarrow> bool" where
  "valid_email t = (list_all (\<lambda>c. \<not> is_space c) t \<and>
     (case split_on (CHR ''@'') t of
        [user, domain] \<Rightarrow> user \<noteq> [] \<and> domain \<noteq> [] \<and> CHR ''.'' \<in> set (butlast (tl domain))
      | _ \<Rightarrow> False))"

definition normalized_admin_email :: "env \<Rightarrow> string result" where
  "normalized_admin_email E = (case getenv E ''HERMES_ADMIN_EMAIL'' of
      None \<Rightarrow> Inl (BootstrapConfigurationErr ''HERMES_ADMIN_EMAIL must be configured'')
    | Some configured \<Rightarrow>
        let email = lower (strip configured) in
        if \<not> valid_email email
        then Inl (BootstrapConfigurationErr ''HERMES_ADMIN_EMAIL must be a valid email address'')
        else Inr email)"

definition holders :: "sys \<Rightarrow> string \<Rightarrow> User list" where
  "holders s role_name = filter (\<lambda>u. list_ex (\<lambda>r. ro_name r = role_name) (roles_of s (usr_id u))) (users s)"

definition bootstrap_super_admin :: "env \<Rightarrow> uuid M" where
  "bootstrap_super_admin E =
     bnd (lift (normalized_admin_email E)) (\<lambda>admin_email.
     bnd (gets (\<lambda>s. role_by_name s super_admin_role_name)) (\<lambda>role. case role of
       None \<Rightarrow> raise (BootstrapStateErr ''Protected SUPER_ADMIN role is missing or invalid'')
     | Some super_admin \<Rightarrow>
       if \<not> ro_system_role super_admin
       then raise (BootstrapStateErr ''Protected SUPER_ADMIN role is missing or invalid'')
       else bnd (gets (\<lambda>s. holders s super_admin_role_name)) (\<lambda>current_admins.
       if list_ex (\<lambda>u. usr_email u \<noteq> admin_email) current_admins
       then raise (BootstrapStateErr ''SUPER_ADMIN is already assigned to a different user'')
       else bnd (gets (\<lambda>s. user_by_email s admin_email)) (\<lambda>found.
       bnd (case found of
           Some u \<Rightarrow> ret u
         | None \<Rightarrow> bnd (new_uuid E) (\<lambda>uid.
             bnd (now_utc E) (\<lambda>created.
             let u = \<lparr>usr_id = uid, usr_email = admin_email, usr_display_name = None, usr_avatar_url = None,
               usr_status = UserStatus.ACTIVE, usr_created_at = created, usr_updated_at = created,
               usr_last_login_at = None\<rparr> in
             seq (add_user u) (ret u)))) (\<lambda>user.
       bnd (gets (\<lambda>s. super_admin \<in> set (roles_of s (usr_id user)))) (\<lambda>has_role.
       if has_role then ret (usr_id user)
       else seq (modify (\<lambda>s. s\<lparr>user_roles := user_roles s @ [(usr_id user, ro_id super_admin)]\<rparr>))
         (ret (usr_id user))))))))"

text \<open>\<open>hermes bootstrap-admin\<close> (\<open>cli.py\<close>): both in one transaction.\<close>

definition bootstrap_admin :: "env \<Rightarrow> uuid M" where
  "bootstrap_admin E = transaction (seq (seed_authorization_data E) (bootstrap_super_admin E))"

end
