(* ===== verification/OAuth.thy ===== *)
theory OAuth
  imports AuthSessions
begin

text \<open>
  Signing in with Google (\<open>auth/oauth.py\<close>, \<open>auth/google.py\<close> and the \<open>/auth\<close> routes of \<open>api/app.py\<close>): the store
  of pending states, the redirect to the consent screen, the callback that ends in a session cookie, the
  current user and the logout.
\<close>

section \<open>The store of states\<close>

definition state_ttl :: int where
  "state_ttl = 600 * us_per_second"

abbreviation state_of :: "sys \<Rightarrow> string \<Rightarrow> (string \<times> int \<times> string) option" where
  "state_of s \<equiv> lookup_row fst (oauth_states s)"

definition create_state :: "env \<Rightarrow> string \<Rightarrow> string H" where
  "create_state E return_to =
     bnd (new_token E) (\<lambda>state.
     bnd (now_monotonic E) (\<lambda>now.
     seq (modify (\<lambda>s. s\<lparr>oauth_states := save_row fst (state, now + state_ttl, return_to) (oauth_states s)\<rparr>))
     (ret state)))"

definition consume_state :: "env \<Rightarrow> string option \<Rightarrow> string option H" where
  "consume_state E state = (case state of
      None \<Rightarrow> ret None
    | Some st \<Rightarrow> if strip st = [] then ret None
        else bnd (gets (\<lambda>s. state_of s st)) (\<lambda>entry.
          seq (modify (\<lambda>s. s\<lparr>oauth_states := delete_row fst st (oauth_states s)\<rparr>))
          (case entry of
             None \<Rightarrow> ret None
           | Some (_, expires_at, return_to) \<Rightarrow> bnd (now_monotonic E) (\<lambda>now.
               ret (if expires_at < now then None else Some return_to)))))"

section \<open>Configuration\<close>

definition require_environment_value :: "env \<Rightarrow> string \<Rightarrow> string result" where
  "require_environment_value E name = (case getenv E name of
      Some (c # cs) \<Rightarrow> Inr (c # cs)
    | _ \<Rightarrow> Inl (RuntimeErr (name @ '' must be configured'')))"

definition configured_allowed_return_uris :: "env \<Rightarrow> string list" where
  "configured_allowed_return_uris E = comma_list (env_or E ''HERMES_ALLOWED_RETURN_URIS'' '''')"

definition default_return_uri :: "env \<Rightarrow> string result" where
  "default_return_uri E = (case configured_allowed_return_uris E of
      [] \<Rightarrow> Inl (RuntimeErr ''HERMES_ALLOWED_RETURN_URIS must be configured'')
    | first # rest \<Rightarrow> (case getenv E ''HERMES_DEFAULT_RETURN_URI'' of
          Some configured \<Rightarrow> if configured \<noteq> [] \<and> configured \<in> set (first # rest) then Inr configured else Inr first
        | None \<Rightarrow> Inr first))"

definition resolve_return_uri :: "env \<Rightarrow> string option \<Rightarrow> string H" where
  "resolve_return_uri E requested = (case requested of
      Some (c # cs) \<Rightarrow>
        if c # cs \<notin> set (configured_allowed_return_uris E)
        then raise (http_error 400 ''Unsupported return_to value.'') else ret (c # cs)
    | _ \<Rightarrow> run_service Unhandled (lift (default_return_uri E)))"

section \<open>Responses\<close>

record Cookie =
  ck_key :: string
  ck_value :: string
  ck_httponly :: bool
  ck_samesite :: string
  ck_path :: string
  ck_secure :: bool

datatype cookie_change = SetCookie Cookie | DeleteCookie string | KeepCookies

datatype auth_response =
    RedirectResponse string int cookie_change
  | JSONResponse json cookie_change

definition redirect_with_status :: "string \<Rightarrow> string \<Rightarrow> cookie_change \<Rightarrow> auth_response" where
  "redirect_with_status return_to status cookie =
     RedirectResponse (return_to @ (if CHR ''?'' \<in> set return_to then ''&'' else ''?'') @ ''auth='' @ status) 302 cookie"

section \<open>The login redirect\<close>

definition build_google_authorization_url :: "env \<Rightarrow> string \<Rightarrow> string H" where
  "build_google_authorization_url E return_to =
     bnd (run_service Unhandled (lift (require_environment_value E ''GOOGLE_CLIENT_ID''))) (\<lambda>client_id.
     bnd (run_service Unhandled (lift (require_environment_value E ''GOOGLE_REDIRECT_URI''))) (\<lambda>redirect_uri.
     bnd (create_state E return_to) (\<lambda>state.
     ret (''https://accounts.google.com/o/oauth2/v2/auth?'' @ urlencode
       [(''client_id'', client_id), (''redirect_uri'', redirect_uri), (''response_type'', ''code''),
        (''scope'', ''openid email profile''), (''access_type'', ''offline''), (''prompt'', ''consent''),
        (''state'', state)]))))"

definition google_login :: "env \<Rightarrow> string option \<Rightarrow> auth_response H" where
  "google_login E return_to =
     bnd (resolve_return_uri E return_to) (\<lambda>resolved.
     bnd (build_google_authorization_url E resolved) (\<lambda>url.
     ret (RedirectResponse url 307 KeepCookies)))"

section \<open>The callback\<close>

definition exchange_google_code :: "env \<Rightarrow> string \<Rightarrow> json M" where
  "exchange_google_code E code =
     bnd (lift (require_environment_value E ''GOOGLE_CLIENT_ID'')) (\<lambda>client_id.
     bnd (lift (require_environment_value E ''GOOGLE_CLIENT_SECRET'')) (\<lambda>client_secret.
     bnd (lift (require_environment_value E ''GOOGLE_REDIRECT_URI'')) (\<lambda>redirect_uri.
     case google_token E (urlencode [(''code'', code), (''client_id'', client_id), (''client_secret'', client_secret),
         (''redirect_uri'', redirect_uri), (''grant_type'', ''authorization_code'')]) of
       UrlBody (Some body) \<Rightarrow> ret body
     | _ \<Rightarrow> raise (GoogleTokenExchangeErr ''Google token exchange failed''))))"

text \<open>
  \<open>auth/google.py\<close>.  The client id is read inside the \<open>try\<close>, so its absence is reported as an invalid
  token as well.
\<close>

definition verify_google_id_token :: "env \<Rightarrow> string \<Rightarrow> json result" where
  "verify_google_id_token E token =
     (if token = [] then Inl (GoogleAuthenticationErr ''Google ID token is required'')
      else case (case getenv E ''GOOGLE_CLIENT_ID'' of
          Some (c # cs) \<Rightarrow> verify_oauth2_token E token (c # cs) | _ \<Rightarrow> None) of
        None \<Rightarrow> Inl (GoogleAuthenticationErr ''Invalid Google ID token'')
      | Some claims \<Rightarrow>
          rbind (jget_opt ''iss'' claims) (\<lambda>iss.
          case iss of
            JList xs \<Rightarrow> Inl (TypeErr (''unhashable type: '' @ repr ''list''))
          | JObj kvs \<Rightarrow> Inl (TypeErr (''unhashable type: '' @ repr ''dict''))
          | _ \<Rightarrow>
            if iss \<notin> set [JStr ''accounts.google.com'', JStr ''https://accounts.google.com'']
            then Inl (GoogleAuthenticationErr ''Invalid Google token issuer'')
            else rbind (jget_opt ''sub'' claims) (\<lambda>sub.
              if \<not> truthy sub then Inl (GoogleAuthenticationErr ''Google ID token does not contain a subject'')
              else Inr claims)))"

fun is_google_identity_error :: "exn \<Rightarrow> bool" where
  "is_google_identity_error (GoogleIdentityErr m) = True"
| "is_google_identity_error (GoogleUserNotFoundErr m) = True"
| "is_google_identity_error (GoogleUserDisabledErr m) = True"
| "is_google_identity_error e = False"

text \<open>
  The end of the callback: the identity is resolved in a transaction of its own, the session created and
  committed, then the cookie set; a cookie setting that is malformed raises after the commit.
\<close>

definition sign_in :: "env \<Rightarrow> string \<Rightarrow> json \<Rightarrow> auth_response H" where
  "sign_in E return_to claims =
     bnd (attempt (transaction (resolve_google_user E claims))) (\<lambda>user. case user of
       Inl e \<Rightarrow> if is_google_identity_error e then ret (redirect_with_status return_to ''denied'' KeepCookies)
                else raise (Unhandled e)
     | Inr u \<Rightarrow>
       bnd (run_service Unhandled (transaction (bnd (lift (session_ttl E)) (create_session E u)))) (\<lambda>(row, raw_token).
       bnd (run_service Unhandled (lift (cookie_samesite E))) (\<lambda>samesite.
       ret (redirect_with_status return_to ''success'' (SetCookie
         \<lparr>ck_key = session_cookie_name, ck_value = raw_token, ck_httponly = True, ck_samesite = samesite,
          ck_path = ''/'', ck_secure = is_cookie_secure E\<rparr>)))))"

text \<open>From the consumed state on: every failure sends the browser back with a status.\<close>

definition finish_callback :: "env \<Rightarrow> Request \<Rightarrow> string option \<Rightarrow> string \<Rightarrow> auth_response H" where
  "finish_callback E rq code url =
     (let failed = ret (redirect_with_status url ''error'' KeepCookies) in
      if (case rq_query rq ''error'' of Some (c # cs) \<Rightarrow> True | _ \<Rightarrow> False)
      then ret (redirect_with_status url ''cancelled'' KeepCookies)
      else if strip (case code of None \<Rightarrow> [] | Some c \<Rightarrow> c) = [] then failed
      else bnd (attempt (exchange_google_code E (the code))) (\<lambda>token_response. case token_response of
        Inl (GoogleTokenExchangeErr m) \<Rightarrow> failed
      | Inl e \<Rightarrow> raise (Unhandled e)
      | Inr body \<Rightarrow>
        bnd (run_service Unhandled (lift (jget_opt ''id_token'' body))) (\<lambda>id_token. case id_token of
          JStr token \<Rightarrow>
            if strip token = [] then failed
            else (case verify_google_id_token E token of
              Inl (GoogleAuthenticationErr m) \<Rightarrow> failed
            | Inl e \<Rightarrow> raise (Unhandled e)
            | Inr claims \<Rightarrow> sign_in E url claims)
        | _ \<Rightarrow> failed)))"

definition google_callback :: "env \<Rightarrow> Request \<Rightarrow> string option \<Rightarrow> string option \<Rightarrow> auth_response H" where
  "google_callback E rq code state =
     (if strip (case state of None \<Rightarrow> [] | Some st \<Rightarrow> st) = []
      then raise (http_error 400 ''Missing state parameter.'')
      else bnd (consume_state E state) (\<lambda>return_to. case return_to of
        None \<Rightarrow> raise (http_error 400 ''Invalid or expired state.'')
      | Some url \<Rightarrow> finish_callback E rq code url))"

section \<open>The current user and the logout\<close>

definition get_authenticated_user :: "env \<Rightarrow> Request \<Rightarrow> auth_response H" where
  "get_authenticated_user E rq = (case rq_cookies rq session_cookie_name of
      Some (c # cs) \<Rightarrow>
        bnd (run_service Unhandled (get_user_from_session E (c # cs))) (\<lambda>user. case user of
          None \<Rightarrow> raise (http_error 401 ''Authentication required.'')
        | Some u \<Rightarrow> bnd (gets (\<lambda>s. serialize_authenticated_user s u)) (\<lambda>safe_user.
            ret (JSONResponse (JObj [(''authenticated'', JBool True), (''user'', safe_user)]) KeepCookies)))
    | _ \<Rightarrow> raise (http_error 401 ''Authentication required.''))"

definition logout_user :: "env \<Rightarrow> Request \<Rightarrow> auth_response H" where
  "logout_user E rq =
     seq (case rq_cookies rq session_cookie_name of
          Some (c # cs) \<Rightarrow> bnd (run_service Unhandled (transaction (revoke_session E (c # cs)))) (\<lambda>_. ret ())
        | _ \<Rightarrow> ret ())
     (bnd (run_service Unhandled (lift (cookie_samesite E))) (\<lambda>samesite.
      ret (JSONResponse (JObj [(''status'', JStr ''ok'')]) (DeleteCookie session_cookie_name))))"

section \<open>The routes\<close>

definition login_route :: "env \<Rightarrow> Request \<Rightarrow> string option \<Rightarrow> auth_response H" where
  "login_route E rq return_to =
     seq (rate_limit E (Inl LOGIN_RATE_LIMITER) ''auth.google.login'' rq) (google_login E return_to)"

definition callback_route :: "env \<Rightarrow> Request \<Rightarrow> string option \<Rightarrow> string option \<Rightarrow> auth_response H" where
  "callback_route E rq code state =
     seq (rate_limit E (Inl CALLBACK_RATE_LIMITER) ''auth.google.callback'' rq) (google_callback E rq code state)"

definition me_route :: "env \<Rightarrow> Request \<Rightarrow> auth_response H" where
  "me_route E rq = seq (rate_limit E (Inl ME_RATE_LIMITER) ''auth.me'' rq) (get_authenticated_user E rq)"

definition logout_route :: "env \<Rightarrow> Request \<Rightarrow> auth_response H" where
  "logout_route E rq = seq (rate_limit E (Inl LOGOUT_RATE_LIMITER) ''auth.logout'' rq) (logout_user E rq)"

end
