(* ===== verification/SessionProperties.thy ===== *)
theory SessionProperties
  imports AuthSessions
begin

text \<open>
  Sessions, identities and the administrator: a session is honoured exactly until it expires or is
  revoked, an external identity never changes its user, and the bootstrap leaves one administrator
  with every permission.
\<close>

section \<open>Rules for the operations\<close>

lemma unique_keyD: "unique_key key rows \<Longrightarrow> x \<in> set rows \<Longrightarrow> y \<in> set rows \<Longrightarrow> key x = key y \<Longrightarrow> x = y"
  by (simp add: unique_key_def distinct_map inj_on_def)

lemma wp_new_token [wp_simps]:
  "wp (new_token E) Q s = Q (Inr (token_urlsafe E (uuids s))) (s\<lparr>uuids := uuids s + 1\<rparr>)"
  by (simp add: wp_def new_token_def)

lemma wp_add_session [wp_simps]:
  "wp (add_session row) Q s = (if se_id row \<in> se_id ` set (sessions s) then Q (Inl duplicate_key) s
     else Q (Inr ()) (s\<lparr>sessions := sessions s @ [row]\<rparr>))"
  by (simp add: wp_def add_session_def)

lemma wp_add_identity [wp_simps]:
  "wp (add_identity row) Q s = (if iy_id row \<in> iy_id ` set (identities s) then Q (Inl duplicate_key) s
     else Q (Inr ()) (s\<lparr>identities := identities s @ [row]\<rparr>))"
  by (simp add: wp_def add_identity_def)

lemma wp_add_permission [wp_simps]:
  "wp (add_permission row) Q s = (if pm_id row \<in> pm_id ` set (permission_rows s) then Q (Inl duplicate_key) s
     else Q (Inr ()) (s\<lparr>permission_rows := permission_rows s @ [row]\<rparr>))"
  by (simp add: wp_def add_permission_def)

lemma wp_add_role [wp_simps]:
  "wp (add_role row) Q s = (if ro_id row \<in> ro_id ` set (roles s) then Q (Inl duplicate_key) s
     else Q (Inr ()) (s\<lparr>roles := roles s @ [row]\<rparr>))"
  by (simp add: wp_def add_role_def)

lemma wp_add_user [wp_simps]:
  "wp (add_user row) Q s = (if usr_id row \<in> usr_id ` set (users s) then Q (Inl duplicate_key) s
     else Q (Inr ()) (s\<lparr>users := users s @ [row]\<rparr>))"
  by (simp add: wp_def add_user_def)

lemma wp_upd_user [wp_simps]:
  "wp (upd_user uid f) Q s = Q (Inr ()) (s\<lparr>users := map (\<lambda>x. if usr_id x = uid then f x else x) (users s)\<rparr>)"
  by (simp add: upd_user_def wp_simps)

text \<open>Who a token names, from the tables and a reading of the clock.\<close>

definition session_live :: "env \<Rightarrow> sys \<Rightarrow> string \<Rightarrow> int \<Rightarrow> SessionRow option" where
  "session_live E s tok now = (if tok = [] then None else case session_of s (sha256 E tok) of
      None \<Rightarrow> None
    | Some row \<Rightarrow> if se_revoked_at row = None \<and> now < se_expires_at row then Some row else None)"

definition active_user :: "sys \<Rightarrow> uuid \<Rightarrow> User option" where
  "active_user s uid = (case user_of s uid of
      None \<Rightarrow> None | Some u \<Rightarrow> if usr_status u = UserStatus.ACTIVE then Some u else None)"

definition named_user :: "env \<Rightarrow> sys \<Rightarrow> string \<Rightarrow> int \<Rightarrow> User option" where
  "named_user E s tok now = (case session_live E s tok now of
      None \<Rightarrow> None | Some row \<Rightarrow> active_user s (se_user_id row))"

lemma session_of_hash: "session_of s h = Some row \<Longrightarrow> se_token_hash row = h"
  by (blast dest: rows.lookup_key)

lemma get_user_from_session_spec:
  "wp (get_user_from_session E tok)
     (\<lambda>r t. r = Inr (named_user E s tok (clock E (ticks s))) \<and> (t = s \<or> t = s\<lparr>ticks := ticks s + 1\<rparr>)) s"
  by (auto simp: get_user_from_session_def hash_token_def wp_simps named_user_def session_live_def
      active_user_def dest: session_of_hash split: option.split)

text \<open>The roles and permissions depend on their tables only.\<close>

lemma roles_of_cong: "roles t = roles s \<Longrightarrow> user_roles t = user_roles s \<Longrightarrow> roles_of t = roles_of s"
  by (rule ext) (simp add: roles_of_def cong: if_cong)

lemma roles_of_upd [simp]:
  "roles_of (s\<lparr>ticks := n\<rparr>) = roles_of s" "roles_of (s\<lparr>uuids := n\<rparr>) = roles_of s"
  "roles_of (s\<lparr>users := us\<rparr>) = roles_of s"
  by (rule roles_of_cong; simp)+

lemma permissions_of_cong:
  "permission_rows t = permission_rows s \<Longrightarrow> role_permissions t = role_permissions s \<Longrightarrow>
     permissions_of t = permissions_of s"
  by (rule ext) (simp add: permissions_of_def cong: if_cong)

lemma user_has_permission_cong:
  assumes "roles t = roles s" "user_roles t = user_roles s" "permission_rows t = permission_rows s"
    "role_permissions t = role_permissions s"
  shows "user_has_permission t = user_has_permission s"
  by (intro ext) (simp add: user_has_permission_def roles_of_cong [OF assms(1,2)] permissions_of_cong [OF assms(3,4)])

lemma user_has_permission_ticks [simp]:
  "user_has_permission (s\<lparr>ticks := n\<rparr>) = user_has_permission s"
  by (rule user_has_permission_cong) simp_all

text \<open>The caller of a request and the answer of the permission guard.\<close>

definition caller :: "env \<Rightarrow> sys \<Rightarrow> Request \<Rightarrow> User option" where
  "caller E s rq = (case rq_cookies rq session_cookie_name of
      None \<Rightarrow> None | Some tok \<Rightarrow> named_user E s tok (clock E (ticks s)))"

lemma require_permission_spec:
  "wp (require_permission E name rq)
     (\<lambda>r t. t = s\<lparr>ticks := ticks t\<rparr> \<and> r = (case caller E s rq of
        None \<Rightarrow> Inl (http_error 401 ''Authentication required.'')
      | Some u \<Rightarrow> if user_has_permission s (usr_id u) name then Inr u
                  else Inl (http_error 403 ''Insufficient permissions.''))) s"
proof (cases "rq_cookies rq session_cookie_name")
  case None
  then show ?thesis by (simp add: require_permission_def caller_def wp_simps)
next
  case (Some tok)
  show ?thesis
  proof (cases "tok = []")
    case True
    then show ?thesis
      by (simp add: require_permission_def caller_def wp_simps Some named_user_def session_live_def)
  next
    case False
    show ?thesis
      unfolding require_permission_def caller_def Some option.case if_not_P [OF False] wp_bnd wp_run_service
      by (rule wp_mono [OF get_user_from_session_spec])
        (auto simp: wp_simps caller_def split: option.split)
  qed
qed

section \<open>The life of a session\<close>

datatype session_op = Login User int | Whoami string | Logout string | GoogleLogin json

fun run_session_op :: "env \<Rightarrow> session_op \<Rightarrow> sys \<Rightarrow> sys" where
  "run_session_op E (Login user ttl) s = snd (create_session E user ttl s)"
| "run_session_op E (Whoami tok) s = snd (get_user_from_session E tok s)"
| "run_session_op E (Logout tok) s = snd (revoke_session E tok s)"
| "run_session_op E (GoogleLogin claims) s = snd (resolve_google_user E claims s)"

fun revokes :: "env \<Rightarrow> string \<Rightarrow> session_op \<Rightarrow> bool" where
  "revokes E h (Logout tok) = (tok \<noteq> [] \<and> sha256 E tok = h)"
| "revokes E h op = False"

abbreviation ids_ok :: "sys \<Rightarrow> bool" where
  "ids_ok s \<equiv> unique_key se_id (sessions s)"

lemma frame_sessions:
  "wp (get_user_from_session E tok) (\<lambda>r t. sessions t = sessions s) s"
  "wp (resolve_google_user E claims) (\<lambda>r t. sessions t = sessions s) s"
  by (rule wp_mono [OF get_user_from_session_spec], auto)
    (simp add: resolve_google_user_def record_login_def Let_def wp_simps split: sum.split option.split)

lemma wp_create_session:
  "wp (create_session E user ttl) (\<lambda>r t. case r of
      Inl e \<Rightarrow> sessions t = sessions s
    | Inr (row, tok) \<Rightarrow> sessions t = sessions s @ [row] \<and> se_id row \<notin> se_id ` set (sessions s) \<and>
        tok = token_urlsafe E (uuids s) \<and> tok \<noteq> [] \<and> se_token_hash row = sha256 E tok \<and>
        se_user_id row = usr_id user \<and> se_expires_at row = se_created_at row + ttl \<and>
        se_revoked_at row = None \<and> users t = users s) s"
  by (simp add: create_session_def hash_token_def wp_simps Let_def)

lemma wp_revoke_session:
  "wp (revoke_session E tok) (\<lambda>r t. users t = users s \<and> (sessions t = sessions s \<and>
        (tok = [] \<or> session_of s (sha256 E tok) = None \<or>
         (\<exists>row. session_of s (sha256 E tok) = Some row \<and> se_revoked_at row \<noteq> None)) \<or>
      (\<exists>row now. tok \<noteq> [] \<and> session_of s (sha256 E tok) = Some row \<and> sessions t =
        map (\<lambda>x. if se_id x = se_id row then x\<lparr>se_revoked_at := Some now\<rparr> else x) (sessions s)))) s"
  by (auto simp: revoke_session_def hash_token_def wp_simps dest: session_of_hash split: option.split)

lemma lookup_revoked:
  fixes rows :: "SessionRow list"
  assumes "unique_key se_id rows" and "lookup_row se_token_hash rows h = Some row"
  shows "lookup_row se_token_hash
     (map (\<lambda>x. if se_id x = se_id row then x\<lparr>se_revoked_at := n\<rparr> else x) rows) h' =
     (if h' = h then Some (row\<lparr>se_revoked_at := n\<rparr>) else lookup_row se_token_hash rows h')"
proof -
  have row: "row \<in> set rows" "se_token_hash row = h" using lookup_row_Some [OF assms(2)] by auto
  have lookup_map: "lookup_row se_token_hash (map f rs) h' = map_option f (lookup_row se_token_hash rs h')"
    if "\<And>x. se_token_hash (f x) = se_token_hash x" for f rs
    by (induction rs) (auto simp: that)
  have *: "lookup_row se_token_hash
     (map (\<lambda>x. if se_id x = se_id row then x\<lparr>se_revoked_at := n\<rparr> else x) rows) h' =
     map_option (\<lambda>x. if se_id x = se_id row then x\<lparr>se_revoked_at := n\<rparr> else x) (lookup_row se_token_hash rows h')"
    by (rule lookup_map) simp
  have same: "x = row" if "x \<in> set rows" "se_id x = se_id row" for x
    using unique_keyD [OF assms(1) that(1) row(1) that(2)] .
  show ?thesis
  proof (cases "h' = h")
    case True
    then show ?thesis unfolding * by (simp add: assms(2))
  next
    case False
    then have "se_id x \<noteq> se_id row" if "lookup_row se_token_hash rows h' = Some x" for x
      using lookup_row_Some [OF that] same row(2) by blast
    then show ?thesis using False by (cases "lookup_row se_token_hash rows h'") (simp_all add: * del: map_map)
  qed
qed

lemma session_step:
  assumes "ids_ok s" and "session_of s h = Some (row\<lparr>se_revoked_at := r\<rparr>)"
  shows "ids_ok (run_session_op E op s) \<and>
     (\<exists>r'. session_of (run_session_op E op s) h = Some (row\<lparr>se_revoked_at := r'\<rparr>) \<and>
       (r' \<noteq> None \<longleftrightarrow> r \<noteq> None \<or> revokes E h op))"
proof (cases op)
  case (Login user ttl)
  then show ?thesis
    using wp_create_session [of E user ttl s] assms
    by (auto simp: wp_def lookup_row_append unique_key_def split: sum.splits prod.splits)
next
  case (Logout tok)
  have "wp (revoke_session E tok) (\<lambda>x t. ids_ok t \<and> (\<exists>r'. session_of t h = Some (row\<lparr>se_revoked_at := r'\<rparr>) \<and>
       (r' \<noteq> None \<longleftrightarrow> r \<noteq> None \<or> revokes E h op))) s"
  proof (rule wp_mono [OF wp_revoke_session])
    fix x and t :: sys assume "users t = users s \<and> (sessions t = sessions s \<and>
        (tok = [] \<or> session_of s (sha256 E tok) = None \<or>
         (\<exists>row. session_of s (sha256 E tok) = Some row \<and> se_revoked_at row \<noteq> None)) \<or>
      (\<exists>row now. tok \<noteq> [] \<and> session_of s (sha256 E tok) = Some row \<and> sessions t =
        map (\<lambda>x. if se_id x = se_id row then x\<lparr>se_revoked_at := Some now\<rparr> else x) (sessions s)))"
    then consider (same) "sessions t = sessions s" "tok = [] \<or> session_of s (sha256 E tok) = None \<or>
         (\<exists>row. session_of s (sha256 E tok) = Some row \<and> se_revoked_at row \<noteq> None)"
      | (revoked) row' now where "tok \<noteq> []" "session_of s (sha256 E tok) = Some row'" "sessions t =
        map (\<lambda>x. if se_id x = se_id row' then x\<lparr>se_revoked_at := Some now\<rparr> else x) (sessions s)"
      by blast
    then show "ids_ok t \<and> (\<exists>r'. session_of t h = Some (row\<lparr>se_revoked_at := r'\<rparr>) \<and>
       (r' \<noteq> None \<longleftrightarrow> r \<noteq> None \<or> revokes E h op))"
    proof cases
      case same
      then show ?thesis using assms Logout by auto
    next
      case revoked
      have "map se_id (sessions t) = map se_id (sessions s)" unfolding revoked(3) by (simp cong: map_cong)
      then have "ids_ok t" using assms(1) by (simp add: unique_key_def)
      then show ?thesis
        using assms(2) revoked Logout lookup_revoked [OF assms(1) revoked(2), of "Some now" h] by auto
    qed
  qed
  then show ?thesis by (simp add: wp_def Logout)
qed (use assms frame_sessions in \<open>auto simp: wp_def\<close>)

lemma session_steps:
  assumes "ids_ok s" and "session_of s h = Some (row\<lparr>se_revoked_at := r\<rparr>)"
  shows "\<exists>r'. session_of (fold (run_session_op E) ops s) h = Some (row\<lparr>se_revoked_at := r'\<rparr>) \<and>
       (r' \<noteq> None \<longleftrightarrow> r \<noteq> None \<or> (\<exists>op \<in> set ops. revokes E h op))"
  using assms
proof (induction ops arbitrary: s r)
  case (Cons op ops)
  from session_step [OF Cons.prems, of E op] obtain r' where
    "ids_ok (run_session_op E op s)" "session_of (run_session_op E op s) h = Some (row\<lparr>se_revoked_at := r'\<rparr>)"
    "r' \<noteq> None \<longleftrightarrow> r \<noteq> None \<or> revokes E h op" by auto
  from Cons.IH [OF this(1,2)] this(3) show ?case by auto
qed auto

text \<open>
  C16: A session lives until it expires or is revoked, and no longer: whatever logins, look-ups and logouts
  of anybody follow its creation, the token it returned names its user (if the account is active) exactly
  while the clock is before the expiry and no logout with this token has happened.
\<close>
theorem session_lifetime:
  assumes "ids_ok s" and "sha256 E tok \<notin> se_token_hash ` set (sessions s)"
    and "create_session E user ttl s = (Inr (row, tok), s1)" and "s2 = fold (run_session_op E) ops s1"
  shows "fst (get_user_from_session E tok s2) = Inr
     (if (\<exists>op \<in> set ops. revokes E (sha256 E tok) op) \<or> se_created_at row + ttl \<le> clock E (ticks s2)
      then None else active_user s2 (usr_id user))"
proof -
  have row: "sessions s1 = sessions s @ [row]" "se_id row \<notin> se_id ` set (sessions s)" "tok \<noteq> []"
    "se_token_hash row = sha256 E tok" "se_user_id row = usr_id user"
    "se_expires_at row = se_created_at row + ttl" "se_revoked_at row = None"
    using wp_create_session [of E user ttl s] assms(3) by (auto simp: wp_def)
  have "ids_ok s1" using assms(1) row(1,2) by (auto simp: unique_key_def)
  moreover have "session_of s1 (sha256 E tok) = Some (row\<lparr>se_revoked_at := None\<rparr>)"
    using assms(2) row by (simp add: lookup_row_append lookup_row_None [THEN iffD2])
  ultimately obtain r' where r': "session_of s2 (sha256 E tok) = Some (row\<lparr>se_revoked_at := r'\<rparr>)"
    "r' \<noteq> None \<longleftrightarrow> (\<exists>op \<in> set ops. revokes E (sha256 E tok) op)"
    using session_steps assms(4) by blast
  have "fst (get_user_from_session E tok s2) = Inr (named_user E s2 tok (clock E (ticks s2)))"
    using get_user_from_session_spec [of E tok s2] by (simp add: wp_def)
  then show ?thesis using r' row(3,5,6) by (auto simp: named_user_def session_live_def)
qed

definition demo_user :: User where
  "demo_user = \<lparr>usr_id = 7, usr_email = ''a@b.c'', usr_display_name = None, usr_avatar_url = None,
     usr_status = UserStatus.ACTIVE, usr_created_at = 0, usr_updated_at = 0, usr_last_login_at = None\<rparr>"

lemma session_lifetime_witness:
  "\<exists>s1. snd (create_session demo_env demo_user 5 (idle\<lparr>users := [demo_user]\<rparr>)) = s1 \<and>
     fst (get_user_from_session demo_env ''token0'' s1) = Inr (Some demo_user) \<and>
     fst (get_user_from_session demo_env ''token0'' (run_session_op demo_env (Logout ''token0'') s1)) = Inr None"
proof -
  have token: "token_urlsafe demo_env 0 = ''token0''" by code_simp
  define row where "row = \<lparr>se_id = 2, se_user_id = 7, se_token_hash = ''token0'', se_created_at = 0,
    se_expires_at = 5, se_revoked_at = None\<rparr>"
  define s1 where "s1 = idle\<lparr>users := [demo_user], uuids := 2, ticks := 1, sessions := [row]\<rparr>"
  have run: "create_session demo_env demo_user 5 (idle\<lparr>users := [demo_user]\<rparr>) = (Inr (row, ''token0''), s1)"
    using token by (simp add: create_session_def bnd_def new_token_def now_utc_def hash_token_def lift_def new_uuid_def
        seq_def add_session_def ret_def Let_def row_def s1_def idle_def demo_user_def demo_env_def)
  have ok: "ids_ok (idle\<lparr>users := [demo_user]\<rparr>)"
    "sha256 demo_env ''token0'' \<notin> se_token_hash ` set (sessions (idle\<lparr>users := [demo_user]\<rparr>))"
    by (simp_all add: idle_def)
  have "fst (get_user_from_session demo_env ''token0'' s1) = Inr (Some demo_user)"
    using session_lifetime [OF ok run, where ops = "[]", OF fold_Nil [THEN fun_cong, unfolded id_apply, symmetric]]
    by (simp add: row_def s1_def active_user_def demo_user_def demo_env_def)
  moreover have "fst (get_user_from_session demo_env ''token0'' (run_session_op demo_env (Logout ''token0'') s1)) = Inr None"
    using session_lifetime [OF ok run, where ops = "[Logout ''token0'']"] by simp
  ultimately show ?thesis by (simp add: run)
qed

section \<open>Google identities\<close>

lemma wp_record_login:
  assumes "user_of s (usr_id user) = Some user"
  shows "wp (record_login E user) (\<lambda>r t. identities t = identities s \<and> (\<exists>u. r = Inr u \<and> usr_id u = usr_id user \<and>
     usr_email u = usr_email user \<and> usr_status u = usr_status user \<and> user_of t (usr_id user) = Some u)) s"
  by (simp add: record_login_def Let_def wp_simps lookup_map_row assms)

lemma wp_resolve_google_user:
  assumes "unique_key usr_id (users s)"
  shows "wp (resolve_google_user E claims) (\<lambda>r t.
     (\<forall>k i. identity_of s k = Some i \<longrightarrow> identity_of t k = Some i) \<and>
     (case r of
        Inl e \<Rightarrow> identities t = identities s \<and> users t = users s
      | Inr u \<Rightarrow> user_of t (usr_id u) = Some u \<and> usr_status u = UserStatus.ACTIVE \<and>
          (\<exists>sub i. google_sub_from_claims claims = Inr sub \<and> identity_of t (''google'', sub) = Some i \<and>
             iy_user_id i = usr_id u \<and>
             (identity_of s (''google'', sub) = None \<longrightarrow>
                require_verified_email_for_linking claims = Inr (usr_email u))))) s"
proof -
  have by_email: "user_of s' (usr_id u) = Some u" if "user_by_email s e = Some u" "users s' = users s" for s' e u
    using lookup_row_Some [OF that(1)] lookup_row_unique [OF assms] that(2) by simp
  have by_id: "user_of s (usr_id u) = Some u" if "user_of s k = Some u" for k u
    using lookup_row_Some [OF that] that by simp
  have keys: "user_of s k = Some u \<Longrightarrow> k = usr_id u" "user_by_email s e = Some u \<Longrightarrow> e = usr_email u" for k e u
    by (auto dest: lookup_row_Some)
  have active: "usr_status u = UserStatus.ACTIVE" if "usr_status u \<noteq> DISABLED" for u :: User
    using that UserStatus.exhaust by blast
  show ?thesis
    unfolding resolve_google_user_def
    by (auto simp: wp_simps lookup_row_append split: option.splits sum.splits
        intro!: wp_mono [OF wp_record_login] dest: by_id by_email active keys)
qed

text \<open>
  C26: A Google account is one user for ever.  Signing in never changes an existing link; it succeeds only
  as the active user the subject is linked to, and makes a new link only for an email Google has verified,
  to the user who has that email; when it fails nothing is written.
\<close>
theorem google_identity_is_stable:
  assumes "unique_key usr_id (users s)"
  shows "wp (resolve_google_user E claims) (\<lambda>r t.
     (\<forall>k i. identity_of s k = Some i \<longrightarrow> identity_of t k = Some i) \<and>
     (case r of
        Inl e \<Rightarrow> identities t = identities s \<and> users t = users s
      | Inr u \<Rightarrow> user_of t (usr_id u) = Some u \<and> usr_status u = UserStatus.ACTIVE \<and>
          (\<exists>sub i. google_sub_from_claims claims = Inr sub \<and> identity_of t (''google'', sub) = Some i \<and>
             iy_user_id i = usr_id u \<and>
             (identity_of s (''google'', sub) = None \<longrightarrow>
                require_verified_email_for_linking claims = Inr (usr_email u))))) s"
  by (rule wp_resolve_google_user [OF assms])

lemma google_identity_is_stable_witness:
  "wp (resolve_google_user demo_env (JObj [(''sub'', JStr ''s1''), (''email'', JStr ''A@B.C''), (''email_verified'', JBool True)]))
     (\<lambda>r t. \<forall>k i. identity_of (idle\<lparr>users := [demo_user]\<rparr>) k = Some i \<longrightarrow> identity_of t k = Some i)
     (idle\<lparr>users := [demo_user]\<rparr>)"
  by (rule wp_mono [OF google_identity_is_stable]) (simp_all add: unique_key_def)

section \<open>The administrator\<close>

text \<open>The unique columns of the tables of users, roles and permissions.\<close>

definition auth_ok :: "sys \<Rightarrow> bool" where
  "auth_ok s \<longleftrightarrow> unique_key usr_id (users s) \<and> unique_key usr_email (users s) \<and> unique_key ro_id (roles s) \<and>
     unique_key ro_name (roles s) \<and> unique_key pm_id (permission_rows s) \<and> unique_key pm_name (permission_rows s)"

lemma unique_key_snoc: "unique_key key (rows @ [r]) \<longleftrightarrow> unique_key key rows \<and> key r \<notin> key ` set rows"
  by (auto simp: unique_key_def)

text \<open>What the seed of the permissions leaves: the other tables, and every permission it was given.\<close>

definition seeds :: "(string \<times> string) list \<Rightarrow> sys \<Rightarrow> sys \<Rightarrow> bool" where
  "seeds entries s t \<longleftrightarrow> t\<lparr>permission_rows := [], uuids := 0\<rparr> = s\<lparr>permission_rows := [], uuids := 0\<rparr> \<and>
     set (permission_rows s) \<subseteq> set (permission_rows t) \<and>
     fst ` set entries \<subseteq> pm_name ` set (permission_rows t) \<and> (auth_ok s \<longrightarrow> auth_ok t)"

lemma wp_seed_permission:
  "wp (seed_permission E entry) (\<lambda>r t. case r of Inl e \<Rightarrow> True | Inr x \<Rightarrow> seeds [entry] s t) s"
proof (cases "lookup_row pm_name (permission_rows s) (fst entry)")
  case None
  then have "fst entry \<notin> pm_name ` set (permission_rows s)" by (simp add: lookup_row_None)
  then show ?thesis
    by (auto simp: seed_permission_def wp_simps None seeds_def auth_ok_def unique_key_snoc)
next
  case (Some row)
  from lookup_row_Some [OF this] have "fst entry \<in> pm_name ` set (permission_rows s)" by force
  then show ?thesis by (simp add: seed_permission_def wp_simps Some seeds_def)
qed

lemma wp_seed_permissions:
  "wp (seed_permissions E entries) (\<lambda>r t. case r of Inl e \<Rightarrow> True | Inr x \<Rightarrow> seeds entries s t) s"
proof (induction entries arbitrary: s)
  case Nil
  then show ?case by (simp add: wp_simps seeds_def)
next
  case (Cons entry entries)
  show ?case
    unfolding seed_permissions.simps wp_seq
  proof (rule wp_mono [OF wp_seed_permission], goal_cases)
    case (1 r t)
    show ?case
    proof (cases r)
      case (Inr x)
      with 1 have seeds: "seeds [entry] s t" by simp
      show ?thesis
        unfolding Inr sum.case
      proof (rule wp_mono [OF Cons.IH], goal_cases)
        case (1 r' t')
        then show ?case using seeds by (cases r') (auto simp: seeds_def)
      qed
    qed simp
  qed
qed

lemma seeds_fields:
  assumes "seeds entries s t"
  shows "users t = users s" "roles t = roles s" "user_roles t = user_roles s" "role_permissions t = role_permissions s"
    "identities t = identities s" "sessions t = sessions s"
proof -
  have mask: "t\<lparr>permission_rows := [], uuids := 0\<rparr> = s\<lparr>permission_rows := [], uuids := 0\<rparr>"
    using assms by (simp add: seeds_def)
  show "users t = users s" "roles t = roles s" "user_roles t = user_roles s" "role_permissions t = role_permissions s"
    "identities t = identities s" "sessions t = sessions s"
    using arg_cong [OF mask, of users] arg_cong [OF mask, of roles] arg_cong [OF mask, of user_roles]
      arg_cong [OF mask, of role_permissions] arg_cong [OF mask, of identities] arg_cong [OF mask, of sessions]
    by simp_all
qed

lemma map_filter_append: "List.map_filter f (xs @ ys) = List.map_filter f xs @ List.map_filter f ys"
  by (induction xs) (simp_all add: map_filter_simps split: option.split)

lemma links_to_all:
  assumes "unique_key key rows"
  shows "List.map_filter (\<lambda>l. if fst l = r then lookup_row key rows (snd l) else None)
     (filter (\<lambda>l. fst l \<noteq> r) ls @ map (\<lambda>p. (r, key p)) rows) = rows"
proof -
  have "List.map_filter (\<lambda>l. if fst l = r then lookup_row key rows (snd l) else None) (map (\<lambda>p. (r, key p)) xs) = xs"
    if "set xs \<subseteq> set rows" for xs
    using that by (induction xs) (simp_all add: map_filter_simps lookup_row_unique [OF assms])
  moreover have "List.map_filter (\<lambda>l. if fst l = r then lookup_row key rows (snd l) else None)
      (filter (\<lambda>l. fst l \<noteq> r) ls) = []"
    by (induction ls) (simp_all add: map_filter_simps)
  ultimately show ?thesis by (simp add: map_filter_append)
qed

lemma permissions_of_all:
  assumes "unique_key pm_id rows" and "permission_rows t = rows"
    and "role_permissions t = filter (\<lambda>l. fst l \<noteq> rid) ls @ map (\<lambda>p. (rid, pm_id p)) rows"
  shows "permissions_of t rid = rows"
  unfolding permissions_of_def assms(2,3) by (rule links_to_all [OF assms(1)])

text \<open>The seed: one role of that name, linked to exactly all permissions.\<close>

definition seeded :: "sys \<Rightarrow> sys \<Rightarrow> bool" where
  "seeded s t \<longleftrightarrow> auth_ok t \<and> users t = users s \<and> user_roles t = user_roles s \<and>
     fst ` set permission_catalog \<subseteq> pm_name ` set (permission_rows t) \<and>
     (\<exists>role. role_by_name t super_admin_role_name = Some role \<and>
        permissions_of t (ro_id role) = permission_rows t)"

lemma wp_seed_authorization_data:
  assumes "auth_ok s"
  shows "wp (seed_authorization_data E) (\<lambda>r t. case r of Inl e \<Rightarrow> True | Inr x \<Rightarrow> seeded s t) s"
  unfolding seed_authorization_data_def wp_seq
proof (rule wp_mono [OF wp_seed_permissions], goal_cases)
  case (1 r t)
  show ?case
  proof (cases r)
    case (Inr x)
    with 1 have seeds: "seeds permission_catalog s t" by simp
    then have t: "auth_ok t" "fst ` set permission_catalog \<subseteq> pm_name ` set (permission_rows t)"
      using assms by (simp_all add: seeds_def)
    have pm: "unique_key pm_id (permission_rows t)" using t(1) by (simp add: auth_ok_def)
    note same = seeds_fields [OF seeds]
    show ?thesis
    proof (cases "role_by_name t super_admin_role_name")
      case None
      then have "super_admin_role_name \<notin> ro_name ` set (roles t)" by (simp add: lookup_row_None)
      then show ?thesis
        using t same None [unfolded same]
        by (simp add: Inr wp_simps Let_def seeded_def auth_ok_def unique_key_snoc lookup_row_append)
          (auto intro!: permissions_of_all [where ls = "role_permissions s"] simp: pm)
    next
      case (Some role)
      then show ?thesis
        using t same Some [unfolded same]
        by (simp add: Inr wp_simps seeded_def auth_ok_def)
          (auto intro!: permissions_of_all [where ls = "role_permissions s"] simp: pm)
    qed
  qed simp
qed

lemma roles_of_snoc:
  assumes "lookup_row ro_id (roles s) rid = Some role" and "roles t = roles s" and "user_roles t = user_roles s @ [(uid, rid)]"
  shows "roles_of t x = roles_of s x @ (if x = uid then [role] else [])"
  using assms(1) unfolding roles_of_def assms(2,3) by (simp add: map_filter_append map_filter_simps)

lemma holders_iff:
  "u \<in> set (holders s name) \<longleftrightarrow> u \<in> set (users s) \<and> (\<exists>r \<in> set (roles_of s (usr_id u)). ro_name r = name)"
  by (auto simp: holders_def list_ex_iff)

text \<open>The tables of permissions stay; the administrator's email names the only holder of the role.\<close>

definition bootstrapped :: "env \<Rightarrow> uuid \<Rightarrow> sys \<Rightarrow> sys \<Rightarrow> bool" where
  "bootstrapped E uid s t \<longleftrightarrow> auth_ok t \<and> permission_rows t = permission_rows s \<and>
     role_permissions t = role_permissions s \<and>
     (\<exists>u role. role_by_name s super_admin_role_name = Some role \<and> user_of t uid = Some u \<and>
        normalized_admin_email E = Inr (usr_email u) \<and> role \<in> set (roles_of t uid) \<and>
        (\<forall>v \<in> set (holders t super_admin_role_name). usr_email v = usr_email u))"

lemma bootstrapped_link:
  assumes "auth_ok t" and "permission_rows t = permission_rows s" and "role_permissions t = role_permissions s"
    and "roles t = roles s" and role: "role_by_name s super_admin_role_name = Some role"
    and u: "u \<in> set (users t)" "normalized_admin_email E = Inr (usr_email u)"
    and users: "\<forall>v \<in> set (users t). v \<in> set (users s) \<or> v = u"
    and emails: "list_all (\<lambda>v. usr_email v = usr_email u) (holders s super_admin_role_name)"
    and links: "user_roles t = user_roles s @ [(usr_id u, ro_id role)] \<or>
      user_roles t = user_roles s \<and> role \<in> set (roles_of s (usr_id u))"
  shows "bootstrapped E (usr_id u) s t"
proof -
  have "unique_key ro_id (roles s)" using assms(1,4) by (simp add: auth_ok_def)
  moreover have "role \<in> set (roles s)" using lookup_row_Some [OF role] by simp
  ultimately have found: "lookup_row ro_id (roles s) (ro_id role) = Some role" by (rule lookup_row_unique)
  have roles: "roles_of t x = roles_of s x @ (if x = usr_id u \<and> user_roles t \<noteq> user_roles s then [role] else [])" for x
    using links roles_of_snoc [OF found assms(4)] roles_of_cong [OF assms(4)] by auto
  have mem: "role \<in> set (roles_of t (usr_id u))" using links roles by auto
  have "usr_email v = usr_email u" if "v \<in> set (holders t super_admin_role_name)" for v
  proof (cases "usr_id v = usr_id u")
    case True
    then have "v = u"
      using that u(1) assms(1) unique_keyD [of usr_id "users t" v u] by (simp add: holders_iff auth_ok_def)
    then show ?thesis by simp
  next
    case False
    then have "v \<in> set (holders s super_admin_role_name)"
      using that users roles by (auto simp: holders_iff)
    then show ?thesis using emails by (simp add: list_all_iff)
  qed
  moreover have "user_of t (usr_id u) = Some u"
    using u(1) assms(1) by (intro lookup_row_unique) (simp_all add: auth_ok_def)
  ultimately show ?thesis using assms(1-3) role u(2) mem by (auto simp: bootstrapped_def)
qed

lemma wp_bootstrap_super_admin:
  assumes "auth_ok s"
  shows "wp (bootstrap_super_admin E) (\<lambda>r t. case r of Inl e \<Rightarrow> True | Inr uid \<Rightarrow> bootstrapped E uid s t) s"
proof (cases "normalized_admin_email E")
  case (Inr email)
  show ?thesis
  proof (cases "role_by_name s super_admin_role_name")
    case (Some role)
    have "\<not> list_ex (\<lambda>u. usr_email u \<noteq> email) (holders s super_admin_role_name) \<Longrightarrow>
       list_all (\<lambda>u. usr_email u = email) (holders s super_admin_role_name)"
      by (simp add: list_ex_iff list_all_iff)
    note emails = this
    show ?thesis
    proof (cases "user_by_email s email")
      case None
      then have "email \<notin> usr_email ` set (users s)" by (simp add: lookup_row_None)
      define u where "u = \<lparr>usr_id = uuid4 E (uuids s), usr_email = email, usr_display_name = None,
        usr_avatar_url = None, usr_status = UserStatus.ACTIVE, usr_created_at = clock E (ticks s),
        usr_updated_at = clock E (ticks s), usr_last_login_at = None\<rparr>"
      have u: "usr_id u = uuid4 E (uuids s)" "usr_email u = email" by (simp_all add: u_def)
      from \<open>email \<notin> _\<close> show ?thesis
        using assms Inr Some emails u
        by (auto simp: bootstrap_super_admin_def wp_simps None Let_def auth_ok_def unique_key_snoc u_def [symmetric]
            intro!: bootstrapped_link [where u = u, unfolded u])
    next
      case u: (Some u)
      then show ?thesis
        using assms Inr Some emails lookup_row_Some [OF u]
        by (auto simp: bootstrap_super_admin_def wp_simps u auth_ok_def intro!: bootstrapped_link)
    qed
  qed (simp add: bootstrap_super_admin_def wp_simps Inr)
qed (simp add: bootstrap_super_admin_def wp_simps)

lemma bootstrapped_admin:
  assumes "seeded s t" and "bootstrapped E uid t t'"
  shows "auth_ok t' \<and> (\<exists>u. user_of t' uid = Some u \<and> normalized_admin_email E = Inr (usr_email u) \<and>
     (\<forall>v \<in> set (holders t' super_admin_role_name). v = u) \<and>
     (\<forall>name. known_permission name \<longrightarrow> user_has_permission t' uid name))"
proof -
  from assms(2) obtain u role where role: "role_by_name t super_admin_role_name = Some role" "role \<in> set (roles_of t' uid)"
    and u: "user_of t' uid = Some u" "normalized_admin_email E = Inr (usr_email u)"
      "\<forall>v \<in> set (holders t' super_admin_role_name). usr_email v = usr_email u"
    and t': "auth_ok t'" "permission_rows t' = permission_rows t" "role_permissions t' = role_permissions t"
    unfolding bootstrapped_def by blast
  have "u \<in> set (users t')" using lookup_row_Some [OF u(1)] by simp
  then have "v = u" if "v \<in> set (holders t' super_admin_role_name)" for v
    using that u(3) t'(1) unique_keyD [of usr_email "users t'" v u] by (simp add: holders_iff auth_ok_def)
  moreover have *: "permissions_of t' (ro_id role) = permission_rows t"
    using assms(1) role(1) permissions_of_cong [OF t'(2,3)] by (auto simp: seeded_def)
  have "user_has_permission t' uid name" if "known_permission name" for name
  proof -
    have "name \<in> pm_name ` set (permission_rows t)"
      using that assms(1) unfolding known_permission_def seeded_def set_map by blast
    then show ?thesis
      using role(2) * unfolding user_has_permission_def list_ex_iff by force
  qed
  ultimately show ?thesis using t'(1) u(1,2) by blast
qed

text \<open>
  C25: The bootstrap leaves one administrator.  When it succeeds, the user of the returned id has the
  configured email and every permission of the catalog, and nobody else holds the administrator role; when
  it raises, no table has changed.
\<close>
theorem bootstrap_makes_one_admin:
  assumes "auth_ok s"
  shows "wp (bootstrap_admin E) (\<lambda>r t. case r of
      Inl e \<Rightarrow> t = rolled_back s t
    | Inr uid \<Rightarrow> auth_ok t \<and> (\<exists>u. user_of t uid = Some u \<and> normalized_admin_email E = Inr (usr_email u) \<and>
        (\<forall>v \<in> set (holders t super_admin_role_name). v = u) \<and>
        (\<forall>name. known_permission name \<longrightarrow> user_has_permission t uid name))) s"
  unfolding bootstrap_admin_def wp_transaction wp_seq
proof (rule wp_mono [OF wp_seed_authorization_data [OF assms]], goal_cases)
  case (1 r t)
  show ?case
  proof (cases r)
    case (Inr x)
    with 1 have t: "seeded s t" by simp
    then have ok: "auth_ok t" by (simp add: seeded_def)
    show ?thesis
      unfolding Inr sum.case
    proof (rule wp_mono [OF wp_bootstrap_super_admin [OF ok]], goal_cases)
      case (1 r' t')
      show ?case
      proof (cases r')
        case (Inr uid)
        with 1 have "bootstrapped E uid t t'" by simp
        then show ?thesis using bootstrapped_admin [OF t] by (simp add: Inr)
      qed simp
    qed
  qed simp
qed

lemma bootstrap_makes_one_admin_witness:
  "wp (bootstrap_admin (demo_env\<lparr>getenv := \<lambda>n. if n = ''HERMES_ADMIN_EMAIL'' then Some ''Boss@x.io '' else None\<rparr>))
     (\<lambda>r t. case r of Inl e \<Rightarrow> t = rolled_back idle t
       | Inr uid \<Rightarrow> \<exists>u. user_of t uid = Some u \<and> usr_email u = ''boss@x.io'') idle"
proof -
  have "normalized_admin_email (demo_env\<lparr>getenv := \<lambda>n. if n = ''HERMES_ADMIN_EMAIL'' then Some ''Boss@x.io '' else None\<rparr>) =
      Inr ''boss@x.io''" by code_simp
  then show ?thesis
    by (intro wp_mono [OF bootstrap_makes_one_admin]) (auto simp: auth_ok_def idle_def split: sum.splits)
qed

end
