(* ===== verification/OAuthProperties.thy ===== *)
theory OAuthProperties
  imports OAuth SessionProperties
begin

text \<open>
  Signing in with Google: a state is used once, a cookie is set only for a login this server started and a
  user it knows, and the browser is only ever sent to the configured addresses.
\<close>

section \<open>Rules for the operations\<close>

lemma wp_create_state [wp_simps]:
  "wp (create_state E url) Q s = Q (Inr (token_urlsafe E (uuids s)))
     (s\<lparr>uuids := uuids s + 1, ticks := ticks s + 1, oauth_states := save_row fst
        (token_urlsafe E (uuids s), monotonic E (ticks s) + state_ttl, url) (oauth_states s)\<rparr>)"
  by (simp add: create_state_def wp_simps)

lemma wp_consume_state:
  "wp (consume_state E state) (\<lambda>r t. users t = users s \<and> sessions t = sessions s \<and> identities t = identities s \<and>
     (case state of
        None \<Rightarrow> r = Inr None \<and> oauth_states t = oauth_states s
      | Some st \<Rightarrow> if strip st = [] then r = Inr None \<and> oauth_states t = oauth_states s
          else oauth_states t = delete_row fst st (oauth_states s) \<and>
            (\<forall>url. r = Inr (Some url) \<longrightarrow>
               (\<exists>expires. state_of s st = Some (st, expires, url) \<and> monotonic E (ticks s) \<le> expires)))) s"
  by (auto simp: consume_state_def wp_simps dest: lookup_row_Some split: option.split)

text \<open>What a sign-in leaves: a redirect to its address, and a cookie only with a session behind it.\<close>

definition signed_in :: "env \<Rightarrow> sys \<Rightarrow> Cookie \<Rightarrow> sys \<Rightarrow> bool" where
  "signed_in E s cookie t \<longleftrightarrow> ck_key cookie = session_cookie_name \<and> ck_httponly cookie \<and>
     (\<exists>u row sub i. sessions t = sessions s @ [row] \<and> se_token_hash row = sha256 E (ck_value cookie) \<and>
        se_user_id row = usr_id u \<and> se_revoked_at row = None \<and> active_user t (usr_id u) = Some u \<and>
        identity_of t (''google'', sub) = Some i \<and> iy_user_id i = usr_id u)"

definition statuses :: "string list" where
  "statuses = [''success'', ''cancelled'', ''error'', ''denied'']"

definition answers :: "env \<Rightarrow> sys \<Rightarrow> string \<Rightarrow> http_exn + auth_response \<Rightarrow> sys \<Rightarrow> bool" where
  "answers E s url r t \<longleftrightarrow> (case r of Inl e \<Rightarrow> True | Inr response \<Rightarrow>
     \<exists>status \<in> set statuses. \<exists>cookie. response = redirect_with_status url status cookie \<and>
       (case cookie of SetCookie c \<Rightarrow> status = ''success'' \<and> signed_in E s c t | _ \<Rightarrow> cookie = KeepCookies))"

lemma answers_cong: "sessions s' = sessions s \<Longrightarrow> answers E s' = answers E s"
proof -
  assume "sessions s' = sessions s"
  then have "signed_in E s' = signed_in E s" by (intro ext) (simp add: signed_in_def)
  note same = this
  show ?thesis unfolding answers_def [abs_def] same ..
qed

lemma answers_error [simp]: "answers E s url (Inl e) t"
  by (simp add: answers_def)

lemma answers_kept:
  assumes "status \<in> set statuses"
  shows "answers E s url (Inr (redirect_with_status url status KeepCookies)) t"
  unfolding answers_def sum.case by (intro bexI [OF _ assms] exI [of _ KeepCookies]) simp

lemma answers_cookie:
  assumes "signed_in E s c t"
  shows "answers E s url (Inr (redirect_with_status url ''success'' (SetCookie c))) t"
  unfolding answers_def sum.case
  by (intro bexI [of _ "''success''"] exI [of _ "SetCookie c"]) (simp_all add: assms statuses_def)

lemma rolled_back_fields [simp]:
  "oauth_states (rolled_back s t) = oauth_states t" "users (rolled_back s t) = users s"
  "sessions (rolled_back s t) = sessions s" "identities (rolled_back s t) = identities s"
  by (simp_all add: rolled_back_def)

abbreviation same_users :: "sys \<Rightarrow> sys \<Rightarrow> bool" where
  "same_users s t \<equiv> map usr_id (users t) = map usr_id (users s)"

lemma map_usr_id: "usr_id v = uid \<Longrightarrow> map usr_id (map (\<lambda>x. if usr_id x = uid then v else x) us) = map usr_id us"
  by (induction us) auto

lemma resolve_oauth_states:
  "wp (resolve_google_user E claims) (\<lambda>r t. oauth_states t = oauth_states s \<and> same_users s t) s"
  by (simp add: resolve_google_user_def record_login_def Let_def wp_simps map_usr_id del: map_map
      split: sum.split option.split)

lemma create_session_frame:
  "wp (create_session E u ttl) (\<lambda>r t. oauth_states t = oauth_states s \<and> users t = users s \<and> identities t = identities s) s"
  by (simp add: create_session_def hash_token_def wp_simps Let_def)

lemma wp_sign_in:
  assumes "unique_key usr_id (users s)"
  shows "wp (sign_in E url claims) (\<lambda>r t. oauth_states t = oauth_states s \<and> same_users s t \<and> answers E s url r t) s"
  unfolding sign_in_def wp_bnd wp_attempt wp_transaction sum.case
proof (rule wp_mono [OF wp_conj [OF wp_conj [OF wp_resolve_google_user [OF assms] resolve_oauth_states]
      frame_sessions(2)]], goal_cases)
  case (1 r t)
  show ?case
  proof (cases r)
    case (Inl e)
    then show ?thesis
      using 1 answers_kept [of "''denied''"] by (simp add: wp_simps statuses_def)
  next
    case (Inr u)
    from 1 obtain sub i where u: "user_of t (usr_id u) = Some u" "usr_status u = UserStatus.ACTIVE"
      "identity_of t (''google'', sub) = Some i" "iy_user_id i = usr_id u"
      and t: "oauth_states t = oauth_states s" "sessions t = sessions s" "same_users s t" by (auto simp: Inr)
    show ?thesis
    proof (cases "session_ttl E")
      case (Inl e)
      then show ?thesis using t by (simp add: Inr wp_simps)
    next
      case ttl: (Inr ttl)
      show ?thesis
        unfolding Inr sum.case wp_run_service wp_transaction wp_bnd wp_lift ttl
      proof (rule wp_mono [OF wp_conj [OF wp_create_session create_session_frame]], goal_cases)
        case (1 r' t')
        then show ?case
          using t u
          by (cases r'; cases "cookie_samesite E")
            (auto simp: wp_simps signed_in_def active_user_def intro!: answers_cookie exI [of _ u] exI [of _ sub] exI [of _ i])
      qed
    qed
  qed
qed

section \<open>Properties\<close>

lemma wp_finish_callback:
  assumes "unique_key usr_id (users s)"
  shows "wp (finish_callback E rq code url) (\<lambda>r t. oauth_states t = oauth_states s \<and> same_users s t \<and> answers E s url r t) s"
proof -
  have failed: "answers E s url (Inr (redirect_with_status url ''error'' KeepCookies)) s"
    "answers E s url (Inr (redirect_with_status url ''cancelled'' KeepCookies)) s"
    by (simp_all add: answers_kept statuses_def)
  have exchange: "wp (exchange_google_code E c) (\<lambda>r t. t = s) s" for c
    by (auto simp: exchange_google_code_def wp_simps split: sum.split url_reply.split option.split)
  show ?thesis
    using failed wp_sign_in [OF assms, of E url]
    by (auto simp: finish_callback_def Let_def wp_simps split: sum.split exn.split json.split
        intro!: wp_mono [OF exchange])
qed

lemma wp_google_callback:
  assumes "unique_key usr_id (users s)" and "strip st \<noteq> []"
  shows "wp (google_callback E rq code (Some st)) (\<lambda>r t. oauth_states t = delete_row fst st (oauth_states s) \<and> same_users s t \<and>
        (\<forall>response. r = Inr response \<longrightarrow>
           (\<exists>expires url. state_of s st = Some (st, expires, url) \<and> monotonic E (ticks s) \<le> expires \<and>
              answers E s url r t))) s"
  unfolding google_callback_def option.case if_not_P [OF assms(2)] wp_bnd
proof (rule wp_mono [OF wp_consume_state], goal_cases)
  case (1 r t)
  then have t: "users t = users s" "sessions t = sessions s" "oauth_states t = delete_row fst st (oauth_states s)"
    and found: "\<And>url. r = Inr (Some url) \<Longrightarrow>
      \<exists>expires. state_of s st = Some (st, expires, url) \<and> monotonic E (ticks s) \<le> expires"
    using assms(2) by auto
  show ?case
  proof (cases r)
    case (Inr found_url)
    show ?thesis
    proof (cases found_url)
      case None
      then show ?thesis using t by (simp add: Inr wp_simps)
    next
      case (Some url)
      show ?thesis
        unfolding Inr Some sum.case option.case
        by (rule wp_mono [OF wp_finish_callback])
          (use assms(1) t found in \<open>auto simp: Inr Some answers_cong [OF t(2)]\<close>)
    qed
  qed (use t in simp)
qed

text \<open>
  C17: A callback can only finish a login this server started, once.  The state it names is forgotten whatever
  happens; any answer but an error goes to the address stored with that unexpired state; and a cookie is set only with
  status success, http-only, for a session just created for the active user the Google identity is
  linked to.
\<close>
theorem callback_finishes_own_login_once:
  assumes "unique_key usr_id (users s)"
  shows "wp (google_callback E rq code state) (\<lambda>r t. case state of
       None \<Rightarrow> r = Inl (http_error 400 ''Missing state parameter.'')
     | Some st \<Rightarrow> (strip st \<noteq> [] \<longrightarrow> state_of t st = None) \<and>
        (\<forall>response. r = Inr response \<longrightarrow>
           (\<exists>expires url. state_of s st = Some (st, expires, url) \<and> monotonic E (ticks s) \<le> expires \<and>
              answers E s url r t))) s"
proof (cases state)
  case None
  then show ?thesis by (simp add: google_callback_def strip_def wp_simps)
next
  case (Some st)
  show ?thesis
  proof (cases "strip st = []")
    case True
    then show ?thesis by (simp add: Some google_callback_def wp_simps)
  next
    case False
    show ?thesis
      unfolding Some
      by (rule wp_mono [OF wp_google_callback [OF assms False]])
        (auto simp: lookup_delete_row)
  qed
qed

text \<open>A pending login: state \<open>abc\<close>, to be finished within ten minutes at the only configured address.\<close>

definition pending :: sys where
  "pending = idle\<lparr>oauth_states := [(''abc'', state_ttl, ''app'')], users := [demo_user]\<rparr>"

definition plain_request :: Request where
  "plain_request = \<lparr>rq_headers = (\<lambda>n. None), rq_cookies = (\<lambda>n. None), rq_query = (\<lambda>n. None), rq_client_host = None\<rparr>"

lemma callback_finishes_own_login_once_witness:
  "wp (google_callback demo_env plain_request (Some ''code'') (Some ''abc'')) (\<lambda>r t. state_of t ''abc'' = None) pending"
  by (rule wp_mono [OF callback_finishes_own_login_once])
    (auto simp: pending_def idle_def unique_key_def strip_def is_space_def)

section \<open>No open redirect\<close>

datatype oauth_op = LoginOp Request "string option" | CallbackOp Request "string option" "string option"
  | MeOp Request | LogoutOp Request

fun run_oauth_op :: "env \<Rightarrow> oauth_op \<Rightarrow> sys \<Rightarrow> (http_exn + auth_response) \<times> sys" where
  "run_oauth_op E (LoginOp rq return_to) = login_route E rq return_to"
| "run_oauth_op E (CallbackOp rq code state) = callback_route E rq code state"
| "run_oauth_op E (MeOp rq) = me_route E rq"
| "run_oauth_op E (LogoutOp rq) = logout_route E rq"

text \<open>Every pending login returns to a configured address.\<close>

definition states_ok :: "env \<Rightarrow> sys \<Rightarrow> bool" where
  "states_ok E s \<longleftrightarrow> unique_key usr_id (users s) \<and>
     (\<forall>entry \<in> set (oauth_states s). snd (snd entry) \<in> set (configured_allowed_return_uris E))"

text \<open>Where an answer may send the browser.\<close>

definition safe_answer :: "env \<Rightarrow> http_exn + auth_response \<Rightarrow> bool" where
  "safe_answer E r \<longleftrightarrow> (case r of
      Inr (RedirectResponse location code cookie) \<Rightarrow>
        take 45 location = ''https://accounts.google.com/o/oauth2/v2/auth?'' \<or>
        (\<exists>url \<in> set (configured_allowed_return_uris E). \<exists>status \<in> set statuses.
           location = url @ (if CHR ''?'' \<in> set url then ''&'' else ''?'') @ ''auth='' @ status)
    | _ \<Rightarrow> True)"

lemma wp_rate_limit:
  "wp (rate_limit E name scope rq) (\<lambda>r t. (\<exists>L. t = s\<lparr>ticks := ticks s + 1, limiters := L\<rparr>)) s"
  unfolding rate_limit_def wp_bnd wp_now_monotonic sum.case by (auto simp: wp_def split: prod.split)

lemma states_ok_cong: "users t = users s \<Longrightarrow> oauth_states t = oauth_states s \<Longrightarrow> states_ok E t = states_ok E s"
  by (simp add: states_ok_def)

lemma default_return_uri_allowed:
  "default_return_uri E = Inr url \<Longrightarrow> url \<in> set (configured_allowed_return_uris E)"
  by (auto simp: default_return_uri_def split: list.splits option.splits if_splits)

lemma wp_google_login:
  assumes "states_ok E s"
  shows "wp (google_login E return_to) (\<lambda>r t. safe_answer E r \<and> states_ok E t) s"
proof -
  have save: "states_ok E (s\<lparr>uuids := n, ticks := m, oauth_states := save_row fst (st, exp, url) (oauth_states s)\<rparr>)"
    if "url \<in> set (configured_allowed_return_uris E)" for n m st exp url
    using assms that set_save_row [of fst "(st, exp, url)" "oauth_states s"] by (auto simp: states_ok_def)
  have build: "wp (bnd (build_google_authorization_url E url) (\<lambda>u. ret (RedirectResponse u 307 KeepCookies)))
     (\<lambda>r t. safe_answer E r \<and> states_ok E t) s" if "url \<in> set (configured_allowed_return_uris E)" for url
    using save [OF that] assms
    by (auto simp: build_google_authorization_url_def wp_simps safe_answer_def split: sum.split)
  have "wp (resolve_return_uri E return_to)
     (\<lambda>r t. t = s \<and> (\<forall>url. r = Inr url \<longrightarrow> url \<in> set (configured_allowed_return_uris E))) s"
    using default_return_uri_allowed
    by (auto simp: resolve_return_uri_def wp_simps split: option.split list.split sum.split)
  then show ?thesis
    unfolding google_login_def
  proof (rule wp_bndI)
    show "wp (bnd (build_google_authorization_url E url) (\<lambda>u. ret (RedirectResponse u 307 KeepCookies)))
        (\<lambda>r t. safe_answer E r \<and> states_ok E t) t"
      if "t = s \<and> (\<forall>u. Inr url = Inr u \<longrightarrow> u \<in> set (configured_allowed_return_uris E))" for url t
      using that build [of url] by simp
  qed (use assms in \<open>auto simp: safe_answer_def\<close>)
qed

lemma wp_callback_safe:
  assumes "states_ok E s"
  shows "wp (google_callback E rq code state) (\<lambda>r t. safe_answer E r \<and> states_ok E t) s"
proof (cases "strip (case state of None \<Rightarrow> [] | Some st \<Rightarrow> st) = []")
  case True
  then show ?thesis using assms by (simp add: google_callback_def wp_simps safe_answer_def)
next
  case False
  then obtain st where st: "state = Some st" "strip st \<noteq> []" by (cases state) (auto simp: strip_def)
  have users: "unique_key usr_id (users s)" using assms by (simp add: states_ok_def)
  show ?thesis
    unfolding st(1)
  proof (rule wp_mono [OF wp_google_callback [OF users st(2)]], goal_cases)
    case (1 r t)
    then have "states_ok E t"
      using assms by (auto simp: states_ok_def unique_key_def set_delete_row)
    moreover have "safe_answer E r"
    proof (cases r)
      case (Inr response)
      with 1 obtain expires url where url: "state_of s st = Some (st, expires, url)" "answers E s url r t" by blast
      have "url \<in> set (configured_allowed_return_uris E)"
        using lookup_row_Some [OF url(1)] assms by (force simp: states_ok_def)
      then show ?thesis using url(2) Inr by (fastforce simp: answers_def safe_answer_def redirect_with_status_def)
    qed (simp add: safe_answer_def)
    ultimately show ?case by simp
  qed
qed

lemma wp_get_authenticated_user:
  assumes "states_ok E s"
  shows "wp (get_authenticated_user E rq) (\<lambda>r t. safe_answer E r \<and> states_ok E t) s"
  using assms
  by (auto simp: get_authenticated_user_def wp_simps safe_answer_def states_ok_def split: option.split list.split
      intro!: wp_mono [OF get_user_from_session_spec])

lemma wp_logout_user:
  assumes "states_ok E s"
  shows "wp (logout_user E rq) (\<lambda>r t. safe_answer E r \<and> states_ok E t) s"
proof -
  have revoke: "wp (revoke_session E tok) (\<lambda>r t. users t = users s \<and> oauth_states t = oauth_states s) s" for tok
    by (simp add: revoke_session_def hash_token_def wp_simps split: option.split)
  show ?thesis
    using assms
    by (auto simp: logout_user_def wp_simps safe_answer_def states_ok_def split: option.split list.split sum.split
        intro!: wp_mono [OF revoke])
qed

lemma safe_answer_Inl: "safe_answer E (Inl e)"
  by (simp add: safe_answer_def)

text \<open>A route is its rate limit and its handler.\<close>

lemma wp_limited:
  assumes "\<And>t. states_ok E t \<Longrightarrow> wp m (\<lambda>r t. safe_answer E r \<and> states_ok E t) t" and "states_ok E s"
  shows "wp (seq (rate_limit E name scope rq) m) (\<lambda>r t. safe_answer E r \<and> states_ok E t) s"
  unfolding seq_def
proof (rule wp_bndI [OF wp_rate_limit], goal_cases)
  case (1 x t)
  then have "states_ok E t = states_ok E s" by (intro states_ok_cong) auto
  then show ?case using assms by simp
next
  case (2 e t)
  then have "states_ok E t = states_ok E s" by (intro states_ok_cong) auto
  then show ?case using assms(2) by (simp add: safe_answer_Inl)
qed

lemma run_oauth_op_safe:
  assumes "states_ok E s"
  shows "safe_answer E (fst (run_oauth_op E op s)) \<and> states_ok E (snd (run_oauth_op E op s))"
proof -
  have "wp (run_oauth_op E op) (\<lambda>r t. safe_answer E r \<and> states_ok E t) s"
    using assms
    by (cases op) (simp_all add: login_route_def callback_route_def me_route_def logout_route_def wp_limited
        wp_google_login wp_callback_safe wp_get_authenticated_user wp_logout_user)
  then show ?thesis by (simp add: wp_def)
qed

text \<open>
  C27: No open redirect: whatever requests for logins, callbacks, the current user and logouts come in, in any
  order and with any parameters, from a server without pending logins, every redirect it answers goes to
  Google's consent screen or to a configured address, with nothing but a status appended.
\<close>
theorem no_open_redirect:
  assumes "oauth_states s = []" and "unique_key usr_id (users s)"
    and "t = fold (\<lambda>op s. snd (run_oauth_op E op s)) ops s"
  shows "safe_answer E (fst (run_oauth_op E op t))"
proof -
  have "states_ok E (fold (\<lambda>op s. snd (run_oauth_op E op s)) ops s)" if "states_ok E s" for s
    using that by (induction ops arbitrary: s) (simp_all add: run_oauth_op_safe)
  moreover have "states_ok E s" using assms(1,2) by (simp add: states_ok_def)
  ultimately show ?thesis using assms(3) run_oauth_op_safe by blast
qed

lemma no_open_redirect_witness:
  "safe_answer (demo_env\<lparr>getenv := \<lambda>n. Some ''http://app''\<rparr>)
     (fst (run_oauth_op (demo_env\<lparr>getenv := \<lambda>n. Some ''http://app''\<rparr>) (CallbackOp plain_request (Some ''c'') (Some ''token0''))
       (fold (\<lambda>op s. snd (run_oauth_op (demo_env\<lparr>getenv := \<lambda>n. Some ''http://app''\<rparr>) op s))
         [LoginOp plain_request None] idle)))"
  by (rule no_open_redirect [OF _ _ refl]) (simp_all add: idle_def)

end
