(* ===== verification/BinanceClient.thy ===== *)
theory BinanceClient
  imports Http Json
begin

text \<open>
  The REST client of the exchange (\<open>integrations/binance.py\<close>): how each method becomes one HTTP request,
  signed or not, how a response becomes a value or an exception, and which fields of a payload are kept.
  The HTTP library and the HMAC are parameters; a response's body is what parses as JSON, if it does.
\<close>

section \<open>Requests and responses\<close>

record http_request =
  hq_method :: string
  hq_url :: string
  hq_params :: "(string \<times> string) list"
  hq_headers :: "(string \<times> string) list"

record http_response =
  hr_status :: int
  hr_headers :: "string \<Rightarrow> string option"
  hr_body :: "json option"

datatype http_outcome = Response http_response | RequestTimeout | RequestFailed

text \<open>
  The client's fields, the transport, which answers a request from the requests made so far, the clock in
  milliseconds at the n-th request, and the hexadecimal HMAC-SHA256 of a key and a text.
\<close>

record rest =
  api_key :: string
  api_secret :: string
  base_url :: string
  transport :: "http_request list \<Rightarrow> http_request \<Rightarrow> http_outcome"
  wall_ms :: "nat \<Rightarrow> int"
  hmac_sha256 :: "string \<Rightarrow> string \<Rightarrow> string"

type_synonym 'a C = "http_request list \<Rightarrow> 'a result \<times> http_request list"

section \<open>Construction\<close>

definition require_binance_value :: "env \<Rightarrow> string \<Rightarrow> string result" where
  "require_binance_value E name = (case getenv E name of
      Some (c # cs) \<Rightarrow> Inr (c # cs)
    | _ \<Rightarrow> Inl (BinanceErr (BinanceConfigurationError (name @ '' must be configured''))))"

definition rstrip_slash :: "string \<Rightarrow> string" where
  "rstrip_slash t = rev (dropWhile (\<lambda>c. c = CHR ''/'') (rev t))"

definition configured_base_url :: "env \<Rightarrow> string" where
  "configured_base_url E = env_or E ''BINANCE_BASE_URL'' ''https://api.binance.com''"

definition new_client :: "env \<Rightarrow> rest \<Rightarrow> string option \<Rightarrow> string option \<Rightarrow> string option \<Rightarrow> rest result" where
  "new_client E R key secret url =
     rbind (case key of Some k \<Rightarrow> Inr k | None \<Rightarrow> require_binance_value E ''BINANCE_API_KEY'') (\<lambda>k.
     rbind (case secret of Some x \<Rightarrow> Inr x | None \<Rightarrow> require_binance_value E ''BINANCE_API_SECRET'') (\<lambda>x.
     Inr (R\<lparr>api_key := k, api_secret := x, base_url := rstrip_slash (case url of
        Some (c # cs) \<Rightarrow> c # cs | _ \<Rightarrow> configured_base_url E)\<rparr>)))"

section \<open>Numbers read as floats\<close>

text \<open>
  \<open>float(text)\<close>, as the exact decimal the text denotes.  Underscores separate digits only, and the
  payload and signaling forms of NaN are not floats.
\<close>

fun underscores_ok :: "bool \<Rightarrow> string \<Rightarrow> bool" where
  "underscores_ok d [] = True"
| "underscores_ok d (c # cs) = (if c = CHR ''_''
     then d \<and> cs \<noteq> [] \<and> is_digit (hd cs) \<and> underscores_ok False cs else underscores_ok (is_digit c) cs)"

definition float_of_str :: "string \<Rightarrow> decimal result" where
  "float_of_str text =
     (let t = strip text; err = Inl (ValueErr (''could not convert string to float: '' @ repr text)) in
      if \<not> underscores_ok False t then err
      else (case parse_signed (filter (\<lambda>c. c \<noteq> CHR ''_'') t) of
          None \<Rightarrow> err
        | Some (NaN s) \<Rightarrow> if lower (drop (length t - 3) t) = ''nan'' \<and> \<not> s then Inr (NaN False) else err
        | Some d \<Rightarrow> Inr d))"

definition float_of_json :: "json \<Rightarrow> decimal result" where
  "float_of_json j = (case j of
      JStr t \<Rightarrow> float_of_str t
    | JInt i \<Rightarrow> Inr (Fin (i < 0) (nat (abs i)) 0)
    | JBool b \<Rightarrow> Inr (Fin False (if b then 1 else 0) 0)
    | _ \<Rightarrow> Inl (TypeErr (''float() argument must be a string or a real number, not '' @ repr (py_type j))))"

text \<open>Whether the nearest double is positive: half of the smallest one rounds to zero.\<close>

fun float_positive :: "decimal \<Rightarrow> bool" where
  "float_positive (Fin s c e) = (\<not> s \<and> (if 0 \<le> e then 0 < c else 10 ^ nat (- e) < c * 2 ^ 1075))"
| "float_positive (Inf s) = (\<not> s)"
| "float_positive (NaN s) = False"

section \<open>Signing and sending\<close>

definition sign :: "rest \<Rightarrow> (string \<times> string) list \<Rightarrow> (string \<times> string) list" where
  "sign R params = params @ [(''signature'', hmac_sha256 R (api_secret R) (urlencode params))]"

definition prepare_request ::
    "rest \<Rightarrow> nat \<Rightarrow> (string \<times> string) list \<Rightarrow> bool \<Rightarrow> (string \<times> string) list \<times> (string \<times> string) list" where
  "prepare_request R n params signed =
     (if signed
      then (sign R (params @ [(''timestamp'', show_int (wall_ms R n)), (''recvWindow'', ''5000'')]),
            [(''X-MBX-APIKEY'', api_key R)])
      else (params, []))"

definition extract_binance_error :: "http_response \<Rightarrow> string" where
  "extract_binance_error rsp =
     (let plain = ''HTTP '' @ show_int (hr_status rsp) in
      case hr_body rsp of
        Some (JObj kvs) \<Rightarrow> (case map_of kvs ''msg'' of
            None \<Rightarrow> plain
          | Some msg \<Rightarrow> plain @ '', Binance code='' @
              py_str (case map_of kvs ''code'' of None \<Rightarrow> JStr ''?'' | Some code \<Rightarrow> code) @ '' msg='' @ py_str msg)
      | _ \<Rightarrow> plain)"

definition handle_response :: "http_response \<Rightarrow> string \<Rightarrow> string \<Rightarrow> json result" where
  "handle_response rsp method path =
     (if hr_status rsp \<in> set [401, 403]
      then Inl (BinanceErr (BinanceAuthenticationError (extract_binance_error rsp)))
      else if hr_status rsp \<in> set [418, 429]
      then rbind (case hr_headers rsp ''retry-after'' of
            Some (c # cs) \<Rightarrow> rbind (float_of_str (c # cs)) (\<lambda>d. Inr (Some d))
          | _ \<Rightarrow> Inr None) (\<lambda>retry_after.
        Inl (BinanceErr (BinanceRateLimitError (extract_binance_error rsp) retry_after)))
      else if \<not> hr_status rsp < 400
      then Inl (BinanceErr (BinanceRequestError (extract_binance_error rsp)))
      else (case hr_body rsp of
          Some payload \<Rightarrow> Inr payload
        | None \<Rightarrow> Inl (BinanceErr (BinanceRequestError
            (''Binance returned a malformed response for '' @ method @ '' '' @ path)))))"

definition send_request :: "rest \<Rightarrow> string \<Rightarrow> string \<Rightarrow> (string \<times> string) list \<Rightarrow> bool \<Rightarrow> json C" where
  "send_request R method path params signed h =
     (let (request_params, headers) = prepare_request R (length h) params signed;
          rq = \<lparr>hq_method = method, hq_url = base_url R @ path, hq_params = request_params, hq_headers = headers\<rparr> in
      (case transport R h rq of
         RequestTimeout \<Rightarrow> Inl (BinanceErr (BinanceRequestError (''Binance request timed out: '' @ path)))
       | RequestFailed \<Rightarrow> Inl (BinanceErr (BinanceRequestError (''Binance request failed: '' @ path)))
       | Response rsp \<Rightarrow> handle_response rsp method path,
       h @ [rq]))"

text \<open>What a method makes of the payload.\<close>

definition parsed :: "('b \<Rightarrow> 'a result) \<Rightarrow> 'b C \<Rightarrow> 'a C" where
  "parsed f m h = (case m h of (r, h') \<Rightarrow> (rbind r f, h'))"

section \<open>Curating payloads\<close>

text \<open>\<open>{name: payload.get(key), ...}\<close>.\<close>

definition curate :: "(string \<times> string) list \<Rightarrow> json \<Rightarrow> json result" where
  "curate spec payload =
     rbind (rmap (\<lambda>(name, key). rbind (jget_opt key payload) (\<lambda>v. Inr (name, v))) spec) (\<lambda>kvs. Inr (JObj kvs))"

text \<open>Iterating over a value: a dictionary gives its keys, a string its characters.\<close>

definition py_iter :: "json \<Rightarrow> json list result" where
  "py_iter j = (case j of
      JList xs \<Rightarrow> Inr xs
    | JObj kvs \<Rightarrow> Inr (map (\<lambda>kv. JStr (fst kv)) kvs)
    | JStr t \<Rightarrow> Inr (map (\<lambda>c. JStr [c]) t)
    | _ \<Rightarrow> Inl (TypeErr (repr (py_type j) @ '' object is not iterable'')))"

definition curate_list :: "(string \<times> string) list \<Rightarrow> json \<Rightarrow> json result" where
  "curate_list spec payload = rbind (py_iter payload) (\<lambda>xs. rbind (rmap (curate spec) xs) (\<lambda>ys. Inr (JList ys)))"

text \<open>The last filter of each type wins, as in a dictionary comprehension.\<close>

fun filters_by_type :: "json list \<Rightarrow> (json \<times> json) list result" where
  "filters_by_type [] = Inr []"
| "filters_by_type (f # fs) = rbind (jget_opt ''filterType'' f) (\<lambda>ty.
     case ty of
       JList xs \<Rightarrow> Inl (TypeErr (''unhashable type: '' @ repr ''list''))
     | JObj kvs \<Rightarrow> Inl (TypeErr (''unhashable type: '' @ repr ''dict''))
     | _ \<Rightarrow> rbind (filters_by_type fs) (\<lambda>rest. Inr (rest @ [(ty, f)])))"

definition filter_of :: "(json \<times> json) list \<Rightarrow> string \<Rightarrow> json" where
  "filter_of by_type ty = (case map_of by_type (JStr ty) of None \<Rightarrow> JObj [] | Some f \<Rightarrow> f)"

definition extract_symbol_filters :: "json \<Rightarrow> json result" where
  "extract_symbol_filters symbol_info =
     rbind (jget_or ''filters'' (JList []) symbol_info) (\<lambda>filters.
     rbind (py_iter filters) (\<lambda>fs.
     rbind (filters_by_type fs) (\<lambda>by_type.
     let lot_size = filter_of by_type ''LOT_SIZE'';
         price_filter = filter_of by_type ''PRICE_FILTER'';
         notional_filter = (if truthy (filter_of by_type ''MIN_NOTIONAL'') then filter_of by_type ''MIN_NOTIONAL''
           else filter_of by_type ''NOTIONAL'') in
     rbind (jget_opt ''minQty'' lot_size) (\<lambda>min_qty.
     rbind (jget_opt ''maxQty'' lot_size) (\<lambda>max_qty.
     rbind (jget_opt ''stepSize'' lot_size) (\<lambda>step_size.
     rbind (jget_opt ''minPrice'' price_filter) (\<lambda>min_price.
     rbind (jget_opt ''maxPrice'' price_filter) (\<lambda>max_price.
     rbind (jget_opt ''tickSize'' price_filter) (\<lambda>tick_size.
     rbind (jget_opt ''minNotional'' notional_filter) (\<lambda>min_notional.
     Inr (JObj [(''min_qty'', min_qty), (''max_qty'', max_qty), (''step_size'', step_size),
       (''min_price'', min_price), (''max_price'', max_price), (''tick_size'', tick_size),
       (''min_notional'', min_notional)])))))))))))"

section \<open>The methods\<close>

definition ping :: "rest \<Rightarrow> bool C" where
  "ping R = parsed (\<lambda>payload. Inr True) (send_request R ''GET'' ''/api/v3/ping'' [] False)"

definition get_account_info :: "rest \<Rightarrow> json C" where
  "get_account_info R = parsed
     (curate [(''account_type'', ''accountType''), (''can_trade'', ''canTrade''), (''can_withdraw'', ''canWithdraw''),
       (''can_deposit'', ''canDeposit'')])
     (send_request R ''GET'' ''/api/v3/account'' [] True)"

definition get_api_key_permissions :: "rest \<Rightarrow> json C" where
  "get_api_key_permissions R = parsed (curate [(''can_withdraw'', ''enableWithdrawals'')])
     (send_request R ''GET'' ''/sapi/v1/account/apiRestrictions'' [] True)"

definition nonzero_balance :: "json \<Rightarrow> bool result" where
  "nonzero_balance balance =
     rbind (rbind (jget_or ''free'' (JInt 0) balance) float_of_json) (\<lambda>free.
     if float_positive free then Inr True
     else rbind (rbind (jget_or ''locked'' (JInt 0) balance) float_of_json) (\<lambda>locked.
     Inr (float_positive locked)))"

definition balance_entry :: "json \<Rightarrow> json result" where
  "balance_entry balance =
     rbind (jget ''asset'' balance) (\<lambda>asset. rbind (jget ''free'' balance) (\<lambda>free.
     rbind (jget ''locked'' balance) (\<lambda>locked.
     Inr (JObj [(''asset'', asset), (''free'', free), (''locked'', locked)]))))"

fun nonzero_balances :: "json list \<Rightarrow> json list result" where
  "nonzero_balances [] = Inr []"
| "nonzero_balances (b # bs) =
     rbind (nonzero_balance b) (\<lambda>kept.
     if kept then rbind (balance_entry b) (\<lambda>e. rbind (nonzero_balances bs) (\<lambda>es. Inr (e # es)))
     else nonzero_balances bs)"

definition get_balances :: "rest \<Rightarrow> json C" where
  "get_balances R = parsed
     (\<lambda>payload. rbind (jget_or ''balances'' (JList []) payload) (\<lambda>balances.
        rbind (py_iter balances) (\<lambda>bs. rbind (nonzero_balances bs) (\<lambda>es. Inr (JList es)))))
     (send_request R ''GET'' ''/api/v3/account'' [] True)"

definition get_market_data :: "rest \<Rightarrow> string \<Rightarrow> json C" where
  "get_market_data R symbol = parsed
     (curate [(''symbol'', ''symbol''), (''last_price'', ''lastPrice''),
       (''price_change_percent'', ''priceChangePercent''), (''high_price'', ''highPrice''),
       (''low_price'', ''lowPrice''), (''volume'', ''volume'')])
     (send_request R ''GET'' ''/api/v3/ticker/24hr'' [(''symbol'', symbol)] False)"

text \<open>\<open>candle[i]\<close> of a positional array.\<close>

definition at_index :: "nat \<Rightarrow> json \<Rightarrow> json result" where
  "at_index i j = (case j of
      JList xs \<Rightarrow> if i < length xs then Inr (xs ! i) else Inl (IndexErr ''list index out of range'')
    | JStr t \<Rightarrow> if i < length t then Inr (JStr [t ! i]) else Inl (IndexErr ''string index out of range'')
    | JObj kvs \<Rightarrow> Inl (KeyErr (show_nat i))
    | _ \<Rightarrow> Inl (TypeErr (repr (py_type j) @ '' object is not subscriptable'')))"

definition candle_fields :: "string list" where
  "candle_fields = [''open_time'', ''open'', ''high'', ''low'', ''close'', ''volume'', ''close_time'']"

definition candle_entry :: "json \<Rightarrow> json result" where
  "candle_entry candle =
     rbind (rmap (\<lambda>i. rbind (at_index i candle) (\<lambda>v. Inr (candle_fields ! i, v))) [0..<7]) (\<lambda>kvs. Inr (JObj kvs))"

definition get_klines :: "rest \<Rightarrow> string \<Rightarrow> string \<Rightarrow> int \<Rightarrow> json C" where
  "get_klines R symbol interval limit = parsed
     (\<lambda>payload. rbind (py_iter payload) (\<lambda>cs. rbind (rmap candle_entry cs) (\<lambda>es. Inr (JList es))))
     (send_request R ''GET'' ''/api/v3/klines''
       [(''symbol'', symbol), (''interval'', interval), (''limit'', show_int limit)] False)"

definition symbol_params :: "string option \<Rightarrow> (string \<times> string) list" where
  "symbol_params symbol = (case symbol of Some (c # cs) \<Rightarrow> [(''symbol'', c # cs)] | _ \<Rightarrow> [])"

definition get_open_orders :: "rest \<Rightarrow> string option \<Rightarrow> json C" where
  "get_open_orders R symbol = parsed
     (curate_list [(''symbol'', ''symbol''), (''order_id'', ''orderId''), (''side'', ''side''), (''type'', ''type''),
       (''price'', ''price''), (''orig_qty'', ''origQty''), (''executed_qty'', ''executedQty''),
       (''status'', ''status''), (''time'', ''time'')])
     (send_request R ''GET'' ''/api/v3/openOrders'' (symbol_params symbol) True)"

definition created_order_spec :: "(string \<times> string) list" where
  "created_order_spec =
     [(''symbol'', ''symbol''), (''order_id'', ''orderId''), (''client_order_id'', ''clientOrderId''),
      (''status'', ''status''), (''side'', ''side''), (''type'', ''type''), (''price'', ''price''),
      (''orig_qty'', ''origQty''), (''executed_qty'', ''executedQty''),
      (''cummulative_quote_qty'', ''cummulativeQuoteQty''), (''transact_time'', ''transactTime'')]"

definition create_order ::
    "rest \<Rightarrow> string \<Rightarrow> string \<Rightarrow> string \<Rightarrow> string \<Rightarrow> string option \<Rightarrow> string option \<Rightarrow> json C" where
  "create_order R symbol side order_type quantity price client_order_id = parsed
     (curate created_order_spec)
     (send_request R ''POST'' ''/api/v3/order''
       ([(''symbol'', symbol), (''side'', side), (''type'', order_type), (''quantity'', quantity)] @
        (case price of None \<Rightarrow> [] | Some p \<Rightarrow> [(''price'', p), (''timeInForce'', ''GTC'')]) @
        (case client_order_id of None \<Rightarrow> [] | Some c \<Rightarrow> [(''newClientOrderId'', c)])) True)"

text \<open>How \<open>cancel_order\<close> and \<open>get_order\<close> name an order.\<close>

definition order_params :: "string \<Rightarrow> int option \<Rightarrow> string option \<Rightarrow> (string \<times> string) list" where
  "order_params symbol order_id client_order_id =
     [(''symbol'', symbol)] @ (case order_id of None \<Rightarrow> [] | Some i \<Rightarrow> [(''orderId'', show_int i)]) @
     (case client_order_id of None \<Rightarrow> [] | Some c \<Rightarrow> [(''origClientOrderId'', c)])"

definition cancel_order :: "rest \<Rightarrow> string \<Rightarrow> int option \<Rightarrow> string option \<Rightarrow> json C" where
  "cancel_order R symbol order_id client_order_id h =
     (if order_id = None \<and> client_order_id = None
      then (Inl (ValueErr ''cancel_order requires order_id or client_order_id''), h)
      else parsed
        (curate [(''symbol'', ''symbol''), (''order_id'', ''orderId''), (''client_order_id'', ''clientOrderId''),
          (''status'', ''status''), (''orig_qty'', ''origQty''), (''executed_qty'', ''executedQty'')])
        (send_request R ''DELETE'' ''/api/v3/order'' (order_params symbol order_id client_order_id) True) h)"

definition get_order :: "rest \<Rightarrow> string \<Rightarrow> int option \<Rightarrow> string option \<Rightarrow> json C" where
  "get_order R symbol order_id client_order_id h =
     (if order_id = None \<and> client_order_id = None
      then (Inl (ValueErr ''get_order requires order_id or client_order_id''), h)
      else parsed
        (curate [(''symbol'', ''symbol''), (''order_id'', ''orderId''), (''client_order_id'', ''clientOrderId''),
          (''status'', ''status''), (''side'', ''side''), (''type'', ''type''), (''price'', ''price''),
          (''orig_qty'', ''origQty''), (''executed_qty'', ''executedQty''),
          (''cummulative_quote_qty'', ''cummulativeQuoteQty''), (''time'', ''time''),
          (''update_time'', ''updateTime''), (''is_working'', ''isWorking'')])
        (send_request R ''GET'' ''/api/v3/order'' (order_params symbol order_id client_order_id) True) h)"

definition get_trades :: "rest \<Rightarrow> string \<Rightarrow> json C" where
  "get_trades R symbol = parsed
     (curate_list [(''id'', ''id''), (''order_id'', ''orderId''), (''price'', ''price''), (''qty'', ''qty''),
       (''quote_qty'', ''quoteQty''), (''commission'', ''commission''),
       (''commission_asset'', ''commissionAsset''), (''time'', ''time''), (''is_buyer'', ''isBuyer''),
       (''is_maker'', ''isMaker'')])
     (send_request R ''GET'' ''/api/v3/myTrades'' [(''symbol'', symbol)] True)"

definition first_symbol :: "string option \<Rightarrow> json \<Rightarrow> json result" where
  "first_symbol symbol payload =
     rbind (jget_or ''symbols'' (JList []) payload) (\<lambda>symbols.
     if \<not> truthy symbols then Inl (BinanceErr (BinanceRequestError
       (''Binance returned no exchange info for symbol='' @ (case symbol of None \<Rightarrow> ''None'' | Some t \<Rightarrow> repr t))))
     else at_index 0 symbols)"

definition get_exchange_info :: "rest \<Rightarrow> string option \<Rightarrow> json C" where
  "get_exchange_info R symbol = parsed
     (\<lambda>payload. rbind (first_symbol symbol payload) (\<lambda>symbol_info.
        rbind (rmap (\<lambda>(name, key). rbind (jget_opt key symbol_info) (\<lambda>v. Inr (name, v)))
          [(''symbol'', ''symbol''), (''status'', ''status''), (''base_asset'', ''baseAsset''),
           (''quote_asset'', ''quoteAsset''), (''base_asset_precision'', ''baseAssetPrecision''),
           (''quote_asset_precision'', ''quoteAssetPrecision'')]) (\<lambda>kvs.
        rbind (extract_symbol_filters symbol_info) (\<lambda>fs. Inr (JObj (kvs @ [(''filters'', fs)]))))))
     (send_request R ''GET'' ''/api/v3/exchangeInfo'' (symbol_params symbol) False)"

section \<open>The client the services use\<close>

text \<open>
  The calls of the services, answered by the methods; an exchange of the model is then this client over some
  transport, the answer to a call depending on the requests the calls before it made.
\<close>

fun rest_call :: "rest \<Rightarrow> binance_call \<Rightarrow> json C" where
  "rest_call R GetBalances = get_balances R"
| "rest_call R (GetMarketData symbol) = get_market_data R symbol"
| "rest_call R (GetExchangeInfo symbol) = get_exchange_info R (Some symbol)"
| "rest_call R (GetTrades symbol) = get_trades R symbol"
| "rest_call R (GetKlines symbol interval limit) = get_klines R symbol interval limit"
| "rest_call R (GetOrder symbol oid cid) = get_order R symbol oid cid"
| "rest_call R (CreateOrder symbol side ty quantity price cid) = create_order R symbol side ty quantity price (Some cid)"
| "rest_call R (CancelOrder symbol oid cid) = cancel_order R symbol oid cid"
| "rest_call R GetAccountInfo = get_account_info R"
| "rest_call R GetApiKeyPermissions = get_api_key_permissions R"

definition requests_made :: "rest \<Rightarrow> binance_call list \<Rightarrow> http_request list" where
  "requests_made R cs = fold (\<lambda>c h. snd (rest_call R c h)) cs []"

definition rest_client :: "rest \<Rightarrow> binance_call list \<Rightarrow> binance_call \<Rightarrow> json result" where
  "rest_client R cs c = fst (rest_call R c (requests_made R cs))"

end
