(* ===== verification/BinanceProperties.thy ===== *)
theory BinanceProperties
  imports BinanceClient OrderProperties
begin

text \<open>
  What the REST client guarantees to its callers: the surface it can reach, what it sends with a request, the
  classes of its errors, the shape of its values, and what the order service sends when it runs on it.
\<close>

section \<open>All calls of the client\<close>

datatype client_call = Service binance_call | Ping | OpenOrders "string option"

fun call_client :: "rest \<Rightarrow> client_call \<Rightarrow> json C" where
  "call_client R (Service c) = rest_call R c"
| "call_client R Ping = parsed (\<lambda>b. Inr (JBool b)) (ping R)"
| "call_client R (OpenOrders symbol) = get_open_orders R symbol"

fun public_call :: "client_call \<Rightarrow> bool" where
  "public_call (Service (GetMarketData symbol)) = True"
| "public_call (Service (GetExchangeInfo symbol)) = True"
| "public_call (Service (GetKlines symbol interval limit)) = True"
| "public_call (Service c) = False"
| "public_call Ping = True"
| "public_call (OpenOrders symbol) = False"

fun method_of :: "client_call \<Rightarrow> string" where
  "method_of (Service (CreateOrder symbol side ty quantity price cid)) = ''POST''"
| "method_of (Service (CancelOrder symbol oid cid)) = ''DELETE''"
| "method_of c = ''GET''"

fun path_of :: "client_call \<Rightarrow> string" where
  "path_of (Service GetBalances) = ''/api/v3/account''"
| "path_of (Service GetAccountInfo) = ''/api/v3/account''"
| "path_of (Service GetApiKeyPermissions) = ''/sapi/v1/account/apiRestrictions''"
| "path_of (Service (GetMarketData symbol)) = ''/api/v3/ticker/24hr''"
| "path_of (Service (GetExchangeInfo symbol)) = ''/api/v3/exchangeInfo''"
| "path_of (Service (GetTrades symbol)) = ''/api/v3/myTrades''"
| "path_of (Service (GetOrder symbol oid cid)) = ''/api/v3/order''"
| "path_of (Service (CreateOrder symbol side ty quantity price cid)) = ''/api/v3/order''"
| "path_of (Service (CancelOrder symbol oid cid)) = ''/api/v3/order''"
| "path_of Ping = ''/api/v3/ping''"
| "path_of (Service (GetKlines symbol interval limit)) = ''/api/v3/klines''"
| "path_of (OpenOrders symbol) = ''/api/v3/openOrders''"

fun params_of :: "client_call \<Rightarrow> (string \<times> string) list" where
  "params_of (Service (GetMarketData symbol)) = [(''symbol'', symbol)]"
| "params_of (Service (GetExchangeInfo symbol)) = symbol_params (Some symbol)"
| "params_of (Service (GetTrades symbol)) = [(''symbol'', symbol)]"
| "params_of (Service (GetOrder symbol oid cid)) = order_params symbol oid cid"
| "params_of (Service (CreateOrder symbol side ty quantity price cid)) =
     [(''symbol'', symbol), (''side'', side), (''type'', ty), (''quantity'', quantity)] @
     (case price of None \<Rightarrow> [] | Some p \<Rightarrow> [(''price'', p), (''timeInForce'', ''GTC'')]) @ [(''newClientOrderId'', cid)]"
| "params_of (Service (CancelOrder symbol oid cid)) = order_params symbol oid cid"
| "params_of (Service (GetKlines symbol interval limit)) =
     [(''symbol'', symbol), (''interval'', interval), (''limit'', show_int limit)]"
| "params_of (OpenOrders symbol) = symbol_params symbol"
| "params_of c = []"

text \<open>An order that is named by neither id is refused before anything is sent.\<close>

fun unnamed_order :: "client_call \<Rightarrow> bool" where
  "unnamed_order (Service (GetOrder symbol oid cid)) = (oid = None \<and> cid = None)"
| "unnamed_order (Service (CancelOrder symbol oid cid)) = (oid = None \<and> cid = None)"
| "unnamed_order c = False"

definition request_of :: "rest \<Rightarrow> nat \<Rightarrow> client_call \<Rightarrow> http_request" where
  "request_of R n c = \<lparr>hq_method = method_of c, hq_url = base_url R @ path_of c,
     hq_params = fst (prepare_request R n (params_of c) (\<not> public_call c)),
     hq_headers = snd (prepare_request R n (params_of c) (\<not> public_call c))\<rparr>"

definition outcome_result :: "http_outcome \<Rightarrow> string \<Rightarrow> string \<Rightarrow> json result" where
  "outcome_result out method path = (case out of
      RequestTimeout \<Rightarrow> Inl (BinanceErr (BinanceRequestError (''Binance request timed out: '' @ path)))
    | RequestFailed \<Rightarrow> Inl (BinanceErr (BinanceRequestError (''Binance request failed: '' @ path)))
    | Response rsp \<Rightarrow> handle_response rsp method path)"

lemma send_request_eq:
  "send_request R method path params signed h =
     (let rq = \<lparr>hq_method = method, hq_url = base_url R @ path, hq_params = fst (prepare_request R (length h) params signed),
        hq_headers = snd (prepare_request R (length h) params signed)\<rparr> in
      (outcome_result (transport R h rq) method path, h @ [rq]))"
  by (simp add: send_request_def outcome_result_def Let_def split: prod.split)

lemmas method_defs = get_balances_def get_account_info_def get_api_key_permissions_def get_market_data_def
  get_klines_def get_open_orders_def BinanceClient.create_order_def BinanceClient.cancel_order_def get_order_def
  BinanceClient.get_trades_def get_exchange_info_def ping_def

text \<open>Every call sends the one request \<open>request_of\<close>, and a failed outcome is its result.\<close>

definition sends :: "rest \<Rightarrow> client_call \<Rightarrow> http_request list \<Rightarrow> bool" where
  "sends R c h \<longleftrightarrow> snd (call_client R c h) = h @ [request_of R (length h) c] \<and>
     (\<exists>f. fst (call_client R c h) =
        rbind (outcome_result (transport R h (request_of R (length h) c)) (method_of c) (path_of c)) f)"

lemma parsed_sends:
  assumes "call_client R c h = parsed f (send_request R (method_of c) (path_of c) (params_of c) (\<not> public_call c)) h"
  shows "sends R c h"
  by (auto simp: sends_def assms parsed_def send_request_eq request_of_def Let_def)

lemma parsed_parsed: "parsed g (parsed f m) = parsed (\<lambda>x. rbind (f x) g) m"
proof
  have "rbind (rbind r f) g = rbind r (\<lambda>x. rbind (f x) g)" for r by (cases r) simp_all
  then show "parsed g (parsed f m) h = parsed (\<lambda>x. rbind (f x) g) m h" for h
    by (simp add: parsed_def split: prod.split)
qed

lemma service_sends:
  assumes "\<not> unnamed_order (Service c)"
  shows "sends R (Service c) h"
proof (cases c)
  case (GetOrder symbol oid cid)
  with assms have named: "\<not> (oid = None \<and> cid = None)" by simp
  show ?thesis
    unfolding GetOrder
    by (rule parsed_sends, unfold call_client.simps rest_call.simps get_order_def if_not_P [OF named]) simp
next
  case (CancelOrder symbol oid cid)
  with assms have named: "\<not> (oid = None \<and> cid = None)" by simp
  show ?thesis
    unfolding CancelOrder
    by (rule parsed_sends, unfold call_client.simps rest_call.simps BinanceClient.cancel_order_def if_not_P [OF named]) simp
qed (rule parsed_sends; simp add: method_defs)+

lemma call_client_sends: "\<not> unnamed_order c \<Longrightarrow> sends R c h"
proof (cases c)
  case (Service b)
  then show "\<not> unnamed_order c \<Longrightarrow> sends R c h" by (simp add: service_sends)
qed (rule parsed_sends; simp add: method_defs parsed_parsed)+

lemma unnamed_sends_nothing: "unnamed_order c \<Longrightarrow> \<exists>m. call_client R c h = (Inl (ValueErr m), h)"
  by (cases c rule: unnamed_order.cases) (auto simp: get_order_def BinanceClient.cancel_order_def)

section \<open>What reaches the exchange\<close>

definition surface :: "string list" where
  "surface = [''/api/v3/ping'', ''/api/v3/account'', ''/sapi/v1/account/apiRestrictions'', ''/api/v3/ticker/24hr'',
     ''/api/v3/klines'', ''/api/v3/exchangeInfo'', ''/api/v3/openOrders'', ''/api/v3/myTrades'', ''/api/v3/order'']"

lemma path_of_surface: "path_of c \<in> set surface"
proof (cases c)
  case (Service b)
  then show ?thesis by (cases b) (simp_all add: surface_def)
qed (simp_all add: surface_def)

lemma method_of_write: "method_of c \<noteq> ''GET'' \<Longrightarrow> (\<exists>b. c = Service b \<and> is_write b) \<and> path_of c = ''/api/v3/order''"
  by (cases c rule: method_of.cases) auto

text \<open>
  C28: The client is the boundary it says it is.  A call sends at most one request, to one of nine paths of
  the exchange, none of which moves funds; only placing and cancelling an order are not reads, and they go to the
  order path; a public call carries neither the key nor a signature, a signed call carries the key in
  its header and, as its last parameter, the signature of all the others.
\<close>
theorem client_surface:
  "\<exists>rqs. snd (call_client R c h) = h @ rqs \<and> length rqs \<le> 1 \<and> (\<forall>rq \<in> set rqs.
     hq_url rq = base_url R @ path_of c \<and> path_of c \<in> set surface \<and>
     (hq_method rq \<noteq> ''GET'' \<longrightarrow> (\<exists>b. c = Service b \<and> is_write b) \<and> path_of c = ''/api/v3/order'') \<and>
     (if public_call c then hq_headers rq = [] \<and> hq_params rq = params_of c
      else hq_headers rq = [(''X-MBX-APIKEY'', api_key R)] \<and>
        (\<exists>ps. hq_params rq = ps @ [(''signature'', hmac_sha256 R (api_secret R) (urlencode ps))])))"
proof (cases "unnamed_order c")
  case True
  then show ?thesis using unnamed_sends_nothing [OF True, of R h] by (intro exI [of _ "[]"]) auto
next
  case False
  then have "snd (call_client R c h) = h @ [request_of R (length h) c]"
    using call_client_sends by (simp add: sends_def)
  then show ?thesis
    using path_of_surface method_of_write
    by (intro exI [of _ "[request_of R (length h) c]"]) (auto simp: request_of_def prepare_request_def sign_def)
qed

definition demo_rest :: rest where
  "demo_rest = \<lparr>api_key = ''k'', api_secret = ''s'', base_url = ''https://api.binance.com'',
     transport = (\<lambda>h rq. Response \<lparr>hr_status = 429, hr_headers = (\<lambda>n. if n = ''retry-after''
        then Some ''Wed, 21 Oct 2015 07:28:00 GMT'' else None), hr_body = None\<rparr>),
     wall_ms = (\<lambda>n. int n), hmac_sha256 = (\<lambda>k t. k @ t)\<rparr>"

lemma client_surface_witness:
  "\<exists>rqs. snd (call_client demo_rest Ping []) = rqs \<and> length rqs \<le> 1"
  using client_surface [of demo_rest Ping "[]"] by auto

section \<open>Errors\<close>

text \<open>An outcome that is no value: no response, an error status, or a body that is not JSON.\<close>

definition failure :: "http_outcome \<Rightarrow> bool" where
  "failure out = (case out of Response rsp \<Rightarrow> \<not> hr_status rsp < 400 \<or> hr_body rsp = None | _ \<Rightarrow> True)"

definition unreadable_retry :: "http_outcome \<Rightarrow> bool" where
  "unreadable_retry out = (case out of
      Response rsp \<Rightarrow> hr_status rsp \<in> set [418, 429] \<and> (case hr_headers rsp ''retry-after'' of
          Some (c # cs) \<Rightarrow> (case float_of_str (c # cs) of Inl e \<Rightarrow> True | Inr d \<Rightarrow> False) | _ \<Rightarrow> False)
    | _ \<Rightarrow> False)"

text \<open>The class of an error tells the status.\<close>

fun class_fits :: "http_outcome \<Rightarrow> binance_err \<Rightarrow> bool" where
  "class_fits out (BinanceConfigurationError m) = False"
| "class_fits (Response rsp) (BinanceAuthenticationError m) = (hr_status rsp \<in> set [401, 403])"
| "class_fits (Response rsp) (BinanceRateLimitError m retry) = (hr_status rsp \<in> set [418, 429])"
| "class_fits (Response rsp) (BinanceRequestError m) = (hr_status rsp \<notin> set [401, 403, 418, 429])"
| "class_fits out (BinanceRequestError m) = True"
| "class_fits out b = False"

lemma outcome_failure:
  assumes "failure out"
  shows "if unreadable_retry out then \<exists>m. outcome_result out method path = Inl (ValueErr m)
     else \<exists>b. outcome_result out method path = Inl (BinanceErr b) \<and> class_fits out b"
proof (cases out)
  case (Response rsp)
  have "\<exists>m. e = ValueErr m" if "float_of_str t = Inl e" for t e
    using that by (auto simp: float_of_str_def Let_def split: option.splits decimal.splits if_splits)
  note this [dest]
  show ?thesis
    using assms by (auto simp: Response failure_def unreadable_retry_def outcome_result_def handle_response_def
        split: option.splits list.splits sum.splits)
qed (auto simp: unreadable_retry_def outcome_result_def)

text \<open>
  C38: Failures are classified.  When the exchange cannot be reached, answers with an error status or with no
  JSON, the call raises: an authentication error exactly for 401 and 403, a rate limit error exactly for 418
  and 429, a request error otherwise.  The one exception is a rate limit whose \<open>Retry-After\<close> header is not a number
  (a date, which HTTP allows): it raises \<open>ValueError\<close>, which is no error of the client.
\<close>
theorem client_failures_are_classified:
  assumes "\<not> unnamed_order c" and "out = transport R h (request_of R (length h) c)" and "failure out"
  shows "if unreadable_retry out then \<exists>m. fst (call_client R c h) = Inl (ValueErr m)
     else \<exists>b. fst (call_client R c h) = Inl (BinanceErr b) \<and> class_fits out b"
proof -
  obtain f where "fst (call_client R c h) = rbind (outcome_result out (method_of c) (path_of c)) f"
    using call_client_sends [OF assms(1), of R h] assms(2) by (auto simp: sends_def)
  then show ?thesis using outcome_failure [OF assms(3), of "method_of c" "path_of c"] by (auto split: if_splits)
qed

lemma client_failures_are_classified_witness:
  "\<exists>m. fst (call_client demo_rest (Service (CreateOrder ''BTCUSDT'' ''BUY'' ''MARKET'' ''1'' None ''id'')) []) = Inl (ValueErr m)"
proof -
  have "case float_of_str ''Wed, 21 Oct 2015 07:28:00 GMT'' of Inl e \<Rightarrow> True | Inr d \<Rightarrow> False" by code_simp
  then have "unreadable_retry (transport demo_rest [] rq)" for rq
    by (simp add: demo_rest_def unreadable_retry_def)
  moreover have "failure (transport demo_rest [] rq)" for rq by (simp add: demo_rest_def failure_def)
  ultimately show ?thesis
    using client_failures_are_classified [OF _ refl, of "Service (CreateOrder ''BTCUSDT'' ''BUY'' ''MARKET'' ''1'' None ''id'')"
        demo_rest "[]"] by simp
qed

section \<open>The shape of the values\<close>

definition has_fields :: "string list \<Rightarrow> json \<Rightarrow> bool" where
  "has_fields ks v = (case v of JObj kvs \<Rightarrow> map fst kvs = ks | _ \<Rightarrow> False)"

definition list_of :: "(json \<Rightarrow> bool) \<Rightarrow> json \<Rightarrow> bool" where
  "list_of P v = (case v of JList xs \<Rightarrow> list_all P xs | _ \<Rightarrow> False)"

definition order_fields :: "string list" where
  "order_fields = [''symbol'', ''order_id'', ''client_order_id'', ''status'', ''side'', ''type'', ''price'', ''orig_qty'',
     ''executed_qty'', ''cummulative_quote_qty'']"

definition filter_fields :: "string list" where
  "filter_fields = [''min_qty'', ''max_qty'', ''step_size'', ''min_price'', ''max_price'', ''tick_size'', ''min_notional'']"

text \<open>The type of what a call returns, as its docstring declares it.\<close>

fun well_typed :: "client_call \<Rightarrow> json \<Rightarrow> bool" where
  "well_typed (Service GetBalances) v = list_of (has_fields [''asset'', ''free'', ''locked'']) v"
| "well_typed (Service (GetMarketData symbol)) v =
     has_fields [''symbol'', ''last_price'', ''price_change_percent'', ''high_price'', ''low_price'', ''volume''] v"
| "well_typed (Service (GetExchangeInfo symbol)) v =
     (has_fields [''symbol'', ''status'', ''base_asset'', ''quote_asset'', ''base_asset_precision'',
        ''quote_asset_precision'', ''filters''] v \<and>
      (case jget ''filters'' v of Inr fs \<Rightarrow> has_fields filter_fields fs | Inl e \<Rightarrow> False))"
| "well_typed (Service (GetTrades symbol)) v = list_of (has_fields [''id'', ''order_id'', ''price'', ''qty'',
     ''quote_qty'', ''commission'', ''commission_asset'', ''time'', ''is_buyer'', ''is_maker'']) v"
| "well_typed (Service (GetOrder symbol oid cid)) v =
     has_fields (order_fields @ [''time'', ''update_time'', ''is_working'']) v"
| "well_typed (Service (CreateOrder symbol side ty quantity price cid)) v =
     has_fields (order_fields @ [''transact_time'']) v"
| "well_typed (Service (CancelOrder symbol oid cid)) v =
     has_fields [''symbol'', ''order_id'', ''client_order_id'', ''status'', ''orig_qty'', ''executed_qty''] v"
| "well_typed (Service GetAccountInfo) v = has_fields [''account_type'', ''can_trade'', ''can_withdraw'', ''can_deposit''] v"
| "well_typed (Service GetApiKeyPermissions) v = has_fields [''can_withdraw''] v"
| "well_typed Ping v = (v = JBool True)"
| "well_typed (Service (GetKlines symbol interval limit)) v = list_of (has_fields candle_fields) v"
| "well_typed (OpenOrders symbol) v = list_of (has_fields [''symbol'', ''order_id'', ''side'', ''type'', ''price'',
     ''orig_qty'', ''executed_qty'', ''status'', ''time'']) v"

lemma rmap_pairs:
  assumes "rmap f xs = Inr kvs" and "\<And>x kv. f x = Inr kv \<Longrightarrow> fst kv = g x"
  shows "map fst kvs = map g xs"
  using assms(1) by (induction xs arbitrary: kvs) (auto simp: result_iff dest!: assms(2))

lemma rmap_all:
  assumes "rmap f xs = Inr ys" and "\<And>x y. f x = Inr y \<Longrightarrow> P y"
  shows "list_all P ys"
  using assms(1) by (induction xs arbitrary: ys) (auto simp: result_iff assms(2))

lemma curate_fields: "curate spec p = Inr v \<Longrightarrow> has_fields (map fst spec) v"
  unfolding curate_def result_iff
  by (auto simp: has_fields_def result_iff dest!: rmap_pairs [where g = fst] split: prod.splits)

lemma curate_list_fields: "curate_list spec p = Inr v \<Longrightarrow> list_of (has_fields (map fst spec)) v"
  unfolding curate_list_def result_iff
  by (auto simp: list_of_def intro: rmap_all [OF _ curate_fields])

lemma candle_field_list: "map ((!) candle_fields) [0..<7] = candle_fields"
  by code_simp

lemma candle_entry_fields:
  assumes "candle_entry p = Inr v"
  shows "has_fields candle_fields v"
proof -
  obtain kvs where kvs: "rmap (\<lambda>i. rbind (at_index i p) (\<lambda>v. Inr (candle_fields ! i, v))) [0..<7] = Inr kvs"
    "v = JObj kvs" using assms unfolding candle_entry_def result_iff by blast
  have "map fst kvs = map ((!) candle_fields) [0..<7]"
    by (rule rmap_pairs [OF kvs(1)]) (auto simp only: result_iff fst_conv sum.inject)
  then show ?thesis by (simp only: has_fields_def kvs(2) json.case candle_field_list)
qed

lemma nonzero_balances_fields:
  "nonzero_balances bs = Inr es \<Longrightarrow> list_all (has_fields [''asset'', ''free'', ''locked'']) es"
  by (induction bs arbitrary: es) (auto simp: result_iff balance_entry_def has_fields_def split: if_splits)

lemma extract_symbol_filters_fields: "extract_symbol_filters p = Inr v \<Longrightarrow> has_fields filter_fields v"
  unfolding extract_symbol_filters_def by (auto simp: result_iff has_fields_def filter_fields_def Let_def)

lemma parsed_Inr: "fst (parsed f m h) = Inr v \<longleftrightarrow> (\<exists>p. fst (m h) = Inr p \<and> f p = Inr v)"
  by (simp add: parsed_def result_iff split: prod.split)

lemma service_well_typed: "fst (call_client R (Service c) h) = Inr v \<Longrightarrow> well_typed (Service c) v"
proof (cases c)
  case (GetExchangeInfo symbol)
  assume "fst (call_client R (Service c) h) = Inr v"
  then obtain kvs fs where v: "v = JObj (kvs @ [(''filters'', fs)])" "has_fields filter_fields fs"
    and kvs: "map fst kvs = [''symbol'', ''status'', ''base_asset'', ''quote_asset'', ''base_asset_precision'', ''quote_asset_precision'']"
    by (auto simp: GetExchangeInfo get_exchange_info_def parsed_Inr result_iff
        dest!: rmap_pairs [where g = fst] extract_symbol_filters_fields split: prod.splits)
  have "''filters'' \<notin> fst ` set kvs" unfolding set_map [symmetric] kvs by simp
  then have "map_of kvs ''filters'' = None" by (simp add: map_of_eq_None_iff)
  then have "map_of (kvs @ [(''filters'', fs)]) ''filters'' = Some fs" by (simp add: map_add_def)
  then show ?thesis using v kvs by (simp add: GetExchangeInfo has_fields_def jget_def)
next
  case (GetKlines symbol interval limit)
  then show "fst (call_client R (Service c) h) = Inr v \<Longrightarrow> ?thesis"
    by (auto simp: method_defs parsed_Inr result_iff list_of_def intro: rmap_all [OF _ candle_entry_fields])
qed (auto simp: method_defs parsed_Inr result_iff order_fields_def created_order_spec_def
    dest!: curate_fields curate_list_fields nonzero_balances_fields simp: list_of_def split: if_splits)

text \<open>
  Every value the client returns has the declared fields, in order, whatever the exchange sent, so no service that reads a declared field meets a missing key.
\<close>
theorem client_values_well_typed:
  "case fst (call_client R c h) of Inl e \<Rightarrow> True | Inr v \<Rightarrow> well_typed c v"
proof (cases "fst (call_client R c h)")
  case (Inr v)
  have "well_typed c v"
  proof (cases c)
    case (Service b)
    then show ?thesis using Inr service_well_typed by simp
  qed (use Inr in \<open>auto simp: method_defs parsed_Inr result_iff list_of_def
      dest!: curate_list_fields intro: rmap_all [OF _ candle_entry_fields]\<close>)
  then show ?thesis by (simp add: Inr)
qed simp

section \<open>The order service on the client\<close>

abbreviation writes :: "http_request list \<Rightarrow> http_request list" where
  "writes \<equiv> filter (\<lambda>rq. hq_method rq \<noteq> ''GET'')"

lemma snd_rest_call:
  "snd (rest_call R c h) = (if unnamed_order (Service c) then h else h @ [request_of R (length h) (Service c)])"
  using call_client_sends [of "Service c" R h] unnamed_sends_nothing [of "Service c" R h] by (auto simp: sends_def)

lemma method_of_read: "\<not> is_write c \<Longrightarrow> method_of (Service c) = ''GET''"
  by (cases c) auto

text \<open>The log of the calls and the log of the requests grow together.\<close>

lemma requests_made_append:
  "requests_made R (cs @ cs') = requests_made R cs @ drop (length (requests_made R cs)) (requests_made R (cs @ cs'))"
proof -
  have "\<exists>hs. fold (\<lambda>c h. snd (rest_call R c h)) cs' h = h @ hs" for h
  proof (induction cs' arbitrary: h)
    case (Cons c cs')
    obtain hs where "fold (\<lambda>c h. snd (rest_call R c h)) cs' (snd (rest_call R c h)) = snd (rest_call R c h) @ hs"
      using Cons.IH by blast
    then show ?case by (auto simp: snd_rest_call)
  qed simp
  then show ?thesis unfolding requests_made_def fold_append comp_apply by (metis append_eq_conv_conj)
qed

lemma writes_made:
  "writes (fold (\<lambda>c h. snd (rest_call R c h)) cs h) = writes h \<or>
     filter is_write cs \<noteq> [] \<and> (\<forall>w. filter is_write cs = [w] \<longrightarrow>
       (\<exists>n. writes (fold (\<lambda>c h. snd (rest_call R c h)) cs h) = writes h @ [request_of R n (Service w)]))"
proof (induction cs arbitrary: h)
  case (Cons c cs)
  have step: "writes (snd (rest_call R c h)) = writes h \<or>
     is_write c \<and> writes (snd (rest_call R c h)) = writes h @ [request_of R (length h) (Service c)]"
    by (cases "is_write c") (simp_all add: snd_rest_call request_of_def method_of_read)
  show ?case using Cons.IH [of "snd (rest_call R c h)"] step by (auto split: if_splits)
qed simp

text \<open>
  C13: On the REST client, creating an order posts at most once.  Of all requests it makes, whatever the exchange
  answers to each, at most one is not a GET: the signed POST of exactly this order to the order path, under the
  client order id derived from the user and the key, and only for a key never used before.
\<close>
theorem order_on_the_wire:
  assumes "keys_ok s"
  shows "wp (OrderService.create_order (E\<lparr>client := rest_client R\<rparr>) svc u symbol side ty q p key) (\<lambda>r t.
     \<exists>rqs. requests_made R (calls t) = requests_made R (calls s) @ rqs \<and>
       (writes rqs = [] \<or> (\<exists>n rq. writes rqs = [rq] \<and> hq_method rq = ''POST'' \<and>
          hq_url rq = base_url R @ ''/api/v3/order'' \<and>
          rq = request_of R n (Service (CreateOrder (upper symbol) side ty (dec_str q) (map_option dec_str p)
            (derive_binance_client_order_id E u create_endpoint key))) \<and>
          slot_of s (u, create_endpoint, key) = Free))) s"
proof (rule wp_mono [OF wp_create_order_sends [OF assms]], goal_cases)
  case (1 r t)
  define w where "w = CreateOrder (upper symbol) side ty (dec_str q) (map_option dec_str p)
    (derive_binance_client_order_id E u create_endpoint key)"
  obtain cs where cs: "calls t = calls s @ cs" "filter is_write cs = [] \<or> filter is_write cs = [w]"
    and free: "slot_of s (u, create_endpoint, key) \<noteq> Free \<longrightarrow> cs = []"
    using 1 by (auto simp: order_sent_def w_def derive_binance_client_order_id_def)
  define rqs where "rqs = drop (length (requests_made R (calls s))) (requests_made R (calls t))"
  have rqs: "requests_made R (calls t) = requests_made R (calls s) @ rqs"
    unfolding rqs_def cs(1) by (rule requests_made_append)
  then have "writes (fold (\<lambda>c h. snd (rest_call R c h)) cs (requests_made R (calls s))) =
      writes (requests_made R (calls s)) @ writes rqs"
    by (simp add: requests_made_def cs(1))
  with writes_made [of R cs "requests_made R (calls s)"] cs(2)
  have "writes rqs = [] \<or> cs \<noteq> [] \<and> (\<exists>n. writes rqs = [request_of R n (Service w)])" by auto
  then show ?case
    using rqs free by (intro exI [of _ rqs]) (auto simp: w_def request_of_def)
qed

lemma order_on_the_wire_witness:
  "wp (OrderService.create_order (demo_env\<lparr>client := rest_client demo_rest\<rparr>) demo_service 7 ''btcusdt'' ''BUY'' ''MARKET''
     (Fin False 1 0) None ''k'') (\<lambda>r t. length (writes (requests_made demo_rest (calls t))) \<le> 1) idle"
  by (rule wp_mono [OF order_on_the_wire]) (auto simp: idle_def keys_ok_def requests_made_def)

end
