(* ===== verification/Snapshots.thy ===== *)
theory Snapshots
  imports MarketData SimulationOrders BinanceClient
begin

text \<open>
  The equity curve: \<open>trading/portfolio_snapshot_service.py\<close> (one row per interval of the account, the
  curves computed from the rows), \<open>trading/simulation_snapshot_service.py\<close> (one row per interval and
  bot) and the ticks and the loop of \<open>trading/portfolio_snapshot_scheduler.py\<close>.
\<close>

section \<open>Buckets\<close>

definition us_per_minute :: int where "us_per_minute = 60 * us_per_second"

definition bucket_timestamp :: "int \<Rightarrow> int \<Rightarrow> int result" where
  "bucket_timestamp now interval_minutes =
     (let total_minutes = now div us_per_minute in
      if interval_minutes = 0 then Inl (ZeroDivisionErr ''integer division or modulo by zero'')
      else Inr ((total_minutes div interval_minutes) * interval_minutes * us_per_minute))"

text \<open>A dictionary by bucket in which the later snapshot wins, read in the order of its keys.\<close>

fun bucket_dict :: "int \<Rightarrow> PortfolioSnapshot list \<Rightarrow> (int \<times> PortfolioSnapshot) list \<Rightarrow>
    (int \<times> PortfolioSnapshot) list result" where
  "bucket_dict iv [] buckets = Inr buckets"
| "bucket_dict iv (x # xs) buckets =
     rbind (bucket_timestamp (ps_snapshot_at x) iv) (\<lambda>key. bucket_dict iv xs (save_row fst (key, x) buckets))"

definition downsample :: "PortfolioSnapshot list \<Rightarrow> int \<Rightarrow> PortfolioSnapshot list result" where
  "downsample snapshots bucket_minutes =
     (if bucket_minutes \<le> 0 then Inr snapshots
      else rbind (bucket_dict bucket_minutes snapshots []) (\<lambda>buckets.
        Inr (map (\<lambda>key. snd (the (lookup_row fst buckets key))) (sort (map fst buckets)))))"

section \<open>Measures of a curve\<close>

definition points_return_pct :: "decimal list \<Rightarrow> decimal option result" where
  "points_return_pct points =
     (if length points < 2 then Inr None
      else rbind (dec_eq (hd points) dec_zero) (\<lambda>zero.
        if zero then Inr None
        else rbind (dec_sub (last points) (hd points)) (\<lambda>d.
          rbind (percent_of d (hd points)) (\<lambda>p. Inr (Some p)))))"

fun drawdown_walk :: "decimal list \<Rightarrow> decimal \<Rightarrow> decimal \<Rightarrow> bool \<Rightarrow> (decimal \<times> bool) result" where
  "drawdown_walk [] peak max_drawdown peak_was_positive = Inr (max_drawdown, peak_was_positive)"
| "drawdown_walk (value # points) peak max_drawdown peak_was_positive =
     rbind (dec_lt peak value) (\<lambda>higher.
     (let peak' = (if higher then value else peak) in
     rbind (dec_lt dec_zero peak') (\<lambda>pos.
     if pos then
       rbind (dec_sub peak' value) (\<lambda>d.
       rbind (percent_of d peak') (\<lambda>drawdown.
       rbind (dec_lt max_drawdown drawdown) (\<lambda>larger.
       drawdown_walk points peak' (if larger then drawdown else max_drawdown) True)))
     else drawdown_walk points peak' max_drawdown peak_was_positive)))"

definition compute_max_drawdown_pct :: "decimal list \<Rightarrow> decimal option result" where
  "compute_max_drawdown_pct points =
     (if points = [] then Inr None
      else rbind (drawdown_walk points (hd points) dec_zero False) (\<lambda>(max_drawdown, peak_was_positive).
        Inr (if peak_was_positive then Some max_drawdown else None)))"

section \<open>Taking a snapshot\<close>

text \<open>\<open>(part / whole * 100) if whole > 0 else Decimal("0")\<close>.\<close>

definition share_pct :: "decimal \<Rightarrow> decimal \<Rightarrow> decimal result" where
  "share_pct part whole = rbind (dec_lt dec_zero whole) (\<lambda>pos. if pos then percent_of part whole else Inr dec_zero)"

definition quote_balance :: "Portfolio \<Rightarrow> string \<Rightarrow> PricedBalance option" where
  "quote_balance p quote = lookup_row pb_asset (pf_balances p) quote"

definition quote_value :: "PricedBalance option \<Rightarrow> decimal" where
  "quote_value b = (case b of Some x \<Rightarrow> (case pb_value_quote x of
       Some v \<Rightarrow> if dec_truthy v then v else dec_zero | None \<Rightarrow> dec_zero)
    | None \<Rightarrow> dec_zero)"

definition portfolio_row :: "uuid \<Rightarrow> int \<Rightarrow> string \<Rightarrow> Portfolio \<Rightarrow> decimal \<Rightarrow> decimal \<Rightarrow> PortfolioSnapshot" where
  "portfolio_row rid snapshot_at quote p exposure pct =
     \<lparr>ps_id = rid, ps_snapshot_at = snapshot_at, ps_quote_asset = quote,
      ps_total_value_quote = pf_total_value_quote p,
      ps_available_balance_quote = (case quote_balance p quote of None \<Rightarrow> dec_zero | Some b \<Rightarrow> pb_free b),
      ps_exposure_quote = exposure, ps_exposure_pct = pct\<rparr>"

text \<open>\<open>INSERT ... ON CONFLICT (snapshot_at) DO NOTHING RETURNING id\<close>: whether the row was inserted.\<close>

definition insert_portfolio_snapshot :: "PortfolioSnapshot \<Rightarrow> bool M" where
  "insert_portfolio_snapshot r s =
     (if ps_snapshot_at r \<in> ps_snapshot_at ` set (portfolio_snapshots s) then (Inr False, s)
      else (Inr True, s\<lparr>portfolio_snapshots := portfolio_snapshots s @ [r]\<rparr>))"

text \<open>The moment of a snapshot: the one given, or the clock.\<close>

definition moment :: "env \<Rightarrow> int option \<Rightarrow> int M" where
  "moment E now = (case now of Some t \<Rightarrow> ret t | None \<Rightarrow> now_utc E)"

definition take_portfolio_snapshot :: "env \<Rightarrow> string \<Rightarrow> int \<Rightarrow> int option \<Rightarrow> PortfolioSnapshot option M" where
  "take_portfolio_snapshot E quote_asset interval_minutes now =
     (let quote = upper quote_asset in
      bnd (get_portfolio E quote) (\<lambda>p.
      bnd (moment E now) (\<lambda>t.
      bnd (lift (bucket_timestamp t interval_minutes)) (\<lambda>snapshot_at.
      bnd (lift (dec_sub (pf_total_value_quote p) (quote_value (quote_balance p quote)))) (\<lambda>exposure.
      bnd (lift (share_pct exposure (pf_total_value_quote p))) (\<lambda>pct.
      bnd (new_uuid E) (\<lambda>rid.
      bnd (insert_portfolio_snapshot (portfolio_row rid snapshot_at quote p exposure pct)) (\<lambda>inserted.
      if inserted then gets (\<lambda>s. lookup_row ps_snapshot_at (portfolio_snapshots s) snapshot_at) else ret None))))))))"

definition simulation_row :: "uuid \<Rightarrow> uuid \<Rightarrow> int \<Rightarrow> decimal \<Rightarrow> decimal \<Rightarrow> decimal \<Rightarrow> decimal \<Rightarrow> SimulationSnapshot" where
  "simulation_row rid bid snapshot_at cash value total_value pct =
     \<lparr>ss_id = rid, ss_bot_id = bid, ss_snapshot_at = snapshot_at, ss_cash_balance_quote = cash,
      ss_position_value_quote = value, ss_total_value_quote = total_value, ss_exposure_pct = pct\<rparr>"

abbreviation ss_key :: "SimulationSnapshot \<Rightarrow> uuid \<times> int" where
  "ss_key x \<equiv> (ss_bot_id x, ss_snapshot_at x)"

definition insert_simulation_snapshot :: "SimulationSnapshot \<Rightarrow> bool M" where
  "insert_simulation_snapshot r s =
     (if ss_key r \<in> ss_key ` set (simulation_snapshots s) then (Inr False, s)
      else (Inr True, s\<lparr>simulation_snapshots := simulation_snapshots s @ [r]\<rparr>))"

text \<open>The price of the held quantity: 0 when nothing is held, None when the exchange does not give one.\<close>

definition held_price :: "env \<Rightarrow> BotPosition option \<Rightarrow> decimal \<Rightarrow> decimal option M" where
  "held_price E position current_quantity =
     bnd (lift (dec_lt dec_zero current_quantity)) (\<lambda>held.
     if \<not> held then ret (Some dec_zero)
     else bnd (try_binance (bnd (call_binance E (GetMarketData (case position of None \<Rightarrow> [] | Some p \<Rightarrow> bp_instrument p))) (\<lambda>m.
            lift (rbind (jget ''last_price'' m) dec_of_json)))) (\<lambda>price.
       ret (case price of Inl b \<Rightarrow> None | Inr d \<Rightarrow> Some d)))"

definition held_quantity :: "BotPosition option \<Rightarrow> decimal" where
  "held_quantity position = (case position of None \<Rightarrow> dec_zero | Some p \<Rightarrow> bp_current_quantity p)"

definition take_simulation_snapshot :: "env \<Rightarrow> Bot \<Rightarrow> int \<Rightarrow> int option \<Rightarrow> SimulationSnapshot option M" where
  "take_simulation_snapshot E b interval_minutes now =
     bnd (gets (\<lambda>s. account_of s (b_id b))) (\<lambda>acc. case acc of
       None \<Rightarrow> ret None
     | Some account \<Rightarrow>
         bnd (gets (\<lambda>s. position_of s (b_id b))) (\<lambda>position.
         (let current_quantity = held_quantity position; cash = sa_cash_balance_quote account in
         bnd (held_price E position current_quantity) (\<lambda>price. case price of
           None \<Rightarrow> ret None
         | Some market_price \<Rightarrow>
             bnd (lift (compute_position_value current_quantity market_price)) (\<lambda>value.
             bnd (lift (compute_total_value cash current_quantity market_price)) (\<lambda>total_value.
             bnd (lift (share_pct value total_value)) (\<lambda>pct.
             bnd (moment E now) (\<lambda>t.
             bnd (lift (bucket_timestamp t interval_minutes)) (\<lambda>snapshot_at.
             bnd (new_uuid E) (\<lambda>rid.
             bnd (insert_simulation_snapshot (simulation_row rid (b_id b) snapshot_at cash value total_value pct)) (\<lambda>inserted.
             if inserted then gets (\<lambda>s. lookup_row ss_key (simulation_snapshots s) (b_id b, snapshot_at))
             else ret None)))))))))))"

section \<open>The ticks\<close>

text \<open>\<open>BinanceClient()\<close>: whether the server's own keys are configured.\<close>

definition default_client :: "env \<Rightarrow> unit result" where
  "default_client E = rbind (require_binance_value E ''BINANCE_API_KEY'') (\<lambda>k.
     rbind (require_binance_value E ''BINANCE_API_SECRET'') (\<lambda>x. Inr ()))"

lemma default_client_new: "default_client E = rbind (new_client E R None None None) (\<lambda>R'. Inr ())"
  by (cases "require_binance_value E ''BINANCE_API_KEY''"; cases "require_binance_value E ''BINANCE_API_SECRET''")
    (simp_all add: default_client_def new_client_def)

text \<open>The session is closed without a commit when an exception leaves it, and the tables are as before.\<close>

definition run_snapshot_tick :: "env \<Rightarrow> string \<Rightarrow> int \<Rightarrow> int option \<Rightarrow> bool M" where
  "run_snapshot_tick E quote_asset interval_minutes now =
     bnd (try_any (seq (lift (default_client E))
       (transaction (take_portfolio_snapshot E quote_asset interval_minutes now)))) (\<lambda>r.
     ret (case r of Inl e \<Rightarrow> False | Inr None \<Rightarrow> False | Inr (Some snapshot) \<Rightarrow> True))"

fun simulation_pass :: "env \<Rightarrow> int \<Rightarrow> int option \<Rightarrow> Bot list \<Rightarrow> nat \<Rightarrow> nat M" where
  "simulation_pass E iv now [] taken = ret taken"
| "simulation_pass E iv now (b # bs) taken =
     bnd (try_any (transaction (take_simulation_snapshot E b iv now))) (\<lambda>r.
     simulation_pass E iv now bs (case r of Inl e \<Rightarrow> taken | Inr None \<Rightarrow> taken | Inr (Some snapshot) \<Rightarrow> taken + 1))"

definition simulation_bots :: "sys \<Rightarrow> Bot list" where
  "simulation_bots s = filter (\<lambda>b. b_execution_mode b = SIMULATION) (bots s)"

definition run_simulation_snapshot_tick :: "env \<Rightarrow> int \<Rightarrow> int option \<Rightarrow> nat M" where
  "run_simulation_snapshot_tick E interval_minutes now =
     bnd (try_any (lift (default_client E))) (\<lambda>c. case c of
       Inl e \<Rightarrow> ret 0
     | Inr u \<Rightarrow> bnd (gets simulation_bots) (\<lambda>bs. simulation_pass E interval_minutes now bs 0))"

section \<open>The loop\<close>

text \<open>
  One round of the scheduler's thread, and the thread itself: \<open>stopped n\<close> says whether the stop event is
  set at its n-th check.  The loop is a partial function: None is a thread that never ends.
\<close>

definition snapshot_interval :: "env \<Rightarrow> int result" where
  "snapshot_interval E = int_of_str (env_or E ''HERMES_PORTFOLIO_SNAPSHOT_INTERVAL_MINUTES'' ''15'')"

definition scheduler_round :: "env \<Rightarrow> string \<Rightarrow> int \<Rightarrow> unit M" where
  "scheduler_round E quote_asset interval_minutes =
     bnd (run_snapshot_tick E quote_asset interval_minutes None) (\<lambda>b.
     bnd (run_simulation_snapshot_tick E interval_minutes None) (\<lambda>n. ret ()))"

partial_function (option) scheduler_run ::
  "env \<Rightarrow> string \<Rightarrow> int \<Rightarrow> (nat \<Rightarrow> bool) \<Rightarrow> nat \<Rightarrow> sys \<Rightarrow> sys option" where
  "scheduler_run E quote_asset iv stopped n s =
     (if stopped n then Some s
      else scheduler_run E quote_asset iv stopped (n + 1) (snd (scheduler_round E quote_asset iv s)))"

declare scheduler_run.simps [simp del]

section \<open>Buckets: the reference\<close>

lemma us_per_minute_pos [simp]: "0 < us_per_minute"
  by (simp add: us_per_minute_def us_per_second_def)

definition on_grid :: "int \<Rightarrow> int \<Rightarrow> bool" where
  "on_grid iv t \<longleftrightarrow> t mod (iv * us_per_minute) = 0"

lemma bucket_on_grid: "bucket_timestamp t iv = Inr b \<Longrightarrow> on_grid iv b"
  by (auto simp: bucket_timestamp_def on_grid_def Let_def mult.assoc split: if_splits)

text \<open>The bucket of a moment is the grid point at or before it, less than an interval away.\<close>

lemma bucket_floor:
  assumes "0 < iv"
  shows "bucket_timestamp t iv = Inr (t - t mod (iv * us_per_minute))"
proof -
  have "t div us_per_minute div iv = t div (iv * us_per_minute)"
    using assms zdiv_zmult2_eq [of iv t us_per_minute] by (simp add: mult.commute)
  then show ?thesis
    using assms by (simp add: bucket_timestamp_def Let_def minus_mod_eq_mult_div mult.assoc mult.commute)
qed

abbreviation bucket :: "int \<Rightarrow> int \<Rightarrow> int" where
  "bucket iv t \<equiv> t - t mod (iv * us_per_minute)"

lemma bucket_mono:
  assumes "0 < iv" and "t \<le> u"
  shows "bucket iv t \<le> bucket iv u"
proof -
  have "t div (iv * us_per_minute) \<le> u div (iv * us_per_minute)"
    using assms by (intro zdiv_mono1) (simp_all add: mult_pos_pos)
  then show ?thesis
    unfolding minus_mod_eq_mult_div using assms by (intro mult_left_mono) (simp_all add: less_imp_le)
qed

text \<open>The specification of downsampling: a snapshot stays unless a later one falls into its bucket.\<close>

fun keep_last :: "int \<Rightarrow> PortfolioSnapshot list \<Rightarrow> PortfolioSnapshot list" where
  "keep_last iv [] = []"
| "keep_last iv (x # xs) =
     (if \<exists>y \<in> set xs. bucket iv (ps_snapshot_at y) = bucket iv (ps_snapshot_at x) then keep_last iv xs
      else x # keep_last iv xs)"

lemma bucket_dict_total:
  assumes "0 < iv"
  shows "bucket_dict iv xs d = Inr (foldl (\<lambda>d x. save_row fst (bucket iv (ps_snapshot_at x), x) d) d xs)"
  by (induction xs arbitrary: d) (simp_all add: bucket_floor [OF assms])

lemma lookup_bucket_dict:
  "lookup_row fst (foldl (\<lambda>d x. save_row fst (f x, x) d) d xs) k =
     (case lookup_row f (rev xs) k of Some x \<Rightarrow> Some (k, x) | None \<Rightarrow> lookup_row fst d k)"
  by (induction xs arbitrary: d) (auto simp: lookup_save_row lookup_row_append split: option.split)

lemma key_set_save_row: "key ` set (save_row key r rows) = insert (key r) (key ` set rows)"
  using arg_cong [OF map_key_save_row, of set key r rows] by (auto split: if_splits)

lemma keys_bucket_dict:
  "unique_key fst d \<Longrightarrow> unique_key fst (foldl (\<lambda>d x. save_row fst (f x, x) d) d xs) \<and>
     fst ` set (foldl (\<lambda>d x. save_row fst (f x, x) d) d xs) = fst ` set d \<union> f ` set xs"
proof (induction xs arbitrary: d)
  case (Cons x xs)
  show ?case using Cons.IH [OF unique_key_save_row [OF Cons.prems, of "(f x, x)"]]
    by (simp add: key_set_save_row)
qed simp

lemma keep_last_subset: "set (keep_last iv xs) \<subseteq> set xs"
  by (induction xs) auto

lemma keep_last_buckets:
  assumes "0 < iv" and "sorted (map ps_snapshot_at xs)"
  shows "sorted_wrt (<) (map (\<lambda>x. bucket iv (ps_snapshot_at x)) (keep_last iv xs)) \<and>
     (\<lambda>x. bucket iv (ps_snapshot_at x)) ` set (keep_last iv xs) = (\<lambda>x. bucket iv (ps_snapshot_at x)) ` set xs"
  using assms(2)
proof (induction xs)
  case (Cons x xs)
  let ?f = "\<lambda>x. bucket iv (ps_snapshot_at x)"
  have le: "?f x \<le> ?f y" if "y \<in> set xs" for y
    using Cons.prems that bucket_mono [OF assms(1)] by simp
  have IH: "sorted_wrt (<) (map ?f (keep_last iv xs))" "?f ` set (keep_last iv xs) = ?f ` set xs"
    using Cons by simp_all
  show ?case
  proof (cases "\<exists>y \<in> set xs. ?f y = ?f x")
    case True
    then obtain y where y: "y \<in> set xs" "?f y = ?f x" by blast
    have "?f x \<in> ?f ` set xs" using imageI [OF y(1), of ?f] unfolding y(2) .
    with True IH show ?thesis by (simp add: insert_absorb)
  next
    case False
    then have "?f x < ?f y" if "y \<in> set (keep_last iv xs)" for y
      using le [of y] that keep_last_subset [of iv xs] by fastforce
    with False IH(1) have "sorted_wrt (<) (map ?f (keep_last iv (x # xs)))" by simp
    with False IH(2) show ?thesis by simp
  qed
qed simp

lemma keep_last_lookup:
  "y \<in> set (keep_last iv xs) \<Longrightarrow>
     lookup_row (\<lambda>x. bucket iv (ps_snapshot_at x)) (rev xs) (bucket iv (ps_snapshot_at y)) = Some y"
proof (induction xs)
  case (Cons x xs)
  let ?f = "\<lambda>x. bucket iv (ps_snapshot_at x)"
  show ?case
  proof (cases "y \<in> set (keep_last iv xs)")
    case True
    with Cons.IH show ?thesis by (simp add: lookup_row_append)
  next
    case False
    with Cons.prems have "y = x" "\<not> (\<exists>z \<in> set xs. ?f z = ?f x)" by (auto split: if_splits)
    then have "lookup_row ?f (rev xs) (?f y) = None" by (auto simp: lookup_row_None image_iff)
    with \<open>y = x\<close> show ?thesis by (simp add: lookup_row_append)
  qed
qed simp

lemma downsample_keep_last:
  assumes "0 < iv" and "sorted (map ps_snapshot_at xs)"
  shows "downsample xs iv = Inr (keep_last iv xs)"
proof -
  let ?f = "\<lambda>x. bucket iv (ps_snapshot_at x)"
  let ?d = "foldl (\<lambda>d x. save_row fst (?f x, x) d) [] xs"
  have keys: "distinct (map fst ?d)" "fst ` set ?d = ?f ` set xs"
    using keys_bucket_dict [of "[]" ?f xs] by (simp_all add: unique_key_def)
  have kl: "sorted_wrt (<) (map ?f (keep_last iv xs))" "?f ` set (keep_last iv xs) = ?f ` set xs"
    using keep_last_buckets [OF assms] by blast+
  have "sort (map fst ?d) = map ?f (keep_last iv xs)"
    by (rule sorted_distinct_set_unique)
      (use keys kl strict_sorted_iff [of "map ?f (keep_last iv xs)"] in simp_all)
  moreover have "snd (the (lookup_row fst ?d (?f y))) = y" if "y \<in> set (keep_last iv xs)" for y
    using keep_last_lookup [OF that] by (simp add: lookup_bucket_dict)
  ultimately show ?thesis
    using assms(1) by (simp add: downsample_def bucket_dict_total map_idI)
qed

end
