(* ===== verification/SnapshotProperties.thy ===== *)
theory SnapshotProperties
  imports Snapshots
begin

text \<open>
  What the snapshots promise: one row per interval on the grid of the epoch, ticks that never raise and touch
  nothing else, a loop that ends when it is told to, and curves that say what the rows say.
\<close>

section \<open>The frame of a tick\<close>

definition snap_frame :: "sys \<Rightarrow> sys \<Rightarrow> bool" where
  "snap_frame s t \<longleftrightarrow> t = s\<lparr>portfolio_snapshots := portfolio_snapshots t,
       simulation_snapshots := simulation_snapshots t, info_cache := info_cache t, calls := calls t,
       ticks := ticks t, uuids := uuids t\<rparr> \<and>
     (\<exists>cs. calls t = calls s @ cs \<and> (\<forall>c \<in> set cs. \<not> is_write c))"

interpretation snap: frame snap_frame
proof unfold_locales
  show "snap_frame s s" for s by (simp add: snap_frame_def)
  show "snap_frame s u" if "snap_frame s t" "snap_frame t u" for s t u
    using that unfolding snap_frame_def by (cases s; cases t; cases u) auto
qed

lemma reads_snap: "reads s t \<Longrightarrow> snap_frame s t"
  unfolding reads_def snap_frame_def by (cases s; cases t) auto

lemma keeps_reads_snap: "keeps reads m \<Longrightarrow> keeps snap_frame m"
  by (auto simp: keeps_def intro: reads_snap)

lemma snap_uuid: "keeps snap_frame (new_uuid E)"
  by (simp add: keeps_def new_uuid_def snap_frame_def)

lemma snap_rolled_back: "snap_frame s t \<Longrightarrow> snap_frame s (rolled_back s t)"
  unfolding snap_frame_def rolled_back_def by (cases s; cases t) auto

lemma snap_transaction: "keeps snap_frame m \<Longrightarrow> keeps snap_frame (transaction m)"
  unfolding keeps_wp_iff wp_transaction
  by (rule allI, erule allE, erule wp_mono) (simp add: snap_rolled_back split: sum.split)

lemma snap_insert:
  "keeps snap_frame (insert_portfolio_snapshot r)" "keeps snap_frame (insert_simulation_snapshot x)"
  by (simp_all add: keeps_def insert_portfolio_snapshot_def insert_simulation_snapshot_def snap_frame_def)

lemma reads_moment: "keeps reads (moment E now)"
  by (cases now) (simp_all add: moment_def reads.ret reads_clock)

lemma reads_held_price: "keeps reads (held_price E position q)"
  unfolding held_price_def by (intro reads.intros reads_call) simp

lemma snap_take_portfolio: "keeps snap_frame (take_portfolio_snapshot E q iv now)"
  unfolding take_portfolio_snapshot_def
  by (intro snap.intros snap_uuid snap_insert keeps_reads_snap [OF reads_portfolio] keeps_reads_snap [OF reads_moment])

lemma snap_take_simulation: "keeps snap_frame (take_simulation_snapshot E b iv now)"
  unfolding take_simulation_snapshot_def
  by (intro snap.intros snap_uuid snap_insert keeps_reads_snap [OF reads_held_price]
      keeps_reads_snap [OF reads_moment])

lemma snap_tick: "keeps snap_frame (run_snapshot_tick E q iv now)"
  unfolding run_snapshot_tick_def by (intro snap.intros snap_transaction snap_take_portfolio)

lemma snap_pass: "keeps snap_frame (simulation_pass E iv now bs n)"
  by (induction bs arbitrary: n) (auto intro!: snap.intros snap_transaction snap_take_simulation)

lemma snap_simulation_tick: "keeps snap_frame (run_simulation_snapshot_tick E iv now)"
  unfolding run_simulation_snapshot_tick_def by (intro snap.intros snap_pass)

section \<open>What is added\<close>

lemma wp_insert_portfolio [wp_simps]:
  "wp (insert_portfolio_snapshot x) Q s =
     (if ps_snapshot_at x \<in> ps_snapshot_at ` set (portfolio_snapshots s) then Q (Inr False) s
      else Q (Inr True) (s\<lparr>portfolio_snapshots := portfolio_snapshots s @ [x]\<rparr>))"
  by (simp add: wp_def insert_portfolio_snapshot_def)

lemma wp_insert_simulation [wp_simps]:
  "wp (insert_simulation_snapshot x) Q s =
     (if ss_key x \<in> ss_key ` set (simulation_snapshots s) then Q (Inr False) s
      else Q (Inr True) (s\<lparr>simulation_snapshots := simulation_snapshots s @ [x]\<rparr>))"
  by (simp add: wp_def insert_simulation_snapshot_def)

lemma wp_moment:
  "wp (moment E now) (\<lambda>r t. reads s t \<and> (\<exists>m. r = Inr m \<and> (\<forall>n. now = Some n \<longrightarrow> m = n))) s"
  by (cases now) (simp_all add: moment_def wp_simps reads_def)

lemma lookup_row_new [simp]:
  "k \<notin> key ` set rows \<Longrightarrow> lookup_row key (rows @ [x]) k = (if key x = k then Some x else None)"
  by (simp add: lookup_row_append lookup_row_None [THEN iffD2])

text \<open>\<open>adds rows others P s\<close>: the outcome is the one new row, or nothing was added.\<close>

definition adds :: "(sys \<Rightarrow> 'r list) \<Rightarrow> (sys \<Rightarrow> 'q list) \<Rightarrow> ('r \<Rightarrow> bool) \<Rightarrow> sys \<Rightarrow> 'r option result \<Rightarrow> sys \<Rightarrow> bool" where
  "adds rows others P s r t \<longleftrightarrow> others t = others s \<and>
     (case r of Inr (Some x) \<Rightarrow> rows t = rows s @ [x] \<and> P x | _ \<Rightarrow> rows t = rows s)"

definition of_bucket :: "int \<Rightarrow> int option \<Rightarrow> int \<Rightarrow> bool" where
  "of_bucket iv now a \<longleftrightarrow> (\<exists>m. bucket_timestamp m iv = Inr a \<and> (\<forall>n. now = Some n \<longrightarrow> m = n))"

lemma reads_tables:
  "reads s t \<Longrightarrow> portfolio_snapshots t = portfolio_snapshots s \<and> simulation_snapshots t = simulation_snapshots s \<and>
     simulation_accounts t = simulation_accounts s \<and> bot_positions t = bot_positions s"
  unfolding reads_def by (cases s; cases t) auto

lemma adds_none: "reads s t \<Longrightarrow> adds portfolio_snapshots simulation_snapshots P s (Inl e) t"
  "reads s t \<Longrightarrow> adds simulation_snapshots portfolio_snapshots P' s (Inl e) t"
  "reads s t \<Longrightarrow> adds simulation_snapshots portfolio_snapshots P' s (Inr None) t"
  by (auto simp: adds_def dest: reads_tables)

lemma of_bucketI:
  "bucket_timestamp m iv = Inr a \<Longrightarrow> of_bucket iv None a" "bucket_timestamp m iv = Inr a \<Longrightarrow> of_bucket iv (Some m) a"
  by (auto simp: of_bucket_def)

lemma portfolio_adds:
  "wp (take_portfolio_snapshot E q iv now) (adds portfolio_snapshots simulation_snapshots (\<lambda>x.
     ps_snapshot_at x \<notin> ps_snapshot_at ` set (portfolio_snapshots s) \<and> of_bucket iv now (ps_snapshot_at x)) s) s"
  unfolding take_portfolio_snapshot_def Let_def
proof (rule wp_bndI [OF keeps_wp [OF reads_portfolio]], goal_cases)
  case (1 p u)
  show ?case
  proof (rule wp_bndI [OF wp_moment], goal_cases)
    case (1 m w)
    have eq: "portfolio_snapshots w = portfolio_snapshots s" "simulation_snapshots w = simulation_snapshots s"
      using reads_tables [of u w] reads_tables [OF \<open>reads s u\<close>] 1 by simp_all
    have bk: "of_bucket iv now b" if "bucket_timestamp m iv = Inr b" for b
      using that 1 by (auto simp: of_bucket_def)
    show ?case
      by (simp add: wp_simps adds_def eq portfolio_row_def bk split: sum.split)
  qed simp
qed (simp add: adds_none)

text \<open>The row of a simulation snapshot belongs to the bot, and that bot had none in this bucket.\<close>

definition fresh_row :: "sys \<Rightarrow> Bot \<Rightarrow> int \<Rightarrow> int option \<Rightarrow> SimulationSnapshot \<Rightarrow> bool" where
  "fresh_row s b iv now x \<longleftrightarrow> ss_key x \<notin> ss_key ` set (simulation_snapshots s) \<and> ss_bot_id x = b_id b \<and>
     of_bucket iv now (ss_snapshot_at x)"

lemma simulation_adds:
  "wp (take_simulation_snapshot E b iv now)
     (adds simulation_snapshots portfolio_snapshots (fresh_row s b iv now) s) s"
proof (cases "account_of s (b_id b)")
  case None
  then show ?thesis by (simp add: take_simulation_snapshot_def wp_simps adds_def)
next
  case (Some account)
  show ?thesis
    unfolding take_simulation_snapshot_def wp_bnd wp_gets Some Let_def sum.case option.case
    unfolding wp_bnd [symmetric]
  proof (rule wp_bndI [OF keeps_wp [OF reads_held_price]], goal_cases)
    case (1 price u)
    show ?case
    proof (cases price)
      case None
      with 1 show ?thesis by (simp add: wp_simps adds_none)
    next
      case (Some market_price)
      have eq: "portfolio_snapshots u = portfolio_snapshots s" "simulation_snapshots u = simulation_snapshots s"
        using reads_tables 1 by simp_all
      show ?thesis
        unfolding Some option.case
        by (cases now) (simp_all add: wp_simps moment_def adds_def eq fresh_row_def of_bucketI
            simulation_row_def split: sum.split)
    qed
  qed (simp add: adds_none)
qed

text \<open>After a pass over \<open>bs\<close> that counted \<open>n\<close> before: one new row for each snapshot counted.\<close>

definition passed :: "sys \<Rightarrow> Bot list \<Rightarrow> int \<Rightarrow> int option \<Rightarrow> nat \<Rightarrow> nat result \<Rightarrow> sys \<Rightarrow> bool" where
  "passed s bs iv now n r t \<longleftrightarrow> portfolio_snapshots t = portfolio_snapshots s \<and>
     (\<exists>new. r = Inr (n + length new) \<and> simulation_snapshots t = simulation_snapshots s @ new \<and>
        (\<forall>x \<in> set new. ss_bot_id x \<in> b_id ` set bs \<and> of_bucket iv now (ss_snapshot_at x)) \<and>
        (unique_key ss_key (simulation_snapshots s) \<longrightarrow> unique_key ss_key (simulation_snapshots t)))"

lemma passed_row:
  assumes "adds simulation_snapshots portfolio_snapshots (fresh_row s b iv now) s (Inr (Some x)) t"
    and "passed t bs iv now (n + 1) r u"
  shows "passed s (b # bs) iv now n r u"
proof -
  have t: "portfolio_snapshots t = portfolio_snapshots s" "simulation_snapshots t = simulation_snapshots s @ [x]"
    "fresh_row s b iv now x" using assms(1) by (simp_all add: adds_def)
  obtain new where n: "r = Inr (n + 1 + length new)" "simulation_snapshots u = simulation_snapshots t @ new"
      "\<forall>x \<in> set new. ss_bot_id x \<in> b_id ` set bs \<and> of_bucket iv now (ss_snapshot_at x)"
      "unique_key ss_key (simulation_snapshots t) \<longrightarrow> unique_key ss_key (simulation_snapshots u)"
      "portfolio_snapshots u = portfolio_snapshots t"
    using assms(2) unfolding passed_def by blast
  have "unique_key ss_key (simulation_snapshots s) \<longrightarrow> unique_key ss_key (simulation_snapshots t)"
    using t by (auto simp: fresh_row_def unique_key_def)
  with n t show ?thesis
    unfolding passed_def by (intro conjI exI [of _ "x # new"]) (auto simp: fresh_row_def)
qed

lemma passed_same:
  assumes "portfolio_snapshots t = portfolio_snapshots s" and "simulation_snapshots t = simulation_snapshots s"
    and "passed t bs iv now n r u"
  shows "passed s (b # bs) iv now n r u"
  using assms by (auto simp: passed_def)

lemma wp_pass: "wp (simulation_pass E iv now bs n) (passed s bs iv now n) s"
proof (induction bs arbitrary: n s)
  case Nil
  then show ?case by (simp add: wp_simps passed_def)
next
  case (Cons b bs)
  have step: "wp (simulation_pass E iv now bs (case r of Inl e \<Rightarrow> n | Inr None \<Rightarrow> n | Inr (Some x) \<Rightarrow> n + 1))
      (passed s (b # bs) iv now n) (case r of Inl e \<Rightarrow> rolled_back s t | Inr x \<Rightarrow> t)"
    if a: "adds simulation_snapshots portfolio_snapshots (fresh_row s b iv now) s r t" for r t
  proof (cases "\<exists>x. r = Inr (Some x)")
    case True
    then obtain x where x: "r = Inr (Some x)" by blast
    show ?thesis
      unfolding x sum.case option.case by (rule wp_mono [OF Cons.IH passed_row [OF a [unfolded x]]])
  next
    case False
    with a have same: "portfolio_snapshots t = portfolio_snapshots s" "simulation_snapshots t = simulation_snapshots s"
      and n: "(case r of Inl e \<Rightarrow> n | Inr None \<Rightarrow> n | Inr (Some x) \<Rightarrow> n + 1) = n"
      by (auto simp: adds_def split: sum.splits option.splits)
    show ?thesis
      unfolding n by (rule wp_mono [OF Cons.IH], rule passed_same [rotated 2], assumption)
        (use same in \<open>auto simp: rolled_back_def split: sum.split\<close>)
  qed
  show ?case
    unfolding simulation_pass.simps wp_bnd wp_try_any wp_transaction
  proof (rule wp_mono [OF simulation_adds [of E b iv now s]], goal_cases)
    case (1 r t)
    from step [OF 1] show ?case by (cases r) simp_all
  qed
qed

section \<open>The invariant\<close>

text \<open>At most one snapshot per moment (and bot), and every moment on the grid of the interval.\<close>

definition snapshots_ok :: "int \<Rightarrow> sys \<Rightarrow> bool" where
  "snapshots_ok iv s \<longleftrightarrow> unique_key ps_snapshot_at (portfolio_snapshots s) \<and>
     unique_key ss_key (simulation_snapshots s) \<and>
     (\<forall>x \<in> set (portfolio_snapshots s). on_grid iv (ps_snapshot_at x)) \<and>
     (\<forall>x \<in> set (simulation_snapshots s). on_grid iv (ss_snapshot_at x))"

lemma of_bucket_on_grid: "of_bucket iv now a \<Longrightarrow> on_grid iv a"
  by (auto simp: of_bucket_def bucket_on_grid)

text \<open>A tick for the account adds the row it reports, or none.\<close>

lemma tick_adds:
  "wp (run_snapshot_tick E q iv now) (\<lambda>r t. simulation_snapshots t = simulation_snapshots s \<and>
     (\<exists>new. r = Inr (new \<noteq> []) \<and> length new \<le> 1 \<and> portfolio_snapshots t = portfolio_snapshots s @ new \<and>
       (\<forall>x \<in> set new. ps_snapshot_at x \<notin> ps_snapshot_at ` set (portfolio_snapshots s) \<and>
         of_bucket iv now (ps_snapshot_at x)))) s"
proof (cases "default_client E")
  case (Inl e)
  then show ?thesis by (simp add: run_snapshot_tick_def wp_simps)
next
  case (Inr u)
  show ?thesis
    unfolding run_snapshot_tick_def wp_bnd wp_try_any wp_seq wp_lift Inr sum.case wp_transaction wp_ret
    by (rule wp_mono [OF portfolio_adds [of E q iv now s]])
      (auto simp: adds_def rolled_back_def split: sum.split option.split intro: exI [of _ "[_]"])
qed

lemma simulation_tick_adds:
  "wp (run_simulation_snapshot_tick E iv now) (passed s (simulation_bots s) iv now 0) s"
proof (cases "default_client E")
  case (Inl e)
  then show ?thesis by (simp add: run_simulation_snapshot_tick_def wp_simps passed_def)
next
  case (Inr u)
  show ?thesis
    unfolding run_simulation_snapshot_tick_def wp_bnd wp_try_any wp_lift Inr sum.case wp_gets
    by (rule wp_mono [OF wp_pass]) (simp split: sum.split)
qed

lemma snapshots_ok_tick: "snapshots_ok iv s \<Longrightarrow> wp (run_snapshot_tick E q iv now) (\<lambda>r t. snapshots_ok iv t) s"
  by (rule wp_mono [OF tick_adds]) (auto simp: snapshots_ok_def unique_key_def distinct_map
      length_Suc_conv le_Suc_eq dest: of_bucket_on_grid)

lemma snapshots_ok_simulation:
  "snapshots_ok iv s \<Longrightarrow> wp (run_simulation_snapshot_tick E iv now) (\<lambda>r t. snapshots_ok iv t) s"
  by (rule wp_mono [OF simulation_tick_adds]) (auto simp: snapshots_ok_def passed_def dest: of_bucket_on_grid)

section \<open>The loop\<close>

definition rounds :: "env \<Rightarrow> string \<Rightarrow> int \<Rightarrow> nat \<Rightarrow> sys \<Rightarrow> sys" where
  "rounds E q iv n = (\<lambda>s. snd (scheduler_round E q iv s)) ^^ n"

lemma scheduler_run_after:
  "(\<And>m. m < n \<Longrightarrow> \<not> stopped (k + m)) \<Longrightarrow>
     scheduler_run E q iv stopped k s = scheduler_run E q iv stopped (k + n) (rounds E q iv n s)"
proof (induction n)
  case (Suc n)
  then have "scheduler_run E q iv stopped k s = scheduler_run E q iv stopped (k + n) (rounds E q iv n s)" by simp
  also have "\<dots> = scheduler_run E q iv stopped (k + n + 1) (snd (scheduler_round E q iv (rounds E q iv n s)))"
    using Suc.prems [of n] by (subst scheduler_run.simps) simp
  finally show ?case by (simp add: rounds_def)
qed (simp add: rounds_def)

lemma scheduler_run_stops:
  assumes "scheduler_run E q iv stopped k s = Some t"
  shows "\<exists>m \<ge> k. stopped m"
proof (rule scheduler_run.raw_induct [where P = "\<lambda>E q iv st k s t. \<exists>m \<ge> k. st m", OF _ assms])
  fix f :: "env \<Rightarrow> string \<Rightarrow> int \<Rightarrow> (nat \<Rightarrow> bool) \<Rightarrow> nat \<Rightarrow> sys \<Rightarrow> sys option"
  fix E q iv st n s t
  assume IH: "\<And>E q iv st n s t. f E q iv st n s = Some t \<Longrightarrow> \<exists>m \<ge> n. st m"
    and eq: "(if st n then Some s else f E q iv st (n + 1) (snd (scheduler_round E q iv s))) = Some t"
  show "\<exists>m \<ge> n. st m"
  proof (cases "st n")
    case False
    with eq obtain m where "m \<ge> n + 1" "st m" using IH [of E q iv st "n + 1"] by auto
    then show ?thesis by (auto intro: exI [of _ m])
  qed blast
qed

lemma snapshots_ok_round: "snapshots_ok iv s \<Longrightarrow> snapshots_ok iv (snd (scheduler_round E q iv s))"
proof -
  assume ok: "snapshots_ok iv s"
  have "wp (scheduler_round E q iv) (\<lambda>r t. snapshots_ok iv t) s"
    unfolding scheduler_round_def
    by (rule wp_bndI [OF snapshots_ok_tick [OF ok]], rule wp_bndI, erule snapshots_ok_simulation)
      (simp_all add: wp_simps)
  then show ?thesis by (simp add: wp_def)
qed

lemma rounds_ok: "snapshots_ok iv s \<Longrightarrow> snapshots_ok iv (rounds E q iv n s)"
  by (induction n) (simp_all add: rounds_def snapshots_ok_round)

lemma snap_round: "keeps snap_frame (scheduler_round E q iv)"
  unfolding scheduler_round_def by (intro snap.intros snap_tick snap_simulation_tick)

lemma rounds_frame: "snap_frame s (rounds E q iv n s)"
proof (induction n)
  case (Suc n)
  then show ?case
    using snap_round snap.trans unfolding keeps_def rounds_def by fastforce
qed (simp add: rounds_def snap.refl)

section \<open>Drawdown\<close>

text \<open>The worst decline, in percent, from a value to one at or after it, over exact rationals.\<close>

definition decline :: "rat \<Rightarrow> rat \<Rightarrow> rat" where
  "decline v w = (if 0 < v \<and> w < v then (v - w) / v * 100 else 0)"

fun decline_from :: "rat \<Rightarrow> rat list \<Rightarrow> rat" where
  "decline_from v [] = 0"
| "decline_from v (w # ws) = max (decline v w) (decline_from v ws)"

fun worst_decline :: "rat list \<Rightarrow> rat" where
  "worst_decline [] = 0"
| "worst_decline (v # vs) = max (decline_from v vs) (worst_decline vs)"

lemma decline_mono: "v \<le> u \<Longrightarrow> 0 \<le> w \<Longrightarrow> decline v w \<le> decline u w"
proof -
  assume le: "v \<le> u" and w: "0 \<le> w"
  show ?thesis
  proof (cases "0 < v \<and> w < v")
    case True
    then have "w / u \<le> w / v" using le w by (intro divide_left_mono) simp_all
    with True le have "(v - w) / v \<le> (u - w) / u" by (simp add: diff_divide_distrib)
    then have "(v - w) / v * 100 \<le> (u - w) / u * 100" by (rule mult_right_mono) simp
    moreover have "0 < u \<and> w < u" using True le by linarith
    ultimately show ?thesis using True by (simp only: decline_def if_True simp_thms)
  next
    case False
    then show ?thesis by (auto simp: decline_def)
  qed
qed

lemma decline_from_mono: "v \<le> u \<Longrightarrow> \<forall>w \<in> set ws. 0 \<le> w \<Longrightarrow> decline_from v ws \<le> decline_from u ws"
proof (induction ws)
  case (Cons x ws)
  then show ?case unfolding decline_from.simps by (intro max.mono decline_mono) simp_all
qed simp

lemma decline_nonneg: "0 \<le> decline v w"
  by (simp add: decline_def)

lemma decline_self [simp]: "decline v v = 0"
  by (simp add: decline_def)

lemma decline_from_nonneg: "0 \<le> decline_from v ws"
  by (induction ws) (simp_all add: le_max_iff_disj)

lemma worst_decline_nonneg: "0 \<le> worst_decline vs"
  by (induction vs) (simp_all add: le_max_iff_disj)

text \<open>Only the running peak matters.\<close>

lemma worst_decline_step:
  assumes "\<forall>x \<in> set (w # ws). 0 \<le> x"
  shows "worst_decline (p # w # ws) = max (decline (max p w) w) (worst_decline (max p w # ws))"
proof (cases "w \<le> p")
  case True
  then have "decline_from w ws \<le> decline_from p ws" using assms by (intro decline_from_mono) simp_all
  with True show ?thesis by (simp add: max_def)
next
  case False
  then have le: "decline_from p ws \<le> decline_from w ws"
    using assms by (intro decline_from_mono) simp_all
  have "decline p w = 0" using False by (simp add: decline_def)
  with False le decline_from_nonneg [of p ws] decline_from_nonneg [of w ws] show ?thesis
    by (simp add: max_absorb1 max_absorb2 max.assoc [symmetric] le_max_iff_disj)
qed

text \<open>Up to the rounding of a subtraction, a division and a product.\<close>

definition close_to :: "rat \<Rightarrow> rat \<Rightarrow> bool" where
  "close_to x y \<longleftrightarrow> \<bar>y - x\<bar> \<le> 2 / 10 ^ 27 * x"

lemma close_to_iff: "close_to x y \<longleftrightarrow> (1 - 2 / 10 ^ 27) * x \<le> y \<and> y \<le> (1 + 2 / 10 ^ 27) * x"
  unfolding close_to_def abs_le_iff by (auto simp: algebra_simps)

lemma close_to_max: "close_to x y \<Longrightarrow> close_to x' y' \<Longrightarrow> close_to (max x x') (max y y')"
proof -
  have *: "max y y' \<le> c * max x x'" if "y \<le> c * x" "y' \<le> c * x'" "0 \<le> c" for c
    using that by (auto simp: max_def intro: order_trans [OF _ mult_left_mono])
  have **: "c * max x x' \<le> max y y'" if "c * x \<le> y" "c * x' \<le> y'" for c
    using that by (auto simp: max_def)
  assume "close_to x y" "close_to x' y'"
  then show ?thesis unfolding close_to_iff by (intro conjI * **) simp_all
qed

lemma exact_at_sane: "exact_at v d \<Longrightarrow> sane 10 d"
proof -
  assume "exact_at v d"
  then obtain s c e where d: "d = Fin s c e" "-10 \<le> e" "e \<le> 10" and lt: "c * 10 ^ nat (e + 10) < 10 ^ 28"
    by (auto simp: exact_at_def)
  have "c < 10 ^ 28" by (rule le_less_trans [OF _ lt]) simp
  with d show ?thesis by simp
qed

lemma drawdown_step:
  assumes "amount p" and "amount w" and "0 < dval p" and "0 \<le> dval w" and "dval w \<le> dval p"
  obtains d q where "dec_sub p w = Inr d" and "percent_of d p = Inr q" and "is_finite q"
    and "close_to (decline (dval p) (dval w)) (dval q)"
proof -
  obtain d where d: "dec_sub p w = Inr d" "exact_at (dval p - dval w) d"
    using dec_sub_amount [OF assms(1,2)] .
  obtain r where r: "dec_div d p = Inr r" "sane (10 + 10 + 300) r" "approx (1 / 10 ^ 27) (dval d / dval p) r"
    using dec_div_sane [OF exact_at_sane [OF d(2)] amount_sane [OF assms(1)]] assms(3) by auto
  have h: "sane 0 (dec_of_int 100)" by (simp add: dec_of_int_def)
  obtain q where q: "dec_mul r (dec_of_int 100) = Inr q" "sane (10 + 10 + 300 + 0 + 200) q"
      "approx ulp_half (dval r * dval (dec_of_int 100)) q"
    using dec_mul_sane [OF r(2) h] by auto
  have v: "dval d = dval p - dval w" using d(2) by (simp add: exact_at_def)
  have dec: "decline (dval p) (dval w) = dval d / dval p * 100"
    using assms by (auto simp: decline_def v)
  have nn: "0 \<le> dval d / dval p" using assms v by simp
  have "\<bar>dval r * 100 - dval d / dval p * 100\<bar> = \<bar>dval r - dval d / dval p\<bar> * 100"
    unfolding left_diff_distrib [symmetric] abs_mult by simp
  also have "\<dots> \<le> 1 / 10 ^ 27 * \<bar>dval d / dval p\<bar> * 100"
    using r(3) unfolding approx_def by (rule mult_right_mono) simp
  also have "\<dots> = 1 / 10 ^ 27 * \<bar>dval d / dval p * 100\<bar>"
    unfolding abs_mult by simp
  finally have "\<bar>dval r * 100 - dval d / dval p * 100\<bar> \<le> 1 / 10 ^ 27 * \<bar>dval d / dval p * 100\<bar>" .
  then have "approx (ulp_half * (1 + 1 / 10 ^ 27) + 1 / 10 ^ 27) (dval d / dval p * 100) q"
    using q(3) by (intro approx_trans [where v = "dval r * 100"]) (simp_all add: ulp_half_def)
  then have "approx (2 / 10 ^ 27) (dval d / dval p * 100) q"
    by (rule approx_weaken) (simp add: ulp_half_def)
  then have "close_to (decline (dval p) (dval w)) (dval q)"
    using nn by (simp add: approx_def close_to_def dec)
  with d(1) r(1) q(1,2) show ?thesis by (intro that [of d q]) (simp_all add: percent_of_def)
qed

lemma drawdown_walk_worst:
  assumes "\<forall>v \<in> set (p # vs). amount v \<and> 0 \<le> dval v" and "is_finite m" and "close_to M (dval m)" and "0 \<le> M"
  shows "\<exists>d. drawdown_walk vs p m b = Inr (d, b \<or> vs \<noteq> [] \<and> (\<exists>v \<in> set (p # vs). 0 < dval v)) \<and> is_finite d \<and>
     close_to (max M (worst_decline (map dval (p # vs)))) (dval d)"
  using assms
proof (induction vs arbitrary: p m M b)
  case Nil
  then show ?case by (simp add: max_absorb1)
next
  case (Cons w ws)
  define p' where "p' = (if dval p < dval w then w else p)"
  have p': "amount p'" "dval p' = max (dval p) (dval w)" "dval w \<le> dval p'" "0 \<le> dval p'"
    using Cons.prems(1) by (auto simp: p'_def)
  have fin: "is_finite p" "is_finite w" "is_finite p'" using Cons.prems(1) p'(1) by simp_all
  have all: "\<forall>v \<in> set (p' # ws). amount v \<and> 0 \<le> dval v" using Cons.prems(1) p' by simp
  have ws: "worst_decline (map dval (p # w # ws)) =
      max (decline (dval p') (dval w)) (worst_decline (map dval (p' # ws)))"
    using worst_decline_step [of "dval w" "map dval ws" "dval p"] Cons.prems(1) by (simp only: p' list.map) simp
  have start: "drawdown_walk (w # ws) p m b = rbind (dec_lt dec_zero p') (\<lambda>pos.
     if pos then rbind (dec_sub p' w) (\<lambda>d. rbind (percent_of d p') (\<lambda>drawdown. rbind (dec_lt m drawdown) (\<lambda>larger.
       drawdown_walk ws p' (if larger then drawdown else m) True))) else drawdown_walk ws p' m b)"
    using fin by (simp add: p'_def Let_def)
  have zero: "dec_lt dec_zero p' = Inr (0 < dval p')" using fin by simp
  show ?case
  proof (cases "0 < dval p'")
    case True
    obtain d q where dq: "dec_sub p' w = Inr d" "percent_of d p' = Inr q" "is_finite q"
        "close_to (decline (dval p') (dval w)) (dval q)"
      using drawdown_step [of p' w] p' True Cons.prems(1) by auto
    define m' where "m' = (if dval m < dval q then q else m)"
    have m': "is_finite m'" "dval m' = max (dval m) (dval q)" using dq Cons.prems(2) by (auto simp: m'_def)
    have "drawdown_walk (w # ws) p m b = drawdown_walk ws p' m' True"
      unfolding start zero using dq Cons.prems(2) True by (simp add: m'_def)
    moreover obtain e where "drawdown_walk ws p' m' True = Inr (e, True)" "is_finite e"
        "close_to (max (max M (decline (dval p') (dval w))) (worst_decline (map dval (p' # ws)))) (dval e)"
      using Cons.IH [OF all m'(1), of "max M (decline (dval p') (dval w))" True]
        close_to_max [OF Cons.prems(3) dq(4)] Cons.prems(4) by (auto simp: m'(2) le_max_iff_disj)
    moreover have "\<exists>v \<in> set (p # w # ws). 0 < dval v" using True by (auto simp: p'_def split: if_splits)
    ultimately show ?thesis unfolding ws max.assoc [symmetric] by auto
  next
    case False
    then have z: "decline (dval p') (dval w) = 0" by (simp add: decline_def)
    have "drawdown_walk (w # ws) p m b = drawdown_walk ws p' m b" unfolding start zero using False by simp
    moreover have "(\<exists>v \<in> set (p # w # ws). 0 < dval v) \<longleftrightarrow> ws \<noteq> [] \<and> (\<exists>v \<in> set (p' # ws). 0 < dval v)"
      using False by (cases ws) (auto simp: p' max_def split: if_splits)
    ultimately show ?thesis
      using Cons.IH [OF all Cons.prems(2-4), of b] worst_decline_nonneg [of "map dval (p' # ws)"]
      unfolding ws z by (simp add: max_absorb2)
  qed
qed

section \<open>Properties\<close>

text \<open>
  C23: One round of ticks keeps the snapshots in order: each tick ends with a value, whatever the exchange
  answers; it adds at most one row for the account and reports whether it did, and counts the rows it adds for
  simulation bots; no bucket of the account, and no bucket of a bot, ever gets a second row; every row lies on the
  grid of the interval, in the bucket of its moment; and nothing but the snapshots and the log of read-only
  calls changes.
\<close>
theorem one_snapshot_per_bucket:
  assumes "snapshots_ok iv s"
    and "run_snapshot_tick E q iv now s = (r, t)" and "run_simulation_snapshot_tick E iv now t = (r', u)"
  shows "snapshots_ok iv u \<and> snap_frame s u \<and>
     (\<exists>new. r = Inr (new \<noteq> []) \<and> length new \<le> 1 \<and> portfolio_snapshots u = portfolio_snapshots s @ new \<and>
        (\<forall>x \<in> set new. of_bucket iv now (ps_snapshot_at x))) \<and>
     (\<exists>new. r' = Inr (length new) \<and> simulation_snapshots u = simulation_snapshots s @ new \<and>
        (\<forall>x \<in> set new. ss_bot_id x \<in> b_id ` set (simulation_bots s) \<and> of_bucket iv now (ss_snapshot_at x)))"
proof -
  have fr: "snap_frame s t" "snap_frame t u"
    using keepsD [OF snap_tick assms(2)] keepsD [OF snap_simulation_tick assms(3)] .
  then have "bots t = bots s" unfolding snap_frame_def by (cases s; cases t) simp
  then have bots: "simulation_bots t = simulation_bots s" by (simp add: simulation_bots_def)
  have "snapshots_ok iv u"
    using wpD [OF snapshots_ok_simulation [OF wpD [OF snapshots_ok_tick [OF assms(1)] assms(2)]] assms(3)] .
  moreover note snap.trans [OF fr]
  moreover obtain new where "r = Inr (new \<noteq> [])" "length new \<le> 1" "portfolio_snapshots t = portfolio_snapshots s @ new"
      "\<forall>x \<in> set new. of_bucket iv now (ps_snapshot_at x)" "simulation_snapshots t = simulation_snapshots s"
    using wpD [OF tick_adds assms(2)] by blast
  moreover obtain new' where "r' = Inr (length new')" "simulation_snapshots u = simulation_snapshots t @ new'"
      "\<forall>x \<in> set new'. ss_bot_id x \<in> b_id ` set (simulation_bots s) \<and> of_bucket iv now (ss_snapshot_at x)"
      "portfolio_snapshots u = portfolio_snapshots t"
    using wpD [OF simulation_tick_adds assms(3)] unfolding passed_def bots add_0 by blast
  ultimately show ?thesis
    by (intro conjI exI [of _ new] exI [of _ new']) simp_all
qed


text \<open>
  C35: Downsampling snapshots in ascending order keeps exactly the last one of every bucket, in their order,
  and never raises.
\<close>
theorem downsample_keeps_last:
  assumes "0 < bucket_minutes" and "sorted (map ps_snapshot_at snapshots)"
  shows "downsample snapshots bucket_minutes = Inr (keep_last bucket_minutes snapshots)"
  using assms by (rule downsample_keep_last)

text \<open>
  C34: For values of the exchange that are not negative, the maximum drawdown is undefined exactly when no value is
  positive; otherwise it is the worst decline from a value to one at or after it, in percent of the earlier
  value, up to three roundings.  No arithmetic exception is raised.
\<close>
theorem drawdown_is_worst_decline:
  assumes "\<forall>v \<in> set points. amount v \<and> 0 \<le> dval v"
  shows "\<exists>r. compute_max_drawdown_pct points = Inr r \<and> (r = None \<longleftrightarrow> (\<forall>v \<in> set points. \<not> 0 < dval v)) \<and>
     (\<forall>d. r = Some d \<longrightarrow>
        \<bar>dval d - worst_decline (map dval points)\<bar> \<le> 2 / 10 ^ 27 * worst_decline (map dval points))"
proof (cases points)
  case (Cons p vs)
  have "close_to 0 (dval dec_zero)" by (simp add: close_to_def)
  then obtain d where d: "drawdown_walk (p # vs) p dec_zero False = Inr (d, \<exists>v \<in> set (p # p # vs). 0 < dval v)"
      "close_to (max 0 (worst_decline (map dval (p # p # vs)))) (dval d)"
    using drawdown_walk_worst [of p "p # vs" dec_zero 0 False] assms by (auto simp: Cons)
  have "worst_decline (map dval (p # p # vs)) = worst_decline (map dval (p # vs))"
    using decline_from_nonneg by (simp add: max_absorb2)
  with d(2) have "close_to (worst_decline (map dval points)) (dval d)"
    using worst_decline_nonneg [of "map dval points"] by (simp add: Cons max_absorb2)
  with d(1) show ?thesis by (auto simp: Cons compute_max_drawdown_pct_def close_to_def)
qed (simp add: compute_max_drawdown_pct_def)

section \<open>Witnesses\<close>

text \<open>A server with keys and an empty account.\<close>

definition demo_server :: env where
  "demo_server = demo_env\<lparr>getenv := (\<lambda>n. Some ''k''), client := (\<lambda>h c. Inr (JList []))\<rparr>"

lemma tick_at_demo:
  "fst (run_snapshot_tick demo_server ''USDT'' 15 (Some 1200000000) idle) = Inr True"
  "map ps_snapshot_at (portfolio_snapshots (snd (run_snapshot_tick demo_server ''USDT'' 15 (Some 1200000000) idle))) =
     [900000000]"
  by code_simp+

lemma one_snapshot_per_bucket_witness:
  "\<exists>t u. run_snapshot_tick demo_server ''USDT'' 15 (Some 1200000000) idle = (Inr True, t) \<and>
     run_simulation_snapshot_tick demo_server 15 (Some 1200000000) t = (Inr 0, u) \<and> snapshots_ok 15 u \<and>
     map ps_snapshot_at (portfolio_snapshots u) = [900000000]"
proof -
  obtain t where t: "run_snapshot_tick demo_server ''USDT'' 15 (Some 1200000000) idle = (Inr True, t)"
    using tick_at_demo surj_pair [of "run_snapshot_tick demo_server ''USDT'' 15 (Some 1200000000) idle"] by force
  then have at: "map ps_snapshot_at (portfolio_snapshots t) = [900000000]"
    using tick_at_demo by simp
  obtain r u where u: "run_simulation_snapshot_tick demo_server 15 (Some 1200000000) t = (r, u)" by fastforce
  have "snapshots_ok 15 idle" by (simp add: snapshots_ok_def idle_def)
  note both = one_snapshot_per_bucket [OF this t u]
  from both have ok: "snapshots_ok 15 u" by (rule conjunct1)
  from both obtain new' :: "SimulationSnapshot list" where r: "r = Inr (length new')"
      "\<forall>x \<in> set new'. ss_bot_id x \<in> b_id ` set (simulation_bots idle) \<and> of_bucket 15 (Some 1200000000) (ss_snapshot_at x)"
    by blast
  have "new' = []" using r(2) by (cases new') (auto simp: simulation_bots_def idle_def)
  moreover have "portfolio_snapshots u = portfolio_snapshots t"
    using wpD [OF simulation_tick_adds u] by (simp add: passed_def)
  ultimately show ?thesis using t u ok r(1) at by (intro exI [of _ t] exI [of _ u] conjI) simp_all
qed


definition demo_point :: "int \<Rightarrow> PortfolioSnapshot" where
  "demo_point t = \<lparr>ps_id = 1, ps_snapshot_at = t * us_per_minute, ps_quote_asset = ''USDT'', ps_total_value_quote = dec_zero,
     ps_available_balance_quote = dec_zero, ps_exposure_quote = dec_zero, ps_exposure_pct = dec_zero\<rparr>"

lemma downsample_keeps_last_witness:
  "downsample [demo_point 0, demo_point 15, demo_point 30, demo_point 75] 60 = Inr [demo_point 30, demo_point 75]"
proof -
  have "sorted (map ps_snapshot_at [demo_point 0, demo_point 15, demo_point 30, demo_point 75])"
    by (simp add: demo_point_def us_per_minute_def us_per_second_def)
  from downsample_keeps_last [OF _ this, of 60] show ?thesis
    by (simp add: demo_point_def us_per_minute_def us_per_second_def)
qed

lemma drawdown_is_worst_decline_witness:
  "worst_decline [100, 80, 160, 120] = 25 \<and>
   (\<exists>d. compute_max_drawdown_pct (map dec_of_int [100, 80, 160, 120]) = Inr (Some d) \<and>
      \<bar>dval d - 25\<bar> \<le> 50 / 10 ^ 27)"
proof -
  have w: "worst_decline [100, 80, 160, 120] = 25" by (simp add: decline_def)
  let ?ps = "map dec_of_int [100, 80, 160, 120]"
  have "\<forall>v \<in> set ?ps. amount v \<and> 0 \<le> dval v" by (simp add: dec_of_int_def)
  from drawdown_is_worst_decline [OF this] obtain r where r: "compute_max_drawdown_pct ?ps = Inr r"
      "r = None \<longleftrightarrow> (\<forall>v \<in> set ?ps. \<not> 0 < dval v)"
      "\<forall>d. r = Some d \<longrightarrow> \<bar>dval d - worst_decline (map dval ?ps)\<bar> \<le> 2 / 10 ^ 27 * worst_decline (map dval ?ps)"
    by blast
  from r(2) obtain d where d: "r = Some d" by (cases r) auto
  have m: "map dval ?ps = [100, 80, 160, 120]" by simp
  have "\<bar>dval d - 25\<bar> \<le> 2 / 10 ^ 27 * 25" using r(3) d unfolding m w by blast
  then have "\<bar>dval d - 25\<bar> \<le> 50 / 10 ^ 27" by simp
  with r(1) w show ?thesis unfolding d by blast
qed

end
