(* ===== verification/Routes.thy ===== *)
theory Routes
  imports AuthSessions Credentials OrderService BinanceClient
begin

text \<open>
  What the route modules of \<open>api/\<close> share: the client of a user, the mapping of exceptions to HTTP
  responses, and the guards a route declares as dependencies.  FastAPI runs the dependencies and collects
  validation errors; in which order is a parameter of the model.
\<close>

section \<open>Clients\<close>

text \<open>
  The exchange answers a client by the keys it was built with.  A route hands its service an environment
  in which \<open>client\<close> is the one it chose; the public one has empty keys.
\<close>

type_synonym exchange = "string \<times> string \<Rightarrow> binance_call list \<Rightarrow> binance_call \<Rightarrow> json result"

definition as_client :: "env \<Rightarrow> exchange \<Rightarrow> string \<times> string \<Rightarrow> env" where
  "as_client E X keys = E\<lparr>client := X keys\<rparr>"

definition new_public_binance_client :: "env \<Rightarrow> exchange \<Rightarrow> env" where
  "new_public_binance_client E X = as_client E X ('''', '''')"

definition new_binance_client_for_user :: "env \<Rightarrow> exchange \<Rightarrow> uuid \<Rightarrow> env H" where
  "new_binance_client_for_user E X user_id =
     bnd (gets (get_decrypted_client E user_id)) (\<lambda>r. case r of
       Inr keys \<Rightarrow> ret (as_client E X keys)
     | Inl (CredentialsNotConfiguredErr m) \<Rightarrow> raise (HTTPException 409
         (JObj [(''available'', JBool False),
           (''reason'', JStr ''Connect your Binance account in Settings first.'')]) [])
     | Inl (CredentialsEncryptionErr m) \<Rightarrow> raise (http_error 503 ''Binance credential encryption is not configured.'')
     | Inl e \<Rightarrow> raise (Unhandled e))"

definition new_optional_binance_client_for_user :: "env \<Rightarrow> exchange \<Rightarrow> uuid \<Rightarrow> env option H" where
  "new_optional_binance_client_for_user E X user_id =
     bnd (gets (get_decrypted_client E user_id)) (\<lambda>r. case r of
       Inr keys \<Rightarrow> ret (Some (as_client E X keys))
     | Inl (CredentialsNotConfiguredErr m) \<Rightarrow> ret None
     | Inl (CredentialsEncryptionErr m) \<Rightarrow> ret None
     | Inl e \<Rightarrow> raise (Unhandled e))"

section \<open>Errors\<close>

text \<open>
  \<open>int(x)\<close> of a float and its truth value, for a float kept as the exact decimal of its text; from
  \<open>2^1024\<close> on the float is infinite.
\<close>

fun int_of_float :: "decimal \<Rightarrow> int result" where
  "int_of_float (Fin s c e) =
     (let n = (if 0 \<le> e then int c * 10 ^ nat e else int c div 10 ^ nat (- e)) in
      if n \<ge> 2 ^ 1024 then Inl (OverflowErr ''cannot convert float infinity to integer'')
      else Inr (if s then - n else n))"
| "int_of_float (Inf s) = Inl (OverflowErr ''cannot convert float infinity to integer'')"
| "int_of_float (NaN s) = Inl (ValueErr ''cannot convert float NaN to integer'')"

fun float_truthy :: "decimal \<Rightarrow> bool" where
  "float_truthy (Fin s c e) = float_positive (Fin False c e)"
| "float_truthy d = True"

definition retry_after_header :: "decimal option \<Rightarrow> (string \<times> string) list result" where
  "retry_after_header r = (case r of
      Some d \<Rightarrow> if float_truthy d then rbind (int_of_float d) (\<lambda>i. Inr [(''Retry-After'', show_int i)]) else Inr []
    | None \<Rightarrow> Inr [])"

fun http_exception_for_binance_error :: "binance_err \<Rightarrow> http_exn" where
  "http_exception_for_binance_error (BinanceAuthenticationError m) =
     http_error 502 ''Binance rejected Hermes's credentials.''"
| "http_exception_for_binance_error (BinanceRateLimitError m r) = (case retry_after_header r of
      Inl e \<Rightarrow> Unhandled e
    | Inr headers \<Rightarrow> HTTPException 429 (JStr ''Binance is rate-limiting Hermes. Try again shortly.'') headers)"
| "http_exception_for_binance_error b = http_error 503 ''Binance is temporarily unavailable.''"

text \<open>A read that maps \<open>BinanceError\<close> and nothing else.\<close>

fun binance_or_500 :: "exn \<Rightarrow> http_exn" where
  "binance_or_500 (BinanceErr b) = http_exception_for_binance_error b"
| "binance_or_500 e = Unhandled e"

text \<open>
  The wrapper of the mutating routes: what the action wrote is committed, also when it raised, except
  after a \<open>BinanceError\<close>, which rolls the tables back.
\<close>

definition run_action :: "(exn \<Rightarrow> http_exn) \<Rightarrow> 'a M \<Rightarrow> 'a H" where
  "run_action to_http action s = (case action s of
      (Inr x, t) \<Rightarrow> (Inr x, t)
    | (Inl (BinanceErr b), t) \<Rightarrow> (Inl (http_exception_for_binance_error b), rolled_back s t)
    | (Inl e, t) \<Rightarrow> (Inl (to_http e), t))"

section \<open>Guards\<close>

text \<open>
  The dependencies of a route: the permission whose holder is the current user, a further permission, the
  idempotency header, the origin, the rate limit, and the validation of the body and the parameters, whose
  outcome is known from the request.
\<close>

datatype guard =
    Permission string
  | AlsoPermission string
  | IdempotencyKey
  | TrustedOrigin
  | RateLimit limiter_name string
  | Validated bool

record ctx =
  cx_user :: "User option"
  cx_key :: string

definition validation_error :: http_exn where
  "validation_error = http_error 422 ''Validation error''"

definition idempotency_key_header :: "Request \<Rightarrow> string H" where
  "idempotency_key_header rq = (case rq_headers rq ''idempotency-key'' of
      Some k \<Rightarrow> if 1 \<le> length k \<and> length k \<le> 255 then ret k else raise validation_error
    | None \<Rightarrow> raise validation_error)"

fun run_guard :: "env \<Rightarrow> Request \<Rightarrow> guard \<Rightarrow> ctx \<Rightarrow> ctx H" where
  "run_guard E rq (Permission p) c = bnd (require_permission E p rq) (\<lambda>u. ret (c\<lparr>cx_user := Some u\<rparr>))"
| "run_guard E rq (AlsoPermission p) c = bnd (require_permission E p rq) (\<lambda>u. ret c)"
| "run_guard E rq IdempotencyKey c = bnd (idempotency_key_header rq) (\<lambda>k. ret (c\<lparr>cx_key := k\<rparr>))"
| "run_guard E rq TrustedOrigin c = seq (require_trusted_origin E rq) (ret c)"
| "run_guard E rq (RateLimit name scope) c = seq (rate_limit E name scope rq) (ret c)"
| "run_guard E rq (Validated ok) c = (if ok then ret c else raise validation_error)"

fun run_guards :: "env \<Rightarrow> Request \<Rightarrow> guard list \<Rightarrow> ctx \<Rightarrow> ctx H" where
  "run_guards E rq [] c = ret c"
| "run_guards E rq (g # gs) c = bnd (run_guard E rq g c) (run_guards E rq gs)"

text \<open>A route: the guards in the order of the framework, the handler, the status of a normal response.\<close>

definition route :: "env \<Rightarrow> (guard list \<Rightarrow> guard list) \<Rightarrow> Request \<Rightarrow> int \<Rightarrow> guard list \<Rightarrow> (ctx \<Rightarrow> json H) \<Rightarrow> (int \<times> json) H" where
  "route E order rq status gs handler =
     bnd (run_guards E rq (order gs) \<lparr>cx_user = None, cx_key = ''''\<rparr>) (\<lambda>c.
     bnd (handler c) (\<lambda>j. ret (status, j)))"

definition current_user_id :: "ctx \<Rightarrow> uuid" where
  "current_user_id c = usr_id (the (cx_user c))"

text \<open>The guards of a mutating route.\<close>

definition mutating :: "string \<Rightarrow> trading_limiter \<Rightarrow> string \<Rightarrow> guard list" where
  "mutating permission limiter scope = [Permission permission, IdempotencyKey, TrustedOrigin, RateLimit (Inr limiter) scope]"

section \<open>Validated fields\<close>

text \<open>\<open>Field(gt=0)\<close> and \<open>Field(min_length=m, max_length=n)\<close>.\<close>

definition gt_zero :: "decimal \<Rightarrow> bool" where
  "gt_zero d \<longleftrightarrow> \<not> is_nan d \<and> dec_less_num dec_zero d"

definition has_length :: "nat \<Rightarrow> nat \<Rightarrow> string \<Rightarrow> bool" where
  "has_length m n t \<longleftrightarrow> m \<le> length t \<and> length t \<le> n"

end
