(* ===== verification/TradingRoutes.thy ===== *)
theory TradingRoutes
  imports Routes Snapshots
begin

text \<open>
  \<open>api/trading_routes.py\<close>: the portfolio, the market data, the orders and the positions of a user over
  HTTP, and the three routes that reach a write of the exchange.
\<close>

section \<open>Plumbing\<close>

definition default_quote_asset :: string where "default_quote_asset = ''USDT''"
definition default_orders_limit :: nat where "default_orders_limit = 50"
definition max_orders_limit :: nat where "max_orders_limit = 200"

fun http_exception_for_order_service_error :: "exn \<Rightarrow> http_exn" where
  "http_exception_for_order_service_error (TradingDisabledErr m) = http_error 403 ''Trading is currently disabled.''"
| "http_exception_for_order_service_error (OrderNotFoundErr m) = http_error 404 ''Order not found.''"
| "http_exception_for_order_service_error (OrderNotCancelableErr m) =
     http_error 409 ''Order is not in a cancelable state.''"
| "http_exception_for_order_service_error (PositionNotFoundErr m) =
     http_error 404 ''No open position for that symbol.''"
| "http_exception_for_order_service_error (IdempotencyConflictErr m) = http_error 409 m"
| "http_exception_for_order_service_error (IdempotencyInProgressErr m) = http_error 409 m"
| "http_exception_for_order_service_error e = Unhandled e"

definition run_order_service_action :: "env \<Rightarrow> exchange \<Rightarrow> uuid \<Rightarrow> (env \<Rightarrow> OrderServiceObj \<Rightarrow> json M) \<Rightarrow> json H" where
  "run_order_service_action E X user_id action =
     bnd (new_binance_client_for_user E X user_id) (\<lambda>E'.
     bnd (run_service Unhandled (make_order_service E' default_quote_asset)) (\<lambda>svc.
     run_action http_exception_for_order_service_error (action E' svc)))"

section \<open>Serialization\<close>

definition serialize_balance :: "PricedBalance \<Rightarrow> json" where
  "serialize_balance b = JObj [(''asset'', JStr (pb_asset b)), (''free'', jdec (pb_free b)),
     (''locked'', jdec (pb_locked b)), (''value_quote'', jopt jdec (pb_value_quote b)),
     (''priced'', JBool (pb_priced b))]"

definition serialize_position :: "Position \<Rightarrow> json" where
  "serialize_position p = JObj [(''symbol'', JStr (p_symbol p)), (''asset'', JStr (p_asset p)),
     (''quantity'', jdec (p_quantity p)), (''average_entry_price'', jopt jdec (p_average_entry_price p)),
     (''current_price'', jopt jdec (p_current_price p)), (''value_quote'', jopt jdec (p_value_quote p)),
     (''unrealized_pnl_quote'', jopt jdec (p_unrealized_pnl_quote p)),
     (''unrealized_pnl_pct'', jopt jdec (p_unrealized_pnl_pct p))]"

section \<open>Reconciliation on read\<close>

text \<open>The refresh is committed on its own; an exception closes the session without a commit.\<close>

definition refresh_order :: "env \<Rightarrow> uuid \<Rightarrow> unit M" where
  "refresh_order E oid =
     bnd (the_order oid) (\<lambda>o1.
     if is_terminal_status (o_status o1) then ret ()
     else bnd (try_binance (bnd (lift (order_reference o1)) (\<lambda>(i, c).
            call_binance E (GetOrder (o_symbol o1) i c)))) (\<lambda>r. case r of
         Inl b \<Rightarrow> ret ()
       | Inr payload \<Rightarrow>
           bnd (reconcile_row oid payload) (\<lambda>changed.
           if \<not> changed then ret ()
           else bnd (the_order oid) (\<lambda>o2.
             seq (if is_terminal_status (o_status o2)
                  then bnd (now_utc E) (\<lambda>t. upd_order oid (\<lambda>x. x\<lparr>o_terminal_at := Some t\<rparr>)) else ret ())
             (add_event oid RECONCILED (Some ''reconcile-on-read''))))))"

definition reconcile_on_read :: "env option \<Rightarrow> uuid \<Rightarrow> unit H" where
  "reconcile_on_read client1 oid = (case client1 of
      None \<Rightarrow> ret ()
    | Some E \<Rightarrow> run_service Unhandled (transaction (refresh_order E oid)))"

fun reconcile_all :: "env option \<Rightarrow> uuid list \<Rightarrow> unit H" where
  "reconcile_all client1 [] = ret ()"
| "reconcile_all client1 (oid # oids) = seq (reconcile_on_read client1 oid) (reconcile_all client1 oids)"

section \<open>Reading\<close>

definition get_portfolio_route :: "env \<Rightarrow> exchange \<Rightarrow> (guard list \<Rightarrow> guard list) \<Rightarrow> Request \<Rightarrow> (int \<times> json) H" where
  "get_portfolio_route E X order rq = route E order rq 200 [Permission ''portfolio.read''] (\<lambda>c.
     bnd (new_binance_client_for_user E X (current_user_id c)) (\<lambda>E'.
     bnd (run_service binance_or_500 (get_portfolio E' default_quote_asset)) (\<lambda>p.
     ret (JObj [(''quote_asset'', JStr (pf_quote_asset p)), (''total_value_quote'', jdec (pf_total_value_quote p)),
       (''as_of'', JStr (pf_as_of p)), (''balances'', JList (map serialize_balance (pf_balances p)))]))))"

definition get_balances_route :: "env \<Rightarrow> exchange \<Rightarrow> (guard list \<Rightarrow> guard list) \<Rightarrow> Request \<Rightarrow> (int \<times> json) H" where
  "get_balances_route E X order rq = route E order rq 200 [Permission ''portfolio.read''] (\<lambda>c.
     bnd (new_binance_client_for_user E X (current_user_id c)) (\<lambda>E'.
     bnd (run_service binance_or_500 (portfolio_balances E' default_quote_asset)) (\<lambda>bs.
     ret (JObj [(''balances'', JList (map serialize_balance bs))]))))"

datatype period = P1D | P7D | P30D | P90D | P1Y

fun period_value :: "period \<Rightarrow> string" where
  "period_value P1D = ''1D''"
| "period_value P7D = ''7D''"
| "period_value P30D = ''30D''"
| "period_value P90D = ''90D''"
| "period_value P1Y = ''1Y''"

fun history_window_days :: "period \<Rightarrow> int" where
  "history_window_days P1D = 1"
| "history_window_days P7D = 7"
| "history_window_days P30D = 30"
| "history_window_days P90D = 90"
| "history_window_days P1Y = 365"

fun history_downsample_minutes :: "period \<Rightarrow> int" where
  "history_downsample_minutes P1D = 0"
| "history_downsample_minutes P7D = 60"
| "history_downsample_minutes P30D = 240"
| "history_downsample_minutes P90D = 720"
| "history_downsample_minutes P1Y = 4320"

definition history_rows :: "int \<Rightarrow> sys \<Rightarrow> PortfolioSnapshot list" where
  "history_rows since s =
     sort_key ps_snapshot_at (filter (\<lambda>x. ps_snapshot_at x \<ge> since) (portfolio_snapshots s))"

definition history_point :: "PortfolioSnapshot \<Rightarrow> json" where
  "history_point x = JObj [(''t'', jtime (ps_snapshot_at x)), (''v'', jdec (ps_total_value_quote x))]"

definition history_response :: "period \<Rightarrow> PortfolioSnapshot list \<Rightarrow> json result" where
  "history_response period rows =
     (let bucket_minutes = history_downsample_minutes period in
      rbind (if bucket_minutes \<noteq> 0 then downsample rows bucket_minutes else Inr rows) (\<lambda>points.
      (let values = map ps_total_value_quote points in
       rbind (points_return_pct values) (\<lambda>return_pct.
       rbind (compute_max_drawdown_pct values) (\<lambda>max_drawdown_pct.
       Inr (JObj [(''period'', JStr (period_value period)),
         (''quote_asset'', JStr (if points \<noteq> [] then ps_quote_asset (hd points) else default_quote_asset)),
         (''points'', JList (map history_point points)), (''return_pct'', jopt jdec return_pct),
         (''max_drawdown_pct'', jopt jdec max_drawdown_pct)]))))))"

definition get_portfolio_history :: "env \<Rightarrow> (guard list \<Rightarrow> guard list) \<Rightarrow> Request \<Rightarrow> period \<Rightarrow> (int \<times> json) H" where
  "get_portfolio_history E order rq period = route E order rq 200 [Permission ''portfolio.read''] (\<lambda>c.
     bnd (now_utc E) (\<lambda>now.
     bnd (gets (history_rows (now - history_window_days period * us_per_day))) (\<lambda>rows.
     run_service Unhandled (lift (history_response period rows)))))"

definition get_market_data_route :: "env \<Rightarrow> exchange \<Rightarrow> (guard list \<Rightarrow> guard list) \<Rightarrow> Request \<Rightarrow> string \<Rightarrow> (int \<times> json) H" where
  "get_market_data_route E X order rq symbol =
     route E order rq 200 [Validated (has_length 1 20 symbol), Permission ''portfolio.read''] (\<lambda>c.
     run_service binance_or_500 (call_binance (new_public_binance_client E X) (GetMarketData (upper symbol))))"

definition get_exchange_info_route :: "env \<Rightarrow> exchange \<Rightarrow> (guard list \<Rightarrow> guard list) \<Rightarrow> Request \<Rightarrow> string \<Rightarrow> (int \<times> json) H" where
  "get_exchange_info_route E X order rq symbol =
     route E order rq 200 [Validated (has_length 1 20 symbol), Permission ''portfolio.read''] (\<lambda>c.
     run_service binance_or_500 (call_binance (new_public_binance_client E X) (GetExchangeInfo (upper symbol))))"

definition allowed_kline_intervals :: "string list" where
  "allowed_kline_intervals = [''15m'', ''1d'', ''1h'', ''1m'', ''4h'', ''5m'']"

definition max_kline_limit :: int where "max_kline_limit = 500"

definition get_klines_route ::
  "env \<Rightarrow> exchange \<Rightarrow> (guard list \<Rightarrow> guard list) \<Rightarrow> Request \<Rightarrow> string \<Rightarrow> string \<Rightarrow> int \<Rightarrow> (int \<times> json) H" where
  "get_klines_route E X order rq symbol interval limit =
     route E order rq 200 [Validated (has_length 1 20 symbol \<and> 1 \<le> limit \<and> limit \<le> max_kline_limit),
       Permission ''portfolio.read''] (\<lambda>c.
     if interval \<notin> set allowed_kline_intervals then
       raise (http_error 422 (''interval must be one of '' @ py_repr (JList (map JStr allowed_kline_intervals))))
     else bnd (run_service binance_or_500
         (call_binance (new_public_binance_client E X) (GetKlines (upper symbol) interval limit))) (\<lambda>candles.
       ret (JObj [(''symbol'', JStr (upper symbol)), (''interval'', JStr interval), (''candles'', candles)])))"

definition get_positions_route :: "env \<Rightarrow> exchange \<Rightarrow> (guard list \<Rightarrow> guard list) \<Rightarrow> Request \<Rightarrow> (int \<times> json) H" where
  "get_positions_route E X order rq = route E order rq 200 [Permission ''positions.read''] (\<lambda>c.
     bnd (new_binance_client_for_user E X (current_user_id c)) (\<lambda>E'.
     bnd (run_service binance_or_500 (get_positions E' default_quote_asset)) (\<lambda>ps.
     ret (JObj [(''positions'', JList (map serialize_position ps))]))))"

text \<open>The filters of the query: an empty one counts as absent.\<close>

definition OrderStatus_of :: "string \<Rightarrow> OrderStatus result" where
  "OrderStatus_of = enum_of ''OrderStatus'' status_value [PENDING, NEW, PARTIALLY_FILLED, OrderStatus.FILLED,
     OrderStatus.CANCELED, PENDING_CANCEL, OrderStatus.REJECTED, EXPIRED, OrderStatus.FAILED]"

definition status_filter :: "string option \<Rightarrow> (Order \<Rightarrow> bool) H" where
  "status_filter status = (case status of
      Some (c # cs) \<Rightarrow> (case OrderStatus_of (upper (c # cs)) of
          Inl e \<Rightarrow> raise (http_error 422 (''Unknown order status: '' @ repr (c # cs)))
        | Inr st \<Rightarrow> ret (\<lambda>x. o_status x = st))
    | _ \<Rightarrow> ret (\<lambda>x. True))"

definition symbol_filter :: "string option \<Rightarrow> Order \<Rightarrow> bool" where
  "symbol_filter symbol x = (case symbol of Some (c # cs) \<Rightarrow> o_symbol x = upper (c # cs) | _ \<Rightarrow> True)"

definition orders_page :: "uuid \<Rightarrow> string option \<Rightarrow> (Order \<Rightarrow> bool) \<Rightarrow> nat \<Rightarrow> sys \<Rightarrow> Order list" where
  "orders_page user_id symbol wanted limit s =
     take limit (sort_key (\<lambda>x. - o_created_at x)
       (filter (\<lambda>x. o_user_id x = user_id \<and> symbol_filter symbol x \<and> wanted x) (orders s)))"

text \<open>The rows an operation holds, as they are now.\<close>

definition current_rows :: "uuid list \<Rightarrow> sys \<Rightarrow> Order list" where
  "current_rows oids s = List.map_filter (lookup_row o_id (orders s)) oids"

definition list_orders ::
  "env \<Rightarrow> exchange \<Rightarrow> (guard list \<Rightarrow> guard list) \<Rightarrow> Request \<Rightarrow> string option \<Rightarrow> string option \<Rightarrow> nat \<Rightarrow> (int \<times> json) H" where
  "list_orders E X order rq symbol status limit =
     route E order rq 200 [Validated (pred_option (has_length 0 20) symbol \<and> pred_option (has_length 0 30) status \<and>
         1 \<le> limit \<and> limit \<le> max_orders_limit), Permission ''orders.read''] (\<lambda>c.
     bnd (status_filter status) (\<lambda>wanted.
     bnd (gets (orders_page (current_user_id c) symbol wanted limit)) (\<lambda>page.
     bnd (new_optional_binance_client_for_user E X (current_user_id c)) (\<lambda>client1.
     seq (reconcile_all client1 (map o_id page))
     (bnd (gets (current_rows (map o_id page))) (\<lambda>rows.
     ret (JObj [(''orders'', JList (map order_to_response rows)), (''count'', JInt (int (length page)))])))))))"

definition get_order_route :: "env \<Rightarrow> exchange \<Rightarrow> (guard list \<Rightarrow> guard list) \<Rightarrow> Request \<Rightarrow> uuid \<Rightarrow> (int \<times> json) H" where
  "get_order_route E X order rq order_id = route E order rq 200 [Permission ''orders.read''] (\<lambda>c.
     bnd (gets (\<lambda>s. lookup_row o_id (orders s) order_id)) (\<lambda>found.
     case (case found of Some o1 \<Rightarrow> if o_user_id o1 = current_user_id c then Some o1 else None | None \<Rightarrow> None) of
       None \<Rightarrow> raise (http_error 404 ''Order not found.'')
     | Some o1 \<Rightarrow>
         bnd (new_optional_binance_client_for_user E X (current_user_id c)) (\<lambda>client1.
         seq (reconcile_on_read client1 order_id)
         (bnd (run_service Unhandled (the_order order_id)) (\<lambda>o2. ret (order_to_response o2))))))"

section \<open>The mutating routes\<close>

record CreateOrderRequest =
  co_symbol :: string
  co_side :: string
  co_type :: string
  co_quantity :: decimal
  co_price :: "decimal option"

definition create_order_request_ok :: "CreateOrderRequest \<Rightarrow> bool" where
  "create_order_request_ok b \<longleftrightarrow> has_length 1 20 (co_symbol b) \<and> co_side b \<in> set [''BUY'', ''SELL''] \<and>
     co_type b \<in> set [''MARKET'', ''LIMIT''] \<and> gt_zero (co_quantity b) \<and> pred_option gt_zero (co_price b) \<and>
     (co_price b = None \<longleftrightarrow> co_type b = ''MARKET'')"

definition create_order_route ::
  "env \<Rightarrow> exchange \<Rightarrow> (guard list \<Rightarrow> guard list) \<Rightarrow> Request \<Rightarrow> CreateOrderRequest \<Rightarrow> (int \<times> json) H" where
  "create_order_route E X order rq body =
     route E order rq 201
       (Validated (create_order_request_ok body) # mutating ''orders.create'' CREATE_ORDER_RATE_LIMITER ''orders.create'') (\<lambda>c.
     run_order_service_action E X (current_user_id c) (\<lambda>E' svc.
       OrderService.create_order E' svc (current_user_id c) (co_symbol body) (co_side body) (co_type body) (co_quantity body)
         (co_price body) (cx_key c)))"

definition cancel_order_route :: "env \<Rightarrow> exchange \<Rightarrow> (guard list \<Rightarrow> guard list) \<Rightarrow> Request \<Rightarrow> uuid \<Rightarrow> (int \<times> json) H" where
  "cancel_order_route E X order rq order_id =
     route E order rq 200 (mutating ''orders.cancel'' CANCEL_ORDER_RATE_LIMITER ''orders.cancel'') (\<lambda>c.
     run_order_service_action E X (current_user_id c) (\<lambda>E' svc.
       OrderService.cancel_order E' (current_user_id c) order_id (cx_key c)))"

definition close_position_route :: "env \<Rightarrow> exchange \<Rightarrow> (guard list \<Rightarrow> guard list) \<Rightarrow> Request \<Rightarrow> string \<Rightarrow> (int \<times> json) H" where
  "close_position_route E X order rq symbol =
     route E order rq 201 (mutating ''positions.close'' CLOSE_POSITION_RATE_LIMITER ''positions.close'') (\<lambda>c.
     run_order_service_action E X (current_user_id c) (\<lambda>E' svc.
       close_position E' svc (current_user_id c) symbol (cx_key c)))"

end
