(* ===== verification/SettingsRoutes.thy ===== *)
theory SettingsRoutes
  imports Routes
begin

text \<open>
  \<open>api/settings_routes.py\<close>: the Binance keys, the risk limits and the trading switch of the caller.
  There is no user in the path of any route: each reads and writes the caller's own rows.
\<close>

section \<open>Serialization\<close>

definition serialize_credential_status :: "CredentialStatus \<Rightarrow> json" where
  "serialize_credential_status st = JObj [(''configured'', JBool (cs_configured st)),
     (''api_key_last4'', jopt JStr (cs_api_key_last4 st)), (''verified_at'', jopt jtime (cs_verified_at st)),
     (''updated_at'', jopt jtime (cs_updated_at st))]"

definition sorted_symbols :: "string set \<Rightarrow> json" where
  "sorted_symbols S = JList (map JStr (sorted_list_of_set S))"

definition serialize_risk_limits :: "RiskLimits \<Rightarrow> json" where
  "serialize_risk_limits l = JObj [(''max_order_notional_quote'', jopt jdec (max_order_notional_quote l)),
     (''max_symbol_exposure_pct'', jopt jdec (max_symbol_exposure_pct l)),
     (''max_total_exposure_pct'', jopt jdec (max_total_exposure_pct l)),
     (''max_daily_loss_pct'', jopt jdec (max_daily_loss_pct l)),
     (''max_open_positions'', jopt JInt (max_open_positions l)),
     (''allowed_symbols'', case allowed_symbols l of
        None \<Rightarrow> JNull | Some S \<Rightarrow> if S = {} then JNull else sorted_symbols S)]"

text \<open>\<open>str(x)\<close> of a limit that may be None, and \<open>sorted\<close> of a set that may be.\<close>

definition str_or_none :: "decimal option \<Rightarrow> json" where
  "str_or_none d = (case d of None \<Rightarrow> JStr ''None'' | Some x \<Rightarrow> jdec x)"

definition serialize_simulation_risk_limits :: "RiskLimits \<Rightarrow> json result" where
  "serialize_simulation_risk_limits l = (case allowed_symbols l of
      None \<Rightarrow> Inl (TypeErr (repr ''NoneType'' @ '' object is not iterable''))
    | Some S \<Rightarrow> Inr (JObj [(''max_order_notional_quote'', str_or_none (max_order_notional_quote l)),
         (''max_symbol_exposure_pct'', str_or_none (max_symbol_exposure_pct l)),
         (''max_total_exposure_pct'', str_or_none (max_total_exposure_pct l)),
         (''max_daily_loss_pct'', str_or_none (max_daily_loss_pct l)),
         (''max_open_positions'', jopt JInt (max_open_positions l)), (''allowed_symbols'', sorted_symbols S)]))"

section \<open>Bodies\<close>

record ConnectBinanceCredentialsRequest =
  cr_api_key :: string
  cr_api_secret :: string

definition connect_request_ok :: "ConnectBinanceCredentialsRequest \<Rightarrow> bool" where
  "connect_request_ok b \<longleftrightarrow> has_length 1 200 (cr_api_key b) \<and> has_length 1 200 (cr_api_secret b)"

text \<open>\<open>Field(ge=0, le=100)\<close>.\<close>

definition is_percentage :: "decimal \<Rightarrow> bool" where
  "is_percentage d \<longleftrightarrow> \<not> is_nan d \<and> \<not> dec_less_num d dec_zero \<and> \<not> dec_less_num (dec_of_int 100) d"

definition normalized_symbols :: "string list \<Rightarrow> string set" where
  "normalized_symbols value = set (map (\<lambda>t. upper (strip t)) (filter (\<lambda>t. strip t \<noteq> []) value))"

record RiskLimitsRequest =
  rl_max_order_notional_quote :: "decimal option"
  rl_max_symbol_exposure_pct :: "decimal option"
  rl_max_total_exposure_pct :: "decimal option"
  rl_max_daily_loss_pct :: "decimal option"
  rl_max_open_positions :: "int option"
  rl_allowed_symbols :: "string list option"

definition risk_limits_request_ok :: "RiskLimitsRequest \<Rightarrow> bool" where
  "risk_limits_request_ok b \<longleftrightarrow> pred_option gt_zero (rl_max_order_notional_quote b) \<and>
     pred_option is_percentage (rl_max_symbol_exposure_pct b) \<and>
     pred_option is_percentage (rl_max_total_exposure_pct b) \<and>
     pred_option is_percentage (rl_max_daily_loss_pct b) \<and>
     pred_option (\<lambda>n. 1 \<le> n) (rl_max_open_positions b)"

text \<open>The validator of the field, then \<open>to_risk_limits\<close>.\<close>

definition normalize_symbols :: "string list option \<Rightarrow> string set option" where
  "normalize_symbols value = (case value of None \<Rightarrow> None | Some v \<Rightarrow>
     if v = [] then None else if normalized_symbols v = {} then None else Some (normalized_symbols v))"

definition to_risk_limits :: "RiskLimitsRequest \<Rightarrow> RiskLimits" where
  "to_risk_limits b = \<lparr>max_order_notional_quote = rl_max_order_notional_quote b,
     max_symbol_exposure_pct = rl_max_symbol_exposure_pct b, max_total_exposure_pct = rl_max_total_exposure_pct b,
     max_daily_loss_pct = rl_max_daily_loss_pct b, max_open_positions = rl_max_open_positions b,
     allowed_symbols = normalize_symbols (rl_allowed_symbols b)\<rparr>"

record SimulationRiskLimitsRequest =
  sr_max_order_notional_quote :: decimal
  sr_max_symbol_exposure_pct :: decimal
  sr_max_total_exposure_pct :: decimal
  sr_max_daily_loss_pct :: decimal
  sr_max_open_positions :: int
  sr_allowed_symbols :: "string list"

definition simulation_limits_request_ok :: "SimulationRiskLimitsRequest \<Rightarrow> bool" where
  "simulation_limits_request_ok b \<longleftrightarrow> gt_zero (sr_max_order_notional_quote b) \<and>
     is_percentage (sr_max_symbol_exposure_pct b) \<and> is_percentage (sr_max_total_exposure_pct b) \<and>
     is_percentage (sr_max_daily_loss_pct b) \<and> 1 \<le> sr_max_open_positions b \<and> sr_allowed_symbols b \<noteq> [] \<and>
     normalized_symbols (sr_allowed_symbols b) \<noteq> {}"

definition simulation_to_risk_limits :: "SimulationRiskLimitsRequest \<Rightarrow> RiskLimits" where
  "simulation_to_risk_limits b = \<lparr>max_order_notional_quote = Some (sr_max_order_notional_quote b),
     max_symbol_exposure_pct = Some (sr_max_symbol_exposure_pct b),
     max_total_exposure_pct = Some (sr_max_total_exposure_pct b),
     max_daily_loss_pct = Some (sr_max_daily_loss_pct b), max_open_positions = Some (sr_max_open_positions b),
     allowed_symbols = Some (normalized_symbols (sr_allowed_symbols b))\<rparr>"

section \<open>Binance credentials\<close>

definition get_binance_credentials_route :: "env \<Rightarrow> (guard list \<Rightarrow> guard list) \<Rightarrow> Request \<Rightarrow> (int \<times> json) H" where
  "get_binance_credentials_route E order rq = route E order rq 200 [Permission ''secrets.read''] (\<lambda>c.
     gets (\<lambda>s. serialize_credential_status (get_credential_status (current_user_id c) s)))"

fun http_exception_for_credentials_error :: "exn \<Rightarrow> http_exn" where
  "http_exception_for_credentials_error (CredentialsEncryptionErr m) =
     http_error 503 ''Binance credential encryption is not configured.''"
| "http_exception_for_credentials_error (CredentialsVerificationFailedErr m) =
     HTTPException 409 (JObj [(''connected'', JBool False), (''reason'', JStr m)]) []"
| "http_exception_for_credentials_error (CredentialsUnsafeErr m) =
     HTTPException 409 (JObj [(''connected'', JBool False), (''reason'', JStr m)]) []"
| "http_exception_for_credentials_error e = Unhandled e"

definition put_binance_credentials_route ::
  "env \<Rightarrow> exchange \<Rightarrow> (guard list \<Rightarrow> guard list) \<Rightarrow> Request \<Rightarrow> ConnectBinanceCredentialsRequest \<Rightarrow> (int \<times> json) H" where
  "put_binance_credentials_route E X order rq body =
     route E order rq 200 (Validated (connect_request_ok body) #
         mutating ''secrets.manage'' SETTINGS_CREDENTIALS_PUT_RATE_LIMITER ''settings.binance_credentials.put'') (\<lambda>c.
     bnd (run_service http_exception_for_credentials_error (transaction
         (connect_credentials (as_client E X (cr_api_key body, cr_api_secret body)) (current_user_id c)
           (cr_api_key body) (cr_api_secret body)))) (\<lambda>status.
     ret (JObj [(''connected'', JBool True), (''api_key_last4'', jopt JStr (cs_api_key_last4 status)),
       (''verified_at'', jopt jtime (cs_verified_at status))])))"

definition delete_binance_credentials_route :: "env \<Rightarrow> (guard list \<Rightarrow> guard list) \<Rightarrow> Request \<Rightarrow> (int \<times> json) H" where
  "delete_binance_credentials_route E order rq =
     route E order rq 200 (mutating ''secrets.manage'' SETTINGS_CREDENTIALS_DELETE_RATE_LIMITER
         ''settings.binance_credentials.delete'') (\<lambda>c.
     seq (run_service Unhandled (disconnect_credentials (current_user_id c))) (ret (JObj [(''connected'', JBool False)])))"

section \<open>Risk limits and the trading switch\<close>

definition get_risk_limits_route :: "env \<Rightarrow> (guard list \<Rightarrow> guard list) \<Rightarrow> Request \<Rightarrow> (int \<times> json) H" where
  "get_risk_limits_route E order rq = route E order rq 200 [Permission ''risk.read''] (\<lambda>c.
     gets (\<lambda>s. serialize_risk_limits (get_user_risk_limits (current_user_id c) s)))"

definition put_risk_limits_route ::
  "env \<Rightarrow> (guard list \<Rightarrow> guard list) \<Rightarrow> Request \<Rightarrow> RiskLimitsRequest \<Rightarrow> (int \<times> json) H" where
  "put_risk_limits_route E order rq body =
     route E order rq 200 (Validated (risk_limits_request_ok body) #
         mutating ''risk.manage'' SETTINGS_RISK_LIMITS_RATE_LIMITER ''settings.risk_limits.put'') (\<lambda>c.
     bnd (run_service Unhandled (transaction (save_user_risk_limits (current_user_id c) (to_risk_limits body)))) (\<lambda>updated.
     ret (serialize_risk_limits updated)))"

definition get_simulation_risk_limits_route :: "env \<Rightarrow> (guard list \<Rightarrow> guard list) \<Rightarrow> Request \<Rightarrow> (int \<times> json) H" where
  "get_simulation_risk_limits_route E order rq = route E order rq 200 [Permission ''risk.read''] (\<lambda>c.
     bnd (gets (get_user_simulation_risk_limits (current_user_id c))) (\<lambda>limits.
     run_service Unhandled (lift (serialize_simulation_risk_limits limits))))"

definition put_simulation_risk_limits_route ::
  "env \<Rightarrow> (guard list \<Rightarrow> guard list) \<Rightarrow> Request \<Rightarrow> SimulationRiskLimitsRequest \<Rightarrow> (int \<times> json) H" where
  "put_simulation_risk_limits_route E order rq body =
     route E order rq 200 (Validated (simulation_limits_request_ok body) #
         mutating ''risk.manage'' SETTINGS_SIMULATION_RISK_LIMITS_RATE_LIMITER ''settings.simulation_risk_limits.put'') (\<lambda>c.
     bnd (run_service Unhandled (transaction
         (save_user_simulation_risk_limits (current_user_id c) (simulation_to_risk_limits body)))) (\<lambda>updated.
     run_service Unhandled (lift (serialize_simulation_risk_limits updated))))"

definition get_trading_switch_route :: "env \<Rightarrow> (guard list \<Rightarrow> guard list) \<Rightarrow> Request \<Rightarrow> (int \<times> json) H" where
  "get_trading_switch_route E order rq = route E order rq 200 [Permission ''risk.read''] (\<lambda>c.
     gets (\<lambda>s. JObj [(''enabled'', JBool (is_user_trading_enabled (current_user_id c) s))]))"

definition put_trading_switch_route :: "env \<Rightarrow> (guard list \<Rightarrow> guard list) \<Rightarrow> Request \<Rightarrow> bool \<Rightarrow> (int \<times> json) H" where
  "put_trading_switch_route E order rq enabled =
     route E order rq 200 (mutating ''risk.manage'' SETTINGS_TRADING_SWITCH_RATE_LIMITER ''settings.trading_switch.put'') (\<lambda>c.
     bnd (run_service Unhandled (transaction (set_user_trading_enabled (current_user_id c) enabled))) (\<lambda>now_enabled.
     ret (JObj [(''enabled'', JBool now_enabled)])))"

end
