(* ===== verification/BotsRoutes.thy ===== *)
theory BotsRoutes
  imports Routes BotService Snapshots
begin

text \<open>
  \<open>api/bots_routes.py\<close>: the bots of a user over HTTP, their portfolio, performance and trades, and the seven
  routes that change a bot.
\<close>

section \<open>Plumbing\<close>

fun http_exception_for_bot_service_error :: "exn \<Rightarrow> http_exn" where
  "http_exception_for_bot_service_error (BotNotFoundErr m) = http_error 404 ''Bot not found.''"
| "http_exception_for_bot_service_error (InvalidBotTransitionErr m) = http_error 409 m"
| "http_exception_for_bot_service_error (IdempotencyConflictErr m) = http_error 409 m"
| "http_exception_for_bot_service_error (IdempotencyInProgressErr m) = http_error 409 m"
| "http_exception_for_bot_service_error e = Unhandled e"

definition run_bot_service_action :: "env \<Rightarrow> exchange \<Rightarrow> uuid \<Rightarrow> (env \<Rightarrow> json M) \<Rightarrow> json H" where
  "run_bot_service_action E X user_id action =
     bnd (new_optional_binance_client_for_user E X user_id) (\<lambda>client1.
     run_action http_exception_for_bot_service_error
       (action (case client1 of None \<Rightarrow> new_public_binance_client E X | Some E' \<Rightarrow> E')))"

definition get_owned_bot :: "uuid \<Rightarrow> uuid \<Rightarrow> Bot H" where
  "get_owned_bot user_id bid =
     bnd (gets (\<lambda>s. lookup_row b_id (bots s) bid)) (\<lambda>found. case found of
       None \<Rightarrow> raise (http_error 404 ''Bot not found.'')
     | Some b \<Rightarrow> if b_user_id b \<noteq> user_id then raise (http_error 404 ''Bot not found.'') else ret b)"

definition live_order_to_trade_response :: "Order \<Rightarrow> json" where
  "live_order_to_trade_response x = JObj [(''side'', JStr (side_value (o_side x))),
     (''fill_price'', jopt jdec (o_average_fill_price x)), (''executed_quantity'', jdec (o_executed_quantity x)),
     (''terminal_at'', jopt jtime (o_terminal_at x))]"

section \<open>Bodies\<close>

record CreateBotRequest =
  cb_name :: string
  cb_risk_profile :: string
  cb_asset_class :: string
  cb_execution_venue :: string
  cb_instrument :: string
  cb_target_quantity :: decimal
  cb_strategy_model :: "string option"
  cb_strategy_config :: "json option"

definition create_bot_request_ok :: "CreateBotRequest \<Rightarrow> bool" where
  "create_bot_request_ok b \<longleftrightarrow> has_length 1 100 (cb_name b) \<and>
     cb_risk_profile b \<in> set [''SENTINEL'', ''EQUILIBRIUM'', ''VORTEX''] \<and>
     cb_asset_class b \<in> set [''CRYPTO'', ''EQUITY''] \<and> cb_execution_venue b = ''BINANCE'' \<and>
     has_length 1 20 (cb_instrument b) \<and> gt_zero (cb_target_quantity b) \<and>
     pred_option (has_length 0 50) (cb_strategy_model b)"

record UpdateBotRequest =
  ub_name :: "string option"
  ub_target_quantity :: "decimal option"
  ub_strategy_model :: "string option"
  ub_strategy_config :: "json option"

definition update_bot_request_ok :: "UpdateBotRequest \<Rightarrow> bool" where
  "update_bot_request_ok b \<longleftrightarrow> pred_option (has_length 1 100) (ub_name b) \<and>
     pred_option gt_zero (ub_target_quantity b) \<and> pred_option (has_length 0 50) (ub_strategy_model b)"

section \<open>Reading\<close>

definition list_bots_route :: "env \<Rightarrow> (guard list \<Rightarrow> guard list) \<Rightarrow> Request \<Rightarrow> (int \<times> json) H" where
  "list_bots_route E order rq = route E order rq 200 [Permission ''bots.read''] (\<lambda>c.
     gets (\<lambda>s. JObj [(''bots'', list_bots (current_user_id c) s)]))"

definition get_bot_route :: "env \<Rightarrow> (guard list \<Rightarrow> guard list) \<Rightarrow> Request \<Rightarrow> uuid \<Rightarrow> (int \<times> json) H" where
  "get_bot_route E order rq bid = route E order rq 200 [Permission ''bots.read''] (\<lambda>c.
     bnd (gets (get_bot (current_user_id c) bid)) (\<lambda>r. case r of
       Inl e \<Rightarrow> raise (http_exception_for_bot_service_error e)
     | Inr j \<Rightarrow> ret j))"

definition get_simulation_config_route :: "env \<Rightarrow> (guard list \<Rightarrow> guard list) \<Rightarrow> Request \<Rightarrow> (int \<times> json) H" where
  "get_simulation_config_route E order rq = route E order rq 200 [] (\<lambda>c.
     bnd (run_service Unhandled (lift (default_simulation_initial_capital E))) (\<lambda>capital.
     ret (JObj [(''initial_capital_quote'', jdec capital), (''quote_asset'', JStr default_simulation_quote_asset)])))"

text \<open>The price of what a bot holds; only the call itself is inside the \<open>try\<close>.\<close>

definition bot_market_price :: "env \<Rightarrow> exchange \<Rightarrow> Bot \<Rightarrow> decimal \<Rightarrow> decimal H" where
  "bot_market_price E X b current_quantity =
     bnd (run_service Unhandled (lift (dec_lt dec_zero current_quantity))) (\<lambda>held.
     if \<not> held then ret dec_zero
     else bnd (run_service binance_or_500 (call_binance (new_public_binance_client E X) (GetMarketData (b_instrument b)))) (\<lambda>m.
       run_service Unhandled (lift (rbind (jget ''last_price'' m) dec_of_json))))"

record VirtualPortfolio =
  vp_account :: SimulationAccount
  vp_position_value :: decimal
  vp_total_value :: decimal
  vp_exposure_pct :: decimal
  vp_return_pct :: "decimal option"

text \<open>The values of a simulation account at a price; a missing account is an AttributeError.\<close>

definition virtual_portfolio :: "SimulationAccount option \<Rightarrow> decimal \<Rightarrow> decimal \<Rightarrow> VirtualPortfolio result" where
  "virtual_portfolio acc current_quantity market_price = (case acc of
      None \<Rightarrow> Inl (AttributeErr (repr ''NoneType'' @ '' object has no attribute '' @ repr ''cash_balance_quote''))
    | Some account \<Rightarrow>
        rbind (compute_position_value current_quantity market_price) (\<lambda>position_value.
        rbind (compute_total_value (sa_cash_balance_quote account) current_quantity market_price) (\<lambda>total_value.
        rbind (share_pct position_value total_value) (\<lambda>exposure_pct.
        rbind (compute_return_pct total_value (sa_initial_capital_quote account)) (\<lambda>return_pct.
        Inr \<lparr>vp_account = account, vp_position_value = position_value, vp_total_value = total_value,
          vp_exposure_pct = exposure_pct, vp_return_pct = return_pct\<rparr>)))))"

definition bot_guards :: "guard list" where
  "bot_guards = [Permission ''bots.read'', AlsoPermission ''portfolio.read'']"

definition get_bot_portfolio_route :: "env \<Rightarrow> exchange \<Rightarrow> (guard list \<Rightarrow> guard list) \<Rightarrow> Request \<Rightarrow> uuid \<Rightarrow> (int \<times> json) H" where
  "get_bot_portfolio_route E X order rq bid = route E order rq 200 bot_guards (\<lambda>c.
     bnd (get_owned_bot (current_user_id c) bid) (\<lambda>b.
     bnd (gets (\<lambda>s. held_quantity (position_of s bid))) (\<lambda>current_quantity.
     bnd (bot_market_price E X b current_quantity) (\<lambda>market_price.
     if b_execution_mode b = LIVE then
       bnd (run_service Unhandled (lift (compute_position_value current_quantity market_price))) (\<lambda>value.
       ret (JObj [(''available'', JBool True), (''execution_mode'', JStr (mode_value (b_execution_mode b))),
         (''quote_asset'', JStr ''USDT''), (''current_quantity'', jdec current_quantity),
         (''position_value_quote'', jdec value), (''total_value_quote'', jdec value), (''return_pct'', JNull)]))
     else
       bnd (gets (\<lambda>s. account_of s bid)) (\<lambda>acc.
       bnd (run_service Unhandled (lift (virtual_portfolio acc current_quantity market_price))) (\<lambda>p.
       ret (JObj [(''available'', JBool True), (''execution_mode'', JStr (mode_value (b_execution_mode b))),
         (''quote_asset'', JStr (sa_quote_asset (vp_account p))),
         (''initial_capital_quote'', jdec (sa_initial_capital_quote (vp_account p))),
         (''cash_balance_quote'', jdec (sa_cash_balance_quote (vp_account p))),
         (''current_quantity'', jdec current_quantity), (''position_value_quote'', jdec (vp_position_value p)),
         (''total_value_quote'', jdec (vp_total_value p)), (''exposure_pct'', jdec (vp_exposure_pct p)),
         (''return_pct'', jopt jdec (vp_return_pct p))])))))))"

definition filled_live_orders :: "uuid \<Rightarrow> sys \<Rightarrow> Order list" where
  "filled_live_orders bid s = filter (\<lambda>x. o_bot_id x = Some bid \<and> o_status x = OrderStatus.FILLED) (orders s)"

definition simulation_curve :: "uuid \<Rightarrow> sys \<Rightarrow> decimal list" where
  "simulation_curve bid s = map ss_total_value_quote
     (sort_key ss_snapshot_at (filter (\<lambda>x. ss_bot_id x = bid) (simulation_snapshots s)))"

definition live_performance :: "env \<Rightarrow> Bot \<Rightarrow> decimal \<Rightarrow> decimal \<Rightarrow> json H" where
  "live_performance E b current_quantity market_price =
     bnd (gets (filled_live_orders (b_id b))) (\<lambda>os.
     bnd (now_utc E) (\<lambda>now.
     bnd (run_service Unhandled (lift (compute_live_realized_pnl_today os now))) (\<lambda>pnl.
     bnd (run_service Unhandled (lift (compute_live_trade_stats os))) (\<lambda>stats.
     bnd (run_service Unhandled (lift (compute_position_value current_quantity market_price))) (\<lambda>value.
     ret (JObj [(''available'', JBool True), (''execution_mode'', JStr (mode_value (b_execution_mode b))),
       (''total_value_quote'', jdec value), (''return_pct'', JNull), (''max_drawdown_pct'', JNull),
       (''realized_pnl_today_quote'', jdec pnl), (''trade_count'', JInt (int (trade_count stats))),
       (''win_rate_pct'', jopt jdec (win_rate_pct stats))]))))))"

definition simulation_performance :: "env \<Rightarrow> Bot \<Rightarrow> decimal \<Rightarrow> decimal \<Rightarrow> json H" where
  "simulation_performance E b current_quantity market_price =
     bnd (gets (\<lambda>s. account_of s (b_id b))) (\<lambda>acc.
     bnd (run_service Unhandled (lift (virtual_portfolio acc current_quantity market_price))) (\<lambda>p.
     bnd (gets (\<lambda>s. filter (\<lambda>x. so_bot_id x = b_id b) (simulation_orders s))) (\<lambda>os.
     bnd (now_utc E) (\<lambda>now.
     bnd (run_service Unhandled (lift (compute_realized_pnl_today os now))) (\<lambda>pnl.
     bnd (run_service Unhandled (lift (compute_trade_stats os))) (\<lambda>stats.
     bnd (gets (simulation_curve (b_id b))) (\<lambda>curve.
     bnd (run_service Unhandled (lift (compute_max_drawdown_pct curve))) (\<lambda>max_drawdown_pct.
     ret (JObj [(''available'', JBool True), (''execution_mode'', JStr (mode_value (b_execution_mode b))),
       (''total_value_quote'', jdec (vp_total_value p)), (''return_pct'', jopt jdec (vp_return_pct p)),
       (''max_drawdown_pct'', jopt jdec max_drawdown_pct), (''realized_pnl_today_quote'', jdec pnl),
       (''trade_count'', JInt (int (trade_count stats))), (''win_rate_pct'', jopt jdec (win_rate_pct stats)),
       (''exposure_pct'', jdec (vp_exposure_pct p))])))))))))"

definition get_bot_performance_route :: "env \<Rightarrow> exchange \<Rightarrow> (guard list \<Rightarrow> guard list) \<Rightarrow> Request \<Rightarrow> uuid \<Rightarrow> (int \<times> json) H" where
  "get_bot_performance_route E X order rq bid = route E order rq 200 bot_guards (\<lambda>c.
     bnd (get_owned_bot (current_user_id c) bid) (\<lambda>b.
     bnd (gets (\<lambda>s. held_quantity (position_of s bid))) (\<lambda>current_quantity.
     bnd (bot_market_price E X b current_quantity) (\<lambda>market_price.
     if b_execution_mode b = LIVE then live_performance E b current_quantity market_price
     else simulation_performance E b current_quantity market_price))))"

text \<open>\<open>ORDER BY terminal_at ASC\<close>: rows without the moment come last.\<close>

definition by_terminal :: "('r \<Rightarrow> int option) \<Rightarrow> 'r list \<Rightarrow> 'r list" where
  "by_terminal f rows = sort_key (\<lambda>x. the (f x)) (filter (\<lambda>x. f x \<noteq> None) rows) @ filter (\<lambda>x. f x = None) rows"

definition filled_simulation_orders :: "uuid \<Rightarrow> sys \<Rightarrow> SimulationOrder list" where
  "filled_simulation_orders bid s =
     filter (\<lambda>x. so_bot_id x = bid \<and> so_status x = SimulationOrderStatus.FILLED) (simulation_orders s)"

definition get_bot_trades_route :: "env \<Rightarrow> (guard list \<Rightarrow> guard list) \<Rightarrow> Request \<Rightarrow> uuid \<Rightarrow> (int \<times> json) H" where
  "get_bot_trades_route E order rq bid = route E order rq 200 bot_guards (\<lambda>c.
     bnd (get_owned_bot (current_user_id c) bid) (\<lambda>b.
     bnd (gets (\<lambda>s. if b_execution_mode b = LIVE
         then map live_order_to_trade_response (by_terminal o_terminal_at (filled_live_orders bid s))
         else map simulation_order_to_response (by_terminal so_terminal_at (filled_simulation_orders bid s)))) (\<lambda>trades.
     ret (JObj [(''available'', JBool True), (''execution_mode'', JStr (mode_value (b_execution_mode b))),
       (''trades'', JList trades)]))))"

section \<open>The mutating routes\<close>

definition create_bot_route ::
  "env \<Rightarrow> exchange \<Rightarrow> (guard list \<Rightarrow> guard list) \<Rightarrow> Request \<Rightarrow> CreateBotRequest \<Rightarrow> (int \<times> json) H" where
  "create_bot_route E X order rq body =
     route E order rq 201 (Validated (create_bot_request_ok body) # mutating ''bots.create'' BOT_CREATE_RATE_LIMITER ''bots.create'') (\<lambda>c.
     run_bot_service_action E X (current_user_id c) (\<lambda>E'.
       create_bot E' (current_user_id c) (cb_name body) (cb_risk_profile body) (cb_asset_class body)
         (cb_execution_venue body) (cb_instrument body) (cb_target_quantity body) (cx_key c)
         (cb_strategy_model body) (cb_strategy_config body)))"

definition update_bot_route ::
  "env \<Rightarrow> exchange \<Rightarrow> (guard list \<Rightarrow> guard list) \<Rightarrow> Request \<Rightarrow> uuid \<Rightarrow> UpdateBotRequest \<Rightarrow> (int \<times> json) H" where
  "update_bot_route E X order rq bid body =
     route E order rq 200 (Validated (update_bot_request_ok body) # mutating ''bots.update'' BOT_UPDATE_RATE_LIMITER ''bots.update'') (\<lambda>c.
     run_bot_service_action E X (current_user_id c) (\<lambda>E'.
       update_bot E' (current_user_id c) bid (cx_key c) (ub_name body) (ub_target_quantity body)
         (ub_strategy_model body) (ub_strategy_config body)))"

definition pause_bot_route :: "env \<Rightarrow> exchange \<Rightarrow> (guard list \<Rightarrow> guard list) \<Rightarrow> Request \<Rightarrow> uuid \<Rightarrow> (int \<times> json) H" where
  "pause_bot_route E X order rq bid =
     route E order rq 200 (mutating ''bots.pause'' BOT_PAUSE_RATE_LIMITER ''bots.pause'') (\<lambda>c.
     run_bot_service_action E X (current_user_id c) (\<lambda>E'. pause E' ''USDT'' (current_user_id c) bid (cx_key c)))"

definition resume_bot_route :: "env \<Rightarrow> exchange \<Rightarrow> (guard list \<Rightarrow> guard list) \<Rightarrow> Request \<Rightarrow> uuid \<Rightarrow> (int \<times> json) H" where
  "resume_bot_route E X order rq bid =
     route E order rq 200 (mutating ''bots.resume'' BOT_RESUME_RATE_LIMITER ''bots.resume'') (\<lambda>c.
     run_bot_service_action E X (current_user_id c) (\<lambda>E'. resume E' ''USDT'' (current_user_id c) bid (cx_key c)))"

definition stop_bot_route :: "env \<Rightarrow> exchange \<Rightarrow> (guard list \<Rightarrow> guard list) \<Rightarrow> Request \<Rightarrow> uuid \<Rightarrow> (int \<times> json) H" where
  "stop_bot_route E X order rq bid =
     route E order rq 200 (mutating ''bots.stop'' BOT_STOP_RATE_LIMITER ''bots.stop'') (\<lambda>c.
     run_bot_service_action E X (current_user_id c) (\<lambda>E'. stop E' (current_user_id c) bid (cx_key c)))"

definition delete_bot_route :: "env \<Rightarrow> exchange \<Rightarrow> (guard list \<Rightarrow> guard list) \<Rightarrow> Request \<Rightarrow> uuid \<Rightarrow> (int \<times> json) H" where
  "delete_bot_route E X order rq bid =
     route E order rq 200 (mutating ''bots.delete'' BOT_DELETE_RATE_LIMITER ''bots.delete'') (\<lambda>c.
     run_bot_service_action E X (current_user_id c) (\<lambda>E'. delete_bot E' (current_user_id c) bid (cx_key c)))"

definition activate_bot_live_route :: "env \<Rightarrow> exchange \<Rightarrow> (guard list \<Rightarrow> guard list) \<Rightarrow> Request \<Rightarrow> uuid \<Rightarrow> (int \<times> json) H" where
  "activate_bot_live_route E X order rq bid =
     route E order rq 200 (mutating ''bots.activate_live'' BOT_ACTIVATE_LIVE_RATE_LIMITER ''bots.activate_live'') (\<lambda>c.
     run_bot_service_action E X (current_user_id c) (\<lambda>E'. activate_live E' (current_user_id c) bid (cx_key c)))"

end
