(* ===== verification/RouteFacts.thy ===== *)
theory RouteFacts
  imports TradingRoutes SettingsRoutes BotsRoutes
begin

text \<open>
  Which operations can raise a \<open>BinanceError\<close>: the ones of the services handle their own, so the wrapper of the
  mutating routes has nothing to roll back.  Proved by the structure of the operations.
\<close>

section \<open>Results without a BinanceError\<close>

definition plain :: "'a result \<Rightarrow> bool" where
  "plain r \<longleftrightarrow> (\<forall>b. r \<noteq> Inl (BinanceErr b))"

named_theorems plain_intros "operations whose exceptions are not the exchange's"

lemma plain_Inr [plain_intros]: "plain (Inr x)"
  by (simp add: plain_def)

lemma plain_Inl: "(\<And>b. e \<noteq> BinanceErr b) \<Longrightarrow> plain (Inl e)"
  by (simp add: plain_def)

lemma plain_errors [plain_intros]:
  "plain (Inl (DecimalErr g))" "plain (Inl (ValueErr m))" "plain (Inl (KeyErr m))" "plain (Inl (TypeErr m))"
  "plain (Inl (AttributeErr m))" "plain (Inl (SymbolFiltersErr m))" "plain (Inl (UnknownBinanceStatusErr m))"
  "plain (Inl (IndexErr m))"
  by (simp_all add: plain_def)

lemma plain_rbind [plain_intros]: "plain r \<Longrightarrow> (\<And>x. plain (f x)) \<Longrightarrow> plain (rbind r f)"
  by (cases r) (auto simp: plain_def)

lemma plain_if [plain_intros]: "(b \<Longrightarrow> plain r) \<Longrightarrow> (\<not> b \<Longrightarrow> plain r') \<Longrightarrow> plain (if b then r else r')"
  by simp

lemma plain_option [plain_intros]:
  "plain r \<Longrightarrow> (\<And>x. plain (f x)) \<Longrightarrow> plain (case v of None \<Rightarrow> r | Some x \<Rightarrow> f x)"
  by (cases v) simp_all

lemma plain_prod [plain_intros]: "(\<And>x y. plain (f x y)) \<Longrightarrow> plain (case v of (x, y) \<Rightarrow> f x y)"
  by (cases v) simp

lemma plain_Let [plain_intros]: "(\<And>x. plain (f x)) \<Longrightarrow> plain (let x = v in f x)"
  by simp

lemma plain_dec_fix [plain_intros]: "plain (dec_fix s c e)"
  unfolding dec_fix_def by (intro plain_intros)

lemma plain_nan_result [plain_intros]: "plain (nan_result a b)"
  unfolding nan_result_def by (intro plain_intros)

lemma plain_add [plain_intros]: "plain (dec_add a b)"
  by (cases "(a, b)" rule: dec_add.cases) (auto intro!: plain_intros simp: Let_def)

lemma plain_sub [plain_intros]: "plain (dec_sub a b)"
  unfolding dec_sub_def by (auto intro!: plain_intros split: decimal.split)

lemma plain_neg [plain_intros]: "plain (dec_neg a)"
  by (cases a) (auto intro!: plain_intros)

lemma plain_mul [plain_intros]: "plain (dec_mul a b)"
  by (cases "(a, b)" rule: dec_mul.cases) (auto intro!: plain_intros)

lemma plain_div [plain_intros]: "plain (dec_div a b)"
  by (cases "(a, b)" rule: dec_div.cases) (auto intro!: plain_intros simp: Let_def split: prod.split)

lemma plain_mod [plain_intros]: "plain (dec_mod a b)"
  by (cases "(a, b)" rule: dec_mod.cases) (auto intro!: plain_intros simp: Let_def)

lemma plain_compare [plain_intros]: "plain (dec_lt a b)" "plain (dec_le a b)" "plain (dec_eq a b)"
  unfolding dec_lt_def dec_le_def dec_eq_def by (intro plain_intros)+

lemma plain_min_max [plain_intros]: "plain (dec_min a b)" "plain (dec_max a b)"
  unfolding dec_min_def dec_max_def by (intro plain_intros)+

lemma plain_json [plain_intros]:
  "plain (jget k j)" "plain (jget_opt k j)" "plain (jlist j)" "plain (jstring j)"
  unfolding jget_def jget_opt_def jlist_def jstring_def
  by (cases j; auto intro!: plain_intros split: option.split)+

lemma plain_dec_of_str [plain_intros]: "plain (dec_of_str t)"
  unfolding dec_of_str_def by (auto intro!: plain_intros split: option.split)

lemma plain_dec_of_json [plain_intros]: "plain (dec_of_json j)" "plain (dec_of_json_str j)"
  unfolding dec_of_json_def dec_of_json_str_def by (cases j; auto intro!: plain_intros)+

lemma plain_enum [plain_intros]: "plain (enum_of c v ms t)"
  unfolding enum_of_def by (intro plain_intros)

lemma plain_enums [plain_intros]:
  "plain (OrderSide_of t)" "plain (OrderType_of t)" "plain (RiskProfile_of t)" "plain (AssetClass_of t)"
  "plain (ExecutionVenue_of t)"
  unfolding OrderSide_of_def OrderType_of_def RiskProfile_of_def AssetClass_of_def ExecutionVenue_of_def
  by (rule plain_enum)+

lemma plain_abs [plain_intros]: "plain (dec_abs a)"
  by (cases a) (auto intro!: plain_intros)

lemma plain_order_reference [plain_intros]: "plain (order_reference o1)"
  unfolding order_reference_def int_of_str_def
  by (auto intro!: plain_intros split: option.split list.split)

lemma plain_validate [plain_intros]: "plain (validate request market_price filters)"
  unfolding validate_def validate_limit_price_def validate_notional_def in_range_def off_grid_def rejected_def
  by (intro plain_intros)

lemma plain_decision [plain_intros]:
  "plain r \<Longrightarrow> (\<And>x. plain (f x)) \<Longrightarrow> plain (case d of Approved \<Rightarrow> r | Rejected x \<Rightarrow> f x)"
  by (cases d) simp_all

lemma plain_first_rejection: "\<forall>c \<in> set cs. plain c \<Longrightarrow> plain (first_rejection cs)"
  by (induction cs) (auto intro!: plain_intros)

lemma plain_validate_order [plain_intros]: "plain (validate_order limits request snapshot)"
  unfolding validate_order_def
  by (rule plain_first_rejection) (auto simp: check_daily_loss_def check_order_notional_def
      check_symbol_exposure_def check_total_exposure_def check_exposure_def percent_of_def intro!: plain_intros)

lemma plain_simulation [plain_intros]:
  "plain (simulation_slippage_rate_pct E)" "plain (simulation_fee_rate_pct E)"
  "plain (default_simulation_initial_capital E)"
  unfolding simulation_slippage_rate_pct_def simulation_fee_rate_pct_def default_simulation_initial_capital_def
    parse_decimal_env_def dec_of_str_def
  by (auto intro!: plain_intros split: option.split)

lemma plain_amounts [plain_intros]:
  "plain (fill_amounts sl fe side quantity market_price cash)" "plain (projected_cost fe sl n)"
  "plain (compute_total_value c q m)"
  unfolding fill_amounts_def projected_cost_def compute_total_value_def compute_position_value_def
  by (intro plain_intros)+

lemma plain_side [plain_intros]: "plain r \<Longrightarrow> plain r' \<Longrightarrow> plain (case side of BUY \<Rightarrow> r | SELL \<Rightarrow> r')"
  by (cases side) simp_all

lemma plain_sim_ledger [plain_intros]: "plain (lg_cost sim_ledger x)" "plain (lg_proceeds sim_ledger x)"
  unfolding sim_ledger_def dec_of_opt_def ledger.simps by (intro plain_intros)+

lemma plain_realized_walk [plain_intros]: "plain (realized_walk sim_ledger st xs b acc)"
  by (induction sim_ledger st xs b acc rule: realized_walk.induct) (auto intro!: plain_intros split: OrderSide.split option.split)

lemma plain_realized [plain_intros]: "plain (compute_realized_pnl_today os now)"
  unfolding compute_realized_pnl_today_def by (rule plain_realized_walk)

section \<open>Operations without a BinanceError\<close>

definition quiet :: "'a M \<Rightarrow> bool" where
  "quiet m \<longleftrightarrow> (\<forall>s. plain (fst (m s)))"

named_theorems quiet_intros "operations that handle their own BinanceErrors"

lemma quiet_prims [quiet_intros]:
  "quiet (ret x)" "quiet (gets f)" "quiet (modify g)" "quiet (now_utc E)" "quiet (new_uuid E)"
  "quiet (now_monotonic E)" "quiet (add_audit e)" "quiet (add_event oid ty d)" "quiet (upd_order oid h)"
  by (simp_all add: quiet_def plain_def ret_def gets_def modify_def now_utc_def new_uuid_def now_monotonic_def
      add_audit_def add_event_def upd_order_def)

lemma quiet_lift [quiet_intros]: "plain r \<Longrightarrow> quiet (lift r)"
  by (simp add: quiet_def lift_def)

lemma quiet_raise: "(\<And>b. e \<noteq> BinanceErr b) \<Longrightarrow> quiet (raise e)"
  by (simp add: quiet_def plain_def raise_def)

lemma quiet_raises [quiet_intros]:
  "quiet (raise (IntegrityErr m))" "quiet (raise (IdempotencyInProgressErr m))" "quiet (raise (IdempotencyConflictErr m))"
  "quiet (raise (TradingDisabledErr m))" "quiet (raise (OrderNotFoundErr m))" "quiet (raise (OrderNotCancelableErr m))"
  "quiet (raise (BotNotFoundErr m))" "quiet (raise (InvalidBotTransitionErr m))" "quiet (raise (AttributeErr m))"
  "quiet (raise (ObjectDeletedErr m))" "quiet (raise (ValueErr m))"
  by (simp_all add: quiet_raise)

lemma quiet_try_binance [quiet_intros]: "quiet (try_binance m)"
  unfolding quiet_def plain_def try_binance_def by (auto split: prod.split sum.split exn.split)

lemma quiet_try_any [quiet_intros]: "quiet (try_any m)"
  unfolding quiet_def plain_def try_any_def by (auto split: prod.split)

lemma quiet_bnd [quiet_intros]: "quiet m \<Longrightarrow> (\<And>x. quiet (f x)) \<Longrightarrow> quiet (bnd m f)"
  unfolding quiet_def bnd_def plain_def by (auto split: prod.split sum.split) (metis fst_conv)+

lemma quiet_seq [quiet_intros]: "quiet m \<Longrightarrow> quiet n \<Longrightarrow> quiet (seq m n)"
  unfolding seq_def by (rule quiet_bnd)

text \<open>An exception that is looked at is not the exchange's either.\<close>

lemma quiet_caught: "quiet m \<Longrightarrow> (\<And>r. plain r \<Longrightarrow> quiet (f r)) \<Longrightarrow> quiet (bnd (try_any m) f)"
  unfolding quiet_def bnd_def try_any_def by (auto split: prod.split) (metis fst_conv)

lemma quiet_if [quiet_intros]: "(b \<Longrightarrow> quiet m) \<Longrightarrow> (\<not> b \<Longrightarrow> quiet n) \<Longrightarrow> quiet (if b then m else n)"
  by simp

lemma quiet_option [quiet_intros]:
  "quiet m \<Longrightarrow> (\<And>x. quiet (f x)) \<Longrightarrow> quiet (case v of None \<Rightarrow> m | Some x \<Rightarrow> f x)"
  by (cases v) simp_all

lemma quiet_sum [quiet_intros]:
  "(\<And>e. quiet (f e)) \<Longrightarrow> (\<And>x. quiet (g x)) \<Longrightarrow> quiet (case v of Inl e \<Rightarrow> f e | Inr x \<Rightarrow> g x)"
  by (cases v) simp_all

lemma quiet_prod [quiet_intros]: "(\<And>x y. quiet (f x y)) \<Longrightarrow> quiet (case v of (x, y) \<Rightarrow> f x y)"
  by (cases v) simp

lemma quiet_decision [quiet_intros]:
  "quiet m \<Longrightarrow> (\<And>x. quiet (f x)) \<Longrightarrow> quiet (case d of Approved \<Rightarrow> m | Rejected x \<Rightarrow> f x)"
  by (cases d) simp_all

lemma quiet_Let [quiet_intros]: "(\<And>x. quiet (f x)) \<Longrightarrow> quiet (let x = v in f x)"
  by simp

section \<open>The services\<close>

lemma quiet_rows [quiet_intros]:
  "quiet (insert_key r)" "quiet (finalize rid v)" "quiet (add_order o1)" "quiet (the_order oid)" "quiet (the_bot bid)"
  "quiet (add_bot b)" "quiet (add_position p)" "quiet (add_account a)"
  "quiet (add_sim_order x)" "quiet (set_cash aid cash)" "quiet (put_bot bid f)" "quiet (upd_position bid g)"
  unfolding quiet_def plain_def insert_key_def finalize_def add_order_def the_order_def the_bot_def add_bot_def
    add_position_def add_account_def add_sim_order_def set_cash_def put_bot_def upd_position_def
    modify_def
  by (auto split: option.split)

lemma quiet_the_position [quiet_intros]: "quiet (the_position bid attr)"
  unfolding the_position_def by (intro quiet_intros)

lemma quiet_reserve [quiet_intros]: "quiet (reserve E u ep key payload)"
  unfolding reserve_def by (intro quiet_intros)

lemma quiet_audit [quiet_intros]:
  "quiet (audit u action sy q res oid bo d)" "quiet (audit_order o1 action res bo d)"
  unfolding audit_def audit_order_def by (intro quiet_intros)+

lemma quiet_reconcile_row [quiet_intros]: "quiet (reconcile_row oid payload)"
proof -
  have f: "plain (f o1)" if "f \<in> set (reconcile_fields payload)" for f :: "Order \<Rightarrow> (Order \<times> bool) result" and o1
    using that by (auto simp: reconcile_fields_def reconcile_status_def reconcile_order_id_def reconcile_executed_def
        reconcile_average_def average_fill_price_def map_binance_status_def
        intro!: plain_intros split: json.split option.split)
  have "plain (fst (run_fields fs b o1))" if "\<forall>f \<in> set fs. \<forall>o1. plain (f o1)" for fs b o1
    using that
  proof (induction fs arbitrary: b o1)
    case (Cons f fs)
    then have "plain (f o1)" by simp
    then show ?case using Cons by (auto simp: plain_def split: sum.split)
  qed (simp add: plain_Inr)
  then have "plain (fst (reconcile_from_binance_payload payload o1))" for o1
    using f by (simp add: reconcile_from_binance_payload_def)
  then show ?thesis
    unfolding reconcile_row_def by (intro quiet_intros)
qed

lemma quiet_submit [quiet_intros]:
  "quiet (reject_order E oid ev reason action)" "quiet (confirm_order E oid payload ev d action ad)"
  "quiet (handle_ambiguous_create_failure E oid b action)" "quiet (submit_to_binance E oid side ty q p action)"
proof -
  show confirm: "quiet (confirm_order E oid payload ev d action ad)" for payload ev d ad
    unfolding confirm_order_def by (intro quiet_intros)
  show ambiguous: "quiet (handle_ambiguous_create_failure E oid b action)" for b
    unfolding handle_ambiguous_create_failure_def by (intro quiet_intros confirm)
  show "quiet (submit_to_binance E oid side ty q p action)"
    unfolding submit_to_binance_def by (intro quiet_intros confirm ambiguous)
  show "quiet (reject_order E oid ev reason action)"
    unfolding reject_order_def by (intro quiet_intros)
qed

lemma quiet_validate_and_execute [quiet_intros]: "quiet (validate_and_execute E svc o1 side ty q p action)"
  unfolding validate_and_execute_def by (intro quiet_intros plain_intros)

lemma quiet_internal_failure: "plain (Inl e :: json result) \<Longrightarrow> quiet (internal_failure E rid oid e action)"
  unfolding internal_failure_def by (intro quiet_intros quiet_raise) (auto simp: plain_def)

lemma quiet_refuse [quiet_intros]: "quiet (refuse_disabled rid u action sy q)"
  unfolding refuse_disabled_def by (intro quiet_intros)

text \<open>The exception of a guarded body is looked at: it is not the exchange's when the body is quiet.\<close>

lemma quiet_guarded:
  assumes "quiet m" and "\<And>e. plain (Inl e :: json result) \<Longrightarrow> quiet (f e)" and "\<And>x. quiet (g x)"
  shows "quiet (bnd (try_any m) (\<lambda>r. case r of Inl e \<Rightarrow> f e | Inr x \<Rightarrow> g x))"
proof (rule quiet_caught [OF assms(1)])
  show "quiet (case r of Inl e \<Rightarrow> f e | Inr x \<Rightarrow> g x)" if "plain r" for r
    using that assms(2,3) by (cases r) (auto simp: plain_def)
qed

lemma quiet_create_and_execute [quiet_intros]:
  "quiet (create_and_execute E svc rid u sy side ty q p key ep action)"
proof -
  have net: "quiet (bnd (try_any (validate_and_execute E svc o1 side ty q p action)) (\<lambda>r. case r of
      Inl e \<Rightarrow> internal_failure E rid oid e action
    | Inr response \<Rightarrow> seq (finalize rid response) (ret response)))" for o1 oid
    by (rule quiet_guarded) (intro quiet_intros quiet_internal_failure; assumption)+
  show ?thesis
    unfolding create_and_execute_def by (intro net quiet_intros plain_intros)
qed

lemma quiet_create_order [quiet_intros]: "quiet (OrderService.create_order E svc u sy side ty q p key)"
  unfolding OrderService.create_order_def by (intro quiet_intros)

lemma quiet_cancel_order [quiet_intros]: "quiet (OrderService.cancel_order E u oid key)"
  unfolding OrderService.cancel_order_def cancel_failed_def cancel_confirmed_def
  by (intro quiet_intros)

lemma quiet_make_service [quiet_intros]: "quiet (make_order_service E q)"
  unfolding make_order_service_def by (intro quiet_intros)

section \<open>The simulated orders and the bots\<close>

lemma quiet_instrument [quiet_intros]: "quiet (the_instrument bid)"
  unfolding the_instrument_def by (intro quiet_intros)

lemma quiet_simulation_audit [quiet_intros]: "quiet (simulation_audit u bid res oid d)"
  unfolding simulation_audit_def by (intro quiet_intros)

lemma quiet_simulation_terminal [quiet_intros]: "quiet (simulation_terminal E rid u bid a side q st reason)"
  unfolding simulation_terminal_def by (intro quiet_intros plain_intros)

lemma quiet_simulation_fill [quiet_intros]: "quiet (simulation_fill E rid u bid a side q p)"
  unfolding simulation_fill_def by (intro quiet_intros plain_intros)

lemma quiet_simulation_execute [quiet_intros]: "quiet (simulation_execute E rid u bid a side q p n)"
  unfolding simulation_execute_def by (intro quiet_intros plain_intros)

lemma quiet_simulation_evaluate_risk [quiet_intros]: "quiet (simulation_evaluate_risk E u bid a side p n)"
  unfolding simulation_evaluate_risk_def by (intro quiet_intros plain_intros)

lemma quiet_simulation_gates [quiet_intros]: "quiet (simulation_gates E rid u bid a side q)"
  unfolding simulation_gates_def by (intro quiet_intros plain_intros)

lemma quiet_place_bot_order [quiet_intros]: "quiet (place_bot_order E u bid side q key)"
  unfolding place_bot_order_def by (intro quiet_intros)

lemma quiet_bot_rows [quiet_intros]:
  "quiet (upd_bot E bid f)" "quiet (set_status E bid st)" "quiet (bot_json bid)" "quiet (bot_audit u action res d bid)"
  unfolding upd_bot_def set_status_def bot_json_def bot_audit_def by (intro quiet_intros)+

lemma quiet_bot_answers [quiet_intros]:
  "quiet (bot_missing rid u action bid)" "quiet (bot_refused rid u action bid reason)"
  unfolding bot_missing_def bot_refused_def by (intro quiet_intros)+

lemma quiet_with_bot [quiet_intros]:
  "(\<And>rid b. quiet (act rid b)) \<Longrightarrow> quiet (with_bot E u bid ep key payload action act)"
  unfolding with_bot_def by (intro quiet_intros)

lemma quiet_create_bot [quiet_intros]: "quiet (create_bot E u name rp ac ev ins q key sm sc)"
  unfolding create_bot_def by (intro quiet_intros plain_intros)

lemma quiet_bot_operations [quiet_intros]:
  "quiet (update_bot E u bid key name q sm sc)" "quiet (stop E u bid key)" "quiet (delete_bot E u bid key)"
  "quiet (activate_live E u bid key)"
  unfolding update_bot_def stop_def delete_bot_def activate_live_def by (intro quiet_intros)+

lemma quiet_check_balance [quiet_intros]: "quiet (check_sufficient_real_balance E quote ins q)"
  unfolding check_sufficient_real_balance_def by (intro quiet_intros plain_intros)

lemma quiet_link_order [quiet_intros]: "quiet (link_order E u key bid)"
  unfolding link_order_def by (intro quiet_intros)

lemma quiet_reconcile_once [quiet_intros]: "quiet (reconcile_once E oid)"
  unfolding reconcile_once_def by (intro quiet_intros)

lemma quiet_bot_order [quiet_intros]: "quiet (bot_order E quote u bid sim side ins q key)"
  unfolding bot_order_def by (intro quiet_intros)

lemma quiet_transition_ends [quiet_intros]:
  "quiet (transition_refused E rid u bid cfg reason d)" "quiet (transition_outcome E u bid sim key res)"
  "quiet (transition_filled E rid u bid cfg sim o1 shown)" "quiet (transition_unresolved E rid u bid cfg res)"
  unfolding transition_refused_def transition_outcome_def transition_filled_def transition_unresolved_def
  by (intro quiet_intros plain_intros)+

lemma quiet_transition_failed:
  "plain (Inl e :: json result) \<Longrightarrow> quiet (transition_failed E rid u bid cfg sim key e)"
  unfolding transition_failed_def by (intro quiet_intros quiet_raise) (auto simp: plain_def)

lemma quiet_transition_execute [quiet_intros]: "quiet (transition_execute E quote rid u bid cfg sim p q key)"
proof -
  have fin: "quiet (bnd (transition_outcome E u bid sim key res) (\<lambda>(outcome, order, shown).
         if outcome = JStr ''REJECTED'' then
           bnd (lift (jget ''reason'' res)) (\<lambda>reason.
           transition_refused E rid u bid cfg reason (reason_text reason))
         else if outcome = JStr ''FILLED'' then transition_filled E rid u bid cfg sim order shown
         else transition_unresolved E rid u bid cfg res))" for res
    by (intro quiet_intros plain_intros)
  show ?thesis
    unfolding transition_execute_def
    by (rule quiet_caught [OF quiet_bot_order])
      (auto simp: plain_def intro!: quiet_transition_failed quiet_transition_ends fin split: sum.split exn.split)
qed

lemma quiet_transitions [quiet_intros]: "quiet (pause E quote u bid key)" "quiet (resume E quote u bid key)"
  unfolding pause_def resume_def transition_def transition_body_def
  by (intro quiet_intros)+

end
