(* ===== verification/Api.thy ===== *)
theory Api
  imports RouteFacts SessionProperties BotProperties "HOL-Library.Multiset"
begin

text \<open>
  The routes of \<open>api/\<close> as one interface: every request that can change something, with what it demands of
  its sender, and every request that only asks.  A mutating request is refused, and then nothing changed but a
  clock and a rate limiter, or it ran its handler once, for the user its session names.
\<close>

section \<open>The mutating requests\<close>

datatype mutation =
    PostOrder CreateOrderRequest
  | PostCancel uuid
  | PostClose string
  | PutCredentials ConnectBinanceCredentialsRequest
  | DeleteCredentials
  | PutRiskLimits RiskLimitsRequest
  | PutSimulationLimits SimulationRiskLimitsRequest
  | PutSwitch bool
  | PostBot CreateBotRequest
  | PatchBot uuid UpdateBotRequest
  | PostPause uuid
  | PostResume uuid
  | PostStop uuid
  | DeleteBot uuid
  | PostActivate uuid

fun perform :: "env \<Rightarrow> exchange \<Rightarrow> (guard list \<Rightarrow> guard list) \<Rightarrow> Request \<Rightarrow> mutation \<Rightarrow> (int \<times> json) H" where
  "perform E X order rq (PostOrder b) = create_order_route E X order rq b"
| "perform E X order rq (PostCancel oid) = cancel_order_route E X order rq oid"
| "perform E X order rq (PostClose symb) = close_position_route E X order rq symb"
| "perform E X order rq (PutCredentials b) = put_binance_credentials_route E X order rq b"
| "perform E X order rq DeleteCredentials = delete_binance_credentials_route E order rq"
| "perform E X order rq (PutRiskLimits b) = put_risk_limits_route E order rq b"
| "perform E X order rq (PutSimulationLimits b) = put_simulation_risk_limits_route E order rq b"
| "perform E X order rq (PutSwitch on) = put_trading_switch_route E order rq on"
| "perform E X order rq (PostBot b) = create_bot_route E X order rq b"
| "perform E X order rq (PatchBot bid b) = update_bot_route E X order rq bid b"
| "perform E X order rq (PostPause bid) = pause_bot_route E X order rq bid"
| "perform E X order rq (PostResume bid) = resume_bot_route E X order rq bid"
| "perform E X order rq (PostStop bid) = stop_bot_route E X order rq bid"
| "perform E X order rq (DeleteBot bid) = delete_bot_route E X order rq bid"
| "perform E X order rq (PostActivate bid) = activate_bot_live_route E X order rq bid"

text \<open>What each demands: a permission, a limiter with its scope, a body that passes validation.\<close>

fun demands :: "mutation \<Rightarrow> string \<times> trading_limiter \<times> string" where
  "demands (PostOrder b) = (''orders.create'', CREATE_ORDER_RATE_LIMITER, ''orders.create'')"
| "demands (PostCancel oid) = (''orders.cancel'', CANCEL_ORDER_RATE_LIMITER, ''orders.cancel'')"
| "demands (PostClose symb) = (''positions.close'', CLOSE_POSITION_RATE_LIMITER, ''positions.close'')"
| "demands (PutCredentials b) =
     (''secrets.manage'', SETTINGS_CREDENTIALS_PUT_RATE_LIMITER, ''settings.binance_credentials.put'')"
| "demands DeleteCredentials =
     (''secrets.manage'', SETTINGS_CREDENTIALS_DELETE_RATE_LIMITER, ''settings.binance_credentials.delete'')"
| "demands (PutRiskLimits b) = (''risk.manage'', SETTINGS_RISK_LIMITS_RATE_LIMITER, ''settings.risk_limits.put'')"
| "demands (PutSimulationLimits b) =
     (''risk.manage'', SETTINGS_SIMULATION_RISK_LIMITS_RATE_LIMITER, ''settings.simulation_risk_limits.put'')"
| "demands (PutSwitch on) = (''risk.manage'', SETTINGS_TRADING_SWITCH_RATE_LIMITER, ''settings.trading_switch.put'')"
| "demands (PostBot b) = (''bots.create'', BOT_CREATE_RATE_LIMITER, ''bots.create'')"
| "demands (PatchBot bid b) = (''bots.update'', BOT_UPDATE_RATE_LIMITER, ''bots.update'')"
| "demands (PostPause bid) = (''bots.pause'', BOT_PAUSE_RATE_LIMITER, ''bots.pause'')"
| "demands (PostResume bid) = (''bots.resume'', BOT_RESUME_RATE_LIMITER, ''bots.resume'')"
| "demands (PostStop bid) = (''bots.stop'', BOT_STOP_RATE_LIMITER, ''bots.stop'')"
| "demands (DeleteBot bid) = (''bots.delete'', BOT_DELETE_RATE_LIMITER, ''bots.delete'')"
| "demands (PostActivate bid) = (''bots.activate_live'', BOT_ACTIVATE_LIVE_RATE_LIMITER, ''bots.activate_live'')"

fun valid_body :: "mutation \<Rightarrow> bool" where
  "valid_body (PostOrder b) = create_order_request_ok b"
| "valid_body (PutCredentials b) = connect_request_ok b"
| "valid_body (PutRiskLimits b) = risk_limits_request_ok b"
| "valid_body (PutSimulationLimits b) = simulation_limits_request_ok b"
| "valid_body (PostBot b) = create_bot_request_ok b"
| "valid_body (PatchBot bid b) = update_bot_request_ok b"
| "valid_body m = True"

text \<open>What it does for a user under a key, once it is let in.\<close>

fun handle_order :: "uuid \<Rightarrow> string \<Rightarrow> mutation \<Rightarrow> (env \<Rightarrow> OrderServiceObj \<Rightarrow> json M) option" where
  "handle_order u key (PostOrder b) = Some (\<lambda>E svc. OrderService.create_order E svc u (co_symbol b) (co_side b)
     (co_type b) (co_quantity b) (co_price b) key)"
| "handle_order u key (PostCancel oid) = Some (\<lambda>E svc. OrderService.cancel_order E u oid key)"
| "handle_order u key (PostClose symb) = Some (\<lambda>E svc. close_position E svc u symb key)"
| "handle_order u key m = None"

fun handle_bot :: "string \<Rightarrow> mutation \<Rightarrow> bot_op option" where
  "handle_bot key (PostBot b) = Some (CreateBot (cb_name b) (cb_risk_profile b) (cb_asset_class b)
     (cb_execution_venue b) (cb_instrument b) (cb_target_quantity b) key (cb_strategy_model b) (cb_strategy_config b))"
| "handle_bot key (PatchBot bid b) = Some (UpdateBot bid key (ub_name b) (ub_target_quantity b)
     (ub_strategy_model b) (ub_strategy_config b))"
| "handle_bot key (PostPause bid) = Some (Pause bid key)"
| "handle_bot key (PostResume bid) = Some (Resume bid key)"
| "handle_bot key (PostStop bid) = Some (Stop bid key)"
| "handle_bot key (DeleteBot bid) = Some (Delete bid key)"
| "handle_bot key (PostActivate bid) = Some (ActivateLive bid key)"
| "handle_bot key m = None"

fun handle_setting :: "env \<Rightarrow> exchange \<Rightarrow> uuid \<Rightarrow> mutation \<Rightarrow> json H" where
  "handle_setting E X u (PutCredentials b) =
     bnd (run_service http_exception_for_credentials_error (transaction
         (connect_credentials (as_client E X (cr_api_key b, cr_api_secret b)) u (cr_api_key b) (cr_api_secret b)))) (\<lambda>status.
     ret (JObj [(''connected'', JBool True), (''api_key_last4'', jopt JStr (cs_api_key_last4 status)),
       (''verified_at'', jopt jtime (cs_verified_at status))]))"
| "handle_setting E X u DeleteCredentials =
     seq (run_service Unhandled (disconnect_credentials u)) (ret (JObj [(''connected'', JBool False)]))"
| "handle_setting E X u (PutRiskLimits b) =
     bnd (run_service Unhandled (transaction (save_user_risk_limits u (to_risk_limits b)))) (\<lambda>updated.
     ret (serialize_risk_limits updated))"
| "handle_setting E X u (PutSimulationLimits b) =
     bnd (run_service Unhandled (transaction (save_user_simulation_risk_limits u (simulation_to_risk_limits b)))) (\<lambda>updated.
     run_service Unhandled (lift (serialize_simulation_risk_limits updated)))"
| "handle_setting E X u (PutSwitch on) =
     bnd (run_service Unhandled (transaction (set_user_trading_enabled u on))) (\<lambda>now_enabled.
     ret (JObj [(''enabled'', JBool now_enabled)]))"
| "handle_setting E X u m = raise validation_error"

definition handle :: "env \<Rightarrow> exchange \<Rightarrow> uuid \<Rightarrow> string \<Rightarrow> mutation \<Rightarrow> json H" where
  "handle E X u key m = (case handle_order u key m of
      Some act \<Rightarrow> run_order_service_action E X u act
    | None \<Rightarrow> (case handle_bot key m of
        Some op \<Rightarrow> run_bot_service_action E X u (\<lambda>E'. run_bot_op E' ''USDT'' u op)
      | None \<Rightarrow> handle_setting E X u m))"

fun success_status :: "mutation \<Rightarrow> int" where
  "success_status (PostOrder b) = 201"
| "success_status (PostClose symb) = 201"
| "success_status (PostBot b) = 201"
| "success_status m = 200"

text \<open>Each route is its guards in some order and then its handler.\<close>

definition guards_of :: "mutation \<Rightarrow> guard list \<Rightarrow> bool" where
  "guards_of m gs \<longleftrightarrow> (case demands m of (p, limiter, scope) \<Rightarrow>
     gs = mutating p limiter scope \<and> valid_body m \<or> gs = Validated (valid_body m) # mutating p limiter scope)"

lemma perform_is_route:
  obtains gs where "guards_of m gs" and "perform E X order rq m =
     route E order rq (success_status m) gs (\<lambda>c. handle E X (current_user_id c) (cx_key c) m)"
  by (cases m) (auto simp: guards_of_def handle_def create_order_route_def cancel_order_route_def
      close_position_route_def put_binance_credentials_route_def delete_binance_credentials_route_def
      put_risk_limits_route_def put_simulation_risk_limits_route_def put_trading_switch_route_def create_bot_route_def
      update_bot_route_def pause_bot_route_def resume_bot_route_def stop_bot_route_def delete_bot_route_def
      activate_bot_live_route_def)

section \<open>Letting a request in\<close>

text \<open>What the guards may change: a clock reading and a rate limiter.\<close>

definition waits :: "sys \<Rightarrow> sys \<Rightarrow> bool" where
  "waits s t \<longleftrightarrow> t = s\<lparr>ticks := ticks t, limiters := limiters t\<rparr> \<and> ticks s \<le> ticks t"

interpretation waits: frame waits
proof unfold_locales
  show "waits s s" for s by (simp add: waits_def)
  show "waits s u" if "waits s t" "waits t u" for s t u
    using that unfolding waits_def by (cases s; cases t; cases u) auto
qed

text \<open>The user a request names at some later reading of the clock, holding a permission.\<close>

definition authorized :: "env \<Rightarrow> string \<Rightarrow> Request \<Rightarrow> sys \<Rightarrow> User \<Rightarrow> bool" where
  "authorized E permission rq s u \<longleftrightarrow> (\<exists>n \<ge> ticks s. caller E (s\<lparr>ticks := n\<rparr>) rq = Some u) \<and>
     user_has_permission s (usr_id u) permission"

definition under_limit :: "env \<Rightarrow> Request \<Rightarrow> limiter_name \<Rightarrow> string \<Rightarrow> sys \<Rightarrow> sys \<Rightarrow> bool" where
  "under_limit E rq name scope s t \<longleftrightarrow> (\<exists>n \<ge> ticks s. \<exists>wait.
     check_hit (limiters s name) (rate_limit_key E scope rq) (monotonic E n) = ((True, wait), limiters t name))"

definition trusted :: "env \<Rightarrow> Request \<Rightarrow> bool" where
  "trusted E rq \<longleftrightarrow> (\<exists>origin. rq_headers rq ''origin'' = Some origin \<and> origin \<noteq> [] \<and>
     origin \<in> set (configured_allowed_origins E))"

definition keyed :: "Request \<Rightarrow> string \<Rightarrow> bool" where
  "keyed rq key \<longleftrightarrow> rq_headers rq ''idempotency-key'' = Some key \<and> 1 \<le> length key \<and> length key \<le> 255"

fun is_limit :: "guard \<Rightarrow> bool" where
  "is_limit (RateLimit name scope) = True"
| "is_limit g = False"

fun is_permission :: "guard \<Rightarrow> bool" where
  "is_permission (Permission p) = True"
| "is_permission g = False"

fun passed :: "env \<Rightarrow> Request \<Rightarrow> ctx \<Rightarrow> guard \<Rightarrow> bool" where
  "passed E rq c IdempotencyKey = keyed rq (cx_key c)"
| "passed E rq c TrustedOrigin = trusted E rq"
| "passed E rq c (Validated ok) = ok"
| "passed E rq c g = True"

definition let_in :: "env \<Rightarrow> Request \<Rightarrow> guard list \<Rightarrow> ctx \<Rightarrow> sys \<Rightarrow> ctx \<Rightarrow> sys \<Rightarrow> bool" where
  "let_in E rq gs c s c' t \<longleftrightarrow> (\<forall>g \<in> set gs. passed E rq c' g) \<and>
     (IdempotencyKey \<notin> set gs \<longrightarrow> cx_key c' = cx_key c) \<and>
     (case filter is_limit gs of [] \<Rightarrow> limiters t = limiters s
      | [RateLimit name scope] \<Rightarrow> under_limit E rq name scope s t | _ \<Rightarrow> True) \<and>
     (case filter is_permission gs of [] \<Rightarrow> cx_user c' = cx_user c
      | [Permission p] \<Rightarrow> (\<exists>u. cx_user c' = Some u \<and> authorized E p rq s u) | _ \<Rightarrow> True)"

definition refusal :: "http_exn \<Rightarrow> bool" where
  "refusal e \<longleftrightarrow> http_status e \<in> {401, 403, 422, 429}"

text \<open>Waiting does not change who a request names, only when.\<close>

lemma caller_ticks: "caller E t rq = (case rq_cookies rq session_cookie_name of
    None \<Rightarrow> None | Some tok \<Rightarrow> named_user E t tok (clock E (ticks t)))"
  by (simp add: caller_def)

lemma named_user_waits: "waits s t \<Longrightarrow> named_user E t tok now = named_user E s tok now"
  unfolding waits_def
  by (cases s; cases t) (simp add: named_user_def session_live_def active_user_def split: option.split)

lemma authorized_waits:
  assumes "waits s t" and "authorized E p rq t u"
  shows "authorized E p rq s u"
proof -
  have w: "waits s (t\<lparr>ticks := n\<rparr>)" if "n \<ge> ticks t" for n
    using assms(1) that unfolding waits_def by (cases s; cases t) auto
  have "caller E (t\<lparr>ticks := n\<rparr>) rq = caller E (s\<lparr>ticks := n\<rparr>) rq" if "n \<ge> ticks t" for n
    using named_user_waits [OF w [OF that]] named_user_waits [of s "s\<lparr>ticks := n\<rparr>"] assms(1) that
    by (simp add: caller_ticks waits_def split: option.split)
  moreover have "user_has_permission t = user_has_permission s"
    using assms(1) by (intro user_has_permission_cong; cases s; cases t; simp add: waits_def)
  ultimately show ?thesis
    using assms unfolding authorized_def waits_def by (metis order_trans)
qed

lemma under_limit_waits: "waits s t \<Longrightarrow> limiters t = limiters s \<Longrightarrow> under_limit E rq name scope t v \<Longrightarrow> under_limit E rq name scope s v"
  unfolding under_limit_def waits_def by (metis order_trans)

lemma keeps_run_service: "keeps R m \<Longrightarrow> keeps R (run_service f m)"
  unfolding keeps_def run_service_def by (auto split: prod.split sum.split) (metis snd_conv)+

lemma waits_now: "keeps waits (now_utc E)"
  by (simp add: keeps_def now_utc_def waits_def)

lemma waits_require_permission: "keeps waits (require_permission E p rq)"
  unfolding require_permission_def get_user_from_session_def hash_token_def
  by (intro waits.intros keeps_run_service waits_now)

lemmas wp_waits_permission = keeps_wp [OF waits_require_permission]

lemma ticks_only: "t = s\<lparr>ticks := n\<rparr> \<Longrightarrow> limiters t = limiters s"
  by simp

lemma wp_run_guard:
  "wp (run_guard E rq g c) (\<lambda>r t. waits s t \<and> (case r of Inl e \<Rightarrow> refusal e | Inr c' \<Rightarrow> let_in E rq [g] c s c' t)) s"
proof (cases g)
  case (Permission p)
  have "wp (require_permission E p rq) (\<lambda>r t. case r of
      Inl e \<Rightarrow> waits s t \<and> refusal e
    | Inr u \<Rightarrow> waits s t \<and> let_in E rq [g] c s (c\<lparr>cx_user := Some u\<rparr>) t) s"
    by (rule wp_mono [OF wp_conj [OF require_permission_spec wp_waits_permission]])
      (auto simp: Permission let_in_def waits_def refusal_def http_error_def authorized_def intro!: exI [of _ "ticks s"]
        dest: ticks_only split: option.splits if_splits)
  then show ?thesis
    unfolding Permission run_guard.simps wp_bnd by (rule wp_mono) (auto simp: wp_simps split: sum.splits)
next
  case (AlsoPermission p)
  have "wp (require_permission E p rq) (\<lambda>r t. case r of
      Inl e \<Rightarrow> waits s t \<and> refusal e | Inr u \<Rightarrow> waits s t \<and> let_in E rq [g] c s c t) s"
    by (rule wp_mono [OF wp_conj [OF require_permission_spec wp_waits_permission]])
      (auto simp: AlsoPermission let_in_def waits_def refusal_def http_error_def
        dest: ticks_only split: option.splits if_splits)
  then show ?thesis
    unfolding AlsoPermission run_guard.simps wp_bnd by (rule wp_mono) (auto simp: wp_simps split: sum.splits)
next
  case IdempotencyKey
  then show ?thesis
    by (auto simp: idempotency_key_header_def wp_simps waits_def let_in_def keyed_def refusal_def validation_error_def
        http_error_def split: option.split)
next
  case TrustedOrigin
  then show ?thesis
    by (auto simp: wp_simps wp_require_trusted_origin waits_def let_in_def trusted_def refusal_def http_error_def)
next
  case (RateLimit name scope)
  obtain allowed wait L where hit:
      "check_hit (limiters s name) (rate_limit_key E scope rq) (monotonic E (ticks s)) = ((allowed, wait), L)"
    by (metis prod.exhaust)
  then have "under_limit E rq name scope s (s\<lparr>ticks := ticks s + 1, limiters := (limiters s)(name := L)\<rparr>)" if allowed
    using that by (auto simp: under_limit_def intro!: exI [of _ "ticks s"])
  then show ?thesis
    by (simp add: RateLimit rate_limit_def wp_def seq_def bnd_def now_monotonic_def ret_def hit waits_def let_in_def
        refusal_def)
next
  case (Validated ok)
  then show ?thesis
    by (auto simp: wp_simps waits_def let_in_def refusal_def validation_error_def http_error_def)
qed

lemma passed_later:
  assumes "passed E rq c g" and "\<forall>g \<in> set gs. passed E rq c' g" and "IdempotencyKey \<notin> set gs \<longrightarrow> cx_key c' = cx_key c"
  shows "passed E rq c' g"
  using assms by (cases g; cases "IdempotencyKey \<in> set gs") fastforce+

lemma let_in_Cons:
  assumes g: "let_in E rq [g] c s c1 s1" and gs: "let_in E rq gs c1 s1 c' t" and w: "waits s s1"
  shows "let_in E rq (g # gs) c s c' t"
proof -
  have "\<forall>h \<in> set (g # gs). passed E rq c' h"
    using passed_later [of E rq c1 g gs c'] g gs by (simp add: let_in_def)
  moreover have "IdempotencyKey \<notin> set (g # gs) \<longrightarrow> cx_key c' = cx_key c"
    using g gs by (auto simp: let_in_def)
  moreover have "case filter is_limit (g # gs) of [] \<Rightarrow> limiters t = limiters s
      | [RateLimit name scope] \<Rightarrow> under_limit E rq name scope s t | _ \<Rightarrow> True"
  proof (cases "is_limit g")
    case True
    then obtain name scope where n: "g = RateLimit name scope" by (cases g) auto
    show ?thesis
      using g gs by (cases "filter is_limit gs") (auto simp: n let_in_def under_limit_def split: list.split)
  next
    case False
    then have "limiters s1 = limiters s" using g by (cases g) (auto simp: let_in_def)
    then show ?thesis
      using False gs under_limit_waits [OF w]
      by (auto simp: let_in_def split: list.split guard.split)
  qed
  moreover have "case filter is_permission (g # gs) of [] \<Rightarrow> cx_user c' = cx_user c
      | [Permission p] \<Rightarrow> (\<exists>u. cx_user c' = Some u \<and> authorized E p rq s u) | _ \<Rightarrow> True"
  proof (cases "is_permission g")
    case True
    then obtain p where p: "g = Permission p" by (cases g) auto
    show ?thesis
      using g gs by (cases "filter is_permission gs") (auto simp: p let_in_def split: list.split)
  next
    case False
    then have "cx_user c1 = cx_user c" using g by (cases g) (auto simp: let_in_def)
    then show ?thesis
      using False gs authorized_waits [OF w]
      by (auto simp: let_in_def split: list.split guard.split)
  qed
  ultimately show ?thesis by (simp add: let_in_def)
qed

lemma wp_run_guards:
  "wp (run_guards E rq gs c) (\<lambda>r t. waits s t \<and> (case r of Inl e \<Rightarrow> refusal e | Inr c' \<Rightarrow> let_in E rq gs c s c' t)) s"
proof (induction gs arbitrary: c s)
  case Nil
  then show ?case by (simp add: wp_simps waits.refl let_in_def)
next
  case (Cons g gs)
  show ?case
    unfolding run_guards.simps
  proof (rule wp_bndI [OF wp_run_guard], goal_cases)
    case (1 c1 s1)
    show ?case
      by (rule wp_mono [OF Cons.IH]) (use 1 waits.trans let_in_Cons in \<open>fastforce split: sum.splits\<close>)
  qed simp
qed

text \<open>The order in which the framework runs the dependencies does not matter: any permutation lets in the same.\<close>

lemma filter_one_permuted:
  assumes "mset ys = mset xs" and "filter P xs = [x]"
  shows "filter P ys = [x]"
proof -
  have "mset (filter P ys) = {#x#}" using assms by (metis mset_filter mset_single_iff)
  then show ?thesis by (simp only: mset_single_iff)
qed

lemma let_in_mutation:
  assumes "guards_of m gs" and "mset gs' = mset gs" and "demands m = (p, limiter, scope)"
    and "let_in E rq gs' c s c' t"
  shows "valid_body m \<and> trusted E rq \<and> keyed rq (cx_key c') \<and> under_limit E rq (Inr limiter) scope s t \<and>
     (\<exists>u. cx_user c' = Some u \<and> authorized E p rq s u)"
proof -
  have sets: "set gs' = set gs" using assms(2) by (metis set_mset_mset)
  have "filter is_limit gs' = [RateLimit (Inr limiter) scope]" "filter is_permission gs' = [Permission p]"
    by (rule filter_one_permuted [OF assms(2)], use assms(1,3) in \<open>auto simp: guards_of_def mutating_def\<close>)+
  moreover have "IdempotencyKey \<in> set gs'" "TrustedOrigin \<in> set gs'" "valid_body m \<or> Validated (valid_body m) \<in> set gs'"
    using assms(1,3) by (auto simp: sets guards_of_def mutating_def)
  ultimately show ?thesis using assms(4) by (fastforce simp: let_in_def)
qed

definition answered :: "int \<Rightarrow> http_exn + json \<Rightarrow> http_exn + int \<times> json" where
  "answered status r = (case r of Inl e \<Rightarrow> Inl e | Inr j \<Rightarrow> Inr (status, j))"

text \<open>
  C3: Every mutating request is guarded.  Whatever the order in which the framework runs the guards of a
  route, a request that changes something is either refused with 401, 403, 422 or 429, and then nothing but the
  clock and a rate limiter moved; or its body is valid, its origin trusted, its key present, its limiter admitted
  it, and its handler ran once for the active user its session names, who holds the permission of the route.
\<close>
theorem mutations_are_guarded:
  assumes "\<And>gs. mset (order gs) = mset gs"
  shows "wp (perform E X order rq m) (\<lambda>r t.
     (\<exists>e. r = Inl e \<and> refusal e \<and> waits s t) \<or>
     (\<exists>u key s'. waits s s' \<and> valid_body m \<and> trusted E rq \<and> keyed rq key \<and>
        (case demands m of (p, limiter, scope) \<Rightarrow>
           authorized E p rq s u \<and> under_limit E rq (Inr limiter) scope s s') \<and>
        (\<exists>r'. handle E X (usr_id u) key m s' = (r', t) \<and> r = answered (success_status m) r'))) s"
proof -
  obtain gs where gs: "guards_of m gs" and route: "perform E X order rq m =
      route E order rq (success_status m) gs (\<lambda>c. handle E X (current_user_id c) (cx_key c) m)"
    by (rule perform_is_route)
  obtain p limiter scope where d: "demands m = (p, limiter, scope)" by (metis prod.exhaust)
  show ?thesis
    unfolding route route_def
  proof (rule wp_bndI [OF wp_run_guards], goal_cases)
    case (1 c' s')
    have "let_in E rq (order gs) \<lparr>cx_user = None, cx_key = ''''\<rparr> s c' s'" using 1 by simp
    from let_in_mutation [OF gs assms d this] obtain u where u: "valid_body m" "trusted E rq" "keyed rq (cx_key c')" "authorized E p rq s u"
        "under_limit E rq (Inr limiter) scope s s'" "cx_user c' = Some u"
      by auto
    have w: "waits s s'" using 1 by simp
    obtain r' t where h: "handle E X (usr_id u) (cx_key c') m s' = (r', t)" by fastforce
    then have "bnd (handle E X (current_user_id c') (cx_key c') m) (\<lambda>j. ret (success_status m, j)) s' =
        (answered (success_status m) r', t)"
      by (cases r') (simp_all add: bnd_def ret_def answered_def current_user_id_def u(6))
    then show ?case
      using u w h unfolding wp_def d prod.case by (simp only: prod.case fst_conv snd_conv) blast
  qed auto
qed

definition anonymous :: Request where
  "anonymous = \<lparr>rq_headers = \<lambda>h. None, rq_cookies = \<lambda>c. None, rq_query = \<lambda>q. None, rq_client_host = None\<rparr>"

definition demo_exchange :: exchange where
  "demo_exchange keys = client demo_env"

lemma mutations_are_guarded_witness:
  "wp (perform demo_env demo_exchange rev anonymous (PutSwitch True)) (\<lambda>r t. \<exists>e. r = Inl e \<and> refusal e \<and> waits idle t) idle"
  by (rule wp_mono [OF mutations_are_guarded]) (auto simp: trusted_def anonymous_def)

section \<open>The rollback of a mutating route\<close>

text \<open>Operations that raise a \<open>BinanceError\<close> only before they wrote anything.\<close>

definition mild :: "'a M \<Rightarrow> bool" where
  "mild m \<longleftrightarrow> (\<forall>s b t. m s = (Inl (BinanceErr b), t) \<longrightarrow> rolled_back s t = t)"

lemma quiet_mild: "quiet m \<Longrightarrow> mild m"
  unfolding quiet_def plain_def mild_def by (metis fst_conv)

lemma reads_then_quiet_mild:
  assumes m: "keeps reads m" and f: "\<And>x. quiet (f x)"
  shows "mild (bnd m f)"
proof -
  have "rolled_back s t = t" if run: "bnd m f s = (Inl (BinanceErr b), t)" for s b t
  proof (cases "m s")
    case (Pair r s1)
    show ?thesis
    proof (cases r)
      case (Inl e)
      then have "t = s1" using run Pair by (simp add: bnd_def)
      moreover have "reads s s1" using keepsD [OF m Pair] .
      ultimately show ?thesis unfolding reads_def rolled_back_def by (cases s; cases s1) simp
    next
      case (Inr x)
      then have "f x s1 = (Inl (BinanceErr b), t)" using run Pair by (simp add: bnd_def)
      then have False using f [of x] unfolding quiet_def plain_def by (metis fst_conv)
      then show ?thesis ..
    qed
  qed
  then show ?thesis by (simp add: mild_def)
qed

lemma mild_close_position: "mild (close_position E svc u symb key)"
  unfolding close_position_def Let_def
  by (intro reads_then_quiet_mild reads_get_position quiet_intros quiet_raise) simp_all

lemma mild_bot_op: "mild (run_bot_op E quote u op)"
  by (cases op) (simp_all add: quiet_mild quiet_create_bot quiet_bot_operations quiet_transitions)

fun mapped :: "(exn \<Rightarrow> http_exn) \<Rightarrow> exn \<Rightarrow> http_exn" where
  "mapped to_http (BinanceErr b) = http_exception_for_binance_error b"
| "mapped to_http e = to_http e"

lemma mild_run_action: "mild m \<Longrightarrow> run_action to_http m = run_service (mapped to_http) m"
  by (rule ext) (auto simp: run_action_def run_service_def mild_def split: prod.split sum.split exn.split)

text \<open>
  C11: The rollback of the trading routes takes nothing back.  The routes commit what a service wrote, but roll
  back on a \<open>BinanceError\<close>; no service lets one out after it wrote a row or sent an order.  So for every operation
  the wrapper of the routes does what a wrapper without a rollback would do: an order the exchange was told about
  stays in the tables, its reservation with it.
\<close>
theorem rollback_takes_nothing_back:
  "run_action h (OrderService.create_order E svc u symb side ty q p key) =
     run_service (mapped h) (OrderService.create_order E svc u symb side ty q p key) \<and>
   run_action h (OrderService.cancel_order E u oid key) = run_service (mapped h) (OrderService.cancel_order E u oid key) \<and>
   run_action h (close_position E svc u symb key) = run_service (mapped h) (close_position E svc u symb key) \<and>
   run_action h (run_bot_op E quote u op) = run_service (mapped h) (run_bot_op E quote u op)"
  by (simp add: mild_run_action quiet_mild quiet_create_order quiet_cancel_order mild_close_position mild_bot_op)

end
