(* ===== verification/ApiPrivacy.thy ===== *)
theory ApiPrivacy
  imports Api
begin

text \<open>
  Whose rows a request may touch: a settings route writes the rows of its caller, a reading route writes nothing but
  the news about its caller's own orders, and neither tells the exchange to do anything.
\<close>

section \<open>Settings\<close>

text \<open>\<open>own_settings u\<close>: of the tables, only the settings and the credentials of \<open>u\<close> may have changed.\<close>

definition own_settings :: "uuid \<Rightarrow> sys \<Rightarrow> sys \<Rightarrow> bool" where
  "own_settings u s t \<longleftrightarrow> no_write s t \<and>
     t = s\<lparr>user_settings := user_settings t, credentials := credentials t, calls := calls t, ticks := ticks t\<rparr> \<and>
     (\<forall>v. v \<noteq> u \<longrightarrow> settings_of t v = settings_of s v \<and> credential_of t v = credential_of s v)"

interpretation own_settings: frame "own_settings u" for u
proof unfold_locales
  show "own_settings u s s" for s by (simp add: own_settings_def no_write.refl)
  show "own_settings u s v" if "own_settings u s t" "own_settings u t v" for s t v
    using that no_write.trans [of s t v] unfolding own_settings_def by (cases s; cases t; cases v) auto
qed

lemma own_settings_save: "us_user_id r = u \<Longrightarrow> keeps (own_settings u) (save_settings r)"
  by (auto simp: keeps_def save_settings_def modify_def own_settings_def no_write_def rows.lookup_save)

lemma own_settings_prims:
  "keeps (own_settings u) (now_utc E)" "keeps (own_settings u) (encrypt_credential E p)"
  "keeps (own_settings u) (call_binance E GetApiKeyPermissions)" "keeps (own_settings u) (disconnect_credentials u)"
  by (auto simp: keeps_def now_utc_def encrypt_credential_def bnd_def lift_def call_binance_def disconnect_credentials_def
      modify_def own_settings_def no_write_def rows.lookup_delete split: sum.split)

lemma keeps_bnd_gets: "(\<And>s. R s s) \<Longrightarrow> (\<And>s. R s (snd (m (f s) s))) \<Longrightarrow> keeps R (bnd (gets f) m)"
  by (simp add: keeps_def bnd_def gets_def)

lemma own_settings_services:
  "keeps (own_settings u) (save_user_risk_limits u limits)"
  "keeps (own_settings u) (save_user_simulation_risk_limits u limits)"
  "keeps (own_settings u) (set_user_trading_enabled u enabled)"
  by (auto simp: keeps_wp_iff save_user_risk_limits_def save_user_simulation_risk_limits_def
      set_user_trading_enabled_def wp_simps own_settings_def no_write_def rows.lookup_save split: option.split)

lemma own_settings_connect: "keeps (own_settings u) (connect_credentials E u k p)"
proof -
  have row: "keeps (own_settings u) (modify (\<lambda>s. s\<lparr>credentials := save_row uc_user_id r (credentials s)\<rparr>))"
    if "uc_user_id r = u" for r
    using that by (auto simp: keeps_def modify_def own_settings_def no_write_def rows.lookup_save)
  show ?thesis
    unfolding connect_credentials_def
    by (intro own_settings.intros own_settings_prims row) simp
qed

lemma own_settings_transaction: "keeps (own_settings u) m \<Longrightarrow> keeps (own_settings u) (transaction m)"
proof -
  have "own_settings u s (rolled_back s t)" if "own_settings u s t" for s t
    using that unfolding own_settings_def rolled_back_def no_write_def by (cases s; cases t) simp
  then show "keeps (own_settings u) m \<Longrightarrow> keeps (own_settings u) (transaction m)"
    unfolding keeps_def transaction_def by (auto split: prod.split sum.split) (metis snd_conv)+
qed

lemma own_settings_handle: "keeps (own_settings u) (handle_setting E X u m)"
  by (cases m) (auto intro!: own_settings.intros keeps_run_service own_settings_transaction own_settings_services
      own_settings_connect own_settings_prims)

text \<open>The settings among the mutating requests.\<close>

definition is_setting :: "mutation \<Rightarrow> bool" where
  "is_setting m \<longleftrightarrow> handle_order 0 '''' m = None \<and> handle_bot '''' m = None"

lemma handle_is_setting: "is_setting m \<Longrightarrow> handle E X u key m = handle_setting E X u m"
  by (cases m) (simp_all add: is_setting_def handle_def)

text \<open>
  C18: Settings are personal.  A request to the settings routes, whoever sends it, writes nothing to the exchange
  and changes no table but the settings and the credentials; and when it changes the settings or the credentials of
  a user, then it is an active session of that very user that sent it, holding the permission of the route.
\<close>
theorem settings_are_personal:
  assumes "\<And>gs. mset (order gs) = mset gs" and "is_setting m"
  shows "wp (perform E X order rq m) (\<lambda>r t. no_write s t \<and>
     t = s\<lparr>user_settings := user_settings t, credentials := credentials t, calls := calls t, ticks := ticks t,
       limiters := limiters t\<rparr> \<and>
     (\<forall>v. settings_of t v \<noteq> settings_of s v \<or> credential_of t v \<noteq> credential_of s v \<longrightarrow>
        (\<exists>u. authorized E (fst (demands m)) rq s u \<and> usr_id u = v))) s"
proof (rule wp_mono [OF mutations_are_guarded [OF assms(1)]], goal_cases)
  case (1 r t)
  then consider "waits s t" | u s' r' where "waits s s'" "authorized E (fst (demands m)) rq s u"
      "handle_setting E X (usr_id u) m s' = (r', t)"
    by (cases "demands m") (auto simp: handle_is_setting [OF assms(2)])
  then show ?case
  proof cases
    case 1
    then show ?thesis unfolding waits_def no_write_def by (cases s; cases t) simp
  next
    case (2 u s' r')
    have own: "own_settings (usr_id u) s' t" by (rule keepsD [OF own_settings_handle 2(3)])
    have same: "user_settings s' = user_settings s" "credentials s' = credentials s" "calls s' = calls s"
      using 2(1) unfolding waits_def by (cases s; cases s'; simp)+
    have "t = s\<lparr>user_settings := user_settings t, credentials := credentials t, calls := calls t, ticks := ticks t,
       limiters := limiters t\<rparr>"
      using 2(1) own unfolding own_settings_def waits_def by (cases s; cases s'; cases t) simp
    moreover have "no_write s t" using own same(3) by (simp add: own_settings_def no_write_def)
    ultimately show ?thesis
      using own 2(2) same(1,2) unfolding own_settings_def by (metis (no_types, lifting))
  qed
qed

lemma settings_are_personal_witness:
  "wp (perform demo_env demo_exchange rev anonymous DeleteCredentials) (\<lambda>r t. \<forall>v. credential_of t v \<noteq> credential_of idle v \<longrightarrow>
     (\<exists>u. authorized demo_env ''secrets.manage'' anonymous idle u)) idle"
  by (rule wp_mono [OF settings_are_personal]) (auto simp: is_setting_def)

section \<open>The reading requests\<close>

datatype query =
    GetPortfolio
  | GetPortfolioBalances
  | GetPortfolioHistory period
  | GetTicker string
  | GetSymbolInfo string
  | GetCandles string string int
  | GetPositions
  | ListOrders "string option" "string option" nat
  | GetOrderById uuid
  | ListBots
  | GetBotById uuid
  | GetSimulationConfig
  | GetBotPortfolio uuid
  | GetBotPerformance uuid
  | GetBotTrades uuid
  | GetCredentialStatus
  | GetRiskLimits
  | GetSimulationLimits
  | GetSwitch

fun ask :: "env \<Rightarrow> exchange \<Rightarrow> (guard list \<Rightarrow> guard list) \<Rightarrow> Request \<Rightarrow> query \<Rightarrow> (int \<times> json) H" where
  "ask E X order rq GetPortfolio = get_portfolio_route E X order rq"
| "ask E X order rq GetPortfolioBalances = get_balances_route E X order rq"
| "ask E X order rq (GetPortfolioHistory p) = get_portfolio_history E order rq p"
| "ask E X order rq (GetTicker symb) = get_market_data_route E X order rq symb"
| "ask E X order rq (GetSymbolInfo symb) = get_exchange_info_route E X order rq symb"
| "ask E X order rq (GetCandles symb i n) = get_klines_route E X order rq symb i n"
| "ask E X order rq GetPositions = get_positions_route E X order rq"
| "ask E X order rq (ListOrders symb st n) = list_orders E X order rq symb st n"
| "ask E X order rq (GetOrderById oid) = get_order_route E X order rq oid"
| "ask E X order rq ListBots = list_bots_route E order rq"
| "ask E X order rq (GetBotById bid) = get_bot_route E order rq bid"
| "ask E X order rq GetSimulationConfig = get_simulation_config_route E order rq"
| "ask E X order rq (GetBotPortfolio bid) = get_bot_portfolio_route E X order rq bid"
| "ask E X order rq (GetBotPerformance bid) = get_bot_performance_route E X order rq bid"
| "ask E X order rq (GetBotTrades bid) = get_bot_trades_route E order rq bid"
| "ask E X order rq GetCredentialStatus = get_binance_credentials_route E order rq"
| "ask E X order rq GetRiskLimits = get_risk_limits_route E order rq"
| "ask E X order rq GetSimulationLimits = get_simulation_risk_limits_route E order rq"
| "ask E X order rq GetSwitch = get_trading_switch_route E order rq"

text \<open>
  \<open>peeks I\<close>: nothing is written to the exchange; of the orders only the columns the exchange decides may have
  changed, of the rows named by \<open>I\<close>, with events for them; no other table changed.
\<close>

definition peeks :: "uuid set \<Rightarrow> sys \<Rightarrow> sys \<Rightarrow> bool" where
  "peeks I s t \<longleftrightarrow> no_write s t \<and> list_all2 (\<lambda>x y. y = x \<or> o_id x \<in> I \<and> same_identity x y) (orders s) (orders t) \<and>
     (\<exists>es. order_events t = order_events s @ es \<and> (\<forall>e \<in> set es. oe_order_id e \<in> I)) \<and>
     t = s\<lparr>orders := orders t, order_events := order_events t, info_cache := info_cache t, calls := calls t,
       ticks := ticks t, limiters := limiters t\<rparr>"

lemma peeks_refl: "peeks I s s"
  by (simp add: peeks_def no_write.refl list_all2_same)

lemma peeks_rows_trans:
  assumes "list_all2 (\<lambda>x y. y = x \<or> o_id x \<in> I \<and> same_identity x y) xs ys"
    and "list_all2 (\<lambda>x y. y = x \<or> o_id x \<in> I \<and> same_identity x y) ys zs"
  shows "list_all2 (\<lambda>x y. y = x \<or> o_id x \<in> I \<and> same_identity x y) xs zs"
proof (rule list_all2_trans [OF _ assms])
  show "z = x \<or> o_id x \<in> I \<and> same_identity x z"
    if "y = x \<or> o_id x \<in> I \<and> same_identity x y" "z = y \<or> o_id y \<in> I \<and> same_identity y z" for x y z
    using that same_identity_trans same_identity_fields(1) by metis
qed

interpretation peeks: frame "peeks I" for I
proof unfold_locales
  show "peeks I s s" for s by (rule peeks_refl)
  show "peeks I s v" if a: "peeks I s t" and b: "peeks I t v" for s t v
  proof -
    have "no_write s v" "list_all2 (\<lambda>x y. y = x \<or> o_id x \<in> I \<and> same_identity x y) (orders s) (orders v)"
      using a b no_write.trans peeks_rows_trans unfolding peeks_def by blast+
    moreover have "\<exists>es. order_events v = order_events s @ es \<and> (\<forall>e \<in> set es. oe_order_id e \<in> I)"
      using a b unfolding peeks_def by auto
    moreover have "v = s\<lparr>orders := orders v, order_events := order_events v, info_cache := info_cache v, calls := calls v,
       ticks := ticks v, limiters := limiters v\<rparr>"
      using a b unfolding peeks_def by (cases s; cases t; cases v) simp
    ultimately show ?thesis unfolding peeks_def by blast
  qed
qed

lemma peeks_reads: "reads s t \<Longrightarrow> peeks I s t"
  using reads_no_write unfolding reads_def peeks_def by (cases s; cases t) (auto simp: list_all2_same)

lemma peeks_waits: "waits s t \<Longrightarrow> peeks I s t"
  unfolding waits_def peeks_def no_write_def by (cases s; cases t) (auto simp: list_all2_same)

lemma peeks_mono: "peeks I s t \<Longrightarrow> I \<subseteq> J \<Longrightarrow> peeks J s t"
  unfolding peeks_def by (fastforce elim: list_all2_mono)

lemma keeps_peeks: "keeps reads m \<Longrightarrow> keeps (peeks I) m"
  by (simp add: keeps_def peeks_reads)

lemma peeks_call: "\<not> is_write c \<Longrightarrow> keeps (peeks I) (call_binance E c)"
  by (intro keeps_peeks reads_call)

lemma peeks_upd: "oid \<in> I \<Longrightarrow> (\<And>x. same_identity x (f x)) \<Longrightarrow> keeps (peeks I) (upd_order oid f)"
  unfolding upd_order_def
  by (rule peeks.modify) (simp add: peeks_def no_write_def list_all2_map2 list_all2_same)

lemma peeks_prims:
  "keeps (peeks I) (now_utc E)" "keeps (peeks I) (the_order oid)" "oid \<in> I \<Longrightarrow> keeps (peeks I) (add_event oid ty d)"
  by (auto simp: keeps_def now_utc_def the_order_def add_event_def modify_def peeks_def no_write_def list_all2_same
      split: option.split)

lemma peeks_reconcile: "oid \<in> I \<Longrightarrow> keeps (peeks I) (reconcile_row oid payload)"
  unfolding reconcile_row_def
proof (intro peeks.bnd peeks.seq peeks.lift peeks_prims peeks_upd)
  show "same_identity x (snd (reconcile_from_binance_payload payload x))" for x
    using reconcile_same [of payload x] same_request_identity by (metis prod.collapse)
qed

lemma peeks_refresh: "oid \<in> I \<Longrightarrow> keeps (peeks I) (refresh_order E oid)"
  unfolding refresh_order_def
  by (intro peeks.intros peeks_prims peeks_call peeks_upd peeks_reconcile) simp_all

lemma peeks_transaction: "keeps (peeks I) m \<Longrightarrow> keeps (peeks I) (transaction m)"
proof -
  have "peeks I s (rolled_back s t)" if "peeks I s t" for s t
    using that unfolding peeks_def rolled_back_def no_write_def by (cases s; cases t) (simp add: list_all2_same)
  then show "keeps (peeks I) m \<Longrightarrow> keeps (peeks I) (transaction m)"
    unfolding keeps_def transaction_def by (auto split: prod.split sum.split) (metis snd_conv)+
qed

lemma peeks_reconcile_on_read: "oid \<in> I \<Longrightarrow> keeps (peeks I) (reconcile_on_read client1 oid)"
  unfolding reconcile_on_read_def
  by (intro peeks.case_opt peeks.ret keeps_run_service peeks_transaction peeks_refresh)

lemma peeks_reconcile_all: "set oids \<subseteq> I \<Longrightarrow> keeps (peeks I) (reconcile_all client1 oids)"
  by (induction oids) (auto intro!: peeks.ret peeks.seq peeks_reconcile_on_read)

section \<open>What the reading routes touch\<close>

lemma peeks_guards: "keeps (peeks I) (run_guards E rq gs c)"
proof -
  have "wp (run_guards E rq gs c) (\<lambda>r t. peeks I s t) s" for s
    by (rule wp_mono [OF wp_run_guards]) (simp add: peeks_waits)
  then show ?thesis by (simp add: keeps_wp_iff)
qed

lemma peeks_route: "(\<And>c. keeps (peeks I) (h c)) \<Longrightarrow> keeps (peeks I) (route E order rq st gs h)"
  unfolding route_def by (intro peeks.bnd peeks_guards peeks.ret)

lemma peeks_clients:
  "keeps (peeks I) (new_binance_client_for_user E X u)" "keeps (peeks I) (new_optional_binance_client_for_user E X u)"
  unfolding new_binance_client_for_user_def new_optional_binance_client_for_user_def
  by (rule peeks.bnd [OF peeks.gets]; auto split: sum.split exn.split intro!: peeks.ret peeks.raise)+

lemma peeks_owned_bot: "keeps (peeks I) (get_owned_bot u bid)"
  unfolding get_owned_bot_def by (intro peeks.intros)

lemma peeks_market_price: "keeps (peeks I) (bot_market_price E X b q)"
  unfolding bot_market_price_def by (intro peeks.intros keeps_run_service peeks_call) simp

lemma peeks_performance:
  "keeps (peeks I) (live_performance E b q m)" "keeps (peeks I) (simulation_performance E b q m)"
  unfolding live_performance_def simulation_performance_def
  by (intro peeks.intros keeps_run_service peeks_prims)+

lemma reads_portfolio_balances: "keeps reads (portfolio_balances E quote)"
  unfolding portfolio_balances_def by (intro reads.intros reads_balances reads_price_balance)

lemmas peeks_ask = peeks_route peeks.intros keeps_run_service peeks_clients peeks_owned_bot peeks_market_price
  peeks_performance keeps_peeks [OF reads_portfolio] keeps_peeks [OF reads_portfolio_balances] keeps_peeks [OF reads_get_positions]
  peeks_prims(1,2)

fun asks_orders :: "query \<Rightarrow> bool" where
  "asks_orders (ListOrders symb st n) = True"
| "asks_orders (GetOrderById oid) = True"
| "asks_orders q = False"

lemma peeks_other_queries: "\<not> asks_orders q \<Longrightarrow> keeps (peeks I) (ask E X order rq q)"
  by (cases q) (simp_all only: ask.simps asks_orders.simps not_True_eq_False,
    (unfold get_portfolio_route_def get_balances_route_def get_portfolio_history_def get_market_data_route_def
      get_exchange_info_route_def get_klines_route_def get_positions_route_def list_bots_route_def get_bot_route_def
      get_simulation_config_route_def get_bot_portfolio_route_def get_bot_performance_route_def get_bot_trades_route_def
      get_binance_credentials_route_def get_risk_limits_route_def get_simulation_risk_limits_route_def
      get_trading_switch_route_def, (intro peeks_ask peeks_call; simp)+))

section \<open>Whose rows are touched and shown\<close>

text \<open>\<open>owned E p rq s v\<close>: the user \<open>v\<close> is the one the request's session names, and holds \<open>p\<close>.\<close>

definition owned :: "env \<Rightarrow> string \<Rightarrow> Request \<Rightarrow> sys \<Rightarrow> uuid \<Rightarrow> bool" where
  "owned E p rq s v \<longleftrightarrow> (\<exists>u. authorized E p rq s u \<and> usr_id u = v)"

definition own_orders :: "env \<Rightarrow> Request \<Rightarrow> sys \<Rightarrow> uuid set" where
  "own_orders E rq s = o_id ` {x \<in> set (orders s). owned E ''orders.read'' rq s (o_user_id x)}"

text \<open>What the answer of a query about orders or bots may show.\<close>

fun discloses :: "env \<Rightarrow> Request \<Rightarrow> sys \<Rightarrow> query \<Rightarrow> json \<Rightarrow> sys \<Rightarrow> bool" where
  "discloses E rq s (ListOrders symb st n) j t \<longleftrightarrow> (\<exists>xs m. j = JObj [(''orders'', JList (map order_to_response xs)), (''count'', m)] \<and>
     (\<forall>x \<in> set xs. x \<in> set (orders t) \<and> owned E ''orders.read'' rq s (o_user_id x)))"
| "discloses E rq s (GetOrderById oid) j t \<longleftrightarrow> (\<exists>x \<in> set (orders t). j = order_to_response x \<and> o_id x = oid \<and>
     owned E ''orders.read'' rq s (o_user_id x))"
| "discloses E rq s ListBots j t \<longleftrightarrow> (\<exists>u. owned E ''bots.read'' rq s u \<and> j = JObj [(''bots'', list_bots u s)])"
| "discloses E rq s (GetBotById bid) j t \<longleftrightarrow> (\<exists>b \<in> set (bots s). b_id b = bid \<and> owned E ''bots.read'' rq s (b_user_id b))"
| "discloses E rq s (GetBotPortfolio bid) j t \<longleftrightarrow> (\<exists>b \<in> set (bots s). b_id b = bid \<and> owned E ''bots.read'' rq s (b_user_id b))"
| "discloses E rq s (GetBotPerformance bid) j t \<longleftrightarrow> (\<exists>b \<in> set (bots s). b_id b = bid \<and> owned E ''bots.read'' rq s (b_user_id b))"
| "discloses E rq s (GetBotTrades bid) j t \<longleftrightarrow> (\<exists>b \<in> set (bots s). b_id b = bid \<and> owned E ''bots.read'' rq s (b_user_id b))"
| "discloses E rq s q j t \<longleftrightarrow> True"

lemma wp_route:
  assumes "\<And>gs. mset (order gs) = mset gs" and "filter is_permission gs = [Permission p]"
    and "\<And>c u s'. cx_user c = Some u \<Longrightarrow> authorized E p rq s u \<Longrightarrow> waits s s' \<Longrightarrow>
       wp (h c) (\<lambda>r t. P t \<and> (\<forall>j. r = Inr j \<longrightarrow> Q j t)) s'"
    and "\<And>t. waits s t \<Longrightarrow> P t"
  shows "wp (route E order rq st gs h) (\<lambda>r t. P t \<and> (\<forall>n j. r = Inr (n, j) \<longrightarrow> Q j t)) s"
  unfolding route_def
proof (rule wp_bndI [OF wp_run_guards], goal_cases)
  case (1 c s')
  have "filter is_permission (order gs) = [Permission p]" by (rule filter_one_permuted [OF assms(1,2)])
  then obtain u where "cx_user c = Some u" "authorized E p rq s u"
    using 1 by (auto simp: let_in_def)
  from assms(3) [OF this] have "wp (h c) (\<lambda>r t. P t \<and> (\<forall>j. r = Inr j \<longrightarrow> Q j t)) s'" using 1 by simp
  then show ?case
    by (rule wp_bndI) (simp_all add: wp_ret)
qed (use assms(4) in simp)

lemma list_all2_lookup:
  assumes "list_all2 (\<lambda>x y. y = x \<or> o_id x \<in> I \<and> same_identity x y) xs ys" and "lookup_row o_id ys oid = Some y"
  shows "\<exists>x. lookup_row o_id xs oid = Some x \<and> (y = x \<or> same_identity x y)"
  using assms
proof (induction rule: list_all2_induct)
  case (Cons x xs y' ys)
  then have "o_id y' = o_id x" using same_identity_fields(1) by metis
  then show ?case using Cons by (auto split: if_splits)
qed simp

lemma peeks_row:
  assumes "peeks I s t" and "lookup_row o_id (orders t) oid = Some y"
  shows "\<exists>x. lookup_row o_id (orders s) oid = Some x \<and> o_user_id y = o_user_id x"
  using list_all2_lookup [of I "orders s" "orders t" oid y] assms same_identity_fields(2)
  unfolding peeks_def by metis

lemma waits_tables: "waits s t \<Longrightarrow> orders t = orders s \<and> bots t = bots s \<and> bot_positions t = bot_positions s"
  unfolding waits_def by (cases s; cases t) simp

lemma wp_reconciled:
  assumes "waits s s'" and "oids \<subseteq> own_orders E rq s" and "keeps (peeks oids) m"
  shows "wp m (\<lambda>r t. peeks (own_orders E rq s) s t) s'"
  by (rule wp_mono [OF keeps_wp [OF assms(3)]])
    (use peeks_mono [OF _ assms(2)] peeks_waits [OF assms(1)] peeks.trans in blast)

lemma wp_get_order:
  assumes "\<And>gs. mset (order gs) = mset gs"
  shows "wp (get_order_route E X order rq oid) (\<lambda>r t. peeks (own_orders E rq s) s t \<and>
     (\<forall>n j. r = Inr (n, j) \<longrightarrow> discloses E rq s (GetOrderById oid) j t)) s"
  unfolding get_order_route_def
proof (rule wp_route [where p = "''orders.read''", OF assms], simp, goal_cases)
  case (1 c u s')
  have here: "peeks (own_orders E rq s) s s'" by (rule peeks_waits [OF 1(3)])
  show ?case
  proof (cases "lookup_row o_id (orders s') oid")
    case None
    then show ?thesis by (simp add: wp_simps here)
  next
    case (Some x)
    show ?thesis
    proof (cases "o_user_id x = current_user_id c")
      case False
      then show ?thesis by (simp add: wp_simps here Some)
    next
      case True
      have x: "x \<in> set (orders s)" "o_id x = oid" "owned E ''orders.read'' rq s (o_user_id x)"
        using Some waits_tables [OF 1(3)] lookup_row_Some [of o_id "orders s" oid x] 1(1,2) True
        by (auto simp: owned_def current_user_id_def)
      then have own: "{oid} \<subseteq> own_orders E rq s" by (auto simp: own_orders_def)
      have "wp (bnd (new_optional_binance_client_for_user E X (current_user_id c)) (\<lambda>client1.
            reconcile_on_read client1 oid)) (\<lambda>r t. peeks (own_orders E rq s) s t) s'"
        by (rule wp_reconciled [OF 1(3) own]) (intro peeks.bnd peeks_clients peeks_reconcile_on_read, simp)
      then have "wp (seq (bnd (new_optional_binance_client_for_user E X (current_user_id c)) (\<lambda>client1.
            reconcile_on_read client1 oid)) (bnd (run_service Unhandled (the_order oid)) (\<lambda>o2. ret (order_to_response o2))))
          (\<lambda>r t. peeks (own_orders E rq s) s t \<and> (\<forall>j. r = Inr j \<longrightarrow> discloses E rq s (GetOrderById oid) j t)) s'"
        unfolding wp_seq
      proof (rule wp_mono, goal_cases)
        case (1 r t)
        show ?case
        proof (cases "lookup_row o_id (orders t) oid")
          case None
          then show ?thesis using 1 by (simp add: wp_simps split: sum.split)
        next
          case (Some y)
          have "o_user_id y = o_user_id x"
            using peeks_row [OF 1 Some] \<open>lookup_row o_id (orders s') oid = Some x\<close> waits_tables [OF \<open>waits s s'\<close>] by auto
          then show ?thesis
            using 1 Some x(3) lookup_row_Some [OF Some] by (auto simp: wp_simps split: sum.split)
        qed
      qed
      then show ?thesis
        by (simp add: wp_bnd [of "gets _"] wp_gets Some True seq_bnd)
    qed
  qed
qed (rule peeks_waits)

lemma wp_list_orders:
  assumes "\<And>gs. mset (order gs) = mset gs" and "unique_key o_id (orders s)"
  shows "wp (list_orders E X order rq symb st n) (\<lambda>r t. peeks (own_orders E rq s) s t \<and>
     (\<forall>i j. r = Inr (i, j) \<longrightarrow> discloses E rq s (ListOrders symb st n) j t)) s"
  unfolding list_orders_def
proof (rule wp_route [where p = "''orders.read''", OF assms(1)], simp, goal_cases)
  case (1 c u s')
  have here: "peeks (own_orders E rq s) s s'" by (rule peeks_waits [OF 1(3)])
  have rows: "wp (bnd (new_optional_binance_client_for_user E X (current_user_id c)) (\<lambda>client1.
     seq (reconcile_all client1 (map o_id page))
     (bnd (gets (current_rows (map o_id page))) (\<lambda>rows.
     ret (JObj [(''orders'', JList (map order_to_response rows)), (''count'', JInt (int (length page)))])))))
     (\<lambda>r t. peeks (own_orders E rq s) s t \<and> (\<forall>j. r = Inr j \<longrightarrow> discloses E rq s (ListOrders symb st n) j t)) s'"
    if page: "set page \<subseteq> {x \<in> set (orders s). o_user_id x = current_user_id c}" for page
  proof -
    have mine: "owned E ''orders.read'' rq s (current_user_id c)"
      using 1 by (auto simp: owned_def current_user_id_def)
    have own: "set (map o_id page) \<subseteq> own_orders E rq s" using page mine by (auto simp: own_orders_def)
    have "wp (bnd (new_optional_binance_client_for_user E X (current_user_id c)) (\<lambda>client1.
        reconcile_all client1 (map o_id page))) (\<lambda>r t. peeks (own_orders E rq s) s t) s'"
      by (rule wp_reconciled [OF 1(3) own]) (intro peeks.bnd peeks_clients peeks_reconcile_all, simp)
    then have "wp (seq (bnd (new_optional_binance_client_for_user E X (current_user_id c)) (\<lambda>client1.
        reconcile_all client1 (map o_id page))) (bnd (gets (current_rows (map o_id page))) (\<lambda>rows.
        ret (JObj [(''orders'', JList (map order_to_response rows)), (''count'', JInt (int (length page)))]))))
        (\<lambda>r t. peeks (own_orders E rq s) s t \<and> (\<forall>j. r = Inr j \<longrightarrow> discloses E rq s (ListOrders symb st n) j t)) s'"
      unfolding wp_seq
    proof (rule wp_mono, goal_cases)
      case (1 r t)
      have "y \<in> set (orders t) \<and> o_user_id y = current_user_id c" if y: "y \<in> set (current_rows (map o_id page) t)" for y
      proof -
        obtain x where x: "x \<in> set page" "lookup_row o_id (orders t) (o_id x) = Some y"
          using y by (auto simp: current_rows_def List.map_filter_def)
        then have "lookup_row o_id (orders s) (o_id x) = Some x"
          using page lookup_row_unique [OF assms(2)] by auto
        then show ?thesis using peeks_row [OF 1 x(2)] x page lookup_row_Some [OF x(2)] by auto
      qed
      then show ?case using 1 mine by (auto simp: wp_simps split: sum.split)
    qed
    then show ?thesis by (simp add: seq_bnd)
  qed
  have sub: "set (orders_page (current_user_id c) symb wanted n s) \<subseteq> {x \<in> set (orders s). o_user_id x = current_user_id c}" for wanted
    by (auto simp: orders_page_def dest: in_set_takeD)
  have page: "orders_page (current_user_id c) symb wanted n s' = orders_page (current_user_id c) symb wanted n s" for wanted
    using waits_tables [OF 1(3)] by (simp add: orders_page_def)
  have filter: "wp (status_filter st) (\<lambda>r t. t = s') s'"
    by (simp add: status_filter_def wp_simps split: option.split list.split sum.split)
  show ?case
  proof (rule wp_bndI [OF filter], goal_cases)
    case (1 wanted t)
    then show ?case
      using rows [OF sub, of wanted] by (simp only: wp_bnd [of "gets _"] wp_gets sum.case page)
  qed (simp add: here)
qed (rule peeks_waits)

text \<open>Every route about one bot first finds the bot among those of its caller.\<close>

lemma wp_owned_bot:
  assumes "\<And>b. lookup_row b_id (bots s) bid = Some b \<Longrightarrow> b_user_id b = u \<Longrightarrow> K"
  shows "wp (bnd (get_owned_bot u bid) f) (\<lambda>r t. \<forall>j. r = Inr j \<longrightarrow> K) s"
proof (rule wp_bndI [where P = "\<lambda>r t. \<forall>b. r = Inr b \<longrightarrow> K"], goal_cases)
  case 1
  show ?case using assms by (simp add: get_owned_bot_def wp_simps split: option.split)
next
  case (2 b t)
  then show ?case by (simp add: wp_def)
qed simp

lemma owned_bot_here:
  assumes "cx_user c = Some u" and "authorized E ''bots.read'' rq s u" and "waits s s'"
    and "lookup_row b_id (bots s') bid = Some b" and "b_user_id b = current_user_id c"
  shows "\<exists>b \<in> set (bots s). b_id b = bid \<and> owned E ''bots.read'' rq s (b_user_id b)"
proof (rule bexI [of _ b])
  show "b \<in> set (bots s)" and "b_id b = bid \<and> owned E ''bots.read'' rq s (b_user_id b)"
    using assms waits_tables [OF assms(3)] lookup_row_Some [of b_id "bots s" bid b]
    by (auto simp: owned_def current_user_id_def)
qed

lemma wp_bot_queries:
  assumes "\<And>gs. mset (order gs) = mset gs" and "\<not> asks_orders q"
  shows "wp (ask E X order rq q) (\<lambda>r t. True \<and> (\<forall>n j. r = Inr (n, j) \<longrightarrow> discloses E rq s q j t)) s"
proof -
  have detail: "wp (route E order rq 200 gs (\<lambda>c. bnd (get_owned_bot (current_user_id c) bid) (h c)))
      (\<lambda>r t. True \<and> (\<forall>n j. r = Inr (n, j) \<longrightarrow>
        (\<exists>b \<in> set (bots s). b_id b = bid \<and> owned E ''bots.read'' rq s (b_user_id b)))) s"
    if "filter is_permission gs = [Permission ''bots.read'']" for gs bid h
  proof (rule wp_route [OF assms(1) that], goal_cases)
    case (1 c u s')
    show ?case unfolding simp_thms by (rule wp_owned_bot, rule owned_bot_here [OF 1])
  qed simp
  have bot: "wp (get_bot_route E order rq bid) (\<lambda>r t. True \<and> (\<forall>n j. r = Inr (n, j) \<longrightarrow>
        (\<exists>b \<in> set (bots s). b_id b = bid \<and> owned E ''bots.read'' rq s (b_user_id b)))) s" for bid
    unfolding get_bot_route_def
  proof (rule wp_route [where p = "''bots.read''", OF assms(1)], simp, goal_cases)
    case (1 c u s')
    show ?case
      using owned_bot_here [OF 1, of bid] by (auto simp: get_bot_def wp_simps split: option.split)
  qed simp
  have all: "wp (list_bots_route E order rq) (\<lambda>r t. True \<and> (\<forall>n j. r = Inr (n, j) \<longrightarrow>
        (\<exists>u. owned E ''bots.read'' rq s u \<and> j = JObj [(''bots'', list_bots u s)]))) s"
    unfolding list_bots_route_def
  proof (rule wp_route [where p = "''bots.read''", OF assms(1)], simp, goal_cases)
    case (1 c u s')
    then show ?case
      using waits_tables [OF 1(3)] by (auto simp: wp_simps owned_def current_user_id_def list_bots_def)
  qed simp
  note forms = ask.simps discloses.simps get_bot_portfolio_route_def get_bot_performance_route_def get_bot_trades_route_def
  show ?thesis
  proof (cases q)
    case ListBots
    show ?thesis unfolding ListBots forms by (rule all)
  next
    case (GetBotById bid)
    show ?thesis unfolding GetBotById forms by (rule bot)
  next
    case (GetBotPortfolio bid)
    show ?thesis unfolding GetBotPortfolio forms by (rule detail) (simp add: bot_guards_def)
  next
    case (GetBotPerformance bid)
    show ?thesis unfolding GetBotPerformance forms by (rule detail) (simp add: bot_guards_def)
  next
    case (GetBotTrades bid)
    show ?thesis unfolding GetBotTrades forms by (rule detail) (simp add: bot_guards_def)
  qed (use assms(2) in \<open>simp_all add: wp_def\<close>)
qed



end
