(* ===== verification/ApiLedger.thy ===== *)
theory ApiLedger
  imports ApiPrivacy "HOL-Library.Sublist"
begin

text \<open>
  The orders the exchange is asked for, against the idempotency keys of the database: over any history of
  requests every write to the exchange is paid for by an idempotency row of its own.
\<close>

section \<open>The rows only grow\<close>

definition scopes :: "sys \<Rightarrow> scope list" where
  "scopes s = map ik_scope (idempotency_keys s)"

definition grows :: "sys \<Rightarrow> sys \<Rightarrow> bool" where
  "grows s t \<longleftrightarrow> (\<exists>xs. scopes t = scopes s @ xs) \<and> (keys_ok s \<longrightarrow> keys_ok t)"

interpretation grows: frame grows
  by unfold_locales (auto simp: grows_def)

lemma keys_ok_scopes:
  "map ik_id (idempotency_keys t) = map ik_id (idempotency_keys s) \<Longrightarrow> scopes t = scopes s \<Longrightarrow> keys_ok t = keys_ok s"
  by (simp add: keys_ok_def unique_key_def scopes_def)

lemma grows_same: "idempotency_keys t = idempotency_keys s \<Longrightarrow> grows s t"
  by (simp add: grows_def scopes_def keys_ok_def)

named_theorems grow_intros "operations that only add reservations"

lemmas [grow_intros] = grows.ret grows.raise grows.lift grows.gets grows.bnd grows.seq grows.try_any grows.try_binance
  grows.cond grows.case_opt grows.case_sum grows.case_pair grows.let_in

lemma grows_prims [grow_intros]:
  "keeps grows (now_utc E)" "keeps grows (now_monotonic E)" "keeps grows (new_uuid E)" "keeps grows (call_binance E c)"
  "keeps grows (add_event oid ty d)" "keeps grows (add_audit e)" "keeps grows (add_order o1)" "keeps grows (the_order oid)"
  "keeps grows (upd_order oid f)" "keeps grows (the_bot bid)" "keeps grows (put_bot bid g)" "keeps grows (add_bot b)"
  "keeps grows (add_position p)" "keeps grows (add_account a)" "keeps grows (upd_position bid h)"
  "keeps grows (modify (remove_bot bid))" "keeps grows (add_sim_order x)" "keeps grows (set_cash aid cash)"
  "keeps grows (modify (\<lambda>s. s\<lparr>info_cache := k s\<rparr>))"
  unfolding keeps_def
  by (auto intro!: grows_same simp: now_utc_def now_monotonic_def new_uuid_def call_binance_def add_event_def
      add_audit_def add_order_def the_order_def upd_order_def the_bot_def put_bot_def add_bot_def add_position_def
      add_account_def upd_position_def remove_bot_def add_sim_order_def set_cash_def modify_def Let_def
      split: option.split)

lemma grows_finalize [grow_intros]: "keeps grows (finalize rid v)"
proof -
  have "grows s (s\<lparr>idempotency_keys :=
      map (\<lambda>r. if ik_id r = rid then r\<lparr>ik_response_snapshot := v\<rparr> else r) (idempotency_keys s)\<rparr>)" (is "grows s ?t") for s
  proof -
    have "map ik_id (idempotency_keys ?t) = map ik_id (idempotency_keys s)" "scopes ?t = scopes s"
      by (auto simp: scopes_def)
    then show ?thesis using keys_ok_scopes [of ?t s] by (simp add: grows_def)
  qed
  then show ?thesis
    by (auto simp: keeps_def finalize_def grows.refl split: option.split)
qed

lemma wp_reserve_scopes:
  "wp (reserve E u ep key payload) (\<lambda>r t. calls t = calls s \<and> grows s t \<and> (case r of
      Inl e \<Rightarrow> True
    | Inr x \<Rightarrow> ir_is_new x \<longrightarrow> scopes t = scopes s @ [(u, ep, key)])) s"
  by (auto simp: reserve_def wp_simps Let_def grows_def scopes_def ik_scope_def keys_ok_def unique_key_def
      split: option.split)

lemma grows_reserve [grow_intros]: "keeps grows (reserve E u ep key payload)"
  unfolding keeps_wp_iff by (intro allI wp_mono [OF wp_reserve_scopes]) simp

lemma grows_reads: "keeps reads m \<Longrightarrow> keeps grows m"
  by (rule keeps_weaken [of reads]) (auto intro!: grows_same simp: reads_fields)

lemma grows_only_order: "keeps (only_order oid) m \<Longrightarrow> keeps grows m"
  by (rule keeps_weaken [of "only_order oid"]) (auto intro!: grows_same simp: only_order_same)

lemma grows_audit [grow_intros]:
  "keeps grows (audit u a sy q res h b d)" "keeps grows (audit_order o1 a res b d)"
  "keeps grows (bot_audit u action res d bid)" "keeps grows (simulation_audit u bid res soid d)"
  unfolding audit_def audit_order_def bot_audit_def simulation_audit_def by (intro grow_intros)+

lemma grows_reconcile [grow_intros]: "keeps grows (reconcile_row oid payload)"
  by (rule grows_only_order [OF only_order_reconcile])

section \<open>The services\<close>

lemma grows_create_and_execute [grow_intros]:
  "keeps grows (create_and_execute E svc rid u symb side ty q p key ep action)"
  unfolding create_and_execute_def internal_failure_def refuse_disabled_def
  by (intro grow_intros grows_only_order [OF validate_and_execute_frame])

lemma grows_simulation [grow_intros]: "keeps grows (place_bot_order E u bid side q key)"
  unfolding place_bot_order_def simulation_gates_def simulation_execute_def simulation_fill_def simulation_terminal_def
    the_instrument_def
  by (intro grow_intros grows_reads [OF sim_risk_reads] grows_reads [OF reads_exchange_info] case_decision)

lemma grows_bot_parts [grow_intros]:
  "keeps grows (the_position bid attr)" "keeps grows (upd_bot E bid f)" "keeps grows (set_status E bid st)"
  "keeps grows (bot_json bid)" "keeps grows (bot_missing rid u action bid)" "keeps grows (bot_refused rid u action bid reason)"
  "keeps grows (link_order E u key bid)" "keeps grows (reconcile_once E oid)"
  unfolding the_position_def upd_bot_def set_status_def bot_json_def bot_missing_def bot_refused_def link_order_def
    reconcile_once_def
  by (intro grow_intros)+

lemma grows_transition_ends [grow_intros]:
  "keeps grows (transition_refused E rid u bid cfg reason d)" "keeps grows (transition_failed E rid u bid cfg sim key exc)"
  "keeps grows (transition_outcome E u bid sim key res)" "keeps grows (transition_filled E rid u bid cfg sim o1 shown)"
  "keeps grows (transition_unresolved E rid u bid cfg res)"
  unfolding transition_refused_def transition_failed_def transition_outcome_def transition_filled_def
    transition_unresolved_def
  by (intro grow_intros)+

lemma grows_with_bot [grow_intros]:
  "(\<And>rid b. keeps grows (act rid b)) \<Longrightarrow> keeps grows (with_bot E u bid ep key payload action act)"
  unfolding with_bot_def by (intro grow_intros)

lemma grows_bot_ops:
  "keeps grows (create_bot E u name rp ac ev ins q key sm sc)" "keeps grows (update_bot E u bid key nm qq sm sc)"
  "keeps grows (stop E u bid key)" "keeps grows (delete_bot E u bid key)" "keeps grows (activate_live E u bid key)"
  unfolding create_bot_def update_bot_def stop_def delete_bot_def activate_live_def
  by (intro grow_intros)+

section \<open>Writes that are paid for\<close>

text \<open>The row a write belongs to: the key its client id was derived from, or the key of the cancellation.\<close>

fun billed :: "env \<Rightarrow> binance_call \<Rightarrow> scope \<Rightarrow> bool" where
  "billed E (CreateOrder symb side ty q p cid) (u, ep, key) \<longleftrightarrow>
     ep \<in> {create_endpoint, close_endpoint} \<and> cid = derive_binance_client_order_id E u ep key"
| "billed E (CancelOrder symb i c) (u, ep, key) \<longleftrightarrow> ep = cancel_endpoint"
| "billed E c k \<longleftrightarrow> False"

definition ledger :: "env \<Rightarrow> sys \<Rightarrow> sys \<Rightarrow> bool" where
  "ledger E s t \<longleftrightarrow> (\<exists>cs xs ys. calls t = calls s @ cs \<and> scopes t = scopes s @ xs \<and> subseq ys xs \<and>
     list_all2 (billed E) (filter is_write cs) ys) \<and> (keys_ok s \<longrightarrow> keys_ok t)"

lemma ledgerI:
  "calls t = calls s @ cs \<Longrightarrow> scopes t = scopes s @ xs \<Longrightarrow> subseq ys xs \<Longrightarrow>
     list_all2 (billed E) (filter is_write cs) ys \<Longrightarrow> (keys_ok s \<Longrightarrow> keys_ok t) \<Longrightarrow> ledger E s t"
  unfolding ledger_def by blast

lemma ledger_trans: "ledger E s t \<Longrightarrow> ledger E t v \<Longrightarrow> ledger E s v"
  unfolding ledger_def
proof (elim conjE exE, goal_cases)
  case (1 cs cs' xs xs' ys ys')
  then have "calls v = calls s @ cs @ cs'" "scopes v = scopes s @ xs @ xs'" by simp_all
  moreover have "subseq (ys @ ys') (xs @ xs')" using 1 by (blast intro: list_emb_append_mono)
  moreover have "list_all2 (billed E) (filter is_write (cs @ cs')) (ys @ ys')"
    using 1 by (simp add: list_all2_appendI)
  ultimately show ?case using 1 by blast
qed

interpretation ledger: frame "ledger E" for E
proof unfold_locales
  show "ledger E s s" for s by (rule ledgerI [of _ _ "[]" "[]" "[]"]) simp_all
  show "ledger E s v" if "ledger E s t" "ledger E t v" for s t v using ledger_trans that .
qed

lemma ledger_no_write: "no_write s t \<Longrightarrow> grows s t \<Longrightarrow> ledger E s t"
  unfolding no_write_def grows_def
  by (elim conjE exE, rule ledgerI [where ys = "[]"]) (auto simp: filter_empty_conv)

lemma keeps_ledger: "keeps no_write m \<Longrightarrow> keeps grows m \<Longrightarrow> keeps (ledger E) m"
  by (simp add: keeps_def ledger_no_write)

text \<open>At most one write, of a kind.\<close>

definition one :: "(binance_call \<Rightarrow> bool) \<Rightarrow> sys \<Rightarrow> sys \<Rightarrow> bool" where
  "one P s t \<longleftrightarrow> sent s [] t \<or> (\<exists>c. P c \<and> sent s [c] t)"

lemma one_before: "no_write s t \<Longrightarrow> one P t v \<Longrightarrow> one P s v"
  using sent_trans [of s "[]" t _ v] by (auto simp: one_def no_write_sent)

lemma one_after: "one P s t \<Longrightarrow> no_write t v \<Longrightarrow> one P s v"
  using sent_trans [of s _ t "[]" v] by (auto simp: one_def no_write_sent)

lemma one_no_write: "keeps no_write m \<Longrightarrow> keeps (one P) m"
  by (rule keeps_weaken [of no_write]) (simp_all add: one_def no_write_sent)

lemma one_then: "keeps (one P) m \<Longrightarrow> (\<And>x. keeps no_write (f x)) \<Longrightarrow> keeps (one P) (bnd m f)"
  unfolding keeps_def bnd_def by (auto split: prod.split sum.split) (metis snd_conv one_after)+

lemma then_one: "keeps no_write m \<Longrightarrow> (\<And>x. keeps (one P) (f x)) \<Longrightarrow> keeps (one P) (bnd m f)"
  unfolding keeps_def bnd_def
  by (auto split: prod.split sum.split) (metis snd_conv one_before one_def no_write_sent)+

lemma seq_one: "keeps no_write m \<Longrightarrow> keeps (one P) n \<Longrightarrow> keeps (one P) (seq m n)"
  unfolding seq_def by (rule then_one)

lemma one_try_binance: "keeps (one P) m \<Longrightarrow> keeps (one P) (try_binance m)"
  unfolding keeps_def try_binance_def by (auto split: prod.split sum.split exn.split) (metis snd_conv)+

lemma one_call: "P c \<Longrightarrow> keeps (one P) (call_binance E c)"
  by (cases "is_write c") (auto simp: keeps_def call_binance_def one_def sent_def)

lemma one_cond: "keeps (one P) m \<Longrightarrow> keeps (one P) n \<Longrightarrow> keeps (one P) (if b then m else n)"
  by simp

lemma one_option:
  "keeps (one P) m \<Longrightarrow> (\<And>x. keeps (one P) (f x)) \<Longrightarrow> keeps (one P) (case v of None \<Rightarrow> m | Some x \<Rightarrow> f x)"
  by (simp split: option.split)

text \<open>After a reservation, one write may follow.\<close>

lemma ledger_reserved:
  assumes "\<And>x. keeps grows (f x)" and "\<And>x. ir_is_new x \<Longrightarrow> keeps (one (\<lambda>c. billed E c (u, ep, key))) (f x)"
    and "\<And>x. \<not> ir_is_new x \<Longrightarrow> keeps no_write (f x)"
  shows "keeps (ledger E) (bnd (reserve E u ep key payload) f)"
  unfolding keeps_wp_iff
proof (intro allI, rule wp_bndI [OF wp_reserve_scopes], goal_cases)
  case (1 s x s1)
  have "wp (f x) (\<lambda>r t. grows s1 t \<and> (if ir_is_new x then one (\<lambda>c. billed E c (u, ep, key)) s1 t else no_write s1 t)) s1"
    by (cases "ir_is_new x") (simp_all add: wp_conj keeps_wp assms)
  then show ?case
  proof (rule wp_mono, goal_cases)
    case (1 r t)
    note run = this
    show ?case
    proof (cases "ir_is_new x")
      case True
      then have xs: "scopes s1 = scopes s @ [(u, ep, key)]" "calls s1 = calls s" "keys_ok s \<longrightarrow> keys_ok s1"
        using \<open>calls s1 = calls s \<and> _\<close> by (auto simp: grows_def)
      obtain zs where zs: "scopes t = scopes s1 @ zs" "keys_ok s1 \<longrightarrow> keys_ok t" using run by (auto simp: grows_def)
      from run True consider "sent s1 [] t" | c where "billed E c (u, ep, key)" "sent s1 [c] t" by (auto simp: one_def)
      then show ?thesis
      proof cases
        case 1
        then show ?thesis
          using xs zs unfolding sent_def
          by (elim conjE exE) (rule ledgerI [where ys = "[]" and xs = "(u, ep, key) # zs"], auto)
      next
        case (2 c)
        then show ?thesis
          using xs zs unfolding sent_def
          by (elim conjE exE) (rule ledgerI [where ys = "[(u, ep, key)]" and xs = "(u, ep, key) # zs"], auto)
      qed
    next
      case False
      then have "no_write s t" "grows s t"
        using \<open>calls s1 = calls s \<and> _\<close> run grows.trans [of s s1 t] by (auto simp: no_write_def)
      then show ?thesis by (rule ledger_no_write)
    qed
  qed
next
  case (2 s e s1)
  then show ?case by (intro ledger_no_write) (auto simp: no_write_def)
qed

section \<open>The operations and their writes\<close>

lemma one_create_and_execute:
  assumes "ep \<in> {create_endpoint, close_endpoint}"
  shows "keeps (one (\<lambda>c. billed E c (u, ep, key))) (create_and_execute E svc rid u symb side ty q p key ep action)"
  unfolding keeps_wp_iff
proof
  show "wp (create_and_execute E svc rid u symb side ty q p key ep action) (\<lambda>r t. one (\<lambda>c. billed E c (u, ep, key)) s t) s" for s
    by (rule wp_mono [OF wp_create_and_execute_sends]) (use assms in \<open>auto simp: order_sent_def one_def sent_def\<close>)
qed

lemma ledger_create_order: "keeps (ledger E) (OrderService.create_order E svc u symb side ty q p key)"
  unfolding create_order_unfold
  by (rule ledger_reserved) (auto intro!: grow_intros one_create_and_execute no_write.ret)

lemma ledger_close_position: "keeps (ledger E) (close_position E svc u symb key)"
proof -
  have core: "keeps (ledger E) (bnd (reserve E u close_endpoint key payload) (\<lambda>reservation.
         if \<not> ir_is_new reservation then ret (ir_stored_response reservation)
         else create_and_execute E svc (ir_key_row_id reservation) u sy ''SELL'' ''MARKET'' q None key close_endpoint
           ''positions.close''))" for payload sy q
    by (rule ledger_reserved) (auto intro!: grow_intros one_create_and_execute no_write.ret)
  show ?thesis
    unfolding close_position_def
    by (intro core ledger.let_in ledger.bnd ledger.case_opt ledger.raise
        keeps_ledger [OF reads_get_position [THEN keeps_reads(2)] grows_reads [OF reads_get_position]])
qed

lemma no_write_cancel_ends:
  "keeps no_write (cancel_failed rid u oid exc)" "keeps no_write (cancel_confirmed E rid u oid payload)"
  "keeps no_write (refuse_disabled rid u action sy qu)"
  unfolding cancel_failed_def cancel_confirmed_def refuse_disabled_def by (intro no_write_intros no_write_reconcile)+

lemma grows_cancel_ends [grow_intros]:
  "keeps grows (cancel_failed rid u oid exc)" "keeps grows (cancel_confirmed E rid u oid payload)"
  "keeps grows (refuse_disabled rid u action sy qu)"
  unfolding cancel_failed_def cancel_confirmed_def refuse_disabled_def by (intro grow_intros)+

lemma one_cancel_call:
  "keeps (one (\<lambda>c. billed E c (u, cancel_endpoint, key))) (try_binance (bnd (lift r) (\<lambda>(i, c). call_binance E (CancelOrder sy i c))))"
  by (intro one_try_binance then_one no_write.lift) (auto intro!: one_call)

lemma ledger_cancel_order: "keeps (ledger E) (OrderService.cancel_order E u oid key)"
proof -
  have ends: "keeps no_write (case r of Inl exc \<Rightarrow> cancel_failed rid u oid exc
      | Inr payload \<Rightarrow> cancel_confirmed E rid u oid payload)" for r rid oid
    by (intro no_write.case_sum no_write_cancel_ends)
  show ?thesis
    unfolding OrderService.cancel_order_def Let_def
  proof (rule ledger_reserved, goal_cases)
    case (1 x)
    show ?case by (intro grow_intros)
  next
    case (2 x)
    then have "\<not> \<not> ir_is_new x" by simp
    then show ?case
      unfolding if_not_P [OF \<open>\<not> \<not> ir_is_new x\<close>]
    proof (intro then_one no_write.gets one_cond one_option, goal_cases)
      case (4 permitted found o1)
      show ?case by (intro seq_one one_then one_cancel_call ends no_write_intros)
    qed (intro one_no_write no_write_intros no_write_cancel_ends)+
  next
    case (3 x)
    then show ?case by (simp add: no_write.ret)
  qed
qed

section \<open>The bots and their writes\<close>

lemma ledger_bot_order: "keeps (ledger E) (bot_order E quote u bid sim side ins q key)"
  unfolding bot_order_def make_order_service_def
  by (intro ledger.cond ledger.bnd ledger.ret ledger_create_order keeps_ledger no_write_intros grow_intros
      place_bot_order_no_write)

lemma ledger_ends:
  "keeps (ledger E) (transition_refused E rid u bid cfg reason d)" "keeps (ledger E) (transition_failed E rid u bid cfg sim key exc)"
  "keeps (ledger E) (transition_outcome E u bid sim key res)" "keeps (ledger E) (transition_filled E rid u bid cfg sim o1 shown)"
  "keeps (ledger E) (transition_unresolved E rid u bid cfg res)"
  by (intro keeps_ledger no_write_after grow_intros)+

lemma ledger_execute: "keeps (ledger E) (transition_execute E quote rid u bid cfg sim p q key)"
proof -
  have fin: "keeps (ledger E) (bnd (transition_outcome E u bid sim key res) (\<lambda>(outcome, order, shown).
         if outcome = JStr ''REJECTED'' then
           bnd (lift (jget ''reason'' res)) (\<lambda>reason.
           transition_refused E rid u bid cfg reason (reason_text reason))
         else if outcome = JStr ''FILLED'' then transition_filled E rid u bid cfg sim order shown
         else transition_unresolved E rid u bid cfg res))" for res
    by (intro ledger.intros ledger_ends)
  show ?thesis
    unfolding transition_execute_def
    by (rule ledger.bnd [OF ledger.try_any [OF ledger_bot_order]])
      (auto intro!: ledger_ends fin split: sum.split exn.split)
qed

lemma grows_check [grow_intros]: "keeps grows (check_sufficient_real_balance E quote inst q)"
  unfolding check_sufficient_real_balance_def by (intro grow_intros grows_reads [OF reads_balances])

lemma ledger_transition: "keeps (ledger E) (transition E quote u bid key cfg)"
proof -
  have small: "keeps (ledger E) (set_status E bid st)" "keeps (ledger E) (the_position bid attr)"
      "keeps (ledger E) (check_sufficient_real_balance E quote' ins q)" for st attr quote' ins q
    by (intro keeps_ledger prep_no_write prep_set_status prep_the_position prep_check grow_intros)+
  have refused: "keeps (ledger E) (bot_refused rid u action bid reason)" "keeps (ledger E) (bot_missing rid u action bid)"
      "keeps (ledger E) (reserve E u ep key payload)" for rid action reason ep payload
    by (intro keeps_ledger no_write_refused no_write_missing no_write_intros grow_intros)+
  show ?thesis
    unfolding transition_def with_bot_def transition_body_def
    by (intro ledger.intros small refused ledger_ends ledger_execute)
qed

lemma ledger_bot_op: "keeps (ledger E) (run_bot_op E quote u op)"
  by (cases op) (simp_all add: keeps_ledger no_write_ops grows_bot_ops pause_def resume_def ledger_transition)

section \<open>The routes\<close>

lemma billed_as_client [simp]: "billed (as_client E X keys) = billed E"
proof (intro ext)
  fix c k show "billed (as_client E X keys) c k = billed E c k"
    by (cases "(E, c, k)" rule: billed.cases) (simp_all add: as_client_def derive_binance_client_order_id_def)
qed

lemma ledger_as_client [simp]: "ledger (as_client E X keys) = ledger E"
  by (simp add: ledger_def fun_eq_iff)

lemma wp_new_client:
  "wp (new_binance_client_for_user E X u) (\<lambda>r t. t = s \<and> (\<forall>E'. r = Inr E' \<longrightarrow> (\<exists>keys. E' = as_client E X keys))) s"
  "wp (new_optional_binance_client_for_user E X u)
     (\<lambda>r t. t = s \<and> (\<forall>E'. r = Inr (Some E') \<longrightarrow> (\<exists>keys. E' = as_client E X keys))) s"
  unfolding new_binance_client_for_user_def new_optional_binance_client_for_user_def
  by (auto simp: wp_simps split: sum.split exn.split)

lemma ledger_order_action:
  assumes "\<And>E svc. keeps (ledger E) (act E svc)" and "\<And>E svc. mild (act E svc)"
  shows "keeps (ledger E) (run_order_service_action E X u act)"
  unfolding keeps_wp_iff run_order_service_action_def
proof (intro allI, rule wp_bndI [OF wp_new_client(1)], goal_cases)
  case (1 s E' t)
  then obtain keys where E': "E' = as_client E X keys" "t = s" by blast
  have acts: "keeps (ledger E) (run_action http_exception_for_order_service_error (act E' svc))" for svc
    using keeps_run_service [OF assms(1) [of E' svc]] by (simp add: mild_run_action [OF assms(2)] E')
  have "keeps (ledger E) (run_service Unhandled (make_order_service E' default_quote_asset))"
    unfolding make_order_service_def by (intro keeps_run_service keeps_ledger no_write_intros grow_intros)
  from ledger.bnd [OF this acts] show ?case using E'(2) by (simp add: keeps_wp)
qed (simp add: ledger.refl)

lemma ledger_bot_action: "keeps (ledger E) (run_bot_service_action E X u (\<lambda>E'. run_bot_op E' quote u op))"
  unfolding keeps_wp_iff run_bot_service_action_def
proof (intro allI, rule wp_bndI [OF wp_new_client(2)], goal_cases)
  case (1 s client1 t)
  define E1 where "E1 = (case client1 of None \<Rightarrow> new_public_binance_client E X | Some E' \<Rightarrow> E')"
  have "\<exists>keys. E1 = as_client E X keys"
    using 1 by (auto simp: E1_def new_public_binance_client_def split: option.split)
  then have "ledger E1 = ledger E" by auto
  then have "keeps (ledger E) (run_action http_exception_for_bot_service_error (run_bot_op E1 quote u op))"
    using keeps_run_service [OF ledger_bot_op [of E1 quote u op]] by (simp add: mild_run_action [OF mild_bot_op])
  then show ?case using 1 by (simp add: keeps_wp flip: E1_def)
qed (simp add: ledger.refl)

lemma own_settings_ledger: "own_settings u s t \<Longrightarrow> ledger E s t"
  unfolding own_settings_def by (rule ledger_no_write) (blast, rule grows_same, cases s, cases t, simp)

lemma ledger_handle: "keeps (ledger E) (handle E X u key m)"
proof -
  have "keeps (ledger E) (run_order_service_action E X u act)" if "handle_order u key m = Some act" for act
    using that by (cases m) (auto intro!: ledger_order_action ledger_create_order ledger_cancel_order ledger_close_position
        quiet_mild [OF quiet_create_order] quiet_mild [OF quiet_cancel_order] mild_close_position)
  moreover have "keeps (ledger E) (handle_setting E X u m)"
    by (rule keeps_weaken [OF own_settings_handle own_settings_ledger])
  ultimately show ?thesis
    by (auto simp: handle_def ledger_bot_action split: option.split)
qed

lemma peeks_ledger: "peeks I s t \<Longrightarrow> ledger E s t"
  unfolding peeks_def by (elim conjE, rule ledger_no_write, assumption, rule grows_same, cases s, cases t, simp)

lemma keeps_peeks_ledger: "keeps (peeks I) m \<Longrightarrow> keeps (ledger E) m"
  by (rule keeps_weaken [OF _ peeks_ledger])

lemma ledger_perform: "keeps (ledger E) (perform E X order rq m)"
proof -
  obtain gs where "perform E X order rq m =
      route E order rq (success_status m) gs (\<lambda>c. handle E X (current_user_id c) (cx_key c) m)"
    by (rule perform_is_route)
  then show ?thesis
    by (simp add: route_def) (intro ledger.bnd ledger.ret ledger_handle keeps_peeks_ledger [OF peeks_guards])
qed

lemma peeks_order_queries: "asks_orders q \<Longrightarrow> keeps (peeks UNIV) (ask E X order rq q)"
  by (cases q) (auto simp: list_orders_def get_order_route_def status_filter_def
      intro!: peeks_ask peeks_reconcile_all peeks_reconcile_on_read split: option.split list.split sum.split)

lemma ledger_ask: "keeps (ledger E) (ask E X order rq q)"
  by (cases "asks_orders q") (auto intro: keeps_peeks_ledger peeks_order_queries peeks_other_queries)

section \<open>Any history of requests\<close>

datatype request = Mutating Request mutation | Reading Request query

fun serve :: "env \<Rightarrow> exchange \<Rightarrow> (guard list \<Rightarrow> guard list) \<Rightarrow> request \<Rightarrow> (int \<times> json) H" where
  "serve E X order (Mutating rq m) = perform E X order rq m"
| "serve E X order (Reading rq q) = ask E X order rq q"

fun serve_all :: "env \<Rightarrow> exchange \<Rightarrow> (guard list \<Rightarrow> guard list) \<Rightarrow> request list \<Rightarrow> sys \<Rightarrow> sys" where
  "serve_all E X order [] s = s"
| "serve_all E X order (r # rs) s = serve_all E X order rs (snd (serve E X order r s))"

lemma ledger_serve_all: "ledger E s (serve_all E X order rs s)"
proof (induction rs arbitrary: s)
  case (Cons r rs)
  have "keeps (ledger E) (serve E X order r)" by (cases r) (simp_all add: ledger_perform ledger_ask)
  then have "ledger E s (snd (serve E X order r s))" by (simp add: keeps_def)
  with Cons show ?case by (auto intro: ledger.trans)
qed (simp add: ledger.refl)

text \<open>
  C1: Every write to the exchange is paid for by an idempotency key of its own.  Over any history of requests to any
  routes, by anybody, in any order, succeeding or failing in any way: the orders and cancellations the exchange was
  asked for correspond one to one, in their order, to some of the reservations the requests added, which are for
  pairwise different users, endpoints and keys.  An order carries the client id derived from its reservation.  So
  repeating a request never sends a second order.
\<close>
theorem every_write_has_its_key:
  assumes "keys_ok s" and "t = serve_all E X order rs s"
  shows "\<exists>cs xs ys. calls t = calls s @ cs \<and> scopes t = scopes s @ xs \<and> distinct (scopes t) \<and> subseq ys xs \<and>
     list_all2 (billed E) (filter is_write cs) ys"
proof -
  have "ledger E s t" using ledger_serve_all assms(2) by simp
  moreover have "distinct (scopes t)" if "keys_ok t"
    using that by (simp add: keys_ok_def unique_key_def scopes_def)
  ultimately show ?thesis using assms(1) unfolding ledger_def by blast
qed

lemma every_write_has_its_key_witness:
  "let t = serve_all demo_env demo_exchange rev [Mutating anonymous (PostClose ''BTCUSDT''), Reading anonymous ListBots] idle
   in distinct (scopes t) \<and> (\<exists>ys. subseq ys (scopes t) \<and> list_all2 (billed demo_env) (filter is_write (calls t)) ys)"
proof -
  have start: "calls idle = []" "scopes idle = []" by (simp_all add: idle_def scopes_def)
  show ?thesis
    using every_write_has_its_key [OF idle_keys_ok refl, of demo_env demo_exchange rev
        "[Mutating anonymous (PostClose ''BTCUSDT''), Reading anonymous ListBots]"]
    unfolding start append_Nil Let_def by blast
qed

end
