(* ===== verification/ModelMetrics.thy ===== *)
theory ModelMetrics
  imports Prelude
begin

text \<open>
  The metrics of the model selection engine, \<open>model_selection/metrics.py\<close>, and the temporal split,
  \<open>model_selection/split.py\<close>, over floating point numbers.  A finite float is its real number; an operation of
  the language computes exactly and rounds.  The rounding, \<open>math.log\<close> and the routines of numpy are the
  fields of the record \<open>numerics\<close>; \<open>float_laws\<close> says what the proofs use of them, and the
  rounding of a double to nearest, ties to even, is shown to satisfy its share.  A one-dimensional array is a list.
  There is no signed zero.
\<close>

section \<open>Floats\<close>

datatype fp = Flt real | FInf bool | FNaN

record numerics =
  rnd :: "real \<Rightarrow> fp"
  ln_of :: "real \<Rightarrow> fp"
  pi_value :: real
  float_repr :: "fp \<Rightarrow> string"
  np_power :: "fp \<Rightarrow> nat \<Rightarrow> fp"
  np_sqrt :: "fp \<Rightarrow> fp"
  np_sum :: "fp list \<Rightarrow> fp"
  np_mean :: "fp list \<Rightarrow> fp"
  np_std :: "fp list \<Rightarrow> fp"
  np_matvec :: "fp list list \<Rightarrow> fp list \<Rightarrow> fp list"
  np_lstsq :: "fp list list \<Rightarrow> fp list \<Rightarrow> (fp list \<times> nat) result"

text \<open>The arithmetic of IEEE 754.\<close>

definition isfinite :: "fp \<Rightarrow> bool" where
  "isfinite a = (case a of Flt x \<Rightarrow> True | _ \<Rightarrow> False)"

fun fp_neg :: "fp \<Rightarrow> fp" where
  "fp_neg (Flt x) = Flt (- x)"
| "fp_neg (FInf s) = FInf (\<not> s)"
| "fp_neg FNaN = FNaN"

fun fp_abs :: "fp \<Rightarrow> fp" where
  "fp_abs (Flt x) = Flt \<bar>x\<bar>"
| "fp_abs (FInf s) = FInf True"
| "fp_abs FNaN = FNaN"

fun fp_add :: "numerics \<Rightarrow> fp \<Rightarrow> fp \<Rightarrow> fp" where
  "fp_add NP (Flt x) (Flt y) = rnd NP (x + y)"
| "fp_add NP (FInf s) (FInf t) = (if s = t then FInf s else FNaN)"
| "fp_add NP (FInf s) (Flt y) = FInf s"
| "fp_add NP (Flt x) (FInf t) = FInf t"
| "fp_add NP FNaN b = FNaN"
| "fp_add NP a FNaN = FNaN"

definition fp_sub :: "numerics \<Rightarrow> fp \<Rightarrow> fp \<Rightarrow> fp" where
  "fp_sub NP a b = fp_add NP a (fp_neg b)"

fun fp_mul :: "numerics \<Rightarrow> fp \<Rightarrow> fp \<Rightarrow> fp" where
  "fp_mul NP (Flt x) (Flt y) = rnd NP (x * y)"
| "fp_mul NP (FInf s) (FInf t) = FInf (s = t)"
| "fp_mul NP (FInf s) (Flt y) = (if y = 0 then FNaN else FInf (s = (0 < y)))"
| "fp_mul NP (Flt x) (FInf t) = (if x = 0 then FNaN else FInf (t = (0 < x)))"
| "fp_mul NP FNaN b = FNaN"
| "fp_mul NP a FNaN = FNaN"

text \<open>The division of numpy: a division by zero is an infinity or not a number.\<close>

fun fp_div :: "numerics \<Rightarrow> fp \<Rightarrow> fp \<Rightarrow> fp" where
  "fp_div NP (Flt x) (Flt y) = (if y \<noteq> 0 then rnd NP (x / y) else if x = 0 then FNaN else FInf (0 < x))"
| "fp_div NP (FInf s) (FInf t) = FNaN"
| "fp_div NP (FInf s) (Flt y) = FInf (s = (0 \<le> y))"
| "fp_div NP (Flt x) (FInf t) = Flt 0"
| "fp_div NP FNaN b = FNaN"
| "fp_div NP a FNaN = FNaN"

fun fp_less :: "fp \<Rightarrow> fp \<Rightarrow> bool" where
  "fp_less (Flt x) (Flt y) = (x < y)"
| "fp_less (Flt x) (FInf t) = t"
| "fp_less (FInf s) (Flt y) = (\<not> s)"
| "fp_less (FInf s) (FInf t) = (\<not> s \<and> t)"
| "fp_less FNaN b = False"
| "fp_less a FNaN = False"

definition fp_eq :: "fp \<Rightarrow> fp \<Rightarrow> bool" where
  "fp_eq a b \<longleftrightarrow> a \<noteq> FNaN \<and> a = b"

definition fp_le :: "fp \<Rightarrow> fp \<Rightarrow> bool" where
  "fp_le a b \<longleftrightarrow> fp_less a b \<or> fp_eq a b"

text \<open>
  Python's own operations: an \<open>int\<close> (here always the size of an array or a number of parameters) becomes a float
  where it meets one, \<open>/\<close> and \<open>math.log\<close> raise.
\<close>

definition float_of_int :: "numerics \<Rightarrow> int \<Rightarrow> fp" where
  "float_of_int NP n = rnd NP (real_of_int n)"

definition int_div :: "numerics \<Rightarrow> int \<Rightarrow> int \<Rightarrow> fp result" where
  "int_div NP a b = (if b = 0 then Inl (ZeroDivisionErr ''division by zero'')
     else Inr (rnd NP (real_of_int a / real_of_int b)))"

definition float_div_int :: "numerics \<Rightarrow> fp \<Rightarrow> int \<Rightarrow> fp result" where
  "float_div_int NP a n = (if fp_eq (float_of_int NP n) (Flt 0) then Inl (ZeroDivisionErr ''float division by zero'')
     else Inr (fp_div NP a (float_of_int NP n)))"

definition math_log :: "numerics \<Rightarrow> fp \<Rightarrow> fp result" where
  "math_log NP a = (if fp_le a (Flt 0) then Inl (ValueErr ''math domain error'')
     else Inr (case a of Flt x \<Rightarrow> ln_of NP x | _ \<Rightarrow> a))"

definition math_floor :: "fp \<Rightarrow> int result" where
  "math_floor a = (case a of
      Flt x \<Rightarrow> Inr \<lfloor>x\<rfloor>
    | FInf s \<Rightarrow> Inl (OverflowErr ''cannot convert float infinity to integer'')
    | FNaN \<Rightarrow> Inl (ValueErr ''cannot convert float NaN to integer''))"

section \<open>Metrics\<close>

text \<open>How Python shows the shape of a one-dimensional array.\<close>

definition shape :: "'a list \<Rightarrow> string" where
  "shape xs = ''('' @ show_nat (length xs) @ '',)''"

definition validate_matching_lengths :: "fp list \<Rightarrow> fp list \<Rightarrow> (fp list \<times> fp list) result" where
  "validate_matching_lengths y_true y_pred =
     (if length y_true \<noteq> length y_pred then Inl (ValueErr (''y_true and y_pred must have the same shape (got '' @
        shape y_true @ '' and '' @ shape y_pred @ '').''))
      else Inr (y_true, y_pred))"

definition differences :: "numerics \<Rightarrow> fp list \<Rightarrow> fp list \<Rightarrow> fp list" where
  "differences NP xs ys = map (\<lambda>(x, y). fp_sub NP x y) (zip xs ys)"

definition squares :: "numerics \<Rightarrow> fp list \<Rightarrow> fp list" where
  "squares NP xs = map (\<lambda>x. np_power NP x 2) xs"

definition rss :: "numerics \<Rightarrow> fp list \<Rightarrow> fp list \<Rightarrow> fp result" where
  "rss NP y_true y_pred = rbind (validate_matching_lengths y_true y_pred) (\<lambda>(a, b).
     Inr (np_sum NP (squares NP (differences NP a b))))"

definition gaussian_ols_log_likelihood :: "numerics \<Rightarrow> int \<Rightarrow> fp \<Rightarrow> fp result" where
  "gaussian_ols_log_likelihood NP n residual_sum_of_squares =
     (if fp_le residual_sum_of_squares (Flt 0)
      then Inl (ValueErr (''log-likelihood requires a strictly positive RSS (got '' @
        float_repr NP residual_sum_of_squares @ '').''))
      else
      rbind (int_div NP (- n) 2) (\<lambda>minus_half.
      rbind (math_log NP (fp_mul NP (Flt 2) (Flt (pi_value NP)))) (\<lambda>log_two_pi.
      rbind (int_div NP n 2) (\<lambda>half.
      rbind (float_div_int NP residual_sum_of_squares n) (\<lambda>variance.
      rbind (math_log NP variance) (\<lambda>log_variance.
      Inr (fp_sub NP (fp_sub NP (fp_mul NP minus_half log_two_pi) (fp_mul NP half log_variance)) half)))))))"

definition aic_from_log_likelihood :: "numerics \<Rightarrow> fp \<Rightarrow> int \<Rightarrow> fp result" where
  "aic_from_log_likelihood NP log_likelihood k =
     (if \<not> isfinite log_likelihood
      then Inl (ValueErr (''log_likelihood must be finite (got '' @ float_repr NP log_likelihood @ '').''))
      else Inr (fp_sub NP (float_of_int NP (2 * k)) (fp_mul NP (Flt 2) log_likelihood)))"

definition aic :: "numerics \<Rightarrow> int \<Rightarrow> fp \<Rightarrow> int \<Rightarrow> fp result" where
  "aic NP n residual_sum_of_squares k =
     (if n \<le> k then Inl (ValueErr (''AIC requires more observations than parameters (n='' @ show_int n @ '', k='' @
        show_int k @ '').''))
      else
      rbind (gaussian_ols_log_likelihood NP n residual_sum_of_squares) (\<lambda>_.
      rbind (float_div_int NP residual_sum_of_squares n) (\<lambda>variance.
      rbind (math_log NP variance) (\<lambda>log_variance.
      Inr (fp_add NP (fp_mul NP (float_of_int NP n) log_variance) (float_of_int NP (2 * k)))))))"

definition aic_corrected :: "numerics \<Rightarrow> int \<Rightarrow> fp \<Rightarrow> int \<Rightarrow> fp result" where
  "aic_corrected NP n residual_sum_of_squares k =
     rbind (aic NP n residual_sum_of_squares k) (\<lambda>base_aic.
     (let denominator = n - k - 1 in
      if denominator \<le> 0 then Inl (ValueErr (''AICc requires n > k + 1 (n='' @ show_int n @ '', k='' @ show_int k @
        ''); the correction term's denominator is undefined otherwise.''))
      else
      rbind (int_div NP (2 * k * (k + 1)) denominator) (\<lambda>correction.
      (let result = fp_add NP base_aic correction in
       if \<not> isfinite result
       then Inl (ValueErr (''AICc did not evaluate to a finite value (got '' @ float_repr NP result @ '').''))
       else Inr result))))"

definition rmse :: "numerics \<Rightarrow> fp list \<Rightarrow> fp list \<Rightarrow> fp result" where
  "rmse NP y_true y_pred = rbind (validate_matching_lengths y_true y_pred) (\<lambda>(a, b).
     Inr (np_sqrt NP (np_mean NP (squares NP (differences NP a b)))))"

definition mae :: "numerics \<Rightarrow> fp list \<Rightarrow> fp list \<Rightarrow> fp result" where
  "mae NP y_true y_pred = rbind (validate_matching_lengths y_true y_pred) (\<lambda>(a, b).
     Inr (np_mean NP (map fp_abs (differences NP a b))))"

section \<open>The temporal split\<close>

definition temporal_train_validation_split ::
  "numerics \<Rightarrow> fp list \<Rightarrow> fp list \<Rightarrow> fp \<Rightarrow> ((fp list \<times> fp list) \<times> (fp list \<times> fp list)) result" where
  "temporal_train_validation_split NP x y train_ratio =
     (if \<not> (fp_less (Flt 0) train_ratio \<and> fp_less train_ratio (Flt 1))
      then Inl (ValueErr (''train_ratio must be in (0, 1), got '' @ float_repr NP train_ratio @ ''.''))
      else if length x \<noteq> length y
      then Inl (ValueErr (''x and y must have the same length (got '' @ show_nat (length x) @ '' and '' @
        show_nat (length y) @ '').''))
      else
      rbind (math_floor (fp_mul NP (float_of_int NP (int (length x))) train_ratio)) (\<lambda>split_index.
      if split_index < 1 \<or> int (length x) \<le> split_index
      then Inl (ValueErr (''train_ratio='' @ float_repr NP train_ratio @ '' leaves an empty train or validation '' @
        ''partition for n='' @ show_nat (length x) @ '' observations.''))
      else Inr ((take (nat split_index) x, take (nat split_index) y),
                (drop (nat split_index) x, drop (nat split_index) y))))"

section \<open>What the proofs use of floats\<close>

text \<open>
  A result below \<open>2 ^ 1023\<close> does not overflow and rounding at most doubles it; integers below \<open>2 ^ 53\<close> are exact; the
  logarithm of a float is small; a sum is a double; a matrix times a vector has a row per row; the solver fails with
  a \<open>LinAlgError\<close> only.
\<close>

definition float_laws :: "numerics \<Rightarrow> bool" where
  "float_laws NP \<longleftrightarrow>
     (\<forall>x. \<bar>x\<bar> < 2 ^ 1023 \<longrightarrow> (\<exists>y. rnd NP x = Flt y \<and> \<bar>y\<bar> \<le> 2 * \<bar>x\<bar>)) \<and>
     (\<forall>n. \<bar>n\<bar> < 2 ^ 53 \<longrightarrow> rnd NP (real_of_int n) = Flt (real_of_int n)) \<and>
     (\<forall>x y. rnd NP x = Flt y \<and> 0 < y \<longrightarrow> (\<exists>l. ln_of NP y = Flt l \<and> \<bar>l\<bar> \<le> 2200)) \<and>
     (\<forall>xs r. np_sum NP xs = Flt r \<longrightarrow> \<bar>r\<bar> < 2 ^ 1024) \<and>
     (\<forall>M c. length (np_matvec NP M c) = length M) \<and>
     (\<forall>M c e. np_lstsq NP M c = Inl e \<longrightarrow> (\<exists>m. e = LinAlgErr m))"

text \<open>The rounding of a double: to nearest, ties to even, 53 bits, exponents from -1074.\<close>

definition round_half_even :: "real \<Rightarrow> int" where
  "round_half_even z = (let d = z - of_int \<lfloor>z\<rfloor> in
     if d < 1 / 2 \<or> d = 1 / 2 \<and> even \<lfloor>z\<rfloor> then \<lfloor>z\<rfloor> else \<lfloor>z\<rfloor> + 1)"

definition double_exponent :: "real \<Rightarrow> int" where
  "double_exponent x = max (\<lfloor>log 2 \<bar>x\<bar>\<rfloor> - 52) (- 1074)"

definition round_double :: "real \<Rightarrow> fp" where
  "round_double x = (if x = 0 then Flt 0 else
     (let u = 2 powr of_int (double_exponent x); y = of_int (round_half_even (x / u)) * u in
      if 2 ^ 1024 \<le> \<bar>y\<bar> then FInf (0 < x) else Flt y))"

lemma round_half_even_near: "\<bar>of_int (round_half_even z) - z\<bar> \<le> 1 / 2"
  unfolding round_half_even_def Let_def by (auto; linarith)

lemma round_half_even_int [simp]: "round_half_even (of_int n) = n"
  by (simp add: round_half_even_def)

lemma round_half_even_double: "\<bar>of_int (round_half_even z)\<bar> \<le> 2 * \<bar>z\<bar>"
proof (cases "\<bar>z\<bar> < 1 / 2")
  case True
  have "round_half_even z = 0"
  proof (cases "0 \<le> z")
    case True
    then have "\<lfloor>z\<rfloor> = 0" using \<open>\<bar>z\<bar> < 1 / 2\<close> by linarith
    then show ?thesis using True \<open>\<bar>z\<bar> < 1 / 2\<close> by (simp add: round_half_even_def Let_def)
  next
    case False
    then have "\<lfloor>z\<rfloor> = - 1" using \<open>\<bar>z\<bar> < 1 / 2\<close> by linarith
    then show ?thesis using False \<open>\<bar>z\<bar> < 1 / 2\<close> by (simp add: round_half_even_def Let_def)
  qed
  then show ?thesis by simp
next
  case False
  then show ?thesis using round_half_even_near [of z] by linarith
qed

lemma round_double_bounds:
  assumes "\<bar>x\<bar> < 2 ^ 1023"
  shows "\<exists>y. round_double x = Flt y \<and> \<bar>y\<bar> \<le> 2 * \<bar>x\<bar>"
proof (cases "x = 0")
  case False
  define u :: real where "u = 2 powr of_int (double_exponent x)"
  define m where "m = round_half_even (x / u)"
  have u: "0 < u" by (simp add: u_def)
  have "\<bar>of_int m * u\<bar> = \<bar>of_int m\<bar> * u" using u by (simp add: abs_mult)
  also have "\<dots> \<le> 2 * \<bar>x / u\<bar> * u"
    using u by (intro mult_right_mono) (simp_all only: m_def round_half_even_double less_imp_le)
  also have "\<dots> = 2 * \<bar>x\<bar>" using u by simp
  finally have small: "\<bar>of_int m * u\<bar> \<le> 2 * \<bar>x\<bar>" .
  also have "2 * \<bar>x\<bar> < 2 * 2 ^ 1023" using assms by (rule mult_strict_left_mono) simp
  also have "\<dots> = 2 ^ Suc 1023" by (rule power_Suc [symmetric])
  also have "\<dots> = 2 ^ 1024" by (rule arg_cong [where f = "power 2"]) simp
  finally have "\<not> 2 ^ 1024 \<le> \<bar>of_int m * u\<bar>" by (simp only: not_le)
  then have "round_double x = Flt (of_int m * u)"
    using False by (simp add: round_double_def Let_def u_def m_def)
  then show ?thesis using small by blast
qed (simp add: round_double_def)

lemma round_double_int:
  assumes "\<bar>n\<bar> < 2 ^ 53"
  shows "round_double (of_int n) = Flt (of_int n)"
proof (cases "n = 0")
  case False
  define e where "e = double_exponent (of_int n)"
  have "\<bar>real_of_int n\<bar> < of_int (2 ^ 53)" using assms by (simp only: of_int_less_iff flip: of_int_abs)
  then have top: "\<bar>real_of_int n\<bar> < 2 powr 53" using powr_realpow [of 2 53] by simp
  then have "log 2 \<bar>real_of_int n\<bar> < 53" using False by (simp add: log_less_iff)
  then have e: "e \<le> 0" by (simp add: e_def double_exponent_def floor_less_iff)
  define k where "k = nat (- e)"
  have u: "2 powr of_int e = inverse (2 ^ k :: real)"
    using e by (simp add: k_def powr_minus powr_realpow [symmetric] flip: powr_minus)
  have "of_int n / 2 powr of_int e = real_of_int (n * 2 ^ k)" by (simp add: u divide_inverse)
  then have "round_half_even (of_int n / 2 powr of_int e) = n * 2 ^ k" by (simp only: round_half_even_int)
  then have "of_int (round_half_even (of_int n / 2 powr of_int e)) * 2 powr of_int e = real_of_int n"
    by (simp add: u)
  moreover have "\<not> 2 ^ 1024 \<le> \<bar>real_of_int n\<bar>"
  proof -
    have "(2 :: real) powr 53 \<le> 2 powr 1024" by (rule powr_mono) simp_all
    then have "\<bar>real_of_int n\<bar> < 2 powr 1024" using top by (rule less_le_trans [rotated])
    then show ?thesis using powr_realpow [of 2 1024] by simp
  qed
  ultimately show ?thesis using False by (simp add: round_double_def Let_def e_def)
qed (simp add: round_double_def)

lemma round_double_range:
  assumes "round_double x = Flt y" "0 < y"
  shows "2 powr - 1074 \<le> y" "y < 2 powr 1024"
proof -
  define u :: real where "u = 2 powr of_int (double_exponent x)"
  define m where "m = round_half_even (x / u)"
  have "x \<noteq> 0" using assms by (auto simp: round_double_def)
  then have y: "y = of_int m * u" and top: "\<not> 2 ^ 1024 \<le> \<bar>y\<bar>"
    using assms(1) by (auto simp: round_double_def Let_def u_def m_def split: if_splits)
  have u: "0 < u" "2 powr - 1074 \<le> u"
    by (simp_all add: u_def double_exponent_def)
  have "0 < m" using assms(2) y u(1) by (simp add: zero_less_mult_iff)
  then have "1 * u \<le> of_int m * u" using u(1) by (intro mult_right_mono) simp_all
  then show "2 powr - 1074 \<le> y" using u(2) y by linarith
  have "(2 :: real) ^ 1024 = 2 powr 1024" using powr_realpow [of 2 1024] by simp
  then show "y < 2 powr 1024" using top assms(2) by linarith
qed

lemma ln_double_small:
  assumes "2 powr - 1074 \<le> (y :: real)" "y < 2 powr 1024"
  shows "\<bar>ln y\<bar> \<le> 1074"
proof -
  have ln2: "0 \<le> ln (2 :: real)" "ln (2 :: real) \<le> 1" using ln_le_minus_one [of 2] by simp_all
  have pos: "0 < y" using assms(1) by (rule less_le_trans [rotated]) simp
  have "ln (2 powr - 1074) \<le> ln y" using assms(1) pos by (subst ln_le_cancel_iff) simp_all
  moreover have "ln y \<le> ln (2 powr 1024)" using assms(2) pos by (subst ln_le_cancel_iff) simp_all
  moreover have "ln (2 powr - 1074 :: real) = - 1074 * ln 2" "ln (2 powr 1024 :: real) = 1024 * ln 2"
    by (simp_all only: ln_powr)
  ultimately show ?thesis using ln2 by (simp only: abs_le_iff) linarith
qed

text \<open>Doubles, with the logarithm rounded to nearest, obey the laws, whatever numpy computes.\<close>

lemma double_laws:
  assumes "rnd NP = round_double" "ln_of NP = (\<lambda>x. round_double (ln x))"
    and "\<And>xs r. np_sum NP xs = Flt r \<Longrightarrow> \<bar>r\<bar> < 2 ^ 1024"
    and "\<And>M c. length (np_matvec NP M c) = length M"
    and "\<And>M c e. np_lstsq NP M c = Inl e \<Longrightarrow> \<exists>m. e = LinAlgErr m"
  shows "float_laws NP"
proof -
  have "\<exists>l. round_double (ln y) = Flt l \<and> \<bar>l\<bar> \<le> 2200" if "round_double x = Flt y" "0 < y" for x y
  proof -
    have small: "\<bar>ln y\<bar> \<le> 1074" by (intro ln_double_small round_double_range [OF that])
    have "(1074 :: real) < 2 ^ 11" by simp
    also have "\<dots> \<le> 2 ^ 1023" by (rule power_increasing) simp_all
    finally have "\<bar>ln y\<bar> < 2 ^ 1023" using small by (rule le_less_trans [rotated])
    from round_double_bounds [OF this] show ?thesis using small by force
  qed
  then show ?thesis using round_double_bounds round_double_int assms(3,4,5)
    unfolding float_laws_def assms(1,2) by blast
qed

section \<open>What the metrics answer\<close>

lemma isfinite_simps [simp]: "isfinite (Flt x)" "\<not> isfinite (FInf s)" "\<not> isfinite FNaN"
  by (simp_all add: isfinite_def)

lemma isfinite_iff: "isfinite a \<longleftrightarrow> (\<exists>x. a = Flt x)"
  by (cases a) simp_all

lemma fp_le_zero [simp]: "fp_le (Flt x) (Flt 0) \<longleftrightarrow> x \<le> 0"
  by (auto simp: fp_le_def fp_eq_def)

text \<open>No array and no list of parameters is longer than this.\<close>

definition array_size :: "int \<Rightarrow> bool" where
  "array_size n \<longleftrightarrow> 0 \<le> n \<and> n < 2 ^ 52"

lemma array_size_real:
  assumes "array_size n"
  shows "0 \<le> real_of_int n" "real_of_int n < 2 ^ 52"
proof -
  have "real_of_int n < of_int (2 ^ 52)" using assms by (simp only: array_size_def of_int_less_iff)
  then show "real_of_int n < 2 ^ 52" by simp
  show "0 \<le> real_of_int n" using assms by (simp add: array_size_def)
qed

lemma float_of_size:
  assumes "float_laws NP" "array_size n"
  shows "float_of_int NP n = Flt (of_int n)" "float_of_int NP (2 * n) = Flt (2 * of_int n)"
proof -
  have "\<bar>n\<bar> < 2 ^ 53" "\<bar>2 * n\<bar> < 2 ^ 53" using assms(2) by (simp_all add: array_size_def)
  moreover have "rnd NP (real_of_int i) = Flt (real_of_int i)" if "\<bar>i\<bar> < 2 ^ 53" for i
    using assms(1) that unfolding float_laws_def by blast
  ultimately show "float_of_int NP n = Flt (of_int n)" "float_of_int NP (2 * n) = Flt (2 * of_int n)"
    by (force simp: float_of_int_def)+
qed

lemma rnd_small:
  assumes "float_laws NP" "\<bar>x\<bar> < 2 ^ 1023"
  obtains y where "rnd NP x = Flt y" "\<bar>y\<bar> \<le> 2 * \<bar>x\<bar>"
  using assms unfolding float_laws_def by blast

lemma rnd_below:
  assumes "float_laws NP" "\<bar>x\<bar> \<le> 2 ^ 100"
  obtains y where "rnd NP x = Flt y" "\<bar>y\<bar> \<le> 2 * \<bar>x\<bar>"
proof -
  have "(2 :: real) ^ 100 < 2 ^ 1023" by (rule power_strict_increasing) simp_all
  with assms(2) have "\<bar>x\<bar> < 2 ^ 1023" by (rule le_less_trans)
  from rnd_small [OF assms(1) this] show thesis using that .
qed

lemma ln_small:
  assumes "float_laws NP" "rnd NP x = Flt y" "0 < y"
  obtains l where "ln_of NP y = Flt l" "\<bar>l\<bar> \<le> 2200"
  using assms unfolding float_laws_def by blast

lemma int_div_two [simp]: "int_div NP a 2 = Inr (rnd NP (of_int a / 2))"
  by (simp add: int_div_def)

lemma math_log_ValueErr: "math_log NP a = Inl e \<Longrightarrow> \<exists>m. e = ValueErr m"
  by (auto simp: math_log_def split: if_splits)

lemma float_div_size:
  assumes "float_laws NP" "array_size n" "1 \<le> n"
  shows "float_div_int NP a n = Inr (fp_div NP a (Flt (of_int n)))"
  using assms(3) by (simp add: float_div_int_def float_of_size [OF assms(1,2)] fp_eq_def)

text \<open>\<open>aic\<close> fails with a \<open>ValueError\<close> only; its value is finite, and the residual sum was positive.\<close>

lemma aic_error:
  assumes "float_laws NP" "array_size n" "0 \<le> k" "aic NP n r k = Inl e"
  shows "\<exists>m. e = ValueErr m"
proof (cases "n \<le> k")
  case False
  then have n: "1 \<le> n" using assms(3) by linarith
  show ?thesis
    using assms(4) False
    by (auto simp: aic_def gaussian_ols_log_likelihood_def float_div_size [OF assms(1,2) n] rbind_Inl_iff
        split: if_splits dest: math_log_ValueErr)
qed (use assms(4) in \<open>auto simp: aic_def\<close>)

lemma aic_corrected_error:
  assumes "float_laws NP" "array_size n" "0 \<le> k" "aic_corrected NP n r k = Inl e"
  shows "\<exists>m. e = ValueErr m"
  using assms(4) aic_error [OF assms(1,2,3)]
  by (auto simp: aic_corrected_def Let_def int_div_def rbind_Inl_iff split: if_splits)

lemma aic_corrected_finite: "aic_corrected NP n r k = Inr a \<Longrightarrow> isfinite a"
  by (auto simp: aic_corrected_def Let_def result_iff split: if_splits)

lemma aic_formula_finite:
  assumes laws: "float_laws NP" and n: "array_size n" and k: "array_size k" and l: "\<bar>l\<bar> \<le> 2200"
  shows "isfinite (fp_add NP (fp_mul NP (float_of_int NP n) (Flt l)) (float_of_int NP (2 * k)))"
proof -
  note N = array_size_real [OF n] and K = array_size_real [OF k]
  have "\<bar>real_of_int n * l\<bar> \<le> 2 ^ 52 * 2200"
    unfolding abs_mult using N l by (intro mult_mono) simp_all
  then have small: "\<bar>real_of_int n * l\<bar> \<le> 2 ^ 64" by simp
  then have "\<bar>real_of_int n * l\<bar> \<le> 2 ^ 100" by simp
  from rnd_below [OF laws this] obtain p where p: "rnd NP (real_of_int n * l) = Flt p" "\<bar>p\<bar> \<le> 2 * \<bar>real_of_int n * l\<bar>"
    by metis
  have "\<bar>p + 2 * real_of_int k\<bar> \<le> 2 ^ 100" using p(2) small K by simp
  from rnd_below [OF laws this] obtain q where "rnd NP (p + 2 * real_of_int k) = Flt q" by metis
  then show ?thesis by (simp add: float_of_size [OF laws] n k p(1))
qed

lemma aic_finite:
  assumes laws: "float_laws NP" and n: "array_size n" and k: "array_size k" "1 \<le> k"
    and r: "\<bar>r\<bar> < 2 ^ 1024" and ok: "aic NP n (Flt r) k = Inr a"
  shows "isfinite a \<and> 0 < r \<and> k < n"
proof -
  have "k < n" and pos: "0 < r" using ok by (auto simp: aic_def gaussian_ols_log_likelihood_def split: if_splits)
  then have one: "2 \<le> real_of_int n" "1 \<le> n" using k(2) by simp_all
  have "r / of_int n \<le> r / 2" using pos one by (intro divide_left_mono) simp_all
  also have "\<dots> < 2 ^ 1024 / 2" using r pos by (intro divide_strict_right_mono) simp_all
  also have "\<dots> = 2 * 2 ^ 1023 / 2" unfolding power_Suc [symmetric] by (rule arg_cong [where f = "\<lambda>i. 2 ^ i / 2"]) simp
  finally have "\<bar>r / of_int n\<bar> < 2 ^ 1023" using pos one by simp
  from rnd_small [OF laws this] obtain w where w: "rnd NP (r / of_int n) = Flt w" by metis
  have w0: "0 < w" using ok one w
    by (auto simp: aic_def float_div_size [OF laws n one(2)] math_log_def result_iff split: if_splits)
  obtain l where l: "ln_of NP w = Flt l" "\<bar>l\<bar> \<le> 2200" using ln_small [OF laws w w0] by metis
  have "a = fp_add NP (fp_mul NP (float_of_int NP n) (Flt l)) (float_of_int NP (2 * k))"
    using ok one w w0 l by (auto simp: aic_def float_div_size [OF laws n one(2)] math_log_def result_iff split: if_splits)
  then show ?thesis using aic_formula_finite [OF laws n k(1) l(2)] \<open>k < n\<close> pos by simp
qed

section \<open>The shortcut and the general form\<close>

text \<open>Arithmetic without rounding, for what the formulas mean.\<close>

definition exact_floats :: "numerics \<Rightarrow> bool" where
  "exact_floats NP \<longleftrightarrow> rnd NP = Flt \<and> ln_of NP = (\<lambda>x. Flt (ln x)) \<and> pi_value NP = pi"

lemma exact_formulas:
  assumes "exact_floats NP" "0 \<le> k" "k < n" "0 < r"
  shows "gaussian_ols_log_likelihood NP n (Flt r) =
      Inr (Flt (- (of_int n / 2) * ln (2 * pi) - of_int n / 2 * ln (r / of_int n) - of_int n / 2))"
    and "aic NP n (Flt r) k = Inr (Flt (of_int n * ln (r / of_int n) + 2 * of_int k))"
proof -
  have n: "0 < real_of_int n" using assms(2,3) by simp
  then have q: "0 < r / real_of_int n" using assms(4) by simp
  show ll: "gaussian_ols_log_likelihood NP n (Flt r) =
      Inr (Flt (- (of_int n / 2) * ln (2 * pi) - of_int n / 2 * ln (r / of_int n) - of_int n / 2))"
    using assms n q by (simp add: gaussian_ols_log_likelihood_def exact_floats_def float_div_int_def float_of_int_def
        math_log_def fp_eq_def fp_sub_def not_le)
  show "aic NP n (Flt r) k = Inr (Flt (of_int n * ln (r / of_int n) + 2 * of_int k))"
    using assms n q ll by (simp add: aic_def exact_floats_def float_div_int_def float_of_int_def
        math_log_def fp_eq_def not_le)
qed

text \<open>The AIC by the general form, the variance counted as a parameter.\<close>

definition general_aic :: "numerics \<Rightarrow> int \<Rightarrow> fp \<Rightarrow> int \<Rightarrow> fp result" where
  "general_aic NP n r k = rbind (gaussian_ols_log_likelihood NP n r) (\<lambda>l. aic_from_log_likelihood NP l (k + 1))"

text \<open>
  C39: The AIC of the engine against the general one.  Without rounding, the criterion \<open>aic\<close> computes from the
  residual sum of squares differs from the one by the log likelihood by \<open>n ln (2 pi) + n + 2\<close>: two models fitted on
  the same number of observations compare the same by either.  Models fitted on different numbers of
  observations, as an AR(1) and an AR(2) of one series are, compare differently: by \<open>ln (2 pi) + 1\<close> per observation.
\<close>
theorem aic_is_the_likelihood_shortcut:
  assumes "exact_floats NP" and "0 \<le> k" "k < n" "0 < r" and "0 \<le> k'" "k' < n'" "0 < r'"
  shows "\<exists>a a' g g'. aic NP n (Flt r) k = Inr (Flt a) \<and> aic NP n' (Flt r') k' = Inr (Flt a') \<and>
     general_aic NP n (Flt r) k = Inr (Flt g) \<and> general_aic NP n' (Flt r') k' = Inr (Flt g') \<and>
     g = a + (of_int n * ln (2 * pi) + of_int n + 2) \<and>
     g' - g = (a' - a) + of_int (n' - n) * (ln (2 * pi) + 1) \<and> (n = n' \<longrightarrow> (a < a' \<longleftrightarrow> g < g'))"
proof -
  define a where "a n r k = real_of_int n * ln (r / of_int n) + 2 * of_int k" for n k and r :: real
  define c where "c n = real_of_int n * ln (2 * pi) + of_int n + 2" for n :: int
  have short: "aic NP n (Flt r) k = Inr (Flt (a n r k))" if "0 \<le> k" "k < n" "0 < r" for n k r
    using exact_formulas(2) [OF assms(1) that] by (simp add: a_def)
  have general: "general_aic NP n (Flt r) k = Inr (Flt (a n r k + c n))" if "0 \<le> k" "k < n" "0 < r" for n k r
    using exact_formulas(1) [OF assms(1) that] assms(1)
    by (simp add: general_aic_def aic_from_log_likelihood_def exact_floats_def float_of_int_def fp_sub_def a_def c_def
        algebra_simps)
  have gap: "c n' - c n = of_int (n' - n) * (ln (2 * pi) + 1)" by (simp add: c_def algebra_simps)
  show ?thesis
    unfolding short [OF assms(2-4)] short [OF assms(5-7)] general [OF assms(2-4)] general [OF assms(5-7)]
    by (rule exI [of _ "a n r k"], rule exI [of _ "a n' r' k'"], rule exI [of _ "a n r k + c n"],
        rule exI [of _ "a n' r' k' + c n'"]) (use gap in \<open>auto simp: c_def\<close>)
qed

text \<open>A concrete numpy, over a given rounding, logarithm and solver of least squares.\<close>

definition fl_plus :: "(real \<Rightarrow> fp) \<Rightarrow> fp \<Rightarrow> fp \<Rightarrow> fp" where
  "fl_plus rd a b = (case (a, b) of (Flt x, Flt y) \<Rightarrow> rd (x + y) | _ \<Rightarrow> FNaN)"

definition fl_map :: "(real \<Rightarrow> fp) \<Rightarrow> fp \<Rightarrow> fp" where
  "fl_map f a = (case a of Flt x \<Rightarrow> f x | _ \<Rightarrow> FNaN)"

definition fl_sum :: "(real \<Rightarrow> fp) \<Rightarrow> fp list \<Rightarrow> fp" where
  "fl_sum rd xs = foldr (fl_plus rd) xs (rd 0)"

definition fl_mean :: "(real \<Rightarrow> fp) \<Rightarrow> fp list \<Rightarrow> fp" where
  "fl_mean rd xs = fl_map (\<lambda>t. rd (t / real (length xs))) (fl_sum rd xs)"

definition fl_std :: "(real \<Rightarrow> fp) \<Rightarrow> fp list \<Rightarrow> fp" where
  "fl_std rd xs = (let m = fl_mean rd xs in
     fl_map (\<lambda>t. rd (sqrt t)) (fl_mean rd (map (\<lambda>a. fl_map (\<lambda>x. fl_map (\<lambda>c. rd ((x - c) ^ 2)) m) a) xs)))"

definition fl_matvec :: "(real \<Rightarrow> fp) \<Rightarrow> fp list list \<Rightarrow> fp list \<Rightarrow> fp list" where
  "fl_matvec rd M c = map (\<lambda>row. fl_sum rd (map (\<lambda>(a, b). fl_map (\<lambda>x. fl_map (\<lambda>y. rd (x * y)) b) a) (zip row c))) M"

definition plain_numerics ::
  "(real \<Rightarrow> fp) \<Rightarrow> (real \<Rightarrow> fp) \<Rightarrow> (fp list list \<Rightarrow> fp list \<Rightarrow> (fp list \<times> nat) result) \<Rightarrow> numerics" where
  "plain_numerics rd lg lstsq =
     \<lparr>rnd = rd, ln_of = lg, pi_value = pi, float_repr = (\<lambda>a. ''?''),
      np_power = (\<lambda>a p. fl_map (\<lambda>x. rd (x ^ p)) a), np_sqrt = fl_map (\<lambda>x. rd (sqrt x)),
      np_sum = fl_sum rd, np_mean = fl_mean rd, np_std = fl_std rd, np_matvec = fl_matvec rd,
      np_lstsq = lstsq\<rparr>"

definition exact_numerics :: numerics where
  "exact_numerics = plain_numerics Flt (\<lambda>x. Flt (ln x)) (\<lambda>M y. Inl (LinAlgErr ''SVD did not converge''))"

lemma aic_is_the_likelihood_shortcut_witness:
  "\<exists>a a' g g'. aic exact_numerics 9 (Flt 3) 2 = Inr (Flt a) \<and> aic exact_numerics 8 (Flt 2) 3 = Inr (Flt a') \<and>
     general_aic exact_numerics 9 (Flt 3) 2 = Inr (Flt g) \<and> general_aic exact_numerics 8 (Flt 2) 3 = Inr (Flt g') \<and>
     g' - g = (a' - a) - (ln (2 * pi) + 1)"
  using aic_is_the_likelihood_shortcut [of exact_numerics 2 9 3 3 8 2]
  by (force simp: exact_floats_def exact_numerics_def plain_numerics_def)

end
