(* ===== verification/ModelSelection.thy ===== *)
theory ModelSelection
  imports ModelMetrics
begin

text \<open>
  The model selection engine: the results of \<open>model_selection/types.py\<close>, the candidates of
  \<open>model_selection/models.py\<close> and the selector of \<open>model_selection/selector.py\<close>.  A candidate is the record of
  its attributes and bound methods (the protocol \<open>CandidateModel\<close>); a dash in a message is written \<open>--\<close>.
  An interface of the candidates is stated as a locale and proved for both kinds the engine ships.
\<close>

section \<open>Results\<close>

record ModelCandidateResult =
  r_model_name :: string
  r_parameter_count :: int
  r_valid :: bool
  r_invalid_reason :: "string option"
  r_aic :: "fp option"
  r_rss :: "fp option"
  r_rmse :: "fp option"
  r_mae :: "fp option"
  r_aicc :: "fp option"

record ModelSelectionResult =
  sel_selected_model :: "ModelCandidateResult option"
  sel_candidates :: "ModelCandidateResult list"
  sel_train_size :: nat
  sel_validation_size :: nat

section \<open>Candidates\<close>

record FittedModel =
  fm_coefficients :: "fp list"
  fm_parameter_count :: int
  fm_x_center :: "fp option"
  fm_x_scale :: "fp option"

record CandidateModel =
  cm_name :: string
  cm_parameter_count :: int
  cm_fit :: "fp list \<Rightarrow> fp list \<Rightarrow> FittedModel result"
  cm_predict :: "FittedModel \<Rightarrow> fp list \<Rightarrow> fp list result"

subsection \<open>Polynomials\<close>

record PolynomialRegressionModel =
  pm_degree :: nat
  pm_name :: string

definition or_name :: "string option \<Rightarrow> string \<Rightarrow> string" where
  "or_name name fallback = (case name of None \<Rightarrow> fallback | Some s \<Rightarrow> if s = [] then fallback else s)"

definition new_polynomial :: "int \<Rightarrow> string option \<Rightarrow> PolynomialRegressionModel result" where
  "new_polynomial degree name =
     (if degree < 1 then Inl (ValueErr (''degree must be >= 1, got '' @ show_int degree @ ''.''))
      else Inr \<lparr>pm_degree = nat degree, pm_name = or_name name
        (if degree = 1 then ''linear_regression'' else ''polynomial_regression_'' @ show_int degree)\<rparr>)"

definition polynomial_parameter_count :: "PolynomialRegressionModel \<Rightarrow> int" where
  "polynomial_parameter_count m = int (pm_degree m) + 1"

definition design_matrix :: "numerics \<Rightarrow> PolynomialRegressionModel \<Rightarrow> fp list \<Rightarrow> fp \<Rightarrow> fp \<Rightarrow> fp list list" where
  "design_matrix NP m x center scale =
     map (\<lambda>v. map (\<lambda>power. np_power NP (fp_div NP (fp_sub NP v center) scale) power) [0..<pm_degree m + 1]) x"

definition polynomial_scale :: "numerics \<Rightarrow> fp list \<Rightarrow> fp" where
  "polynomial_scale NP x = (let scale = np_std NP x in
     if fp_eq scale (Flt 0) \<or> \<not> isfinite scale then Flt 1 else scale)"

definition polynomial_fit :: "numerics \<Rightarrow> PolynomialRegressionModel \<Rightarrow> fp list \<Rightarrow> fp list \<Rightarrow> FittedModel result" where
  "polynomial_fit NP m x y =
     (let center = np_mean NP x; scale = polynomial_scale NP x; columns = pm_degree m + 1 in
      rbind (np_lstsq NP (design_matrix NP m x center scale) y) (\<lambda>(coefficients, rank).
      if rank < columns then Inl (ModelFitErr (pm_name m @ '': design matrix is rank-deficient (rank='' @
        show_nat rank @ '', expected '' @ show_nat columns @ '') -- too few distinct x values for degree '' @
        show_nat (pm_degree m) @ '', or not enough observations.''))
      else Inr \<lparr>fm_coefficients = coefficients, fm_parameter_count = int columns,
        fm_x_center = Some center, fm_x_scale = Some scale\<rparr>))"

definition polynomial_predict :: "numerics \<Rightarrow> PolynomialRegressionModel \<Rightarrow> FittedModel \<Rightarrow> fp list \<Rightarrow> fp list result" where
  "polynomial_predict NP m fitted x = (case (fm_x_center fitted, fm_x_scale fitted) of
      (Some center, Some scale) \<Rightarrow> Inr (np_matvec NP (design_matrix NP m x center scale) (fm_coefficients fitted))
    | _ \<Rightarrow> Inl (ValueErr (pm_name m @ '': fitted.x_center/x_scale are missing -- this FittedModel '' @
        ''wasn't produced by PolynomialRegressionModel.fit().'')))"

definition polynomial :: "numerics \<Rightarrow> PolynomialRegressionModel \<Rightarrow> CandidateModel" where
  "polynomial NP m = \<lparr>cm_name = pm_name m, cm_parameter_count = polynomial_parameter_count m,
     cm_fit = polynomial_fit NP m, cm_predict = polynomial_predict NP m\<rparr>"

subsection \<open>Autoregression\<close>

record AutoregressiveModel =
  am_order :: nat
  am_name :: string

definition new_autoregressive :: "int \<Rightarrow> string option \<Rightarrow> AutoregressiveModel result" where
  "new_autoregressive order name =
     (if order < 1 then Inl (ValueErr (''order must be >= 1, got '' @ show_int order @ ''.''))
      else Inr \<lparr>am_order = nat order, am_name = or_name name (''ar_'' @ show_int order)\<rparr>)"

definition autoregressive_parameter_count :: "AutoregressiveModel \<Rightarrow> int" where
  "autoregressive_parameter_count m = int (am_order m) + 1"

definition require_same_series :: "AutoregressiveModel \<Rightarrow> fp list \<Rightarrow> fp list \<Rightarrow> fp list result" where
  "require_same_series m x y =
     (if \<not> list_all2 fp_eq x y then Inl (ModelFitErr (am_name m @ '': x and y must be the identical series -- an '' @
        ''autoregressive model predicts a series from its own lags, not from an independent feature. Call '' @
        ''ModelSelector.select(returns, returns), passing the same series twice.''))
      else Inr y)"

text \<open>The slice \<open>series[order - lag : n - lag]\<close>.\<close>

definition lag_column :: "fp list \<Rightarrow> nat \<Rightarrow> nat \<Rightarrow> fp list" where
  "lag_column series order lag = take ((length series - lag) - (order - lag)) (drop (order - lag) series)"

definition lagged_design_matrix :: "AutoregressiveModel \<Rightarrow> fp list \<Rightarrow> (fp list list \<times> fp list) result" where
  "lagged_design_matrix m series = (let n = length series; order = am_order m in
     if n \<le> order then Inl (ModelFitErr (am_name m @ '': needs more than order='' @ show_nat order @
       '' observations, got '' @ show_nat n @ ''.''))
     else Inr (map (\<lambda>i. Flt 1 # map (\<lambda>lag. lag_column series order lag ! i) [1..<order + 1]) [0..<n - order],
               drop order series))"

definition autoregressive_fit :: "numerics \<Rightarrow> AutoregressiveModel \<Rightarrow> fp list \<Rightarrow> fp list \<Rightarrow> FittedModel result" where
  "autoregressive_fit NP m x y =
     rbind (require_same_series m x y) (\<lambda>series.
     rbind (lagged_design_matrix m series) (\<lambda>(design, target).
     rbind (np_lstsq NP design target) (\<lambda>(coefficients, rank).
     (let columns = am_order m + 1 in
      if rank < columns then Inl (ModelFitErr (am_name m @ '': design matrix is rank-deficient (rank='' @
        show_nat rank @ '', expected '' @ show_nat columns @ '').''))
      else Inr \<lparr>fm_coefficients = coefficients, fm_parameter_count = int columns,
        fm_x_center = None, fm_x_scale = None\<rparr>))))"

definition autoregressive_predict :: "numerics \<Rightarrow> AutoregressiveModel \<Rightarrow> FittedModel \<Rightarrow> fp list \<Rightarrow> fp list result" where
  "autoregressive_predict NP m fitted series =
     (if length series \<le> am_order m then Inr []
      else rbind (lagged_design_matrix m series) (\<lambda>(design, target).
        Inr (np_matvec NP design (fm_coefficients fitted))))"

definition autoregressive :: "numerics \<Rightarrow> AutoregressiveModel \<Rightarrow> CandidateModel" where
  "autoregressive NP m = \<lparr>cm_name = am_name m, cm_parameter_count = autoregressive_parameter_count m,
     cm_fit = autoregressive_fit NP m, cm_predict = autoregressive_predict NP m\<rparr>"

subsection \<open>The shipped candidates\<close>

definition default_candidates :: "numerics \<Rightarrow> CandidateModel list result" where
  "default_candidates NP = rmap (\<lambda>degree. rbind (new_polynomial degree None) (\<lambda>m. Inr (polynomial NP m))) [1, 2, 3]"

definition default_autoregressive_candidates :: "numerics \<Rightarrow> CandidateModel list result" where
  "default_autoregressive_candidates NP =
     rmap (\<lambda>order. rbind (new_autoregressive order None) (\<lambda>m. Inr (autoregressive NP m))) [1, 2]"

section \<open>The selector\<close>

record ModelSelector =
  ms_candidates :: "CandidateModel list"
  ms_train_ratio :: fp

definition new_model_selector :: "numerics \<Rightarrow> CandidateModel list option \<Rightarrow> fp \<Rightarrow> ModelSelector result" where
  "new_model_selector NP candidates train_ratio =
     rbind (case candidates of Some cs \<Rightarrow> Inr cs | None \<Rightarrow> default_candidates NP) (\<lambda>resolved.
     if resolved = [] then Inl (ValueErr ''candidates must not be empty.'')
     else Inr \<lparr>ms_candidates = resolved, ms_train_ratio = train_ratio\<rparr>)"

definition validate_input :: "fp list \<Rightarrow> fp list \<Rightarrow> (fp list \<times> fp list) result" where
  "validate_input x y =
     (if x = [] \<or> y = [] then Inl (ValueErr ''x and y must not be empty.'')
      else if length x \<noteq> length y then Inl (ValueErr (''x and y must have the same length (got '' @
        show_nat (length x) @ '' and '' @ show_nat (length y) @ '').''))
      else if \<not> list_all isfinite x then Inl (ValueErr ''x contains NaN or infinite values.'')
      else if \<not> list_all isfinite y then Inl (ValueErr ''y contains NaN or infinite values.'')
      else Inr (x, y))"

definition invalid_result :: "CandidateModel \<Rightarrow> string \<Rightarrow> ModelCandidateResult" where
  "invalid_result model reason = \<lparr>r_model_name = cm_name model, r_parameter_count = cm_parameter_count model,
     r_valid = False, r_invalid_reason = Some reason, r_aic = None, r_rss = None, r_rmse = None, r_mae = None,
     r_aicc = None\<rparr>"

text \<open>The last rows of the target: the ones a candidate predicted.\<close>

definition aligned :: "'a list \<Rightarrow> 'b list \<Rightarrow> 'a list" where
  "aligned y predictions = drop (length y - length predictions) y"

text \<open>\<open>_evaluate_candidate\<close>, cut after the fit and after the training metrics.\<close>

definition evaluate_on_validation ::
  "numerics \<Rightarrow> CandidateModel \<Rightarrow> FittedModel \<Rightarrow> fp list \<Rightarrow> fp list \<Rightarrow> fp \<Rightarrow> fp \<Rightarrow> fp option
     \<Rightarrow> ModelCandidateResult result" where
  "evaluate_on_validation NP model fitted x_val y_val train_rss model_aic model_aicc =
     rbind (cm_predict model fitted x_val) (\<lambda>validation_predictions.
     if validation_predictions = [] then
       Inr (invalid_result model ''fitted model produced no predictions on validation.'')
     else if \<not> list_all isfinite validation_predictions then
       Inr (invalid_result model ''fitted model produced non-finite predictions on validation.'')
     else
     rbind (rmse NP (aligned y_val validation_predictions) validation_predictions) (\<lambda>model_rmse.
     rbind (mae NP (aligned y_val validation_predictions) validation_predictions) (\<lambda>model_mae.
     if \<not> (isfinite model_rmse \<and> isfinite model_mae) then
       Inr (invalid_result model ''RMSE/MAE on validation is not finite.'')
     else Inr \<lparr>r_model_name = cm_name model, r_parameter_count = fm_parameter_count fitted, r_valid = True,
       r_invalid_reason = None, r_aic = Some model_aic, r_rss = Some train_rss, r_rmse = Some model_rmse,
       r_mae = Some model_mae, r_aicc = model_aicc\<rparr>)))"

definition evaluate_fitted ::
  "numerics \<Rightarrow> CandidateModel \<Rightarrow> FittedModel \<Rightarrow> fp list \<Rightarrow> fp list \<Rightarrow> fp list \<Rightarrow> fp list \<Rightarrow> ModelCandidateResult result" where
  "evaluate_fitted NP model fitted x_train y_train x_val y_val =
     rbind (cm_predict model fitted x_train) (\<lambda>train_predictions.
     if train_predictions = [] then
       Inr (invalid_result model ''fitted model produced no predictions on train.'')
     else if \<not> list_all isfinite train_predictions then
       Inr (invalid_result model ''fitted model produced non-finite predictions on train.'')
     else
     rbind (rss NP (aligned y_train train_predictions) train_predictions) (\<lambda>train_rss.
     if \<not> isfinite train_rss then Inr (invalid_result model ''RSS on train is not finite.'')
     else
     (let n_train_effective = int (length train_predictions) in
      case aic NP n_train_effective train_rss (fm_parameter_count fitted) of
        Inl (ValueErr reason) \<Rightarrow> Inr (invalid_result model reason)
      | Inl e \<Rightarrow> Inl e
      | Inr model_aic \<Rightarrow>
        (case aic_corrected NP n_train_effective train_rss (fm_parameter_count fitted) of
           Inl (ValueErr reason) \<Rightarrow>
             evaluate_on_validation NP model fitted x_val y_val train_rss model_aic None
         | Inl e \<Rightarrow> Inl e
         | Inr model_aicc \<Rightarrow>
             evaluate_on_validation NP model fitted x_val y_val train_rss model_aic (Some model_aicc)))))"

definition evaluate_candidate ::
  "numerics \<Rightarrow> CandidateModel \<Rightarrow> fp list \<Rightarrow> fp list \<Rightarrow> fp list \<Rightarrow> fp list \<Rightarrow> ModelCandidateResult result" where
  "evaluate_candidate NP model x_train y_train x_val y_val = (case cm_fit model x_train y_train of
      Inl (ModelFitErr reason) \<Rightarrow> Inr (invalid_result model reason)
    | Inl (LinAlgErr reason) \<Rightarrow>
        Inr (invalid_result model (cm_name model @ '': numerical error while fitting ('' @ reason @ '').''))
    | Inl e \<Rightarrow> Inl e
    | Inr fitted \<Rightarrow> evaluate_fitted NP model fitted x_train y_train x_val y_val)"

text \<open>\<open>_sort_key\<close>, how Python compares two keys, and the stable sort by it.\<close>

definition sort_key_of :: "ModelCandidateResult \<Rightarrow> int \<times> fp" where
  "sort_key_of result = (case r_aic result of
      Some a \<Rightarrow> if r_valid result then (0, a) else (1, Flt 0)
    | None \<Rightarrow> (1, Flt 0))"

definition key_less :: "int \<times> fp \<Rightarrow> int \<times> fp \<Rightarrow> bool" where
  "key_less k l \<longleftrightarrow> fst k < fst l \<or> fst k = fst l \<and> fp_less (snd k) (snd l)"

fun insert_result :: "ModelCandidateResult \<Rightarrow> ModelCandidateResult list \<Rightarrow> ModelCandidateResult list" where
  "insert_result r [] = [r]"
| "insert_result r (s # rs) =
     (if key_less (sort_key_of s) (sort_key_of r) then s # insert_result r rs else r # s # rs)"

definition sort_results :: "ModelCandidateResult list \<Rightarrow> ModelCandidateResult list" where
  "sort_results rs = foldr insert_result rs []"

definition select :: "numerics \<Rightarrow> ModelSelector \<Rightarrow> fp list \<Rightarrow> fp list \<Rightarrow> ModelSelectionResult result" where
  "select NP selector x y =
     rbind (validate_input x y) (\<lambda>(x_array, y_array).
     rbind (temporal_train_validation_split NP x_array y_array (ms_train_ratio selector))
       (\<lambda>((x_train, y_train), (x_val, y_val)).
     rbind (rmap (\<lambda>model. evaluate_candidate NP model x_train y_train x_val y_val) (ms_candidates selector))
       (\<lambda>results.
     (let sorted_results = sort_results results; valid_results = filter r_valid sorted_results in
      Inr \<lparr>sel_selected_model = (case valid_results of [] \<Rightarrow> None | r # _ \<Rightarrow> Some r),
        sel_candidates = sorted_results, sel_train_size = length x_train, sel_validation_size = length x_val\<rparr>))))"

end
