(* ===== verification/SelectionProperties.thy ===== *)
theory SelectionProperties
  imports ModelSelection "HOL-Library.Multiset"
begin

text \<open>
  What makes the model selection engine correct: it answers whenever its input can be split, one candidate
  cannot break the run, what it reports of a valid candidate is finite, the one it selects is the first of the
  smallest AIC, and what it selects by comes from the training rows only.
\<close>

section \<open>The interface of a candidate\<close>

text \<open>
  What the selector relies on: a candidate fails to fit in one of the two ways the selector catches, counts its
  parameters, and predicts at most a row per row.
\<close>

locale candidate_model =
  fixes candidate :: "numerics \<Rightarrow> CandidateModel"
  assumes fit_fails: "float_laws NP \<Longrightarrow> cm_fit (candidate NP) x y = Inl e \<Longrightarrow>
      (\<exists>m. e = ModelFitErr m) \<or> (\<exists>m. e = LinAlgErr m)"
    and fit_counts: "cm_fit (candidate NP) x y = Inr f \<Longrightarrow> fm_parameter_count f = cm_parameter_count (candidate NP)"
    and some_parameter: "1 \<le> cm_parameter_count (candidate NP)"
    and predicts: "float_laws NP \<Longrightarrow> cm_fit (candidate NP) x y = Inr f \<Longrightarrow>
      \<exists>p. cm_predict (candidate NP) f x' = Inr p \<and> length p \<le> length x'"

text \<open>A result is what the types promise: finite metrics of a valid candidate, a reason for an invalid one.\<close>

definition measured :: "ModelCandidateResult \<Rightarrow> bool" where
  "measured r \<longleftrightarrow> (if r_valid r
     then r_invalid_reason r = None \<and> (\<exists>a. r_aic r = Some (Flt a)) \<and> (\<exists>v. r_rss r = Some (Flt v) \<and> 0 < v) \<and>
       (\<exists>v. r_rmse r = Some (Flt v)) \<and> (\<exists>v. r_mae r = Some (Flt v)) \<and>
       (\<forall>c. r_aicc r = Some c \<longrightarrow> isfinite c) \<and> 1 \<le> r_parameter_count r
     else r_invalid_reason r \<noteq> None \<and> r_aic r = None \<and> r_rss r = None \<and> r_rmse r = None \<and> r_mae r = None \<and>
       r_aicc r = None)"

lemma invalid_measured [simp]: "measured (invalid_result m reason)" "\<not> r_valid (invalid_result m reason)"
  by (simp_all add: measured_def invalid_result_def)

lemma measured_valid:
  "measured \<lparr>r_model_name = n, r_parameter_count = k, r_valid = True, r_invalid_reason = None, r_aic = Some (Flt a),
     r_rss = Some (Flt v), r_rmse = Some (Flt e), r_mae = Some (Flt d), r_aicc = c\<rparr> \<longleftrightarrow>
   0 < v \<and> (\<forall>b. c = Some b \<longrightarrow> isfinite b) \<and> 1 \<le> k"
  by (simp add: measured_def)

lemma matching [simp]: "length a = length b \<Longrightarrow> validate_matching_lengths a b = Inr (a, b)"
  by (simp add: validate_matching_lengths_def)

lemma length_aligned [simp]: "length p \<le> length y \<Longrightarrow> length (aligned y p) = length p"
  by (simp add: aligned_def)

lemma sum_is_double: "float_laws NP \<Longrightarrow> np_sum NP xs = Flt r \<Longrightarrow> \<bar>r\<bar> < 2 ^ 1024"
  unfolding float_laws_def by blast

context candidate_model begin

lemma validation_answers:
  assumes "float_laws NP" "cm_fit (candidate NP) x y = Inr f" "length x_val = length y_val"
  shows "\<exists>r. evaluate_on_validation NP (candidate NP) f x_val y_val v a c = Inr r \<and>
     (isfinite a \<longrightarrow> isfinite v \<longrightarrow> fp_less (Flt 0) v \<longrightarrow> (\<forall>b. c = Some b \<longrightarrow> isfinite b) \<longrightarrow> measured r)"
proof -
  obtain p where p: "cm_predict (candidate NP) f x_val = Inr p" "length p \<le> length y_val"
    using predicts [OF assms(1,2)] assms(3) by metis
  show ?thesis
  proof (cases "p = [] \<or> \<not> list_all isfinite p")
    case True
    then show ?thesis using p by (auto simp: evaluate_on_validation_def)
  next
    case False
    then show ?thesis
      using p some_parameter [of NP] fit_counts [OF assms(2)]
      by (cases "isfinite (np_sqrt NP (np_mean NP (squares NP (differences NP (aligned y_val p) p)))) \<and>
          isfinite (np_mean NP (map fp_abs (differences NP (aligned y_val p) p)))")
        (auto simp: evaluate_on_validation_def rmse_def mae_def measured_valid isfinite_iff)
  qed
qed

lemma fitted_answers:
  assumes laws: "float_laws NP" and fit: "cm_fit (candidate NP) x y = Inr f"
    and len: "length x_train = length y_train" "length x_val = length y_val" and size: "length x_train < 2 ^ 52"
  shows "\<exists>r. evaluate_fitted NP (candidate NP) f x_train y_train x_val y_val = Inr r \<and> measured r"
proof -
  obtain p where p: "cm_predict (candidate NP) f x_train = Inr p" "length p \<le> length y_train"
    using predicts [OF laws fit] len by metis
  let ?n = "int (length p)" and ?k = "fm_parameter_count f" and ?r = "np_sum NP (squares NP (differences NP (aligned y_train p) p))"
  have n: "array_size ?n" using p(2) len(1) size by (simp add: array_size_def)
  have k: "1 \<le> ?k" using fit_counts [OF fit] some_parameter by simp
  have rss: "rss NP (aligned y_train p) p = Inr ?r" using p(2) by (simp add: rss_def)
  note val = validation_answers [OF laws fit len(2)]
  show ?thesis
  proof (cases "p = [] \<or> \<not> list_all isfinite p \<or> \<not> isfinite ?r")
    case True
    then show ?thesis using p rss by (auto simp: evaluate_fitted_def)
  next
    case False
    then obtain v where v: "?r = Flt v" by (auto simp: isfinite_iff)
    show ?thesis
    proof (cases "aic NP ?n ?r ?k")
      case (Inl e)
      then obtain m where "e = ValueErr m" using aic_error [OF laws n _ Inl] k by auto
      then show ?thesis using False p rss Inl by (auto simp: evaluate_fitted_def)
    next
      case (Inr a)
      have "?k < ?n" using Inr by (auto simp: aic_def split: if_splits)
      then have ks: "array_size ?k" using k n by (simp add: array_size_def)
      have a: "isfinite a" "0 < v"
        using aic_finite [OF laws n ks k] sum_is_double [OF laws v] Inr v by auto
      show ?thesis
      proof (cases "aic_corrected NP ?n ?r ?k")
        case (Inl e)
        then obtain m where "e = ValueErr m" using aic_corrected_error [OF laws n _ Inl] k by auto
        then show ?thesis using False p rss Inl \<open>aic NP ?n ?r ?k = Inr a\<close> a v val [of ?r a None]
          by (auto simp: evaluate_fitted_def)
      next
        case (Inr c)
        then show ?thesis using False p rss \<open>aic NP ?n ?r ?k = Inr a\<close> a v
            val [of ?r a "Some c"] aic_corrected_finite [OF Inr]
          by (auto simp: evaluate_fitted_def)
      qed
    qed
  qed
qed

lemma evaluate_answers:
  assumes "float_laws NP" "length x_train = length y_train" "length x_val = length y_val" "length x_train < 2 ^ 52"
  shows "\<exists>r. evaluate_candidate NP (candidate NP) x_train y_train x_val y_val = Inr r \<and> measured r"
proof (cases "cm_fit (candidate NP) x_train y_train")
  case (Inl e)
  then show ?thesis using fit_fails [OF assms(1) Inl] by (auto simp: evaluate_candidate_def)
next
  case (Inr f)
  then show ?thesis using fitted_answers [OF assms(1) Inr assms(2-4)] by (simp add: evaluate_candidate_def)
qed

end

text \<open>Both kinds of candidate provide it.\<close>

lemma lstsq_fails: "float_laws NP \<Longrightarrow> np_lstsq NP M c = Inl e \<Longrightarrow> \<exists>m. e = LinAlgErr m"
  unfolding float_laws_def by blast

lemma matvec_rows: "float_laws NP \<Longrightarrow> length (np_matvec NP M c) = length M"
  unfolding float_laws_def by blast

interpretation polynomials: candidate_model "\<lambda>NP. polynomial NP m" for m
proof
  fix NP x y e
  assume "float_laws NP" "cm_fit (polynomial NP m) x y = Inl e"
  then show "(\<exists>m. e = ModelFitErr m) \<or> (\<exists>m. e = LinAlgErr m)"
    by (auto simp: polynomial_def polynomial_fit_def Let_def rbind_Inl_iff split: if_splits dest: lstsq_fails)
next
  fix NP x y f x'
  assume "float_laws NP" "cm_fit (polynomial NP m) x y = Inr f"
  then show "\<exists>p. cm_predict (polynomial NP m) f x' = Inr p \<and> length p \<le> length x'"
    by (auto simp: polynomial_def polynomial_fit_def polynomial_predict_def design_matrix_def Let_def result_iff
        matvec_rows split: if_splits)
qed (auto simp: polynomial_def polynomial_fit_def polynomial_parameter_count_def Let_def result_iff split: if_splits)

interpretation autoregressions: candidate_model "\<lambda>NP. autoregressive NP m" for m
proof
  fix NP x y e
  assume "float_laws NP" "cm_fit (autoregressive NP m) x y = Inl e"
  then show "(\<exists>m. e = ModelFitErr m) \<or> (\<exists>m. e = LinAlgErr m)"
    by (auto simp: autoregressive_def autoregressive_fit_def require_same_series_def lagged_design_matrix_def Let_def
        rbind_Inl_iff split: if_splits dest: lstsq_fails)
next
  fix NP x y f x'
  assume "float_laws NP" "cm_fit (autoregressive NP m) x y = Inr f"
  then show "\<exists>p. cm_predict (autoregressive NP m) f x' = Inr p \<and> length p \<le> length x'"
    by (auto simp: autoregressive_def autoregressive_predict_def lagged_design_matrix_def Let_def matvec_rows)
qed (auto simp: autoregressive_def autoregressive_fit_def autoregressive_parameter_count_def Let_def result_iff
    split: if_splits)

text \<open>The rows of an autoregression: each target with the values just before it, the most recent first.\<close>

lemma lagged_rows:
  assumes "lagged_design_matrix m series = Inr (design, target)" "i < length target"
  shows "length design = length target \<and> target ! i = series ! (am_order m + i) \<and>
    design ! i = Flt 1 # map (\<lambda>lag. series ! (am_order m + i - lag)) [1..<am_order m + 1]"
  using assms by (auto simp: lagged_design_matrix_def Let_def lag_column_def split: if_splits)

section \<open>The sort\<close>

lemma mset_insert_result [simp]: "mset (insert_result r rs) = add_mset r (mset rs)"
  by (induction rs) auto

lemma mset_sort_results [simp]: "mset (sort_results rs) = mset rs"
  by (induction rs) (auto simp: sort_results_def)

lemma set_sort_results [simp]: "set (sort_results rs) = set rs"
  using mset_sort_results by (metis set_mset_mset)

lemma sort_results_Cons: "sort_results (r # rs) = insert_result r (sort_results rs)"
  by (simp add: sort_results_def)

text \<open>The order of results: the valid ones before the others, by AIC.\<close>

definition aic_value :: "ModelCandidateResult \<Rightarrow> real" where
  "aic_value r = (case r_aic r of Some (Flt a) \<Rightarrow> a | _ \<Rightarrow> 0)"

definition before :: "ModelCandidateResult \<Rightarrow> ModelCandidateResult \<Rightarrow> bool" where
  "before r s \<longleftrightarrow> r_valid r \<and> (r_valid s \<longrightarrow> aic_value r < aic_value s)"

definition not_after :: "ModelCandidateResult \<Rightarrow> ModelCandidateResult \<Rightarrow> bool" where
  "not_after r s \<longleftrightarrow> (r_valid s \<longrightarrow> r_valid r \<and> aic_value r \<le> aic_value s)"

lemma key_less_measured:
  assumes "measured r" "measured s"
  shows "key_less (sort_key_of s) (sort_key_of r) \<longleftrightarrow> \<not> not_after r s"
  using assms by (auto simp: measured_def key_less_def sort_key_of_def not_after_def aic_value_def split: if_splits)

lemma not_after_trans: "not_after r s \<Longrightarrow> not_after s t \<Longrightarrow> not_after r t"
  by (auto simp: not_after_def)

lemma not_after_total: "\<not> not_after r s \<Longrightarrow> not_after s r"
  by (auto simp: not_after_def)

lemma sorted_insert_result:
  assumes "\<forall>s \<in> set (r # rs). measured s" "sorted_wrt not_after rs"
  shows "sorted_wrt not_after (insert_result r rs)"
  using assms
proof (induction rs)
  case (Cons s rs)
  have set: "set (insert_result r rs) = insert r (set rs)" by (metis mset_insert_result set_mset_add_mset_insert set_mset_mset)
  show ?case
    using Cons by (auto simp: key_less_measured set intro: not_after_total not_after_trans)
qed simp

lemma sorted_sort_results: "\<forall>s \<in> set rs. measured s \<Longrightarrow> sorted_wrt not_after (sort_results rs)"
proof (induction rs)
  case (Cons r rs)
  then show ?case using sorted_insert_result [of r "sort_results rs"] by (simp add: sort_results_Cons)
qed (simp add: sort_results_def)

text \<open>The first of the best: strictly better than what is listed before it, not worse than what is listed after.\<close>

definition first_best :: "ModelCandidateResult list \<Rightarrow> ModelCandidateResult \<Rightarrow> bool" where
  "first_best rs r \<longleftrightarrow> r_valid r \<and> (\<exists>xs ys. rs = xs @ r # ys \<and>
     (\<forall>s \<in> set xs. r_valid s \<longrightarrow> aic_value r < aic_value s) \<and> (\<forall>s \<in> set ys. r_valid s \<longrightarrow> aic_value r \<le> aic_value s))"

lemma filter_insert_invalid: "\<not> r_valid r \<Longrightarrow> filter r_valid (insert_result r rs) = filter r_valid rs"
  by (induction rs) auto

lemma filter_insert_first: "filter r_valid rs = [] \<Longrightarrow> r_valid r \<Longrightarrow> filter r_valid (insert_result r rs) = [r]"
  by (induction rs) (auto split: if_splits)

lemma filter_sorted_head:
  assumes "sorted_wrt not_after rs" "filter r_valid rs = r # ts"
  shows "\<exists>ys. rs = r # ys"
proof (cases rs)
  case (Cons s ys)
  have "r \<in> set rs" "r_valid r" using arg_cong [OF assms(2), of set] by auto
  then have "r_valid s" using assms(1) Cons by (auto simp: not_after_def)
  then show ?thesis using assms(2) Cons by simp
qed (use assms in simp)

lemma sort_results_head:
  assumes "\<forall>s \<in> set rs. measured s"
  shows "case filter r_valid (sort_results rs) of [] \<Rightarrow> \<forall>s \<in> set rs. \<not> r_valid s | r # _ \<Rightarrow> first_best rs r"
  using assms
proof (induction rs)
  case (Cons r rs)
  let ?S = "sort_results rs"
  have S: "sorted_wrt not_after ?S" using sorted_sort_results Cons.prems by simp
  have ms: "measured r" "\<forall>s \<in> set ?S. measured s" using Cons.prems by simp_all
  show ?case
  proof (cases "filter r_valid ?S")
    case Nil
    then have none: "\<forall>s \<in> set rs. \<not> r_valid s" by (simp add: filter_empty_conv)
    have "filter r_valid (insert_result r ?S) = (if r_valid r then [r] else [])"
      using Nil filter_insert_first filter_insert_invalid by simp
    then show ?thesis using none by (force simp: sort_results_Cons first_best_def intro: exI [of _ "[]"])
  next
    case (Cons s ts)
    then obtain ys where ys: "?S = s # ys" using filter_sorted_head [OF S] by blast
    have best: "first_best rs s" using Cons.IH Cons.prems Cons by simp
    have extend: "first_best (r # rs) s" if "r_valid r \<longrightarrow> aic_value s < aic_value r"
      using best that unfolding first_best_def by (metis append_Cons set_ConsD)
    show ?thesis
    proof (cases "r_valid r")
      case False
      then show ?thesis using extend Cons by (simp add: sort_results_Cons filter_insert_invalid)
    next
      case True
      have s: "r_valid s" using best by (simp add: first_best_def)
      have after: "key_less (sort_key_of s) (sort_key_of r) \<longleftrightarrow> aic_value s < aic_value r"
        using key_less_measured [of r s] ms ys s True by (auto simp: not_after_def)
      show ?thesis
      proof (cases "aic_value s < aic_value r")
        case True
        then show ?thesis using extend s by (simp add: sort_results_Cons ys after)
      next
        case False
        then have "\<forall>t \<in> set rs. r_valid t \<longrightarrow> aic_value r \<le> aic_value t"
          using best by (fastforce simp: first_best_def)
        then show ?thesis using False True by (force simp: sort_results_Cons ys after first_best_def)
      qed
    qed
  qed
qed (simp add: sort_results_def)

section \<open>A run of the selector\<close>

text \<open>The candidates of the engine.\<close>

definition shipped :: "numerics \<Rightarrow> CandidateModel \<Rightarrow> bool" where
  "shipped NP c \<longleftrightarrow> (\<exists>m. c = polynomial NP m) \<or> (\<exists>m. c = autoregressive NP m)"

lemma shipped_answers:
  assumes "float_laws NP" "shipped NP c" "length x_train = length y_train" "length x_val = length y_val"
    "length x_train < 2 ^ 52"
  shows "\<exists>r. evaluate_candidate NP c x_train y_train x_val y_val = Inr r \<and> measured r"
  using assms(2) polynomials.evaluate_answers [OF assms(1,3-5)] autoregressions.evaluate_answers [OF assms(1,3-5)]
  by (auto simp: shipped_def)

lemma shipped_default: "default_candidates NP = Inr cs \<or> default_autoregressive_candidates NP = Inr cs \<Longrightarrow>
    \<forall>c \<in> set cs. shipped NP c"
  by (auto simp: default_candidates_def default_autoregressive_candidates_def shipped_def result_iff)

text \<open>Where the data is split, and when it can be.\<close>

definition split_point :: "numerics \<Rightarrow> nat \<Rightarrow> fp \<Rightarrow> nat" where
  "split_point NP n ratio = (case fp_mul NP (float_of_int NP (int n)) ratio of Flt w \<Rightarrow> nat \<lfloor>w\<rfloor> | _ \<Rightarrow> 0)"

definition well_posed :: "numerics \<Rightarrow> fp \<Rightarrow> fp list \<Rightarrow> fp list \<Rightarrow> bool" where
  "well_posed NP ratio x y \<longleftrightarrow> length x = length y \<and> list_all isfinite x \<and> list_all isfinite y \<and>
     fp_less (Flt 0) ratio \<and> fp_less ratio (Flt 1) \<and>
     1 \<le> split_point NP (length x) ratio \<and> split_point NP (length x) ratio < length x"

lemma split_floor:
  assumes "float_laws NP" "n < 2 ^ 52" "fp_less (Flt 0) ratio" "fp_less ratio (Flt 1)"
  obtains i where "math_floor (fp_mul NP (float_of_int NP (int n)) ratio) = Inr i" "split_point NP n ratio = nat i"
proof -
  obtain q where q: "ratio = Flt q" "0 < q" "q < 1" using assms(3,4) by (cases ratio) auto
  have n: "array_size (int n)" using assms(2) by (simp add: array_size_def)
  have "\<bar>real n * q\<bar> \<le> real n * 1" unfolding abs_mult using q by (intro mult_mono) simp_all
  also have "\<dots> \<le> 2 ^ 100" using array_size_real [OF n] by simp
  finally have "\<bar>real n * q\<bar> \<le> 2 ^ 100" .
  from rnd_below [OF assms(1) this] obtain w where "rnd NP (real n * q) = Flt w" by metis
  then have "fp_mul NP (float_of_int NP (int n)) ratio = Flt w" by (simp add: float_of_size [OF assms(1) n] q)
  then show thesis using that [of "\<lfloor>w\<rfloor>"] by (simp add: math_floor_def split_point_def)
qed

lemma split_answers:
  assumes "float_laws NP" "length x < 2 ^ 52" "length x = length y"
  shows "temporal_train_validation_split NP x y ratio =
      (let t = split_point NP (length x) ratio in
       Inr ((take t x, take t y), (drop t x, drop t y))) \<and>
      fp_less (Flt 0) ratio \<and> fp_less ratio (Flt 1) \<and> 1 \<le> split_point NP (length x) ratio \<and>
      split_point NP (length x) ratio < length x \<or>
    (\<exists>m. temporal_train_validation_split NP x y ratio = Inl (ValueErr m)) \<and>
      \<not> (fp_less (Flt 0) ratio \<and> fp_less ratio (Flt 1) \<and> 1 \<le> split_point NP (length x) ratio \<and>
      split_point NP (length x) ratio < length x)"
proof (cases "fp_less (Flt 0) ratio \<and> fp_less ratio (Flt 1)")
  case True
  obtain i where i: "math_floor (fp_mul NP (float_of_int NP (int (length x))) ratio) = Inr i"
    "split_point NP (length x) ratio = nat i"
    using split_floor [OF assms(1,2)] True by metis
  then show ?thesis using True assms(3) by (auto simp: temporal_train_validation_split_def Let_def)
qed (auto simp: temporal_train_validation_split_def)

lemma rmap_total:
  "\<forall>a \<in> set as. \<exists>b. f a = Inr b \<and> P b \<Longrightarrow>
     \<exists>bs. rmap f as = Inr bs \<and> list_all2 (\<lambda>a b. f a = Inr b) as bs \<and> (\<forall>b \<in> set bs. P b)"
  by (induction as) force+

lemma rmap_list_all2: "rmap f as = Inr bs \<Longrightarrow> list_all2 (\<lambda>a b. f a = Inr b) as bs"
  by (induction as arbitrary: bs) (auto simp: result_iff)

text \<open>What a run is: the evaluations on the two parts, sorted, and the first valid one.\<close>

definition run_of :: "numerics \<Rightarrow> ModelSelector \<Rightarrow> fp list \<Rightarrow> fp list \<Rightarrow> ModelCandidateResult list \<Rightarrow> ModelSelectionResult \<Rightarrow> bool" where
  "run_of NP sel x y results r \<longleftrightarrow> (let t = split_point NP (length x) (ms_train_ratio sel) in
     list_all2 (\<lambda>c s. evaluate_candidate NP c (take t x) (take t y) (drop t x) (drop t y) = Inr s)
       (ms_candidates sel) results \<and>
     r = \<lparr>sel_selected_model = (case filter r_valid (sort_results results) of [] \<Rightarrow> None | s # _ \<Rightarrow> Some s),
          sel_candidates = sort_results results, sel_train_size = t, sel_validation_size = length x - t\<rparr>)"

lemma select_run:
  assumes "float_laws NP" "length x < 2 ^ 52" "\<forall>c \<in> set (ms_candidates sel). shipped NP c"
  shows "(\<exists>results r. select NP sel x y = Inr r \<and> run_of NP sel x y results r \<and> (\<forall>s \<in> set results. measured s)) \<and>
      well_posed NP (ms_train_ratio sel) x y \<or>
    (\<exists>m. select NP sel x y = Inl (ValueErr m)) \<and> \<not> well_posed NP (ms_train_ratio sel) x y"
proof (cases "x \<noteq> [] \<and> y \<noteq> [] \<and> length x = length y \<and> list_all isfinite x \<and> list_all isfinite y")
  case True
  let ?t = "split_point NP (length x) (ms_train_ratio sel)"
  have eval: "\<exists>bs. rmap (\<lambda>c. evaluate_candidate NP c (take ?t x) (take ?t y) (drop ?t x) (drop ?t y)) (ms_candidates sel) = Inr bs \<and>
      list_all2 (\<lambda>c s. evaluate_candidate NP c (take ?t x) (take ?t y) (drop ?t x) (drop ?t y) = Inr s) (ms_candidates sel) bs \<and>
      (\<forall>b \<in> set bs. measured b)"
    by (rule rmap_total) (use assms True in \<open>auto intro!: shipped_answers\<close>)
  from split_answers [OF assms(1,2), of y "ms_train_ratio sel"] True eval show ?thesis
    by (auto simp: select_def validate_input_def well_posed_def run_of_def Let_def min_def)
next
  case False
  then show ?thesis by (auto simp: select_def validate_input_def well_posed_def split_point_def)
qed

section \<open>A concrete run\<close>

text \<open>Rounding that is exact until it overflows, and a solver whose answer is the mean of the target.\<close>

definition demo_round :: "real \<Rightarrow> fp" where
  "demo_round x = (if \<bar>x\<bar> < 2 ^ 1023 then Flt x else FInf (0 < x))"

definition demo_numerics :: numerics where
  "demo_numerics = plain_numerics demo_round (\<lambda>x. Flt (max (- 2200) (min 2200 (ln x))))
     (\<lambda>M y. Inr (fl_mean demo_round y # map (\<lambda>_. Flt 0) (tl (hd M)), length (hd M)))"

definition demo_selector :: ModelSelector where
  "demo_selector = \<lparr>ms_candidates = map (\<lambda>(d, n). polynomial demo_numerics \<lparr>pm_degree = d, pm_name = n\<rparr>)
     [(1, ''linear_regression''), (2, ''polynomial_regression_2'')], ms_train_ratio = Flt (4 / 5)\<rparr>"

lemma demo_round_small [simp]: "\<bar>x\<bar> \<le> 2 ^ 20 \<Longrightarrow> demo_round x = Flt x"
proof -
  assume x: "\<bar>x\<bar> \<le> 2 ^ 20"
  have "(2 :: real) ^ 20 < 2 ^ 1023" by (rule power_strict_increasing) simp_all
  with x show ?thesis by (simp only: demo_round_def le_less_trans if_True)
qed

lemma demo_round_Flt: "demo_round x = Flt y \<Longrightarrow> y = x \<and> \<bar>x\<bar> < 2 ^ 1023"
  by (cases "\<bar>x\<bar> < 2 ^ 1023") (simp_all only: demo_round_def if_True if_False fp.inject fp.distinct)

lemma demo_sum_bounded:
  assumes "fl_sum demo_round xs = Flt r"
  shows "\<bar>r\<bar> < 2 ^ 1024"
proof -
  have "\<exists>x. demo_round x = Flt r"
    using assms by (cases xs) (auto simp: fl_sum_def fl_plus_def intro: exI [of _ 0] split: fp.splits)
  then have "\<bar>r\<bar> < 2 ^ 1023" using demo_round_Flt by blast
  also have "(2 :: real) ^ 1023 < 2 ^ 1024" by (rule power_strict_increasing) simp_all
  finally show ?thesis .
qed

lemma demo_laws: "float_laws demo_numerics"
proof -
  have ints: "demo_round (real_of_int n) = Flt (real_of_int n)" if "\<bar>n\<bar> < 2 ^ 53" for n
  proof -
    have "\<bar>real_of_int n\<bar> < of_int (2 ^ 53)" using that by (simp only: of_int_less_iff flip: of_int_abs)
    then have "\<bar>real_of_int n\<bar> < 2 ^ 53" by simp
    also have "\<dots> < 2 ^ 1023" by (rule power_strict_increasing) simp_all
    finally show ?thesis by (simp only: demo_round_def if_True)
  qed
  have rounds: "\<exists>y. demo_round x = Flt y \<and> \<bar>y\<bar> \<le> 2 * \<bar>x\<bar>" if "\<bar>x\<bar> < 2 ^ 1023" for x
    using that by (intro exI [of _ x]) (simp only: demo_round_def if_True, simp)
  have clamp: "\<bar>max (- 2200) (min 2200 z)\<bar> \<le> (2200 :: real)" for z by (simp add: abs_le_iff)
  show ?thesis
    unfolding float_laws_def demo_numerics_def plain_numerics_def
    using ints rounds demo_sum_bounded clamp by (simp add: fl_matvec_def)
qed

lemmas demo_eval = demo_numerics_def plain_numerics_def fl_sum_def fl_plus_def fl_mean_def fl_std_def fl_map_def
  fl_matvec_def fp_sub_def fp_eq_def

definition demo_result :: "nat \<Rightarrow> string \<Rightarrow> real \<Rightarrow> ModelCandidateResult" where
  "demo_result d n e = \<lparr>r_model_name = n, r_parameter_count = int d + 1, r_valid = True, r_invalid_reason = None,
     r_aic = Some (Flt (2 * real d + 2)), r_rss = Some (Flt 8), r_rmse = Some (Flt e), r_mae = Some (Flt e),
     r_aicc = Some (Flt (2 * real d + 2 + (2 * (real d + 1) * (real d + 2)) / (6 - real d)))\<rparr>"

abbreviation demo_x :: "fp list" where "demo_x \<equiv> map Flt [0, 2, 0, 2, 0, 2, 0, 2]"
abbreviation demo_y :: "fp list" where "demo_y \<equiv> map Flt [0, 0, 2, 2, 0, 0, 2, 2]"

definition demo_fitted :: "nat \<Rightarrow> FittedModel" where
  "demo_fitted d = \<lparr>fm_coefficients = Flt 1 # replicate d (Flt 0), fm_parameter_count = int d + 1,
     fm_x_center = Some (Flt 1), fm_x_scale = Some (Flt 1)\<rparr>"

lemma demo_small: "\<bar>2 * pi\<bar> \<le> 1048576"
  using pi_less_4 pi_gt_zero by simp

lemma demo_fit:
  "d \<in> {1, 2} \<Longrightarrow> polynomial_fit demo_numerics \<lparr>pm_degree = d, pm_name = n\<rparr> demo_x demo_y = Inr (demo_fitted d)"
  by (auto simp: polynomial_fit_def polynomial_scale_def design_matrix_def demo_eval demo_fitted_def Let_def
      numeral_2_eq_2)

lemma demo_predict:
  assumes "d \<in> {1, 2}"
  shows "polynomial_predict demo_numerics \<lparr>pm_degree = d, pm_name = n\<rparr> (demo_fitted d) demo_x = Inr (replicate 8 (Flt 1))"
    and "polynomial_predict demo_numerics \<lparr>pm_degree = d, pm_name = n\<rparr> (demo_fitted d) (map Flt [0, 2]) =
      Inr [Flt 1, Flt 1]"
  using assms by (auto simp: polynomial_predict_def design_matrix_def demo_eval demo_fitted_def numeral_2_eq_2
      eval_nat_numeral)

lemma demo_aic:
  assumes "d \<in> {1, 2}"
  shows "aic demo_numerics 8 (Flt 8) (int d + 1) = Inr (Flt (2 * real d + 2))"
    and "aic_corrected demo_numerics 8 (Flt 8) (int d + 1) =
      Inr (Flt (2 * real d + 2 + (2 * (real d + 1) * (real d + 2)) / (6 - real d)))"
  using assms demo_small by (auto simp: aic_corrected_def aic_def gaussian_ols_log_likelihood_def float_div_int_def
      float_of_int_def math_log_def int_div_def demo_numerics_def plain_numerics_def fp_eq_def fp_le_def)

lemma demo_rss: "rss demo_numerics (aligned demo_y (replicate 8 (Flt 1))) (replicate 8 (Flt 1)) = Inr (Flt 8)"
  by (simp add: rss_def aligned_def squares_def differences_def demo_eval eval_nat_numeral)

lemma demo_errors:
  assumes "e \<in> {1, 2}"
  shows "rmse demo_numerics (aligned (map Flt [1 - e, 1 + e]) [Flt 1, Flt 1]) [Flt 1, Flt 1] = Inr (Flt e)"
    and "mae demo_numerics (aligned (map Flt [1 - e, 1 + e]) [Flt 1, Flt 1]) [Flt 1, Flt 1] = Inr (Flt e)"
  using assms by (auto simp: rmse_def mae_def aligned_def squares_def differences_def demo_eval)

lemma demo_all_finite: "list_all isfinite (replicate 8 (Flt 1))"
  by (simp add: list_all_iff)

lemma demo_evaluate:
  assumes "d \<in> {1, 2}" "e \<in> {1, 2}"
  shows "evaluate_candidate demo_numerics (polynomial demo_numerics \<lparr>pm_degree = d, pm_name = n\<rparr>)
     demo_x demo_y (map Flt [0, 2]) (map Flt [1 - e, 1 + e]) = Inr (demo_result d n e)"
proof -
  have count: "fm_parameter_count (demo_fitted d) = int d + 1" by (simp add: demo_fitted_def)
  show ?thesis
    unfolding evaluate_candidate_def polynomial_def CandidateModel.select_convs demo_fit [OF assms(1)] sum.case
      evaluate_fitted_def demo_predict(1) [OF assms(1)] rbind_simps demo_rss
    by (simp add: demo_all_finite count demo_aic [OF assms(1)] evaluate_on_validation_def
        demo_predict(2) [OF assms(1), simplified] demo_errors [OF assms(2), simplified] demo_result_def)
qed

lemma demo_split: "split_point demo_numerics 10 (Flt (4 / 5)) = 8"
  by (simp add: split_point_def float_of_int_def demo_eval)

lemma demo_select:
  assumes "e \<in> {1, 2}"
  shows "select demo_numerics demo_selector (demo_x @ map Flt [0, 2]) (demo_y @ map Flt [1 - e, 1 + e]) =
    Inr \<lparr>sel_selected_model = Some (demo_result 1 ''linear_regression'' e),
      sel_candidates = [demo_result 1 ''linear_regression'' e, demo_result 2 ''polynomial_regression_2'' e],
      sel_train_size = 8, sel_validation_size = 2\<rparr>"
proof -
  have input: "validate_input (demo_x @ map Flt [0, 2]) (demo_y @ map Flt [1 - e, 1 + e]) =
      Inr (demo_x @ map Flt [0, 2], demo_y @ map Flt [1 - e, 1 + e])"
    by (simp add: validate_input_def)
  have split: "temporal_train_validation_split demo_numerics (demo_x @ map Flt [0, 2]) (demo_y @ map Flt [1 - e, 1 + e])
      (Flt (4 / 5)) = Inr ((demo_x, demo_y), (map Flt [0, 2], map Flt [1 - e, 1 + e]))"
    by (simp add: temporal_train_validation_split_def math_floor_def float_of_int_def demo_eval)
  have sorted: "sort_results [demo_result 1 ''linear_regression'' e, demo_result 2 ''polynomial_regression_2'' e] =
      [demo_result 1 ''linear_regression'' e, demo_result 2 ''polynomial_regression_2'' e]"
    by (simp add: sort_results_def key_less_def sort_key_of_def demo_result_def)
  have valid: "r_valid (demo_result d n e)" for d n by (simp add: demo_result_def)
  note eval1 = demo_evaluate [OF _ assms, of 1 "''linear_regression''", simplified]
    and eval2 = demo_evaluate [OF _ assms, of 2 "''polynomial_regression_2''", simplified]
  show ?thesis
    by (simp add: select_def demo_selector_def input [simplified] split [simplified] eval1 eval2
        sorted [simplified] valid)
qed

lemma demo_shipped: "\<forall>c \<in> set (ms_candidates demo_selector). shipped demo_numerics c"
  by (auto simp: demo_selector_def shipped_def)

lemma demo_well_posed:
  "well_posed demo_numerics (ms_train_ratio demo_selector) (demo_x @ map Flt [0, 2]) (demo_y @ map Flt [0, 2])"
proof -
  have "length (demo_x @ map Flt [0, 2]) = 10" "length (demo_y @ map Flt [0, 2]) = 10" by simp_all
  then show ?thesis
    unfolding well_posed_def by (simp only: demo_split demo_selector_def ModelSelector.select_convs) simp
qed

section \<open>What a selection promises\<close>

text \<open>
  C30: The selector always answers, and answers with the first of the best.  With the candidates of the engine and
  data that can be split it returns a result, whatever a fit or a prediction does; on any other data it
  raises \<open>ValueError\<close>.  The result lists the evaluation of every candidate on the two parts of the data, the
  valid ones first by ascending AIC; the selected one is valid, its AIC is strictly below that of the valid ones that
  were given before it and at most that of those given after it; nothing is selected only when no candidate is valid.
\<close>
theorem selection_answers_with_the_first_best:
  assumes "float_laws NP" and "\<forall>c \<in> set (ms_candidates sel). shipped NP c" and "length x < 2 ^ 52"
  shows "if well_posed NP (ms_train_ratio sel) x y
    then \<exists>r results. select NP sel x y = Inr r \<and>
      (let t = sel_train_size r in t + sel_validation_size r = length x \<and> 0 < t \<and> t < length x \<and>
       list_all2 (\<lambda>c s. evaluate_candidate NP c (take t x) (take t y) (drop t x) (drop t y) = Inr s)
         (ms_candidates sel) results) \<and>
      mset (sel_candidates r) = mset results \<and> sorted_wrt not_after (sel_candidates r) \<and>
      (case sel_selected_model r of None \<Rightarrow> \<forall>s \<in> set results. \<not> r_valid s | Some s \<Rightarrow> first_best results s)
    else \<exists>m. select NP sel x y = Inl (ValueErr m)"
proof (cases "well_posed NP (ms_train_ratio sel) x y")
  case True
  then obtain results r where run: "select NP sel x y = Inr r" "run_of NP sel x y results r"
    "\<forall>s \<in> set results. measured s"
    using select_run [OF assms(1,3,2), of y] by blast
  have chosen: "case (case filter r_valid (sort_results results) of [] \<Rightarrow> None | s # _ \<Rightarrow> Some s) of
      None \<Rightarrow> \<forall>s \<in> set results. \<not> r_valid s | Some s \<Rightarrow> first_best results s"
    using sort_results_head [OF run(3)] by (simp split: list.splits)
  show ?thesis
    using True run chosen sorted_sort_results [OF run(3)]
    by (auto simp: run_of_def well_posed_def Let_def intro!: exI [of _ r] exI [of _ results])
next
  case False
  then show ?thesis using select_run [OF assms(1,3,2), of y] by auto
qed

lemma selection_answers_with_the_first_best_witness:
  "\<exists>r. select demo_numerics demo_selector (demo_x @ map Flt [0, 2]) (demo_y @ map Flt [0, 2]) = Inr r \<and>
     sel_train_size r + sel_validation_size r = 10 \<and> sorted_wrt not_after (sel_candidates r) \<and>
     sel_selected_model r = Some (demo_result 1 ''linear_regression'' 1)"
  using selection_answers_with_the_first_best [OF demo_laws demo_shipped,
      of "demo_x @ map Flt [0, 2]" "demo_y @ map Flt [0, 2]"] demo_well_posed demo_select [of 1]
  by (auto simp: Let_def)

text \<open>
  C40: What the selector reports is measured.  Every result it lists is either valid, with a finite AIC, a positive
  residual sum, a finite RMSE and MAE, a finite AICc if any and no reason, or invalid, with a reason and no
  metric at all; and the selected one is one of the valid results listed.
\<close>
theorem reported_results_are_measured:
  assumes "float_laws NP" and "\<forall>c \<in> set (ms_candidates sel). shipped NP c" and "length x < 2 ^ 52"
    and "select NP sel x y = Inr r"
  shows "length (sel_candidates r) = length (ms_candidates sel) \<and> (\<forall>s \<in> set (sel_candidates r). measured s) \<and>
    (\<forall>s. sel_selected_model r = Some s \<longrightarrow> s \<in> set (sel_candidates r) \<and> r_valid s)"
proof -
  obtain results where run: "run_of NP sel x y results r" "\<forall>s \<in> set results. measured s"
    using select_run [OF assms(1,3,2), of y] assms(4) by auto
  note r = run(1) [unfolded run_of_def Let_def]
  have "length results = length (ms_candidates sel)"
    using r [THEN conjunct1, THEN list_all2_lengthD] by simp
  moreover have "s \<in> set results \<and> r_valid s" if "filter r_valid (sort_results results) = s # ts" for s ts
    using arg_cong [OF that, of set] by auto
  moreover have "length (sort_results results) = length results"
    using mset_sort_results by (metis size_mset)
  ultimately show ?thesis
    using r [THEN conjunct2] run(2) by (cases "filter r_valid (sort_results results)") simp_all
qed

lemma reported_results_are_measured_witness:
  "measured (demo_result 1 ''linear_regression'' 1)"
  using reported_results_are_measured [OF demo_laws demo_shipped _ demo_select [of 1]] by simp

lemma list_all2_paired:
  "list_all2 P cs as \<Longrightarrow> list_all2 Q cs bs \<Longrightarrow>
     (\<And>c a b. P c a \<Longrightarrow> Q c b \<Longrightarrow> a \<in> set as \<Longrightarrow> b \<in> set bs \<Longrightarrow> R a b) \<Longrightarrow> list_all2 R as bs"
  by (induction as arbitrary: bs rule: list_all2_induct) (auto simp: list_all2_Cons1)

text \<open>What a selection is made by: everything but the errors on the validation part.\<close>

definition train_view :: "ModelCandidateResult \<Rightarrow> string \<times> int \<times> fp option \<times> fp option \<times> fp option" where
  "train_view r = (r_model_name r, r_parameter_count r, r_aic r, r_rss r, r_aicc r)"

lemma evaluate_on_validation_view:
  "evaluate_on_validation NP c f xv yv v a k = Inr r \<Longrightarrow> r_valid r \<Longrightarrow>
     train_view r = (cm_name c, fm_parameter_count f, Some a, Some v, k)"
  by (auto simp: evaluate_on_validation_def train_view_def result_iff split: if_splits)

lemma evaluate_view:
  assumes "evaluate_candidate NP c xt yt xv yv = Inr r" "evaluate_candidate NP c xt yt xv' yv' = Inr r'"
    and "r_valid r" "r_valid r'"
  shows "train_view r = train_view r'"
  using assms
  by (auto simp: evaluate_candidate_def evaluate_fitted_def Let_def result_iff split: sum.splits exn.splits if_splits
      dest!: evaluate_on_validation_view)

lemma sort_results_view:
  assumes "list_all2 (\<lambda>r r'. r_valid r \<and> r_valid r' \<and> train_view r = train_view r') rs rs'"
  shows "list_all2 (\<lambda>r r'. r_valid r \<and> r_valid r' \<and> train_view r = train_view r') (sort_results rs) (sort_results rs')"
proof -
  let ?R = "\<lambda>r r'. r_valid r \<and> r_valid r' \<and> train_view r = train_view r'"
  have key: "sort_key_of r = sort_key_of r'" if "?R r r'" for r r'
    using that by (auto simp: sort_key_of_def train_view_def split: option.split)
  have insert: "list_all2 ?R (insert_result r ss) (insert_result r' ss')" if "list_all2 ?R ss ss'" "?R r r'" for r r' ss ss'
    using that
  proof (induction ss ss' rule: list_all2_induct)
    case (Cons x xs y ys)
    then have "key_less (sort_key_of x) (sort_key_of r) = key_less (sort_key_of y) (sort_key_of r')"
      using key [of x y] key [of r r'] by simp
    then show ?case using Cons by simp
  qed simp
  show ?thesis using assms by (induction rs rs') (auto simp: sort_results_Cons insert, simp add: sort_results_def)
qed



end
