(* ===== verification/Cli.thy ===== *)
theory Cli
  imports BinanceProperties AuthSessions
begin

text \<open>
  The command line, \<open>cli.py\<close>: the bootstrap command and the read-only diagnostic of the exchange, with the lines
  they print, and the configuration of the database, \<open>database/connection.py\<close>.  The parsing of the arguments is
  argparse's: a command is what it yields.  The engine and its disposal belong to SQLAlchemy.
\<close>

section \<open>The diagnostic\<close>

text \<open>What a run has sent, printed and found failing.\<close>

record console =
  sent :: "http_request list"
  printed :: "string list"
  failures :: "string list"

definition say :: "string \<Rightarrow> console \<Rightarrow> console" where
  "say line k = k\<lparr>printed := printed k @ [line]\<rparr>"

definition fail :: "string \<Rightarrow> console \<Rightarrow> console" where
  "fail label k = k\<lparr>failures := failures k @ [label]\<rparr>"

text \<open>\<open>_run\<close>: an error of the client is a failed check, any other exception escapes.\<close>

definition run_check :: "rest \<Rightarrow> string \<Rightarrow> client_call \<Rightarrow> console \<Rightarrow> unit result \<times> console" where
  "run_check R label action k = (case call_client R action (sent k) of
      (Inr result, h) \<Rightarrow> (Inr (), say (label @ '': OK'') (k\<lparr>sent := h\<rparr>))
    | (Inl (BinanceErr error), h) \<Rightarrow>
        (Inr (), fail label (say (label @ '': FAIL ('' @ binance_err_str error @ '')'') (k\<lparr>sent := h\<rparr>)))
    | (Inl e, h) \<Rightarrow> (Inl e, k\<lparr>sent := h\<rparr>))"

definition check_permissions :: "rest \<Rightarrow> console \<Rightarrow> unit result \<times> console" where
  "check_permissions R k = (case call_client R (Service GetApiKeyPermissions) (sent k) of
      (Inl (BinanceErr error), h) \<Rightarrow>
        (Inr (), fail ''Permissions'' (say (''Permissions: FAIL ('' @ binance_err_str error @ '')'') (k\<lparr>sent := h\<rparr>)))
    | (Inl e, h) \<Rightarrow> (Inl e, k\<lparr>sent := h\<rparr>)
    | (Inr permissions, h) \<Rightarrow> (case jget_opt ''can_withdraw'' permissions of
        Inl e \<Rightarrow> (Inl e, k\<lparr>sent := h\<rparr>)
      | Inr can_withdraw \<Rightarrow>
          if can_withdraw = JBool False then (Inr (), say ''Permissions: READ_ONLY'' (k\<lparr>sent := h\<rparr>))
          else (Inr (), fail ''Permissions''
            (say ''Permissions: UNSAFE (withdrawals are enabled on this API key)'' (k\<lparr>sent := h\<rparr>)))))"

definition binance_checks :: "(string \<times> client_call) list" where
  "binance_checks = [(''Binance connection'', Ping), (''Account'', Service GetAccountInfo), (''Balances'', Service GetBalances),
     (''Market data'', Service (GetMarketData ''BTCUSDT'')), (''Open orders'', OpenOrders None)]"

fun run_checks :: "rest \<Rightarrow> (string \<times> client_call) list \<Rightarrow> console \<Rightarrow> unit result \<times> console" where
  "run_checks R [] k = (Inr (), k)"
| "run_checks R ((label, action) # checks) k = (case run_check R label action k of
     (Inl e, k') \<Rightarrow> (Inl e, k')
   | (Inr _, k') \<Rightarrow> run_checks R checks k')"

definition binance_check :: "env \<Rightarrow> rest \<Rightarrow> int result \<times> console" where
  "binance_check E R = (let start = \<lparr>sent = [], printed = [], failures = []\<rparr> in
     case new_client E R None None None of
       Inl (BinanceErr (BinanceConfigurationError error)) \<Rightarrow>
         (Inr 1, start\<lparr>printed := (''Binance connection: FAIL ('' @ error @ '')'') #
            map (\<lambda>label. label @ '': SKIPPED'')
              [''Account'', ''Balances'', ''Market data'', ''Open orders'', ''Permissions'']\<rparr>)
     | Inl e \<Rightarrow> (Inl e, start)
     | Inr client1 \<Rightarrow> (case run_checks client1 binance_checks start of
         (Inl e, k) \<Rightarrow> (Inl e, k)
       | (Inr _, k) \<Rightarrow> (case check_permissions client1 k of
           (Inl e, k') \<Rightarrow> (Inl e, k')
         | (Inr _, k') \<Rightarrow> (Inr (if failures k' \<noteq> [] then 1 else 0), k'))))"

section \<open>The commands\<close>

definition database_url_from_environment :: "env \<Rightarrow> string result" where
  "database_url_from_environment E = (case getenv E ''DATABASE_URL'' of
      Some (c # cs) \<Rightarrow> Inr (c # cs)
    | _ \<Rightarrow> Inl (RuntimeErr ''DATABASE_URL must be configured''))"

definition bootstrap_admin_command :: "env \<Rightarrow> string list M" where
  "bootstrap_admin_command E =
     bnd (lift (database_url_from_environment E)) (\<lambda>url.
     bnd (bootstrap_admin E) (\<lambda>admin.
     ret [''Super Admin bootstrap completed.'']))"

text \<open>The exceptions \<open>main\<close> turns into a message.\<close>

fun bootstrap_failure :: "exn \<Rightarrow> bool" where
  "bootstrap_failure (BootstrapConfigurationErr m) = True"
| "bootstrap_failure (BootstrapStateErr m) = True"
| "bootstrap_failure (RuntimeErr m) = True"
| "bootstrap_failure e = False"

text \<open>The exit code and the lines; the help text is argparse's.\<close>

definition main :: "env \<Rightarrow> rest \<Rightarrow> string option \<Rightarrow> (int \<times> string list) M" where
  "main E R command s =
     (if command = Some ''bootstrap-admin'' then
        (case bootstrap_admin_command E s of
           (Inr ls, t) \<Rightarrow> (Inr (0, ls), t)
         | (Inl e, t) \<Rightarrow> if bootstrap_failure e then (Inr (1, [''Bootstrap failed: '' @ str_exn e]), t) else (Inl e, t))
      else if command = Some ''binance-check'' then
        (case binance_check E R of
           (Inr code, k) \<Rightarrow> (Inr (code, printed k), s)
         | (Inl e, k) \<Rightarrow> (Inl e, s))
      else (Inr (0, []), s))"

section \<open>What the diagnostic tells\<close>

text \<open>The answers to a sequence of calls.\<close>

fun replies :: "rest \<Rightarrow> client_call list \<Rightarrow> http_request list \<Rightarrow> json result list" where
  "replies R [] h = []"
| "replies R (c # cs) h = fst (call_client R c h) # replies R cs (snd (call_client R c h))"

definition diagnostic_calls :: "client_call list" where
  "diagnostic_calls = map snd binance_checks @ [Service GetApiKeyPermissions]"

definition crashes :: "json result \<Rightarrow> bool" where
  "crashes r = (case r of Inl (BinanceErr b) \<Rightarrow> False | Inl e \<Rightarrow> True | Inr v \<Rightarrow> False)"

definition answered :: "json result \<Rightarrow> bool" where
  "answered r = (case r of Inl e \<Rightarrow> False | Inr v \<Rightarrow> True)"

definition denies_withdrawals :: "json result \<Rightarrow> bool" where
  "denies_withdrawals r = (case r of Inl e \<Rightarrow> False | Inr v \<Rightarrow> jget_opt ''can_withdraw'' v = Inr (JBool False))"

fun sent_after :: "rest \<Rightarrow> client_call list \<Rightarrow> http_request list \<Rightarrow> http_request list" where
  "sent_after R [] h = h"
| "sent_after R (c # cs) h = sent_after R cs (snd (call_client R c h))"

lemma replies_append: "replies R (cs @ ds) h = replies R cs h @ replies R ds (sent_after R cs h)"
  by (induction cs arbitrary: h) simp_all

lemma console_simps [simp]:
  "sent (say l k) = sent k" "failures (say l k) = failures k" "sent (fail l k) = sent k"
  "failures (fail l k) = failures k @ [l]"
  by (simp_all add: say_def fail_def)

lemma crashes_simps [simp]:
  "crashes (Inl e) \<longleftrightarrow> (\<forall>b. e \<noteq> BinanceErr b)" "\<not> crashes (Inr v)"
  "\<not> answered (Inl e)" "answered (Inr v)"
  by (auto simp: crashes_def answered_def split: exn.splits)

text \<open>One check, by what its call answers.\<close>

lemma run_check_outcome:
  assumes "call_client R c (sent k) = (r, h)"
  shows "if crashes r then \<exists>e. run_check R l c k = (Inl e, k\<lparr>sent := h\<rparr>)
    else \<exists>k'. run_check R l c k = (Inr (), k') \<and> sent k' = h \<and> (failures k' = [] \<longleftrightarrow> failures k = [] \<and> answered r)"
  using assms by (cases r) (auto simp: run_check_def split: exn.splits)

lemma run_checks_outcome:
  "if list_ex crashes (replies R (map snd cs) (sent k)) then \<exists>e k'. run_checks R cs k = (Inl e, k')
   else \<exists>k'. run_checks R cs k = (Inr (), k') \<and> sent k' = sent_after R (map snd cs) (sent k) \<and>
     (failures k' = [] \<longleftrightarrow> failures k = [] \<and> list_all answered (replies R (map snd cs) (sent k)))"
proof (induction cs arbitrary: k)
  case (Cons p cs)
  obtain l c where p: "p = (l, c)" by force
  obtain r h where call: "call_client R c (sent k) = (r, h)" by force
  show ?case
  proof (cases "crashes r")
    case True
    then show ?thesis using run_check_outcome [OF call, of l] by (auto simp: p call)
  next
    case False
    then obtain k' where k': "run_check R l c k = (Inr (), k')" "sent k' = h"
        "failures k' = [] \<longleftrightarrow> failures k = [] \<and> answered r"
      using run_check_outcome [OF call, of l] by auto
    then show ?thesis using Cons.IH [of k'] False by (auto simp: p call split: if_splits)
  qed
qed simp

text \<open>What is sent.\<close>

definition reads_only :: "nat \<Rightarrow> console \<Rightarrow> console \<Rightarrow> bool" where
  "reads_only n k k' \<longleftrightarrow> (\<exists>rqs. sent k' = sent k @ rqs \<and> length rqs \<le> n \<and> list_all (\<lambda>rq. hq_method rq = ''GET'') rqs)"

lemma reads_only_trans: "reads_only m k k' \<Longrightarrow> reads_only n k' k'' \<Longrightarrow> reads_only (m + n) k k''"
  unfolding reads_only_def by force

lemma call_reads:
  assumes "method_of c = ''GET''" "\<not> unnamed_order c" "call_client R c h = (r, h')"
  shows "\<exists>rq. h' = h @ [rq] \<and> hq_method rq = ''GET''"
  using call_client_sends [OF assms(2), of R h] assms(1,3) by (auto simp: sends_def request_of_def)

lemma run_check_reads:
  assumes "method_of c = ''GET''" "\<not> unnamed_order c"
  shows "reads_only 1 k (snd (run_check R l c k))"
proof -
  obtain r h where call: "call_client R c (sent k) = (r, h)" by force
  from call_reads [OF assms call] obtain rq where rq: "h = sent k @ [rq]" "hq_method rq = ''GET''" by blast
  have "sent (snd (run_check R l c k)) = h"
    using call by (cases r) (auto simp: run_check_def split: exn.splits)
  then show ?thesis using rq by (simp add: reads_only_def)
qed

lemma run_checks_reads:
  "\<forall>p \<in> set cs. method_of (snd p) = ''GET'' \<and> \<not> unnamed_order (snd p) \<Longrightarrow>
     reads_only (length cs) k (snd (run_checks R cs k))"
proof (induction cs arbitrary: k)
  case (Cons p cs)
  obtain l c where p: "p = (l, c)" by force
  obtain r k' where step: "run_check R l c k = (r, k')" by force
  have first: "reads_only 1 k k'" using run_check_reads [of c k R l] Cons.prems step by (simp add: p)
  show ?case
  proof (cases r)
    case (Inl e)
    then show ?thesis using first step by (auto simp: p reads_only_def)
  next
    case (Inr u)
    then show ?thesis using reads_only_trans [OF first Cons.IH [of k']] Cons.prems step by (simp add: p)
  qed
qed (simp add: reads_only_def)

lemma check_permissions_reads: "reads_only 1 k (snd (check_permissions R k))"
proof -
  obtain r h where call: "call_client R (Service GetApiKeyPermissions) (sent k) = (r, h)" by force
  from call_reads [OF _ _ call] obtain rq where rq: "h = sent k @ [rq]" "hq_method rq = ''GET''" by auto
  have "sent (snd (check_permissions R k)) = h"
    using call by (cases r) (auto simp: check_permissions_def split: exn.splits sum.splits)
  then show ?thesis using rq by (simp add: reads_only_def)
qed

text \<open>The permissions of a key are an object, so reading the flag never fails.\<close>

lemma permissions_object:
  assumes "call_client R (Service GetApiKeyPermissions) h = (Inr v, h')"
  shows "\<exists>j. jget_opt ''can_withdraw'' v = Inr j"
proof -
  obtain p where "curate [(''can_withdraw'', ''enableWithdrawals'')] p = Inr v"
    using assms by (auto simp: get_api_key_permissions_def parsed_def rbind_Inr_iff split: prod.splits)
  then have "has_fields [''can_withdraw''] v" by (auto dest: curate_fields)
  then show ?thesis by (auto simp: has_fields_def jget_opt_def split: json.splits)
qed

lemma check_permissions_outcome:
  assumes "call_client R (Service GetApiKeyPermissions) (sent k) = (r, h)"
  shows "if crashes r then \<exists>e k'. check_permissions R k = (Inl e, k')
    else \<exists>k'. check_permissions R k = (Inr (), k') \<and>
      (failures k' = [] \<longleftrightarrow> failures k = [] \<and> answered r \<and> denies_withdrawals r)"
proof (cases r)
  case (Inl e)
  then show ?thesis using assms by (auto simp: check_permissions_def split: exn.splits)
next
  case (Inr v)
  then obtain j where "jget_opt ''can_withdraw'' v = Inr j" using permissions_object assms by blast
  then show ?thesis using assms Inr by (simp add: check_permissions_def denies_withdrawals_def)
qed

lemma new_client_fails:
  "new_client E R None None None = Inl e \<Longrightarrow> \<exists>m. e = BinanceErr (BinanceConfigurationError m)"
  by (auto simp: new_client_def require_binance_value_def rbind_Inl_iff split: option.splits list.splits)

text \<open>
  C32: The diagnostic is read-only and its verdict is safe.  It sends at most six requests, all of them reads.  Without
  keys in the environment it exits with 1 and sends nothing.  With keys it makes its six calls; unless one of them raises
  something that is no error of the client, it exits with 0 exactly when all were answered and the
  exchange says that this key cannot withdraw, and with 1 otherwise.
\<close>
theorem diagnostic_is_read_only_and_truthful:
  "list_all (\<lambda>rq. hq_method rq = ''GET'') (sent (snd (binance_check E R))) \<and>
   length (sent (snd (binance_check E R))) \<le> 6 \<and>
   (case new_client E R None None None of
      Inl e \<Rightarrow> fst (binance_check E R) = Inr 1 \<and> sent (snd (binance_check E R)) = []
    | Inr R' \<Rightarrow> let rs = replies R' diagnostic_calls [] in
        if list_ex crashes rs then \<exists>e. fst (binance_check E R) = Inl e
        else fst (binance_check E R) = Inr (if list_all answered rs \<and> denies_withdrawals (last rs) then 0 else 1))"
proof (cases "new_client E R None None None")
  case (Inl e)
  then show ?thesis using new_client_fails [OF Inl] by (auto simp: binance_check_def Let_def)
next
  case (Inr R')
  let ?s = "\<lparr>sent = [], printed = [], failures = []\<rparr> :: console" and ?c = "map snd binance_checks"
  let ?h = "sent_after R' ?c []"
  obtain r1 k1 where run: "run_checks R' binance_checks ?s = (r1, k1)" by force
  obtain r2 k2 where per: "check_permissions R' k1 = (r2, k2)" by force
  obtain rp hp where call: "call_client R' (Service GetApiKeyPermissions) ?h = (rp, hp)" by force
  have rs: "replies R' diagnostic_calls [] = replies R' ?c [] @ [rp]"
    unfolding diagnostic_calls_def replies_append by (simp only: replies.simps call fst_conv)
  have five: "length binance_checks = 5" by (simp add: binance_checks_def)
  have reads: "reads_only 5 ?s k1" "reads_only 1 k1 k2"
    using run_checks_reads [of binance_checks ?s R'] check_permissions_reads [of k1 R']
    unfolding run per five snd_conv by (simp_all add: binance_checks_def)
  have sent: "reads_only 6 ?s (snd (binance_check E R))"
    using reads reads_only_trans [OF reads] run per Inr
    by (cases r1; cases r2) (auto simp: binance_check_def reads_only_def)
  have verdict: "if list_ex crashes (replies R' diagnostic_calls []) then \<exists>e. fst (binance_check E R) = Inl e
      else fst (binance_check E R) = Inr (if list_all answered (replies R' diagnostic_calls []) \<and> denies_withdrawals rp then 0 else 1)"
  proof (cases "list_ex crashes (replies R' ?c [])")
    case True
    then show ?thesis using run_checks_outcome [of R' binance_checks ?s] Inr by (auto simp: binance_check_def rs)
  next
    case False
    then have k1: "r1 = Inr ()" "sent k1 = ?h" "failures k1 = [] \<longleftrightarrow> list_all answered (replies R' ?c [])"
      using run_checks_outcome [of R' binance_checks ?s] run by auto
    show ?thesis
      using check_permissions_outcome [of R' k1] call k1 False Inr run
      by (cases "crashes rp") (auto simp: binance_check_def rs)
  qed
  show ?thesis using sent verdict Inr by (auto simp: reads_only_def rs Let_def)
qed

end
