(* ===== verification/App.thy ===== *)
theory App
  imports OAuth
begin

text \<open>
  What \<open>api/app.py\<close> adds to every response: the health route and the middleware of the security headers.  The headers
  of a response are a table by their name in lower case, as Starlette keeps them: setting one replaces it.  The
  cross-origin middleware is FastAPI's, over the origins of \<open>Http\<close>.
\<close>

definition set_header :: "string \<Rightarrow> string \<Rightarrow> (string \<times> string) list \<Rightarrow> (string \<times> string) list" where
  "set_header name value1 headers = save_row fst (lower name, value1) headers"

definition security_headers :: "env \<Rightarrow> (string \<times> string) list \<Rightarrow> (string \<times> string) list" where
  "security_headers E headers =
     (let h = set_header ''Referrer-Policy'' ''no-referrer''
        (set_header ''X-Frame-Options'' ''DENY''
        (set_header ''X-Content-Type-Options'' ''nosniff'' headers)) in
      if is_cookie_secure E
      then set_header ''Strict-Transport-Security'' ''max-age=63072000; includeSubDomains'' h
      else h)"

definition health :: json where
  "health = JObj [(''status'', JStr ''ok'')]"

definition allow_methods :: "string list" where
  "allow_methods = [''GET'', ''POST'', ''PUT'', ''PATCH'', ''DELETE'']"

text \<open>Whatever a route answers, the three headers are set; the fourth exactly when cookies are secure, or when it was.\<close>

lemma security_headers_lookup:
  "lookup_row fst (security_headers E headers) name =
     (if name = ''x-content-type-options'' then Some (name, ''nosniff'')
      else if name = ''x-frame-options'' then Some (name, ''DENY'')
      else if name = ''referrer-policy'' then Some (name, ''no-referrer'')
      else if name = ''strict-transport-security'' \<and> is_cookie_secure E
        then Some (name, ''max-age=63072000; includeSubDomains'')
      else lookup_row fst headers name)"
proof -
  have names: "lower ''X-Content-Type-Options'' = ''x-content-type-options''"
    "lower ''X-Frame-Options'' = ''x-frame-options''" "lower ''Referrer-Policy'' = ''referrer-policy''"
    "lower ''Strict-Transport-Security'' = ''strict-transport-security''"
    by code_simp+
  show ?thesis by (simp add: security_headers_def set_header_def names lookup_save_row Let_def)
qed

end
