(* ===== verification/Spec2Isabelle.thy ===== *)
theory Spec2Isabelle
  imports SimPortfolio SimulationProperties BotProperties OAuthProperties BinanceProperties SnapshotProperties ApiLedger
    SelectionProperties Cli App
begin

text \<open>
  Hermes trades on Binance for its users: by hand, through the order routes, and through bots that are simulated
  until their owner activates them.  This development models the server, \<open>src/hermes_v2\<close>, from the HTTP routes
  down to the requests it sends to the exchange, and proves what makes it safe to let it trade.

  \<^bold>\<open>How the parts interact.\<close>  A request reaches a route of \<open>api/\<close>; its dependencies check the session, the
  permission, the origin, the idempotency key and a rate limiter.  A mutating route builds the REST client of the
  caller and runs one operation of \<open>trading/order_service.py\<close>, \<open>trading/bot_service.py\<close> or a settings service.  An
  operation reserves its key (\<open>trading/idempotency.py\<close>), asks the kill switch, the validator and the risk engine, sends
  at most one order, folds the answer into its row (\<open>trading/reconciliation.py\<close>), settles its reservation and
  audits.  A bot trades through the same services, or, while it is simulated, through
  \<open>trading/simulation_order_service.py\<close>, which fills against the market price in a virtual account.  A scheduler records
  the equity curves beside all this.

  \<^bold>\<open>The theories and the code.\<close>
  \<^item> \<open>Prelude\<close>, \<open>Datetime\<close>, \<open>Decimal\<close>, \<open>DecimalText\<close>, \<open>Json\<close>: what the code uses of Python.  Exceptions are
    the datatype \<open>exn\<close>, strings are ASCII, a UTC datetime is its microseconds since the epoch, a \<open>Decimal\<close> is a sign, a
    coefficient and an exponent with the default context written out (28 digits, half even, traps as exceptions).
    \<open>DecimalFacts\<close> and \<open>DecimalBounds\<close> say what the arithmetic means over the rationals and where it cannot trap.
  \<^item> \<open>Models\<close>: the rows of \<open>trading/models/\<close> and \<open>auth/models/\<close>, a record per table.  \<open>World\<close>: the environment
    (clocks, identifiers, the process environment, cryptography, the exchange) as functions, the state (tables, caches, the
    log of exchange calls, the limiters) as a record, operations as state transformers with an exception or a
    value, a weakest precondition calculus (\<open>wp\<close>), and the locale \<open>frame\<close> of what an operation leaves alone.
  \<^item> \<open>Idempotency\<close>, \<open>Settings\<close>, \<open>MarketData\<close>, \<open>OrderValidator\<close>, \<open>RiskEngine\<close>, \<open>Reconciliation\<close>,
    \<open>OrderService\<close>, \<open>SimPortfolio\<close>, \<open>SimulationOrders\<close>, \<open>BotService\<close>, \<open>Credentials\<close>, \<open>Snapshots\<close>: the modules of
    \<open>trading/\<close>, a definition per function or method, named after it, composed as the code composes them; long methods
    are cut at their early returns.
  \<^item> \<open>RateLimiter\<close>, \<open>Http\<close>, \<open>AuthSessions\<close>, \<open>OAuth\<close>: \<open>auth/\<close>, \<open>config.py\<close>, \<open>trading/rate_limiting.py\<close>,
    \<open>trading/origin_check.py\<close> and the \<open>/auth\<close> routes of \<open>api/app.py\<close>.
  \<^item> \<open>BinanceClient\<close>: \<open>integrations/binance.py\<close>, from a method to the HTTP request and back.
  \<^item> \<open>Routes\<close>, \<open>TradingRoutes\<close>, \<open>SettingsRoutes\<close>, \<open>BotsRoutes\<close>: the route modules of \<open>api/\<close>: guards, bodies, error
    mapping, transactions.
  \<^item> \<open>ModelMetrics\<close>, \<open>ModelSelection\<close>: \<open>model_selection/\<close>, over floats that are exact results, rounded.  \<open>Cli\<close>:
    \<open>cli.py\<close> with what it prints, and the URL of the database.  \<open>App\<close>: the security headers of every response.

  \<^bold>\<open>What is shown.\<close>
  \<^item> Orders.  Over any history of requests every write to the exchange belongs to a reservation of its own
    (\<open>ApiLedger\<close>); \<open>create_order\<close> sends only what the kill switch, the validator and the risk engine passed, always settles
    its reservation with an answer that describes its row, never sends again when an answer was lost, and a retry is
    inert (\<open>OrderFacts\<close>, \<open>OrderProperties\<close>); over the REST client the order on the wire is the signed order of the
    request (\<open>BinanceProperties\<close>).  \<open>reserve\<close> refines a map of slots (\<open>Idempotency\<close>).
  \<^item> Gates.  The validator decides the exchange's filters over exact rationals; an order the risk engine approves
    respects every limit up to the rounding of the context, one within the limits is approved, an unset limit rejects.
  \<^item> Bots.  \<open>BotLife\<close> is the lifecycle of a bot as an inductive step relation; the service refines it
    (\<open>BotProperties\<close>), and its invariants follow: a paused bot holds nothing, an active one its target; live only by
    activation; one order of its own instrument at most; truthful answers.  A simulated fill moves the cash exactly
    by what is recorded (\<open>SimulationProperties\<close>); realized P&L is the sum over the round trips (\<open>SimPortfolio\<close>).
  \<^item> Callers.  Sessions, identities and the administrator (\<open>SessionProperties\<close>), the login with Google
    (\<open>OAuthProperties\<close>), the limiter's bound on every window, keys of the exchange stored only when they cannot
    withdraw and read back across a key rotation (\<open>Credentials\<close>).
  \<^item> Routes.  \<open>RouteFacts\<close> proves by structure which operations can raise a \<open>BinanceError\<close>; \<open>Api\<close> that every mutating
    request is guarded, in whatever order the framework runs the guards, and that the rollback of the wrapper takes
    nothing back; \<open>ApiPrivacy\<close> that settings are personal and that reading is private and changes nothing.
  \<^item> Curves.  At most one snapshot per interval, a loop that ends when it is told to, downsampling and drawdown
    against their references (\<open>SnapshotProperties\<close>).
  \<^item> Models.  The selector answers on all data that can be split, with the first candidate of the smallest AIC, chosen by
    the training part alone, and reports finite metrics only (\<open>SelectionProperties\<close>); the AIC it computes against the
    general one (\<open>ModelMetrics\<close>).  The diagnostic of the command line only reads, and passes no unsafe key (\<open>Cli\<close>).

  \<^bold>\<open>Interfaces.\<close>  \<open>table\<close> (a lookup, a save and a delete by a unique key), interpreted on the row lists of the
  model; \<open>candidate_model\<close> (how a candidate of the selector may fail and how much it predicts), interpreted on
  both kinds of candidate; \<open>frame\<close> (a reflexive and transitive relation of states), interpreted on every frame condition: \<open>reads\<close>,
  \<open>no_write\<close>, \<open>only_order\<close>, \<open>unchanged\<close>, \<open>calm\<close>, \<open>prep\<close>, \<open>snap_frame\<close>, \<open>waits\<close>, \<open>own_settings\<close>, \<open>peeks\<close>,
  \<open>grows\<close>, \<open>ledger\<close>.

  \<^bold>\<open>Bounds and fuel.\<close>  There is no fuel: every loop of the code runs over a list, except the scheduler's, which is a
  \<open>partial_function (option)\<close> whose termination is a property.  Theorems about exact arithmetic assume amounts of
  the exchange's range (at most ten digits before and ten after the point) or values of bounded exponent
  (\<open>sane 80\<close>), as the filters and columns of the program bound them; their witnesses are inside.

  \<^bold>\<open>Parameters.\<close>  SHA-256, HMAC, Fernet, the token source, Google's endpoints, the HTTP transport and the exchange are
  functions of the environment, the routines of numpy, \<open>math.log\<close> and the rounding of floats fields of a record, known by hypotheses where a property needs them (Fernet decrypts what it encrypted).
  The exchange answers by the history of the calls and the keys of the client.  FastAPI runs the dependencies of a route in
  an order that is a parameter: any permutation.

  \<^bold>\<open>Not modelled.\<close>  Concurrency inside an operation: operations are atomic steps, row locks and the races they exclude
  are outside; the thread pools run their tasks in order.  The rounding of a NUMERIC column when a row is reloaded.
  Logging.  The floats of the trading part appear only in \<open>Retry-After\<close> and are kept as the decimal of their text; a
  NaN has no payload; the floats of \<open>model_selection/\<close> have no signed zero, and its arrays one dimension.  The
  argument parser of \<open>cli.py\<close>, the engine of \<open>database/\<close> and the migrations (libraries and DDL only), the server thread and
  signals of \<open>runtime.py\<close>, the cross-origin middleware of \<open>api/app.py\<close>, and the frontend.
\<close>

end
